(* ===== verification/Pgactive_Prelude.thy ===== *)
theory Pgactive_Prelude
  imports Main "HOL-Library.Word"
begin

text \<open>
  Shared vocabulary of the development: the machine integers of the C sources, the way
  \<open>ereport\<close>/\<open>elog\<close> failures appear as values, and the parts of the C library that several
  components call (\<open>snprintf\<close> and \<open>sscanf\<close> for the \<open>%u\<close>/\<open>%lu\<close>/\<open>%s\<close> conversions, and
  \<open>strcmp\<close> order on byte strings).
  The collection \<open>codec_simps\<close> holds the read-after-write laws that the components add for
  their encoders; \<open>lock_simps\<close> holds the characterisations the lock manager's proofs share.
  The locales \<open>step_system\<close> and \<open>caching_system\<close> are the contracts of components that run in steps and of caches.
\<close>

named_theorems codec_simps \<open>read-after-write laws of encoders and decoders\<close>
named_theorems lock_simps \<open>rewrite rules shared by the proofs about the global DDL lock\<close>

section \<open>Machine integers and failures\<close>

type_synonym u8 = "8 word"
type_synonym u16 = "16 word"
type_synonym u32 = "32 word"
type_synonym u64 = "64 word"
type_synonym bytes = "u8 list"

lemma unat_lt8 [simp]: "unat (x :: u8) < 256"
  using unsigned_less [where ?'a = nat, of x] by simp

lemma unat_lt32 [simp]: "unat (x :: u32) < 4294967296"
  using unsigned_less [where ?'a = nat, of x] by simp

lemma unat_lt64 [simp]: "unat (x :: u64) < 18446744073709551616"
  using unsigned_less [where ?'a = nat, of x] by simp

text \<open>
  \<open>ereport(ERROR)\<close> unwinds to the caller's handler, \<open>FATAL\<close> ends the process and \<open>PANIC\<close>
  restarts the whole server.  The string is the message of the report, without its arguments.
\<close>

datatype pg_error = Error string | Fatal string | Panic string

type_synonym 'a result = "pg_error + 'a"

definition bind_result :: "'a result \<Rightarrow> ('a \<Rightarrow> 'b result) \<Rightarrow> 'b result" where
  "bind_result r f = (case r of Inl e \<Rightarrow> Inl e | Inr x \<Rightarrow> f x)"

lemma bind_result_simps [simp]:
  "bind_result (Inl e) f = Inl e"
  "bind_result (Inr x) f = f x"
  by (simp_all add: bind_result_def)

lemma bind_result_eq_Inr:
  "bind_result r f = Inr y \<longleftrightarrow> (\<exists>x. r = Inr x \<and> f x = Inr y)"
  by (cases r) auto

section \<open>Decimal conversions of the C library\<close>

definition digit_char :: "nat \<Rightarrow> char" where
  "digit_char d = char_of (48 + d)"

definition is_digit :: "char \<Rightarrow> bool" where
  "is_digit c \<longleftrightarrow> 48 \<le> (of_char c :: nat) \<and> (of_char c :: nat) \<le> 57"

definition is_space :: "char \<Rightarrow> bool" where
  "is_space c \<longleftrightarrow> (of_char c :: nat) = 32 \<or> (9 \<le> (of_char c :: nat) \<and> (of_char c :: nat) \<le> 13)"

definition digit_value :: "char \<Rightarrow> nat" where
  "digit_value c = of_char c - 48"

text \<open>\<open>%u\<close> and \<open>%lu\<close> print the shortest decimal numeral.\<close>

fun dec_string :: "nat \<Rightarrow> string" where
  "dec_string n = (if n < 10 then [digit_char n] else dec_string (n div 10) @ [digit_char (n mod 10)])"

declare dec_string.simps [simp del]

definition dec_value :: "string \<Rightarrow> nat" where
  "dec_value = foldl (\<lambda>a c. a * 10 + digit_value c) 0"

lemma of_char_digit_char: "d < 10 \<Longrightarrow> (of_char (digit_char d) :: nat) = 48 + d"
  by (simp add: digit_char_def)

lemma is_digit_digit_char [simp]: "d < 10 \<Longrightarrow> is_digit (digit_char d)"
  by (simp add: is_digit_def of_char_digit_char)

lemma digit_value_digit_char [simp]: "d < 10 \<Longrightarrow> digit_value (digit_char d) = d"
  by (simp add: digit_value_def of_char_digit_char)

lemma digit_not_space [simp]: "is_digit c \<Longrightarrow> \<not> is_space c"
  by (auto simp: is_digit_def is_space_def)

lemma dec_string_nonempty [simp]: "dec_string n \<noteq> []"
  by (subst dec_string.simps) simp

lemma dec_string_digits: "\<forall>c \<in> set (dec_string n). is_digit c"
proof (induction n rule: dec_string.induct)
  case (1 n)
  show ?case
  proof (cases "n < 10")
    case True
    then show ?thesis by (subst dec_string.simps) simp
  next
    case False
    with "1.IH" show ?thesis by (subst dec_string.simps) auto
  qed
qed

lemma dec_value_snoc: "dec_value (ds @ [c]) = dec_value ds * 10 + digit_value c"
  by (simp add: dec_value_def)

lemma dec_value_dec_string [simp]: "dec_value (dec_string n) = n"
proof (induction n rule: dec_string.induct)
  case (1 n)
  show ?case
  proof (cases "n < 10")
    case True
    then show ?thesis by (subst dec_string.simps) (simp add: dec_value_def)
  next
    case False
    with "1.IH" show ?thesis by (subst dec_string.simps) (simp add: dec_value_snoc)
  qed
qed

lemma dec_string_inject [simp]: "dec_string m = dec_string n \<longleftrightarrow> m = n"
  by (metis dec_value_dec_string)

lemma length_dec_string: "n < 10 ^ k \<Longrightarrow> 0 < k \<Longrightarrow> length (dec_string n) \<le> k"
proof (induction k arbitrary: n)
  case 0
  then show ?case by simp
next
  case (Suc k)
  show ?case
  proof (cases "n < 10")
    case True
    then show ?thesis by (subst dec_string.simps) simp
  next
    case False
    with Suc.prems have "n div 10 < 10 ^ k" "0 < k"
      by (auto simp: less_mult_imp_div_less algebra_simps intro: ccontr)
    with Suc.IH have "length (dec_string (n div 10)) \<le> k" by blast
    with False show ?thesis by (subst dec_string.simps) simp
  qed
qed

section \<open>Formatted output and input\<close>

text \<open>
  Format strings are lists of directives, so that the same value drives \<open>snprintf\<close> and
  \<open>sscanf\<close>, as the \<open>#define\<close>d formats of the sources do.  \<open>ConvU w\<close> is \<open>%u\<close> (\<open>w = 32\<close>) or
  \<open>UINT64_FORMAT\<close> (\<open>w = 64\<close>), \<open>ConvS\<close> is \<open>%s\<close>.
\<close>

datatype conv = Lit char | ConvU nat | ConvS

datatype conv_val = VU nat | VS string

fun sprintf :: "conv list \<Rightarrow> conv_val list \<Rightarrow> string" where
  "sprintf [] vs = []"
| "sprintf (Lit c # fs) vs = c # sprintf fs vs"
| "sprintf (ConvU w # fs) (VU n # vs) = dec_string n @ sprintf fs vs"
| "sprintf (ConvS # fs) (VS s # vs) = s @ sprintf fs vs"
| "sprintf (ConvU w # fs) vs = []"
| "sprintf (ConvS # fs) vs = []"

text \<open>\<open>snprintf\<close> keeps at most \<open>size - 1\<close> characters.\<close>

definition snprintf :: "nat \<Rightarrow> conv list \<Rightarrow> conv_val list \<Rightarrow> string" where
  "snprintf sz fs vs = take (sz - 1) (sprintf fs vs)"

text \<open>
  \<open>%u\<close> skips white space, takes an optional sign and the longest run of digits, and converts
  as \<open>strtoul\<close> does: values beyond \<open>ULONG_MAX\<close> saturate, a minus sign negates, and the
  result is stored at the width of the argument.
\<close>

definition scan_sign :: "string \<Rightarrow> bool \<times> string" where
  "scan_sign s = (case s of [] \<Rightarrow> (False, []) | c # r \<Rightarrow>
     if c = CHR ''-'' then (True, r) else if c = CHR ''+'' then (False, r) else (False, s))"

definition strtoul_value :: "bool \<Rightarrow> nat \<Rightarrow> nat" where
  "strtoul_value neg v = (if 2 ^ 64 \<le> v then 2 ^ 64 - 1 else if neg then (2 ^ 64 - v) mod 2 ^ 64 else v)"

definition scan_u :: "nat \<Rightarrow> string \<Rightarrow> (nat \<times> string) option" where
  "scan_u w s =
     (let (neg, r) = scan_sign (dropWhile is_space s);
          ds = takeWhile is_digit r
      in if ds = [] then None
         else Some (strtoul_value neg (dec_value ds) mod 2 ^ w, dropWhile is_digit r))"

text \<open>
  The list of conversions made before the first mismatch; its length is the value that
  \<open>sscanf\<close> returns (or \<open>EOF\<close>, which no caller tells apart from a short count).
\<close>

fun sscanf :: "conv list \<Rightarrow> string \<Rightarrow> conv_val list" where
  "sscanf [] s = []"
| "sscanf (Lit c # fs) s = (case s of [] \<Rightarrow> [] | d # r \<Rightarrow> if c = d then sscanf fs r else [])"
| "sscanf (ConvU w # fs) s = (case scan_u w s of None \<Rightarrow> [] | Some (v, r) \<Rightarrow> VU v # sscanf fs r)"
| "sscanf (ConvS # fs) s =
     (let r = dropWhile is_space s; t = takeWhile (\<lambda>c. \<not> is_space c) r
      in if t = [] then [] else VS t # sscanf fs (dropWhile (\<lambda>c. \<not> is_space c) r))"

lemma takeWhile_digits_append:
  "\<forall>c \<in> set ds. is_digit c \<Longrightarrow> (r = [] \<or> \<not> is_digit (hd r)) \<Longrightarrow> takeWhile is_digit (ds @ r) = ds"
  by (cases r) auto

lemma dropWhile_digits_append:
  "\<forall>c \<in> set ds. is_digit c \<Longrightarrow> (r = [] \<or> \<not> is_digit (hd r)) \<Longrightarrow> dropWhile is_digit (ds @ r) = r"
  by (cases r) auto

lemma digit_not_sign: "is_digit c \<Longrightarrow> c \<noteq> CHR ''-'' \<and> c \<noteq> CHR ''+''"
  by (auto simp: is_digit_def)

text \<open>Reading back a printed number that fits the width, up to the next non-digit.\<close>

lemma scan_u_dec_string [codec_simps]:
  assumes "n < 2 ^ w" and "w \<le> 64" and "r = [] \<or> \<not> is_digit (hd r)"
  shows "scan_u w (dec_string n @ r) = Some (n, r)"
proof -
  obtain d ds where ds: "dec_string n = d # ds"
    by (cases "dec_string n") auto
  have dig: "\<forall>c \<in> set (dec_string n). is_digit c" by (rule dec_string_digits)
  then have d: "is_digit d" "d \<noteq> CHR ''-''" "d \<noteq> CHR ''+''" "\<not> is_space d"
    using ds digit_not_sign by auto
  have "dropWhile is_space (dec_string n @ r) = dec_string n @ r" using ds d by simp
  moreover have "scan_sign (dec_string n @ r) = (False, dec_string n @ r)"
    using ds d by (simp add: scan_sign_def)
  moreover have "n < 2 ^ 64"
    using assms(1,2) by (meson less_le_trans one_le_numeral power_increasing)
  ultimately show ?thesis
    using assms(1) takeWhile_digits_append [OF dig assms(3)] dropWhile_digits_append [OF dig assms(3)]
    by (simp add: scan_u_def strtoul_value_def)
qed

section \<open>String comparison\<close>

text \<open>\<open>strcmp\<close> orders NUL-terminated strings by their bytes; a proper prefix is smaller.\<close>

fun strcmp :: "string \<Rightarrow> string \<Rightarrow> int" where
  "strcmp [] [] = 0"
| "strcmp [] (c # t) = -1"
| "strcmp (c # s) [] = 1"
| "strcmp (c # s) (d # t) =
     (if (of_char c :: nat) < of_char d then -1
      else if (of_char d :: nat) < of_char c then 1
      else strcmp s t)"

lemma strcmp_eq_0 [simp]: "strcmp s t = 0 \<longleftrightarrow> s = t"
  by (induction s t rule: strcmp.induct) auto

lemma strcmp_refl [simp]: "strcmp s s = 0"
  by simp

lemma strcmp_antisym: "strcmp s t < 0 \<longleftrightarrow> 0 < strcmp t s"
  by (induction s t rule: strcmp.induct) auto

lemma strcmp_Cons_le:
  "strcmp (c # s) (d # t) \<le> 0 \<longleftrightarrow> (of_char c :: nat) < of_char d \<or> c = d \<and> strcmp s t \<le> 0"
  by (cases "(of_char c :: nat)" "of_char d :: nat" rule: linorder_cases) auto

lemma strcmp_Cons_less:
  "strcmp (c # s) (d # t) < 0 \<longleftrightarrow> (of_char c :: nat) < of_char d \<or> c = d \<and> strcmp s t < 0"
  by (cases "(of_char c :: nat)" "of_char d :: nat" rule: linorder_cases) auto

lemma strcmp_trans: "strcmp s t \<le> 0 \<Longrightarrow> strcmp t u \<le> 0 \<Longrightarrow> strcmp s u \<le> 0"
proof (induction s t arbitrary: u rule: strcmp.induct)
  case (2 c t)
  then show ?case by (cases u) simp_all
next
  case (4 c s d t)
  then show ?case
    by (cases u) (auto simp: strcmp_Cons_le simp del: strcmp.simps(4))
qed simp_all

lemma strcmp_trans_less: "strcmp s t < 0 \<Longrightarrow> strcmp t u \<le> 0 \<Longrightarrow> strcmp s u < 0"
proof (induction s t arbitrary: u rule: strcmp.induct)
  case (2 c t)
  then show ?case by (cases u) simp_all
next
  case (4 c s d t)
  then show ?case
    by (cases u) (auto simp: strcmp_Cons_le strcmp_Cons_less simp del: strcmp.simps(4))
qed simp_all

text \<open>\<open>strcasecmp\<close> folds the letters \<open>A\<close>..\<open>Z\<close>.\<close>

definition tolower :: "char \<Rightarrow> char" where
  "tolower c = (if 65 \<le> (of_char c :: nat) \<and> (of_char c :: nat) \<le> 90 then char_of ((of_char c :: nat) + 32) else c)"

definition strcasecmp :: "string \<Rightarrow> string \<Rightarrow> int" where
  "strcasecmp s t = strcmp (map tolower s) (map tolower t)"

section \<open>Operations on a state\<close>

text \<open>
  Code that reads and writes a state and may fail: the state reached before an
  \<open>ereport(ERROR)\<close> is kept, as shared memory is in the program.
\<close>

type_synonym ('s, 'a) op = "'s \<Rightarrow> 'a result \<times> 's"

definition sret :: "'a \<Rightarrow> ('s, 'a) op" where
  "sret x s = (Inr x, s)"

definition sfail :: "pg_error \<Rightarrow> ('s, 'a) op" where
  "sfail e s = (Inl e, s)"

definition slift :: "'a result \<Rightarrow> ('s, 'a) op" where
  "slift r s = (r, s)"

definition sget :: "('s \<Rightarrow> 'a) \<Rightarrow> ('s, 'a) op" where
  "sget f s = (Inr (f s), s)"

definition smodify :: "('s \<Rightarrow> 's) \<Rightarrow> ('s, unit) op" where
  "smodify f s = (Inr (), f s)"

definition sbind :: "('s, 'a) op \<Rightarrow> ('a \<Rightarrow> ('s, 'b) op) \<Rightarrow> ('s, 'b) op" where
  "sbind m f s = (case m s of (Inl e, s') \<Rightarrow> (Inl e, s') | (Inr x, s') \<Rightarrow> f x s')"

definition sseq :: "('s, 'a) op \<Rightarrow> ('s, 'b) op \<Rightarrow> ('s, 'b) op" where
  "sseq m n = sbind m (\<lambda>_. n)"

definition swhen :: "bool \<Rightarrow> ('s, unit) op \<Rightarrow> ('s, unit) op" where
  "swhen b m = (if b then m else sret ())"

lemma op_simps [simp]:
  "sret x s = (Inr x, s)"
  "sfail e s = (Inl e, s)"
  "slift r s = (r, s)"
  "sget f s = (Inr (f s), s)"
  "smodify g s = (Inr (), g s)"
  "swhen True m = m"
  "swhen False m = sret ()"
  by (simp_all add: sret_def sfail_def slift_def sget_def smodify_def swhen_def)

lemma sbind_simps [simp]:
  "m s = (Inr x, s') \<Longrightarrow> sbind m f s = f x s'"
  "m s = (Inl e, s') \<Longrightarrow> sbind m f s = (Inl e, s')"
  "m s = (Inr x, s') \<Longrightarrow> sseq m n s = n s'"
  "m s = (Inl e, s') \<Longrightarrow> sseq m n s = (Inl e, s')"
  by (simp_all add: sbind_def sseq_def)

lemma op_bind_simps [simp]:
  "sbind (sret x) f1 s = f1 x s"
  "sbind (sget g) f2 s = f2 (g s) s"
  "sbind (smodify h) f3 s = f3 () (h s)"
  "sbind (slift (Inr y)) f4 s = f4 y s"
  "sbind (slift (Inl e)) f5 s = (Inl e, s)"
  "sbind (sfail e) f6 s = (Inl e, s)"
  "sseq (sret z) n1 s = n1 s"
  "sseq (smodify h) n2 s = n2 (h s)"
  "sseq (sfail e) n3 s = (Inl e, s)"
  by (simp_all add: sbind_def sseq_def)

section \<open>Systems of steps\<close>

text \<open>
  What components that run in steps promise: every step keeps an invariant.  A component that caches
  promises more: in a state of its invariant, the answer from the cache is the direct one.
\<close>

locale step_system =
  fixes step :: "'s \<Rightarrow> 's \<Rightarrow> bool" and inv :: "'s \<Rightarrow> bool"
  assumes keeps: "step s s' \<Longrightarrow> inv s \<Longrightarrow> inv s'"
begin

lemma reachable_keeps: "step\<^sup>*\<^sup>* s s' \<Longrightarrow> inv s \<Longrightarrow> inv s'"
  by (induction rule: rtranclp_induct) (auto intro: keeps)

end

locale caching_system = step_system +
  fixes valid :: "'q \<Rightarrow> bool" and cached :: "'s \<Rightarrow> 'q \<Rightarrow> 'a" and direct :: "'s \<Rightarrow> 'q \<Rightarrow> 'a"
  assumes cached_answer: "inv s \<Longrightarrow> valid q \<Longrightarrow> cached s q = direct s q"
begin

lemma transparent: "step\<^sup>*\<^sup>* s s' \<Longrightarrow> inv s \<Longrightarrow> valid q \<Longrightarrow> cached s' q = direct s' q"
  by (rule cached_answer [OF reachable_keeps])

end

end
