(* ===== verification/Node_Naming.thy ===== *)
theory Node_Naming
  imports Pgactive_Prelude
begin

text \<open>
  Node identities and the names derived from them: \<^verbatim>\<open>include/pgactive_internal.h\<close>, the naming
  half of \<^verbatim>\<open>src/pgactive_catalogs.c\<close> and \<^verbatim>\<open>src/pgactive_common.c\<close>.  A node is the triple
  (sysid, timeline, dboid).  Replication slots and replication origins carry that triple in
  their names, so every component that maps an origin id back to a peer goes through the
  printing and parsing functions here.  The catalogue lookups \<open>replorigin_by_oid\<close> and
  \<open>replorigin_by_name\<close> belong to the server and are arguments.
\<close>

section \<open>Definitions\<close>

record pgactiveNodeId =
  sysid :: u64
  timeline :: u32
  dboid :: u32

datatype pgactiveNodeStatus =
    pgactive_NODE_STATUS_NONE
  | pgactive_NODE_STATUS_BEGINNING_INIT
  | pgactive_NODE_STATUS_COPYING_INITIAL_DATA
  | pgactive_NODE_STATUS_CATCHUP
  | pgactive_NODE_STATUS_CREATING_OUTBOUND_SLOTS
  | pgactive_NODE_STATUS_READY
  | pgactive_NODE_STATUS_KILLED

text \<open>The enumerators are given character codes in the header.\<close>

fun node_status_code :: "pgactiveNodeStatus \<Rightarrow> char" where
  "node_status_code pgactive_NODE_STATUS_NONE = CHR 0x00"
| "node_status_code pgactive_NODE_STATUS_BEGINNING_INIT = CHR ''b''"
| "node_status_code pgactive_NODE_STATUS_COPYING_INITIAL_DATA = CHR ''i''"
| "node_status_code pgactive_NODE_STATUS_CATCHUP = CHR ''c''"
| "node_status_code pgactive_NODE_STATUS_CREATING_OUTBOUND_SLOTS = CHR ''o''"
| "node_status_code pgactive_NODE_STATUS_READY = CHR ''r''"
| "node_status_code pgactive_NODE_STATUS_KILLED = CHR ''k''"

definition pgactive_node_status_from_char :: "char \<Rightarrow> string result" where
  "pgactive_node_status_from_char c =
     (if c = node_status_code pgactive_NODE_STATUS_NONE then Inr ''pgactive_NODE_STATUS_NONE''
      else if c = node_status_code pgactive_NODE_STATUS_BEGINNING_INIT
        then Inr ''pgactive_NODE_STATUS_BEGINNING_INIT''
      else if c = node_status_code pgactive_NODE_STATUS_COPYING_INITIAL_DATA
        then Inr ''pgactive_NODE_STATUS_COPYING_INITIAL_DATA''
      else if c = node_status_code pgactive_NODE_STATUS_CATCHUP
        then Inr ''pgactive_NODE_STATUS_CATCHUP''
      else if c = node_status_code pgactive_NODE_STATUS_CREATING_OUTBOUND_SLOTS
        then Inr ''pgactive_NODE_STATUS_CREATING_OUTBOUND_SLOTS''
      else if c = node_status_code pgactive_NODE_STATUS_READY
        then Inr ''pgactive_NODE_STATUS_READY''
      else if c = node_status_code pgactive_NODE_STATUS_KILLED
        then Inr ''pgactive_NODE_STATUS_KILLED''
      else Inl (Error ''unrcognised status char''))"

definition pgactive_node_status_to_char :: "string \<Rightarrow> char result" where
  "pgactive_node_status_to_char s =
     (if s = ''pgactive_NODE_STATUS_NONE'' then Inr (node_status_code pgactive_NODE_STATUS_NONE)
      else if s = ''pgactive_NODE_STATUS_BEGINNING_INIT''
        then Inr (node_status_code pgactive_NODE_STATUS_BEGINNING_INIT)
      else if s = ''pgactive_NODE_STATUS_COPYING_INITIAL_DATA''
        then Inr (node_status_code pgactive_NODE_STATUS_COPYING_INITIAL_DATA)
      else if s = ''pgactive_NODE_STATUS_CATCHUP''
        then Inr (node_status_code pgactive_NODE_STATUS_CATCHUP)
      else if s = ''pgactive_NODE_STATUS_CREATING_OUTBOUND_SLOTS''
        then Inr (node_status_code pgactive_NODE_STATUS_CREATING_OUTBOUND_SLOTS)
      else if s = ''pgactive_NODE_STATUS_READY''
        then Inr (node_status_code pgactive_NODE_STATUS_READY)
      else if s = ''pgactive_NODE_STATUS_KILLED''
        then Inr (node_status_code pgactive_NODE_STATUS_KILLED)
      else Inl (Error ''string isn't recognised as a pgactive status''))"

text \<open>Pointers may be NULL; two equal pointers have equal targets.\<close>

definition pgactive_nodeid_eq :: "pgactiveNodeId option \<Rightarrow> pgactiveNodeId option \<Rightarrow> bool" where
  "pgactive_nodeid_eq left right =
     (case (left, right) of
        (None, None) \<Rightarrow> True
      | (Some l, Some r) \<Rightarrow> sysid l = sysid r \<and> timeline l = timeline r \<and> dboid l = dboid r
      | _ \<Rightarrow> False)"

definition zero_nodeid :: pgactiveNodeId where
  "zero_nodeid = \<lparr>sysid = 0, timeline = 0, dboid = 0\<rparr>"

definition pgactive_nodeid_cpy :: "pgactiveNodeId \<Rightarrow> pgactiveNodeId \<Rightarrow> pgactiveNodeId" where
  "pgactive_nodeid_cpy dest src =
     dest\<lparr>sysid := sysid src, timeline := timeline src, dboid := dboid src\<rparr>"

definition pgactiveThisTimeLineID :: u32 where
  "pgactiveThisTimeLineID = 0"

text \<open>\<open>nid\<close> is what \<open>pgactive_get_nid_internal\<close> returns, \<open>mydb\<close> is \<open>MyDatabaseId\<close>.\<close>

definition pgactive_make_my_nodeid :: "u64 \<Rightarrow> u32 \<Rightarrow> pgactiveNodeId" where
  "pgactive_make_my_nodeid nid mydb =
     \<lparr>sysid = nid, timeline = pgactiveThisTimeLineID, dboid = mydb\<rparr>"

definition NAMEDATALEN :: nat where
  "NAMEDATALEN = 64"

definition EMPTY_REPLICATION_NAME :: string where
  "EMPTY_REPLICATION_NAME = ''''"

definition pgactive_SLOT_NAME_FORMAT :: "conv list" where
  "pgactive_SLOT_NAME_FORMAT =
     map Lit ''pgactive_'' @ [ConvU 32, Lit CHR ''_'', ConvU 64, Lit CHR ''_'', ConvU 32,
       Lit CHR ''_'', ConvU 32, Lit CHR ''_'', Lit CHR ''_'', ConvS]"

definition pgactive_REPORIGIN_ID_FORMAT :: "conv list" where
  "pgactive_REPORIGIN_ID_FORMAT =
     map Lit ''pgactive_'' @ [ConvU 64, Lit CHR ''_'', ConvU 32, Lit CHR ''_'', ConvU 32,
       Lit CHR ''_'', ConvU 32, Lit CHR ''_'', ConvS]"

definition pgactive_slot_name :: "pgactiveNodeId \<Rightarrow> u32 \<Rightarrow> string" where
  "pgactive_slot_name remote_node local_dboid =
     snprintf NAMEDATALEN pgactive_SLOT_NAME_FORMAT
       [VU (unat local_dboid), VU (unat (sysid remote_node)), VU (unat (timeline remote_node)),
        VU (unat (dboid remote_node)), VS EMPTY_REPLICATION_NAME]"

definition pgactive_replident_name :: "pgactiveNodeId \<Rightarrow> u32 \<Rightarrow> string" where
  "pgactive_replident_name remote local_dboid =
     sprintf pgactive_REPORIGIN_ID_FORMAT
       [VU (unat (sysid remote)), VU (unat (timeline remote)), VU (unat (dboid remote)),
        VU (unat local_dboid), VS EMPTY_REPLICATION_NAME]"

text \<open>Both parsers accept exactly four conversions: a fifth is a non-empty replication name.\<close>

definition pgactive_parse_replident_name :: "string \<Rightarrow> (pgactiveNodeId \<times> u32) result" where
  "pgactive_parse_replident_name riname =
     (case sscanf pgactive_REPORIGIN_ID_FORMAT riname of
        [VU sys, VU tli, VU db, VU ldb] \<Rightarrow>
          Inr (\<lparr>sysid = of_nat sys, timeline = of_nat tli, dboid = of_nat db\<rparr>, of_nat ldb)
      | _ \<Rightarrow> Inl (Error ''could not parse slot name''))"

definition pgactive_parse_slot_name :: "string \<Rightarrow> (pgactiveNodeId \<times> u32) result" where
  "pgactive_parse_slot_name sname =
     (case sscanf pgactive_SLOT_NAME_FORMAT sname of
        [VU ldb, VU sys, VU tli, VU db] \<Rightarrow>
          Inr (\<lparr>sysid = of_nat sys, timeline = of_nat tli, dboid = of_nat db\<rparr>, of_nat ldb)
      | _ \<Rightarrow> Inl (Error ''could not parse slot name''))"

definition InvalidRepOriginId :: u16 where
  "InvalidRepOriginId = 0"

definition DoNotReplicateId :: u16 where
  "DoNotReplicateId = 0xFFFF"

text \<open>
  \<open>replorigin_by_oid node_id\<close> is the origin's name, if the origin exists; when \<open>missing_ok\<close> is
  false the server raises the error itself.  \<open>None\<close> in the result is the return value false.
\<close>

definition pgactive_fetch_sysid_via_node_id_ifexists ::
  "(u16 \<Rightarrow> string option) \<Rightarrow> u64 \<Rightarrow> u32 \<Rightarrow> u16 \<Rightarrow> bool \<Rightarrow> pgactiveNodeId option result" where
  "pgactive_fetch_sysid_via_node_id_ifexists replorigin_by_oid nid mydb node_id missing_ok =
     (if node_id = InvalidRepOriginId \<or> node_id = DoNotReplicateId
      then Inr (Some (pgactive_make_my_nodeid nid mydb))
      else case replorigin_by_oid node_id of
             None \<Rightarrow> if missing_ok then Inr None
                     else Inl (Error ''replication origin with ID does not exist'')
           | Some riname \<Rightarrow>
               bind_result (pgactive_parse_replident_name riname) (\<lambda>(node, local_dboid).
                 if local_dboid \<noteq> mydb
                 then Inl (Error ''lookup failed for replication identifier'')
                 else Inr (Some node)))"

text \<open>
  The out parameter is left as it was when the lookup returns false; with \<open>missing_ok\<close>
  false that does not happen.
\<close>

definition pgactive_fetch_sysid_via_node_id ::
  "(u16 \<Rightarrow> string option) \<Rightarrow> u64 \<Rightarrow> u32 \<Rightarrow> u16 \<Rightarrow> pgactiveNodeId \<Rightarrow> pgactiveNodeId result" where
  "pgactive_fetch_sysid_via_node_id replorigin_by_oid nid mydb node_id node =
     bind_result (pgactive_fetch_sysid_via_node_id_ifexists replorigin_by_oid nid mydb node_id False)
       (\<lambda>r. Inr (case r of None \<Rightarrow> node | Some n \<Rightarrow> n))"

definition pgactive_fetch_node_id_via_sysid ::
  "(string \<Rightarrow> u16 option) \<Rightarrow> u32 \<Rightarrow> pgactiveNodeId \<Rightarrow> u16 result" where
  "pgactive_fetch_node_id_via_sysid replorigin_by_name mydb node =
     (case replorigin_by_name (pgactive_replident_name node mydb) of
        None \<Rightarrow> Inl (Error ''replication origin does not exist'')
      | Some i \<Rightarrow> Inr i)"

text \<open>The three decimal strings written into the caller's buffers of the given sizes.\<close>

definition stringify_node_identity ::
  "nat \<Rightarrow> nat \<Rightarrow> nat \<Rightarrow> pgactiveNodeId \<Rightarrow> string \<times> string \<times> string" where
  "stringify_node_identity sysid_str_size timeline_str_size dboid_str_size nodeid =
     (snprintf sysid_str_size [ConvU 64] [VU (unat (sysid nodeid))],
      snprintf timeline_str_size [ConvU 32] [VU (unat (timeline nodeid))],
      snprintf dboid_str_size [ConvU 32] [VU (unat (dboid nodeid))])"

text \<open>\<open>tv_sec\<close>, \<open>tv_usec\<close> and \<open>pid\<close> are what \<open>gettimeofday\<close> and \<open>getpid\<close> return.\<close>

unbundle bit_operations_syntax

definition GenerateNodeIdentifier :: "u64 \<Rightarrow> u64 \<Rightarrow> u64 \<Rightarrow> u64" where
  "GenerateNodeIdentifier tv_sec tv_usec pid =
     (let nid = push_bit 32 tv_sec;
          nid = nid OR push_bit 12 tv_usec
      in nid OR (pid AND 0xFFF))"

section \<open>Node identities\<close>

lemma nodeid_eq_Some [simp]: "pgactive_nodeid_eq (Some l) (Some r) \<longleftrightarrow> l = r"
  by (cases l, cases r) (auto simp: pgactive_nodeid_eq_def)

lemma nodeid_eq_iff: "pgactive_nodeid_eq l r \<longleftrightarrow> l = r"
  by (cases l; cases r) (simp_all add: pgactive_nodeid_eq_def [of None] pgactive_nodeid_eq_def [of _ None])

lemma nodeid_cpy [simp]: "pgactive_nodeid_cpy d s = s"
  by (cases d, cases s) (simp add: pgactive_nodeid_cpy_def)

section \<open>Reading back formatted names\<close>

lemma sscanf_map_Lit [simp]: "sscanf (map Lit cs @ fs) (cs @ s) = sscanf fs s"
  by (induction cs) auto

lemma sprintf_map_Lit [simp]: "sprintf (map Lit cs @ fs) vs = cs @ sprintf fs vs"
  by (induction cs) auto

lemma sscanf_ConvU [codec_simps]:
  "n < 2 ^ w \<Longrightarrow> w \<le> 64 \<Longrightarrow> r = [] \<or> \<not> is_digit (hd r) \<Longrightarrow>
     sscanf (ConvU w # fs) (dec_string n @ r) = VU n # sscanf fs r"
  by (simp add: scan_u_dec_string)

lemma underscore_not_digit [simp]: "\<not> is_digit CHR ''_''"
  by (simp add: is_digit_def)

text \<open>The slot name up to the two closing underscores.\<close>

definition slot_stem :: "pgactiveNodeId \<Rightarrow> u32 \<Rightarrow> string" where
  "slot_stem r db = ''pgactive_'' @ dec_string (unat db) @ ''_'' @ dec_string (unat (sysid r)) @ ''_''
     @ dec_string (unat (timeline r)) @ ''_'' @ dec_string (unat (dboid r))"

lemma sprintf_slot:
  "sprintf pgactive_SLOT_NAME_FORMAT
     [VU (unat db), VU (unat (sysid r)), VU (unat (timeline r)), VU (unat (dboid r)), VS '''']
   = slot_stem r db @ ''__''"
  by (simp add: pgactive_SLOT_NAME_FORMAT_def slot_stem_def)

lemma length_dec_u32: "length (dec_string (unat (x :: u32))) \<le> 10"
  by (rule length_dec_string [OF order.strict_trans [OF unat_lt32]]) simp_all

lemma length_dec_u64: "length (dec_string (unat (x :: u64))) \<le> 20"
  by (rule length_dec_string [OF order.strict_trans [OF unat_lt64]]) simp_all

lemma length_slot_stem: "length (slot_stem r db) \<le> 62"
  using length_dec_u32 [of db] length_dec_u64 [of "sysid r"] length_dec_u32 [of "timeline r"]
    length_dec_u32 [of "dboid r"]
  by (simp add: slot_stem_def)

lemma slot_name_cut:
  "\<exists>u. u \<in> {''_'', ''__''} \<and> pgactive_slot_name r db = slot_stem r db @ u"
proof -
  have "pgactive_slot_name r db = take 63 (slot_stem r db @ ''__'')"
    by (simp add: pgactive_slot_name_def snprintf_def NAMEDATALEN_def EMPTY_REPLICATION_NAME_def
        sprintf_slot)
  then have eq: "pgactive_slot_name r db = slot_stem r db @ take (63 - length (slot_stem r db)) ''__''"
    using length_slot_stem [of r db] by simp
  obtain k where "63 - length (slot_stem r db) = Suc k"
    using length_slot_stem [of r db] by (cases "63 - length (slot_stem r db)") auto
  then have "take (63 - length (slot_stem r db)) ''__'' \<in> {''_'', ''__''}"
    by (cases k) auto
  with eq show ?thesis by blast
qed

lemma sscanf_slot_stem:
  assumes "u \<in> {''_'', ''__''}"
  shows "sscanf pgactive_SLOT_NAME_FORMAT (slot_stem r db @ u)
    = [VU (unat db), VU (unat (sysid r)), VU (unat (timeline r)), VU (unat (dboid r))]"
proof -
  have "sscanf pgactive_SLOT_NAME_FORMAT (slot_stem r db @ u)
    = sscanf [ConvU 32, Lit CHR ''_'', ConvU 64, Lit CHR ''_'', ConvU 32,
       Lit CHR ''_'', ConvU 32, Lit CHR ''_'', Lit CHR ''_'', ConvS]
      (dec_string (unat db) @ CHR ''_'' # dec_string (unat (sysid r)) @ CHR ''_''
       # dec_string (unat (timeline r)) @ CHR ''_'' # dec_string (unat (dboid r)) @ u)"
    by (simp add: pgactive_SLOT_NAME_FORMAT_def slot_stem_def)
  also have "\<dots> = [VU (unat db), VU (unat (sysid r)), VU (unat (timeline r)), VU (unat (dboid r))]"
    using assms by (auto simp: codec_simps simp del: sscanf.simps(3))
  finally show ?thesis .
qed

section \<open>Round trips\<close>

text \<open>
  C36: the slot name that a node prints for a peer parses back to exactly that peer and the
  local database, for every identity, also when the name is cut at \<open>NAMEDATALEN\<close>.
\<close>

theorem slot_name_roundtrip:
  "pgactive_parse_slot_name (pgactive_slot_name remote local_dboid) = Inr (remote, local_dboid)"
proof -
  obtain u where "u \<in> {''_'', ''__''}" "pgactive_slot_name remote local_dboid = slot_stem remote local_dboid @ u"
    using slot_name_cut by blast
  then show ?thesis
    by (simp add: pgactive_parse_slot_name_def sscanf_slot_stem)
qed

lemma replident_name_eq:
  "pgactive_replident_name r db = ''pgactive_'' @ dec_string (unat (sysid r)) @ CHR ''_''
     # dec_string (unat (timeline r)) @ CHR ''_'' # dec_string (unat (dboid r)) @ CHR ''_''
     # dec_string (unat db) @ ''_''"
  by (simp add: pgactive_replident_name_def pgactive_REPORIGIN_ID_FORMAT_def EMPTY_REPLICATION_NAME_def)

lemma parse_replident_name [codec_simps]:
  "pgactive_parse_replident_name (pgactive_replident_name r db) = Inr (r, db)"
proof -
  have "sscanf pgactive_REPORIGIN_ID_FORMAT (pgactive_replident_name r db)
    = sscanf [ConvU 64, Lit CHR ''_'', ConvU 32, Lit CHR ''_'', ConvU 32,
       Lit CHR ''_'', ConvU 32, Lit CHR ''_'', ConvS]
      (dec_string (unat (sysid r)) @ CHR ''_'' # dec_string (unat (timeline r)) @ CHR ''_''
       # dec_string (unat (dboid r)) @ CHR ''_'' # dec_string (unat db) @ ''_'')"
    by (simp add: pgactive_REPORIGIN_ID_FORMAT_def replident_name_eq)
  also have "\<dots> = [VU (unat (sysid r)), VU (unat (timeline r)), VU (unat (dboid r)), VU (unat db)]"
    by (simp add: codec_simps del: sscanf.simps(3))
  finally show ?thesis
    by (simp add: pgactive_parse_replident_name_def)
qed

lemma replident_name_inject:
  "pgactive_replident_name r db = pgactive_replident_name r' db' \<longleftrightarrow> r = r' \<and> db = db'"
  using parse_replident_name by (metis Inr_inject prod.inject)

text \<open>
  C37: an origin whose catalogue entry carries the name that pgactive gave it is mapped back
  to the peer it was created for, and the peer is mapped back to the origin: the two lookups
  are inverse to each other wherever the server's two catalogue lookups are.
\<close>

theorem origin_lookup_roundtrip:
  assumes created: "replorigin_by_name (pgactive_replident_name peer mydb) = Some oid"
    and inverse: "replorigin_by_oid oid = Some (pgactive_replident_name peer mydb)"
    and oid: "oid \<noteq> InvalidRepOriginId" "oid \<noteq> DoNotReplicateId"
  shows "pgactive_fetch_node_id_via_sysid replorigin_by_name mydb peer = Inr oid \<and>
    pgactive_fetch_sysid_via_node_id replorigin_by_oid nid mydb oid node = Inr peer"
  using assms
  by (simp add: pgactive_fetch_node_id_via_sysid_def pgactive_fetch_sysid_via_node_id_def
      pgactive_fetch_sysid_via_node_id_ifexists_def parse_replident_name)

theorem origin_lookup_roundtrip_witness:
  "let peer = \<lparr>sysid = 7, timeline = 0, dboid = 16384\<rparr>; name = pgactive_replident_name peer 16385
   in pgactive_fetch_node_id_via_sysid (\<lambda>n. if n = name then Some 3 else None) 16385 peer = Inr 3 \<and>
      pgactive_fetch_sysid_via_node_id (\<lambda>i. if i = 3 then Some name else None) 9 16385 3 peer = Inr peer"
  using origin_lookup_roundtrip [of "\<lambda>n. if n = pgactive_replident_name \<lparr>sysid = 7, timeline = 0, dboid = 16384\<rparr> 16385
        then Some 3 else None" "\<lparr>sysid = 7, timeline = 0, dboid = 16384\<rparr>" 16385 3
      "\<lambda>i. if i = 3 then Some (pgactive_replident_name \<lparr>sysid = 7, timeline = 0, dboid = 16384\<rparr> 16385) else None" 9
      "\<lparr>sysid = 7, timeline = 0, dboid = 16384\<rparr>"]
  by (simp add: Let_def InvalidRepOriginId_def DoNotReplicateId_def)

lemma status_to_from_char:
  "pgactive_node_status_from_char c = Inr s \<Longrightarrow> pgactive_node_status_to_char s = Inr c"
  by (auto simp: pgactive_node_status_from_char_def pgactive_node_status_to_char_def split: if_splits)

section \<open>Generated identifiers\<close>

text \<open>
  The parts of a generated node identifier do not overlap: the low twelve bits are those
  of the process id, the next twenty hold the microseconds and the upper half the seconds, so
  two identifiers are equal only if all three parts agree.
\<close>

theorem generated_identifier_parts:
  assumes "unat tv_usec < 1000000"
  shows "take_bit 12 (GenerateNodeIdentifier tv_sec tv_usec pid) = take_bit 12 pid \<and>
    take_bit 20 (drop_bit 12 (GenerateNodeIdentifier tv_sec tv_usec pid)) = tv_usec \<and>
    drop_bit 32 (GenerateNodeIdentifier tv_sec tv_usec pid) = take_bit 32 tv_sec"
proof -
  have "unat (take_bit 20 tv_usec) = unat tv_usec"
    using assms by (simp add: unsigned_take_bit_eq take_bit_nat_eq_self)
  then have usec: "take_bit 20 tv_usec = tv_usec" by (rule unsigned_word_eqI)
  then have high: "\<not> bit tv_usec n" if "20 \<le> n" for n
    using that by (metis bit_take_bit_iff not_less)
  have mask: "(0xFFF :: u64) = mask 12" by (simp add: mask_eq_exp_minus_1)
  show ?thesis
    using high
    by (auto simp: GenerateNodeIdentifier_def Let_def mask bit_eq_iff bit_simps
        dest: bit_imp_le_length)
qed

theorem generated_identifier_parts_witness:
  "unat (999999 :: u64) < 1000000 \<and>
    take_bit 12 (GenerateNodeIdentifier 1700000000 999999 4242) = take_bit 12 4242 \<and>
    take_bit 20 (drop_bit 12 (GenerateNodeIdentifier 1700000000 999999 4242)) = 999999 \<and>
    drop_bit 32 (GenerateNodeIdentifier 1700000000 999999 4242) = take_bit 32 1700000000"
  using generated_identifier_parts [of 999999 1700000000 4242] by simp

end
