(* ===== verification/Wire_Format.thy ===== *)
theory Wire_Format
  imports Node_Naming
begin

text \<open>
  The byte level of the replication stream: \<^verbatim>\<open>src/pgactive_protocol.c\<close>,
  \<^verbatim>\<open>src/pgactive_messaging.c\<close> and the message callback of \<^verbatim>\<open>src/pgactive_output.c\<close>.
  The server's \<open>pq_send*\<close> and \<open>pq_getmsg*\<close> routines are not part of the repository; they are
  the record \<open>pq_api\<close>, and the locale \<open>pq_format\<close> states what the code relies on: a writer
  appends, and a reader gives back what was written together with the unread rest.
  A \<open>StringInfo\<close> being written is the list of its bytes, one being read is the list of the
  bytes after its cursor.
\<close>

section \<open>The server's message buffers\<close>

record pq_api =
  pq_sendbyte :: "bytes \<Rightarrow> u8 \<Rightarrow> bytes"
  pq_sendint :: "bytes \<Rightarrow> u32 \<Rightarrow> nat \<Rightarrow> bytes"
  pq_sendint64 :: "bytes \<Rightarrow> u64 \<Rightarrow> bytes"
  pq_sendbytes :: "bytes \<Rightarrow> bytes \<Rightarrow> bytes"
  pq_getmsgbyte :: "bytes \<Rightarrow> (u8 \<times> bytes) result"
  pq_getmsgint :: "bytes \<Rightarrow> nat \<Rightarrow> (u32 \<times> bytes) result"
  pq_getmsgint64 :: "bytes \<Rightarrow> (u64 \<times> bytes) result"
  pq_getmsgbytes :: "bytes \<Rightarrow> int \<Rightarrow> (bytes \<times> bytes) result"

locale pq_format =
  fixes pq :: pq_api
  assumes sendbyte_append: "pq_sendbyte pq out b = out @ pq_sendbyte pq [] b"
    and sendint_append: "pq_sendint pq out x n = out @ pq_sendint pq [] x n"
    and sendint64_append: "pq_sendint64 pq out y = out @ pq_sendint64 pq [] y"
    and sendbytes_append: "pq_sendbytes pq out bs = out @ bs"
    and getmsgbyte_send: "pq_getmsgbyte pq (pq_sendbyte pq [] b @ rest) = Inr (b, rest)"
    and getmsgint4_send: "pq_getmsgint pq (pq_sendint pq [] x 4 @ rest) 4 = Inr (x, rest)"
    and getmsgint2_send: "unat x < 65536 \<Longrightarrow> pq_getmsgint pq (pq_sendint pq [] x 2 @ rest) 2 = Inr (x, rest)"
    and getmsgint64_send: "pq_getmsgint64 pq (pq_sendint64 pq [] y @ rest) = Inr (y, rest)"
    and getmsgbytes_send: "pq_getmsgbytes pq (bs @ rest) (int (length bs)) = Inr (bs, rest)"
    and sendint_nonempty: "n \<in> {1, 2, 4} \<Longrightarrow> pq_sendint pq [] x n \<noteq> []"

section \<open>Definitions\<close>

text \<open>\<^verbatim>\<open>src/pgactive_protocol.c\<close>\<close>

definition pgactive_getmsg_nodeid :: "pq_api \<Rightarrow> bytes \<Rightarrow> bool \<Rightarrow> (pgactiveNodeId \<times> bytes) result" where
  "pgactive_getmsg_nodeid pq message expect_empty_nodename =
     bind_result (pq_getmsgint64 pq message) (\<lambda>(sys, m1).
     bind_result (pq_getmsgint pq m1 4) (\<lambda>(tli, m2).
     bind_result (pq_getmsgint pq m2 4) (\<lambda>(db, m3).
     let nodeid = \<lparr>sysid = sys, timeline = tli, dboid = db\<rparr>
     in if expect_empty_nodename
        then bind_result (pq_getmsgint pq m3 4) (\<lambda>(namelen, m4).
               if namelen \<noteq> 0 then Inl (Error ''expected zero-length node name'')
               else Inr (nodeid, m4))
        else Inr (nodeid, m3))))"

definition pgactive_send_nodeid :: "pq_api \<Rightarrow> bytes \<Rightarrow> pgactiveNodeId \<Rightarrow> bool \<Rightarrow> bytes" where
  "pgactive_send_nodeid pq s nodeid include_empty_nodename =
     (let s = pq_sendint64 pq s (sysid nodeid);
          s = pq_sendint pq s (timeline nodeid) 4;
          s = pq_sendint pq s (dboid nodeid) 4
      in if include_empty_nodename then pq_sendint pq s 0 4 else s)"

text \<open>The four bytes of \<open>htonl n32\<close> in memory order, most significant first.\<close>

definition htonl_bytes :: "u32 \<Rightarrow> bytes" where
  "htonl_bytes n32 = [ucast (drop_bit 24 n32), ucast (drop_bit 16 n32), ucast (drop_bit 8 n32), ucast n32]"

definition pgactive_sendint64 :: "u64 \<Rightarrow> bytes" where
  "pgactive_sendint64 i =
     (let hi = ucast (drop_bit 32 i); lo = ucast i in htonl_bytes hi @ htonl_bytes lo)"

text \<open>\<^verbatim>\<open>include/pgactive_messaging.h\<close> and \<^verbatim>\<open>src/pgactive_messaging.c\<close>\<close>

datatype pgactiveMessageType =
    pgactive_MESSAGE_START
  | pgactive_MESSAGE_ACQUIRE_LOCK
  | pgactive_MESSAGE_RELEASE_LOCK
  | pgactive_MESSAGE_CONFIRM_LOCK
  | pgactive_MESSAGE_DECLINE_LOCK
  | pgactive_MESSAGE_REQUEST_REPLAY_CONFIRM
  | pgactive_MESSAGE_REPLAY_CONFIRM

fun message_type_code :: "pgactiveMessageType \<Rightarrow> u32" where
  "message_type_code pgactive_MESSAGE_START = 0"
| "message_type_code pgactive_MESSAGE_ACQUIRE_LOCK = 1"
| "message_type_code pgactive_MESSAGE_RELEASE_LOCK = 2"
| "message_type_code pgactive_MESSAGE_CONFIRM_LOCK = 3"
| "message_type_code pgactive_MESSAGE_DECLINE_LOCK = 4"
| "message_type_code pgactive_MESSAGE_REQUEST_REPLAY_CONFIRM = 5"
| "message_type_code pgactive_MESSAGE_REPLAY_CONFIRM = 6"

definition pgactive_message_type_str :: "u32 \<Rightarrow> string result" where
  "pgactive_message_type_str t =
     (if t = 0 then Inr ''pgactive_MESSAGE_START''
      else if t = 1 then Inr ''pgactive_MESSAGE_ACQUIRE_LOCK''
      else if t = 2 then Inr ''pgactive_MESSAGE_RELEASE_LOCK''
      else if t = 3 then Inr ''pgactive_MESSAGE_CONFIRM_LOCK''
      else if t = 4 then Inr ''pgactive_MESSAGE_DECLINE_LOCK''
      else if t = 5 then Inr ''pgactive_MESSAGE_REQUEST_REPLAY_CONFIRM''
      else if t = 6 then Inr ''pgactive_MESSAGE_REPLAY_CONFIRM''
      else Inl (Error ''unhandled pgactiveMessageType''))"

definition pgactive_prepare_message :: "pq_api \<Rightarrow> pgactiveNodeId \<Rightarrow> bytes \<Rightarrow> pgactiveMessageType \<Rightarrow> bytes" where
  "pgactive_prepare_message pq myid s message_type =
     pgactive_send_nodeid pq (pq_sendint pq s (message_type_code message_type) 4) myid True"

definition pgactive_LOGICAL_MSG_PREFIX :: string where
  "pgactive_LOGICAL_MSG_PREFIX = ''pgactive''"

text \<open>
  The output plugin's message callback: the frame written to the stream, or nothing when the
  message was logged under another prefix.
\<close>

definition pg_decode_message :: "pq_api \<Rightarrow> u64 \<Rightarrow> bool \<Rightarrow> string \<Rightarrow> bytes \<Rightarrow> bytes option" where
  "pg_decode_message pq lsn transactional prefix message =
     (if strcmp prefix pgactive_LOGICAL_MSG_PREFIX = 0
      then Some (let s = pq_sendbyte pq [] (of_char CHR ''M'');
                     s = pq_sendbyte pq s (if transactional then 1 else 0);
                     s = pq_sendint64 pq s lsn;
                     s = pq_sendint pq s (of_nat (length message)) 4
                 in pq_sendbytes pq s message)
      else None)"

text \<open>
  What \<open>pgactive_process_remote_message\<close> extracts from a frame before it dispatches: the
  transactional flag, the LSN, the message type, the node that logged the message, and the
  rest of the inner message.  The trace line prints the type's name, so an unknown type ends
  here with the error of \<open>pgactive_message_type_str\<close>.
\<close>

record remote_message =
  rm_transactional :: bool
  rm_lsn :: u64
  rm_type :: u32
  rm_origin :: pgactiveNodeId
  rm_body :: bytes

definition read_remote_message :: "pq_api \<Rightarrow> bytes \<Rightarrow> remote_message result" where
  "read_remote_message pq s =
     bind_result (pq_getmsgbyte pq s) (\<lambda>(transactional, s1).
     bind_result (pq_getmsgint64 pq s1) (\<lambda>(lsn, s2).
     bind_result (pq_getmsgint pq s2 4) (\<lambda>(len, s3).
     bind_result (pq_getmsgbytes pq s3 (sint len)) (\<lambda>(message, s4).
     bind_result (pq_getmsgint pq message 4) (\<lambda>(msg_type, m1).
     bind_result (pgactive_getmsg_nodeid pq m1 True) (\<lambda>(origin_node, m2).
     bind_result (pgactive_message_type_str msg_type) (\<lambda>_.
     Inr \<lparr>rm_transactional = (transactional \<noteq> 0), rm_lsn = lsn, rm_type = msg_type,
          rm_origin = origin_node, rm_body = m2\<rparr>)))))))"

section \<open>Laws of the codecs\<close>

context pq_format
begin

text \<open>The bytes that one call appends.\<close>

definition byte_bytes :: "u8 \<Rightarrow> bytes" where
  "byte_bytes b = pq_sendbyte pq [] b"

definition int_bytes :: "u32 \<Rightarrow> nat \<Rightarrow> bytes" where
  "int_bytes x n = pq_sendint pq [] x n"

definition int64_bytes :: "u64 \<Rightarrow> bytes" where
  "int64_bytes y = pq_sendint64 pq [] y"

definition nodeid_bytes :: "pgactiveNodeId \<Rightarrow> bool \<Rightarrow> bytes" where
  "nodeid_bytes n e = int64_bytes (sysid n) @ int_bytes (timeline n) 4 @ int_bytes (dboid n) 4
     @ (if e then int_bytes 0 4 else [])"

lemma send_simps:
  "pq_sendbyte pq out b = out @ byte_bytes b"
  "pq_sendint pq out x n = out @ int_bytes x n"
  "pq_sendint64 pq out y = out @ int64_bytes y"
  "pq_sendbytes pq out bs = out @ bs"
  using sendbyte_append [of out b] sendint_append [of out x n] sendint64_append [of out y]
    sendbytes_append [of out bs]
  by (simp_all only: byte_bytes_def int_bytes_def int64_bytes_def)

lemma get_simps:
  "pq_getmsgbyte pq (byte_bytes b @ rest) = Inr (b, rest)"
  "pq_getmsgint pq (int_bytes x 4 @ rest) 4 = Inr (x, rest)"
  "unat x < 65536 \<Longrightarrow> pq_getmsgint pq (int_bytes x 2 @ rest) 2 = Inr (x, rest)"
  "pq_getmsgint64 pq (int64_bytes y @ rest) = Inr (y, rest)"
  by (simp_all only: byte_bytes_def int_bytes_def int64_bytes_def getmsgbyte_send getmsgint4_send
      getmsgint2_send getmsgint64_send)

lemma int_bytes_nonempty [simp]: "int_bytes x 4 \<noteq> []"
  using sendint_nonempty [of 4 x] by (simp add: int_bytes_def)

lemma get_simps_end:
  "pq_getmsgint pq (int_bytes x 4) 4 = Inr (x, [])"
  "pq_getmsgint64 pq (int64_bytes y) = Inr (y, [])"
  using get_simps(2) [of x "[]"] get_simps(4) [of y "[]"] by simp_all

lemma send_nodeid_eq: "pgactive_send_nodeid pq s n e = s @ nodeid_bytes n e"
  by (simp add: pgactive_send_nodeid_def nodeid_bytes_def send_simps)

lemma getmsg_nodeid: "pgactive_getmsg_nodeid pq (nodeid_bytes n e @ rest) e = Inr (n, rest)"
  by (cases e) (simp_all add: pgactive_getmsg_nodeid_def nodeid_bytes_def get_simps)

lemma getmsg_nodeid_end: "pgactive_getmsg_nodeid pq (nodeid_bytes n e) e = Inr (n, [])"
  using getmsg_nodeid [of n e "[]"] by simp

lemma prepare_message_eq:
  "pgactive_prepare_message pq myid s t = s @ int_bytes (message_type_code t) 4 @ nodeid_bytes myid True"
  by (simp add: pgactive_prepare_message_def send_nodeid_eq send_simps)

lemma message_type_str_ok: "\<exists>n. pgactive_message_type_str (message_type_code t) = Inr n"
  by (cases t) (simp_all add: pgactive_message_type_str_def)

lemma sint_of_nat_u32: "n < 2 ^ 31 \<Longrightarrow> sint (of_nat n :: u32) = int n"
  by (simp add: signed_of_nat signed_take_bit_int_eq_self)

text \<open>A frame of the output plugin is read back with every field intact.\<close>

lemma read_remote_message_frame:
  assumes len: "length message < 2 ^ 31"
    and msg: "message = pgactive_prepare_message pq myid [] t @ body"
    and frame: "pg_decode_message pq lsn transactional pgactive_LOGICAL_MSG_PREFIX message = Some frame"
  shows "\<exists>inner. pq_getmsgbyte pq frame = Inr (of_char CHR ''M'', inner) \<and>
    read_remote_message pq inner
    = Inr \<lparr>rm_transactional = transactional, rm_lsn = lsn, rm_type = message_type_code t,
           rm_origin = myid, rm_body = body\<rparr>"
proof -
  let ?inner = "byte_bytes (if transactional then 1 else 0) @ int64_bytes lsn
      @ int_bytes (of_nat (length message)) 4 @ message"
  have f: "frame = byte_bytes (of_char CHR ''M'') @ ?inner"
    using frame by (simp add: pg_decode_message_def Let_def send_simps)
  have bs: "pq_getmsgbytes pq message (int (length message)) = Inr (message, [])"
    using getmsgbytes_send [of message "[]"] by simp
  obtain nm where nm: "pgactive_message_type_str (message_type_code t) = Inr nm"
    using message_type_str_ok by blast
  have m: "message = int_bytes (message_type_code t) 4 @ nodeid_bytes myid True @ body"
    by (simp add: msg prepare_message_eq)
  have "read_remote_message pq ?inner = Inr \<lparr>rm_transactional = transactional, rm_lsn = lsn,
      rm_type = message_type_code t, rm_origin = myid, rm_body = body\<rparr>"
    unfolding read_remote_message_def
    by (simp add: get_simps sint_of_nat_u32 [OF len] bs) (simp add: m get_simps getmsg_nodeid nm)
  then show ?thesis by (simp add: f get_simps)
qed

end

section \<open>Network byte order\<close>

text \<open>
  The documented behaviour of the server's routines: integers travel most significant byte
  first, and a read beyond the end of the message is an error.
\<close>

fun be_encode :: "nat \<Rightarrow> nat \<Rightarrow> bytes" where
  "be_encode 0 v = []"
| "be_encode (Suc n) v = be_encode n (v div 256) @ [of_nat v]"

definition be_decode :: "bytes \<Rightarrow> nat" where
  "be_decode = foldl (\<lambda>a b. a * 256 + unat b) 0"

definition split_msg :: "nat \<Rightarrow> bytes \<Rightarrow> (bytes \<times> bytes) result" where
  "split_msg n s = (if n \<le> length s then Inr (take n s, drop n s)
                    else Inl (Error ''insufficient data left in message''))"

definition pq_network :: pq_api where
  "pq_network =
     \<lparr>pq_sendbyte = (\<lambda>out b. out @ [b]),
      pq_sendint = (\<lambda>out x n. out @ be_encode n (unat x)),
      pq_sendint64 = (\<lambda>out y. out @ be_encode 8 (unat y)),
      pq_sendbytes = (\<lambda>out bs. out @ bs),
      pq_getmsgbyte = (\<lambda>s. case s of [] \<Rightarrow> Inl (Error ''no data left in message'') | b # r \<Rightarrow> Inr (b, r)),
      pq_getmsgint = (\<lambda>s n. map_sum id (\<lambda>(bs, r). (of_nat (be_decode bs), r)) (split_msg n s)),
      pq_getmsgint64 = (\<lambda>s. map_sum id (\<lambda>(bs, r). (of_nat (be_decode bs), r)) (split_msg 8 s)),
      pq_getmsgbytes = (\<lambda>s n. if n < 0 then Inl (Error ''insufficient data left in message'')
                              else split_msg (nat n) s)\<rparr>"

lemma length_be_encode [simp]: "length (be_encode n v) = n"
  by (induction n arbitrary: v) auto

lemma be_decode_snoc: "be_decode (bs @ [b]) = be_decode bs * 256 + unat b"
  by (simp add: be_decode_def)

lemma be_decode_encode: "be_decode (be_encode n v) = v mod 256 ^ n"
proof (induction n arbitrary: v)
  case 0
  then show ?case by (simp add: be_decode_def)
next
  case (Suc n)
  then show ?case
    by (simp add: be_decode_snoc unat_of_nat mod_mult2_eq)
qed

lemma split_msg_append: "length bs = n \<Longrightarrow> split_msg n (bs @ rest) = Inr (bs, rest)"
  by (simp add: split_msg_def)

interpretation net: pq_format pq_network
proof
  show "pq_getmsgint pq_network (pq_sendint pq_network [] x 4 @ rest) 4 = Inr (x, rest)" for x rest
    using unat_lt32 [of x]
    by (simp add: pq_network_def split_msg_append be_decode_encode del: unat_lt32)
  show "pq_getmsgint pq_network (pq_sendint pq_network [] x 2 @ rest) 2 = Inr (x, rest)"
    if "unat x < 65536" for x rest
    using that by (simp add: pq_network_def split_msg_append be_decode_encode)
  show "pq_getmsgint64 pq_network (pq_sendint64 pq_network [] y @ rest) = Inr (y, rest)" for y rest
    using unat_lt64 [of y]
    by (simp add: pq_network_def split_msg_append be_decode_encode del: unat_lt64)
  show "pq_sendint pq_network [] x n \<noteq> []" if "n \<in> {1, 2, 4}" for x n
    using that by (metis (no_types, lifting) append_Nil insert_iff length_be_encode list.size(3)
        one_neq_zero pq_api.select_convs(2) pq_network_def singletonD zero_neq_numeral)
qed (simp_all add: pq_network_def split_msg_append)

section \<open>Properties\<close>

lemma of_nat_div_u8: "(of_nat (unat n div 2 ^ k) :: u8) = ucast (drop_bit k (n :: u32))"
proof -
  have "unat n div 2 ^ k = unat (drop_bit k n)"
    by (simp only: unat_drop_bit_eq drop_bit_eq_div [of k "unat n"])
  then show ?thesis by simp
qed

lemma be_encode_4:
  "be_encode 4 v = [of_nat (v div 2 ^ 24), of_nat (v div 2 ^ 16), of_nat (v div 2 ^ 8), of_nat v]"
proof -
  have four: "(4::nat) = Suc (Suc (Suc (Suc 0)))" by simp
  show ?thesis unfolding four be_encode.simps div_mult2_eq [symmetric] by simp
qed

lemma htonl_bytes_be: "htonl_bytes n = be_encode 4 (unat n)"
  unfolding be_encode_4 of_nat_div_u8 by (simp add: htonl_bytes_def)

lemma be_encode_add: "be_encode (m + n) v = be_encode m (v div 256 ^ n) @ be_encode n v"
  by (induction n arbitrary: v) (auto simp: div_mult2_eq)


lemma of_nat_mod_u8: "(of_nat (v mod 256) :: u8) = of_nat v"
  by (simp add: word_of_nat_eq_iff take_bit_eq_mod)

lemma be_encode_mod: "be_encode n (v mod 256 ^ n) = be_encode n v"
proof (induction n arbitrary: v)
  case 0
  then show ?case by simp
next
  case (Suc n)
  have split: "v mod 256 ^ Suc n = 256 * (v div 256 mod 256 ^ n) + v mod 256"
    by (simp add: mod_mult2_eq)
  have hi: "(256 * (v div 256 mod 256 ^ n) + v mod 256) div 256 = v div 256 mod 256 ^ n"
    by simp
  have lo: "(of_nat (256 * (v div 256 mod 256 ^ n) + v mod 256) :: u8) = of_nat v"
    by (simp only: word_of_nat_eq_iff take_bit_eq_mod) simp
  show ?case unfolding be_encode.simps split hi lo Suc ..
qed

lemma sendint64_be: "pgactive_sendint64 i = be_encode 8 (unat i)"
proof -
  have hi: "unat (ucast (drop_bit 32 i) :: u32) = unat i div 2 ^ 32"
  proof -
    have "unat (drop_bit 32 i) = unat i div 2 ^ 32"
      by (simp only: unat_drop_bit_eq drop_bit_eq_div [of 32 "unat i"])
    moreover have "unat i div 2 ^ 32 < 2 ^ 32" by (rule less_mult_imp_div_less) simp
    ultimately show ?thesis by (simp add: unsigned_ucast_eq take_bit_nat_eq_self)
  qed
  have "unat (ucast i :: u32) = unat i mod 256 ^ 4"
    by (simp add: unsigned_ucast_eq take_bit_eq_mod)
  then have lo: "be_encode 4 (unat (ucast i :: u32)) = be_encode 4 (unat i)"
    by (simp only: be_encode_mod)
  have "be_encode (4 + 4) (unat i) = be_encode 4 (unat i div 2 ^ 32) @ be_encode 4 (unat i)"
    by (subst be_encode_add) simp
  then show ?thesis
    unfolding pgactive_sendint64_def Let_def htonl_bytes_be hi lo by simp
qed

text \<open>
  C20: every message that a node logs under pgactive's prefix reaches its peers intact: the
  output plugin frames it, the apply worker reads the frame's action byte, and what it
  extracts is the logged type, the identity of the node that logged it, the LSN and the
  unread body, for every body that fits a C int.
\<close>

theorem remote_message_roundtrip:
  assumes "pq_format pq"
    and "length (pgactive_prepare_message pq myid [] t @ body) < 2 ^ 31"
  shows "\<exists>frame inner.
    pg_decode_message pq lsn transactional pgactive_LOGICAL_MSG_PREFIX
      (pgactive_prepare_message pq myid [] t @ body) = Some frame \<and>
    pq_getmsgbyte pq frame = Inr (of_char CHR ''M'', inner) \<and>
    read_remote_message pq inner
    = Inr \<lparr>rm_transactional = transactional, rm_lsn = lsn, rm_type = message_type_code t,
           rm_origin = myid, rm_body = body\<rparr>"
proof -
  obtain frame where f: "pg_decode_message pq lsn transactional pgactive_LOGICAL_MSG_PREFIX
      (pgactive_prepare_message pq myid [] t @ body) = Some frame"
    by (simp add: pg_decode_message_def strcmp_eq_0)
  from pq_format.read_remote_message_frame [OF assms(1,2) refl f] f show ?thesis by blast
qed

theorem remote_message_roundtrip_witness:
  "\<exists>frame inner.
    pg_decode_message pq_network 77 False pgactive_LOGICAL_MSG_PREFIX
      (pgactive_prepare_message pq_network \<lparr>sysid = 1, timeline = 0, dboid = 5\<rparr> []
         pgactive_MESSAGE_CONFIRM_LOCK @ [1, 2, 3]) = Some frame \<and>
    pq_getmsgbyte pq_network frame = Inr (of_char CHR ''M'', inner) \<and>
    read_remote_message pq_network inner
    = Inr \<lparr>rm_transactional = False, rm_lsn = 77, rm_type = message_type_code pgactive_MESSAGE_CONFIRM_LOCK,
           rm_origin = \<lparr>sysid = 1, timeline = 0, dboid = 5\<rparr>, rm_body = [1, 2, 3]\<rparr>"
proof (rule remote_message_roundtrip [OF net.pq_format_axioms])
  show "length (pgactive_prepare_message pq_network \<lparr>sysid = 1, timeline = 0, dboid = 5\<rparr> []
         pgactive_MESSAGE_CONFIRM_LOCK @ [1, 2, 3]) < 2 ^ 31"
    by (simp add: pgactive_prepare_message_def pgactive_send_nodeid_def pq_network_def Let_def)
qed

text \<open>
  The hand-written big-endian store of the feedback messages agrees with the server's
  reader: what \<open>pgactive_sendint64\<close> puts into the buffer, \<open>pq_getmsgint64\<close> reads back.
\<close>

theorem sendint64_readable:
  "pq_getmsgint64 pq_network (pgactive_sendint64 i @ rest) = Inr (i, rest)"
proof -
  have "pgactive_sendint64 i = pq_sendint64 pq_network [] i"
    by (simp add: sendint64_be pq_network_def)
  then show ?thesis by (simp only: net.getmsgint64_send)
qed

end
