(* ===== verification/Node_Catalog.thy ===== *)
theory Node_Catalog
  imports Wire_Format
begin

text \<open>
  The catalogue tables \<open>pgactive_nodes\<close> and \<open>pgactive_connections\<close> as
  \<^verbatim>\<open>src/pgactive_catalogs.c\<close> reads and writes them, the update of
  \<^verbatim>\<open>src/pgactive_init_replica.c\<close> that ends a join and hands out the node's sequence id, and the
  per-backend node cache of \<^verbatim>\<open>src/pgactive_nodecache.c\<close>.
  A table is the list of its rows; an SQL statement is the function on rows that it denotes.
  Whether the schema exists and whether the executor reported success belong to the server and
  are the fields of \<open>spi_env\<close>.
\<close>

section \<open>The tables\<close>

record node_row =
  node_sysid :: string
  node_timeline :: u32
  node_dboid :: u32
  node_status :: "char option"
  node_name :: "string option"
  node_dsn :: "string option"
  node_init_from_dsn :: "string option"
  node_read_only :: "bool option"
  node_seq_id :: "int option"

record conn_row =
  conn_sysid :: string
  conn_timeline :: u32
  conn_dboid :: u32
  conn_dsn :: string
  conn_apply_delay :: "int option"
  conn_replication_sets :: "string list option"

record spi_env =
  schema_present :: bool
  spi_ok :: bool

record pgactiveNodeInfo =
  ni_id :: pgactiveNodeId
  ni_valid :: bool
  ni_name :: "string option"
  ni_status :: char
  ni_local_dsn :: "string option"
  ni_init_from_dsn :: "string option"
  ni_read_only :: bool
  ni_seq_id :: int

record pgactiveConnectionConfig =
  cfg_remote_node :: pgactiveNodeId
  cfg_origin_is_my_id :: bool
  cfg_dsn :: string
  cfg_node_name :: "string option"
  cfg_apply_delay :: int
  cfg_replication_sets :: "string option"

definition sysid_str :: "pgactiveNodeId \<Rightarrow> string" where
  "sysid_str node = snprintf 33 [ConvU 64] [VU (unat (sysid node))]"

text \<open>The condition \<open>(node_sysid, node_timeline, node_dboid) = ($1, $2, $3)\<close>.\<close>

definition row_of :: "pgactiveNodeId \<Rightarrow> node_row \<Rightarrow> bool" where
  "row_of node r \<longleftrightarrow>
     node_sysid r = sysid_str node \<and> node_timeline r = timeline node \<and> node_dboid r = dboid node"

section \<open>Reading and writing the node table\<close>

definition pgactive_nodes_get_local_status ::
  "spi_env \<Rightarrow> node_row list \<Rightarrow> pgactiveNodeId \<Rightarrow> bool \<Rightarrow> char result" where
  "pgactive_nodes_get_local_status env rows node missing_ok =
     (if \<not> schema_present env
      then if missing_ok then Inr CHR 0x00
           else Inl (Error ''no pgactive schema is present in database'')
      else if \<not> spi_ok env then Inl (Error ''unable to query pgactive.pgactive_nodes'')
      else case filter (row_of node) rows of
             [] \<Rightarrow> Inr CHR 0x00
           | r # _ \<Rightarrow>
               (case node_status r of
                  None \<Rightarrow> Inl (Error ''node_status in pgactive.pgactive_nodes table cannot be null'')
                | Some st \<Rightarrow> Inr st))"

definition pgactive_nodes_get_local_info ::
  "node_row list \<Rightarrow> pgactiveNodeId \<Rightarrow> pgactiveNodeInfo option result" where
  "pgactive_nodes_get_local_info rows node =
     (case filter (row_of node) rows of
        [] \<Rightarrow> Inr None
      | r # _ \<Rightarrow>
          (case node_status r of
             None \<Rightarrow> Inl (Error ''node_status in pgactive.pgactive_nodes table cannot be null'')
           | Some st \<Rightarrow>
               Inr (Some \<lparr>ni_id = node, ni_valid = True, ni_name = node_name r, ni_status = st,
                 ni_local_dsn = node_dsn r, ni_init_from_dsn = node_init_from_dsn r,
                 ni_read_only = (case node_read_only r of None \<Rightarrow> False | Some b \<Rightarrow> b),
                 ni_seq_id = (case node_seq_id r of None \<Rightarrow> - 1 | Some i \<Rightarrow> i)\<rparr>)))"

definition pgactive_nodes_set_local_attrs ::
  "spi_env \<Rightarrow> pgactiveNodeId \<Rightarrow> pgactiveNodeStatus \<Rightarrow> pgactiveNodeStatus \<Rightarrow> int option \<Rightarrow> node_row list \<Rightarrow>
   node_row list result" where
  "pgactive_nodes_set_local_attrs env myid status oldstatus seq_id rows =
     (if \<not> spi_ok env then Inl (Error ''unable to set status'')
      else Inr (map (\<lambda>r. if row_of myid r \<and> node_status r = Some (node_status_code oldstatus)
                         then r\<lparr>node_status := Some (node_status_code status),
                                node_seq_id := (case seq_id of None \<Rightarrow> node_seq_id r | Some i \<Rightarrow> Some i)\<rparr>
                         else r) rows))"

definition pgactive_nodes_set_local_status ::
  "spi_env \<Rightarrow> pgactiveNodeId \<Rightarrow> pgactiveNodeStatus \<Rightarrow> pgactiveNodeStatus \<Rightarrow> node_row list \<Rightarrow>
   node_row list result" where
  "pgactive_nodes_set_local_status env myid status fromstatus rows =
     pgactive_nodes_set_local_attrs env myid status fromstatus None rows"

text \<open>\<open>remote\<close> is the peer that the apply worker replays from.\<close>

definition pgactive_remote_node_seq_id :: "spi_env \<Rightarrow> node_row list \<Rightarrow> pgactiveNodeId \<Rightarrow> int result" where
  "pgactive_remote_node_seq_id env rows remote =
     (if \<not> schema_present env then Inl (Error ''no pgactive schema is present in database'')
      else if \<not> spi_ok env then Inl (Error ''unable to query pgactive.pgactive_nodes'')
      else case filter (row_of remote) rows of
             [] \<Rightarrow> Inl (Error ''unable to fetch rows from pgactive.pgactive_nodes'')
           | r # _ \<Rightarrow>
               (case node_seq_id r of
                  None \<Rightarrow> Inl (Error ''node_seq_id in pgactive.pgactive_nodes table cannot be null'')
                | Some i \<Rightarrow> Inr i))"

text \<open>The rows the statement selects, newest first as \<open>lcons\<close> leaves them.\<close>

definition pgactive_get_node_dsns ::
  "spi_env \<Rightarrow> pgactiveNodeId \<Rightarrow> bool \<Rightarrow> node_row list \<Rightarrow> (string option \<times> string option) list result" where
  "pgactive_get_node_dsns env myid only_local_node rows =
     (let killed = Some (node_status_code pgactive_NODE_STATUS_KILLED);
          ready = Some (node_status_code pgactive_NODE_STATUS_READY);
          wanted = (\<lambda>r. if only_local_node then row_of myid r \<and> node_status r \<noteq> None \<and> node_status r \<noteq> killed
                        else \<not> row_of myid r \<and> node_status r = ready)
      in if \<not> spi_ok env then Inl (Error ''SPI error while querying pgactive.pgactive_nodes'')
         else Inr (rev (map (\<lambda>r. (node_dsn r, node_name r)) (filter wanted rows))))"

section \<open>Connection configurations\<close>

definition pgactive_textarr_to_identliststr :: "(string \<Rightarrow> string) \<Rightarrow> string list \<Rightarrow> string" where
  "pgactive_textarr_to_identliststr quote_identifier elems =
     (case elems of
        [] \<Rightarrow> ''''
      | e # es \<Rightarrow> foldl (\<lambda>si x. si @ '','' @ quote_identifier x) (quote_identifier e) es)"

text \<open>
  One result row.  \<open>DatumGetArrayTypeP\<close> follows the pointer before the code looks at
  \<open>isnull\<close>, so a null array ends the process.
\<close>

definition connection_config_of ::
  "(string \<Rightarrow> string) \<Rightarrow> conn_row \<times> node_row \<Rightarrow> pgactiveConnectionConfig result" where
  "connection_config_of quote_identifier = (\<lambda>(c, n).
     case sscanf [ConvU 64] (conn_sysid c) of
       [VU sys] \<Rightarrow>
         (case conn_replication_sets c of
            None \<Rightarrow> Inl (Panic ''null pointer dereference'')
          | Some sets \<Rightarrow>
              Inr \<lparr>cfg_remote_node = \<lparr>sysid = of_nat sys, timeline = conn_timeline c, dboid = conn_dboid c\<rparr>,
                   cfg_origin_is_my_id = False,
                   cfg_dsn = conn_dsn c,
                   cfg_node_name = node_name n,
                   cfg_apply_delay = (case conn_apply_delay c of None \<Rightarrow> - 1 | Some d \<Rightarrow> d),
                   cfg_replication_sets = Some (pgactive_textarr_to_identliststr quote_identifier sets)\<rparr>)
     | _ \<Rightarrow> Inl (Error ''parsing sysid uint64 failed''))"

text \<open>The join and filter of the query; \<open>order_by\<close> is the server's sort.\<close>

definition connection_rows :: "conn_row list \<Rightarrow> node_row list \<Rightarrow> (conn_row \<times> node_row) list" where
  "connection_rows conns rows =
     [(c, n). c \<leftarrow> conns, n \<leftarrow> rows,
        conn_sysid c = node_sysid n \<and> conn_timeline c = node_timeline n \<and> conn_dboid c = node_dboid n \<and>
        node_status n \<noteq> None \<and> node_status n \<noteq> Some (node_status_code pgactive_NODE_STATUS_KILLED)]"

definition conn_key :: "conn_row \<times> node_row \<Rightarrow> string \<times> u32 \<times> u32" where
  "conn_key p = (conn_sysid (fst p), conn_timeline (fst p), conn_dboid (fst p))"

fun distinct_on :: "('a \<Rightarrow> 'k) \<Rightarrow> 'a list \<Rightarrow> 'a list" where
  "distinct_on key [] = []"
| "distinct_on key (x # xs) = x # distinct_on key (filter (\<lambda>y. key y \<noteq> key x) xs)"

fun map_result :: "('a \<Rightarrow> 'b result) \<Rightarrow> 'a list \<Rightarrow> 'b list result" where
  "map_result f [] = Inr []"
| "map_result f (x # xs) = bind_result (f x) (\<lambda>y. bind_result (map_result f xs) (\<lambda>ys. Inr (y # ys)))"

definition pgactive_read_connection_configs ::
  "(string \<Rightarrow> string) \<Rightarrow> ((conn_row \<times> node_row) list \<Rightarrow> (conn_row \<times> node_row) list) \<Rightarrow> spi_env \<Rightarrow>
   conn_row list \<Rightarrow> node_row list \<Rightarrow> pgactiveConnectionConfig list result" where
  "pgactive_read_connection_configs quote_identifier order_by env conns rows =
     (if \<not> spi_ok env then Inl (Error ''SPI error while querying pgactive.pgactive_connections'')
      else bind_result
             (map_result (connection_config_of quote_identifier)
                (distinct_on conn_key (order_by (connection_rows conns rows))))
             (\<lambda>cfgs. Inr (rev cfgs)))"

definition pgactive_get_connection_config ::
  "(string \<Rightarrow> string) \<Rightarrow> ((conn_row \<times> node_row) list \<Rightarrow> (conn_row \<times> node_row) list) \<Rightarrow> spi_env \<Rightarrow>
   conn_row list \<Rightarrow> node_row list \<Rightarrow> pgactiveNodeId \<Rightarrow> bool \<Rightarrow> pgactiveConnectionConfig option result" where
  "pgactive_get_connection_config quote_identifier order_by env conns rows node missing_ok =
     bind_result (pgactive_read_connection_configs quote_identifier order_by env conns rows) (\<lambda>configs.
       case find (\<lambda>cfg. pgactive_nodeid_eq (Some (cfg_remote_node cfg)) (Some node)) configs of
         None \<Rightarrow> if missing_ok then Inr None
                 else Inl (Error ''failed to find expected pgactive.connections row'')
       | Some cfg \<Rightarrow> Inr (Some cfg))"

definition pgactive_get_my_connection_config ::
  "(string \<Rightarrow> string) \<Rightarrow> ((conn_row \<times> node_row) list \<Rightarrow> (conn_row \<times> node_row) list) \<Rightarrow> spi_env \<Rightarrow>
   conn_row list \<Rightarrow> node_row list \<Rightarrow> u64 \<Rightarrow> u32 \<Rightarrow> bool \<Rightarrow> pgactiveConnectionConfig option result" where
  "pgactive_get_my_connection_config quote_identifier order_by env conns rows nid mydb missing_ok =
     pgactive_get_connection_config quote_identifier order_by env conns rows
       (pgactive_make_my_nodeid nid mydb) missing_ok"

section \<open>The end of a join\<close>

text \<open>
  What the libpq connection to the join target answers to the statements around the update,
  and what the remote call for the DDL lock returns.
\<close>

record join_conn =
  begin_ok :: bool
  ddl_lock_remote :: "unit result"
  commit_ok :: bool

definition is_killed :: "node_row \<Rightarrow> bool" where
  "is_killed r \<longleftrightarrow> node_status r = Some (node_status_code pgactive_NODE_STATUS_KILLED)"

text \<open>Aggregates ignore nulls; \<open>max\<close> over no values is null.\<close>

definition seq_ids :: "node_row list \<Rightarrow> int list" where
  "seq_ids rows = concat (map (\<lambda>r. case node_seq_id r of None \<Rightarrow> [] | Some i \<Rightarrow> [i]) rows)"

definition sql_max :: "int list \<Rightarrow> int option" where
  "sql_max xs = (case xs of [] \<Rightarrow> None | x # ys \<Rightarrow> Some (foldl max x ys))"

definition generate_series :: "int \<Rightarrow> int option \<Rightarrow> int list" where
  "generate_series a b = (case b of None \<Rightarrow> [] | Some b \<Rightarrow> [a..b])"

text \<open>
  The subquery of the update: the lowest id of the series that no live node has, otherwise
  one more than the greatest id of a live node.  A live node is one whose status is not
  killed; a null status never satisfies \<open>not in\<close>.
\<close>

definition live_nodes :: "node_row list \<Rightarrow> node_row list" where
  "live_nodes rows = filter (\<lambda>r. node_status r \<noteq> None \<and> \<not> is_killed r) rows"

definition next_node_seq_id :: "node_row list \<Rightarrow> int" where
  "next_node_seq_id rows =
     (case filter (\<lambda>x. x \<notin> set (seq_ids (live_nodes rows))) (generate_series 1 (sql_max (seq_ids rows))) of
        x # _ \<Rightarrow> x
      | [] \<Rightarrow> (case sql_max (seq_ids (live_nodes rows)) of None \<Rightarrow> 0 | Some m \<Rightarrow> m) + 1)"

definition pgactive_nodes_set_remote_status_ready ::
  "join_conn \<Rightarrow> pgactiveNodeId \<Rightarrow> node_row list \<Rightarrow> node_row list result" where
  "pgactive_nodes_set_remote_status_ready conn myid rows =
     (if \<not> begin_ok conn then Inl (Error ''failed to start tx on remote peer'')
      else bind_result (ddl_lock_remote conn) (\<lambda>_.
        let node_seq = next_node_seq_id rows; n = length (filter (row_of myid) rows)
        in if n \<noteq> 0 \<and> \<not> (- 32768 \<le> node_seq \<and> node_seq \<le> 32767)
           then Inl (Error ''failed to update my pgactive.pgactive_nodes entry on remote server'')
           else if n \<noteq> 1
           then Inl (Error ''failed to update my pgactive.pgactive_nodes entry on remote server: affected rows'')
           else if \<not> commit_ok conn then Inl (Error ''failed to start tx on remote peer'')
           else Inr (map (\<lambda>r. if row_of myid r
                             then r\<lparr>node_status := Some (node_status_code pgactive_NODE_STATUS_READY),
                                    node_seq_id := Some node_seq\<rparr>
                             else r) rows)))"

section \<open>The node cache\<close>

text \<open>
  The static variables of \<^verbatim>\<open>src/pgactive_nodecache.c\<close>: the hash table (absent before its first use),
  the OID it watches, whether the invalidation callback is registered with the server, and
  the cached names.
\<close>

record nodecache =
  pgactiveNodeCacheHash :: "(pgactiveNodeId \<rightharpoonup> pgactiveNodeInfo) option"
  pgactiveNodesRelid :: u32
  callback_registered :: bool
  my_node_name :: "string option"
  remote_node_id :: pgactiveNodeId
  remote_node_name :: "string option"

definition pgactive_get_relname_relid :: "(string \<Rightarrow> u32) \<Rightarrow> (string \<Rightarrow> u32 \<Rightarrow> u32) \<Rightarrow> string \<Rightarrow> string \<Rightarrow> u32 result" where
  "pgactive_get_relname_relid get_namespace_oid get_relname_relid nspname relname =
     (let nspid = get_namespace_oid nspname
      in if nspid = 0 then Inl (Error ''schema does not exist'')
         else let relid = get_relname_relid relname nspid
              in if relid = 0 then Inl (Error ''cache lookup failed for relation'') else Inr relid)"

definition pgactive_nodecache_invalidate_callback :: "u32 \<Rightarrow> nodecache \<Rightarrow> nodecache" where
  "pgactive_nodecache_invalidate_callback relid nc =
     (case pgactiveNodeCacheHash nc of
        None \<Rightarrow> nc
      | Some h \<Rightarrow>
          if relid = 0 \<or> relid = pgactiveNodesRelid nc
          then nc\<lparr>pgactiveNodeCacheHash := Some (\<lambda>k. map_option (\<lambda>e. e\<lparr>ni_valid := False\<rparr>) (h k))\<rparr>
          else nc)"

text \<open>\<open>nodes_relid\<close> is what \<open>pgactive_get_relname_relid\<close> gives for \<open>pgactive.pgactive_nodes\<close>.\<close>

definition pgactive_nodecache_initialize :: "u32 result \<Rightarrow> nodecache \<Rightarrow> unit result \<times> nodecache" where
  "pgactive_nodecache_initialize nodes_relid nc =
     (let nc = nc\<lparr>pgactiveNodeCacheHash := Some Map.empty\<rparr>
      in case nodes_relid of
           Inl e \<Rightarrow> (Inl e, nc)
         | Inr relid \<Rightarrow> (Inr (), nc\<lparr>pgactiveNodesRelid := relid, callback_registered := True\<rparr>))"

text \<open>A new or recycled entry, zeroed after its key.\<close>

definition zero_entry :: "pgactiveNodeId \<Rightarrow> pgactiveNodeInfo" where
  "zero_entry node = \<lparr>ni_id = node, ni_valid = False, ni_name = None, ni_status = CHR 0x00,
     ni_local_dsn = None, ni_init_from_dsn = None, ni_read_only = False, ni_seq_id = 0\<rparr>"

text \<open>The second half of \<open>pgactive_nodecache_lookup\<close>, reached when no valid entry was found.\<close>

definition nodecache_load ::
  "node_row list \<Rightarrow> pgactiveNodeId \<Rightarrow> bool \<Rightarrow> (pgactiveNodeId \<rightharpoonup> pgactiveNodeInfo) \<Rightarrow> nodecache \<Rightarrow>
   pgactiveNodeInfo option result \<times> nodecache" where
  "nodecache_load rows nodeid missing_ok h nc =
     (let nc = nc\<lparr>pgactiveNodeCacheHash := Some (h(nodeid \<mapsto> zero_entry nodeid))\<rparr>
      in case pgactive_nodes_get_local_info rows nodeid of
           Inl e \<Rightarrow> (Inl e, nc)
         | Inr None \<Rightarrow>
             if \<not> missing_ok then (Inl (Error ''could not find node''), nc) else (Inr None, nc)
         | Inr (Some nodeinfo) \<Rightarrow>
             let entry = (zero_entry nodeid)\<lparr>ni_status := ni_status nodeinfo,
                   ni_local_dsn := ni_local_dsn nodeinfo, ni_init_from_dsn := ni_init_from_dsn nodeinfo,
                   ni_read_only := ni_read_only nodeinfo, ni_name := ni_name nodeinfo,
                   ni_seq_id := ni_seq_id nodeinfo, ni_valid := True\<rparr>
             in (Inr (Some entry), nc\<lparr>pgactiveNodeCacheHash := Some (h(nodeid \<mapsto> entry))\<rparr>))"

definition pgactive_nodecache_lookup ::
  "u32 result \<Rightarrow> node_row list \<Rightarrow> pgactiveNodeId \<Rightarrow> bool \<Rightarrow> nodecache \<Rightarrow>
   pgactiveNodeInfo option result \<times> nodecache" where
  "pgactive_nodecache_lookup nodes_relid rows nodeid missing_ok nc0 =
     (case (if pgactiveNodeCacheHash nc0 = None then pgactive_nodecache_initialize nodes_relid nc0
            else (Inr (), nc0)) of
        (Inl e, nc) \<Rightarrow> (Inl e, nc)
      | (Inr _, nc) \<Rightarrow>
          let h = the (pgactiveNodeCacheHash nc)
          in case h nodeid of
               Some entry \<Rightarrow>
                 if ni_valid entry then (Inr (Some entry), nc)
                 else nodecache_load rows nodeid missing_ok h nc
             | None \<Rightarrow> nodecache_load rows nodeid missing_ok h nc)"

text \<open>The accessors; \<open>nid\<close> and \<open>mydb\<close> identify the local node.\<close>

definition pgactive_local_node_name ::
  "u32 result \<Rightarrow> node_row list \<Rightarrow> u64 \<Rightarrow> u32 \<Rightarrow> nodecache \<Rightarrow> string option result \<times> nodecache" where
  "pgactive_local_node_name nodes_relid rows nid mydb nc =
     map_prod (map_sum id (\<lambda>node. case node of None \<Rightarrow> Some ''(unknown)'' | Some i \<Rightarrow> ni_name i)) id
       (pgactive_nodecache_lookup nodes_relid rows (pgactive_make_my_nodeid nid mydb) True nc)"

definition pgactive_local_node_read_only ::
  "u32 result \<Rightarrow> node_row list \<Rightarrow> u64 \<Rightarrow> u32 \<Rightarrow> nodecache \<Rightarrow> bool result \<times> nodecache" where
  "pgactive_local_node_read_only nodes_relid rows nid mydb nc =
     map_prod (map_sum id (\<lambda>node. case node of None \<Rightarrow> False | Some i \<Rightarrow> ni_read_only i)) id
       (pgactive_nodecache_lookup nodes_relid rows (pgactive_make_my_nodeid nid mydb) True nc)"

definition pgactive_local_node_status ::
  "u32 result \<Rightarrow> node_row list \<Rightarrow> u64 \<Rightarrow> u32 \<Rightarrow> nodecache \<Rightarrow> char result \<times> nodecache" where
  "pgactive_local_node_status nodes_relid rows nid mydb nc =
     map_prod (map_sum id (\<lambda>node. case node of None \<Rightarrow> CHR 0x00 | Some i \<Rightarrow> ni_status i)) id
       (pgactive_nodecache_lookup nodes_relid rows (pgactive_make_my_nodeid nid mydb) True nc)"

definition pgactive_local_node_seq_id ::
  "u32 result \<Rightarrow> node_row list \<Rightarrow> u64 \<Rightarrow> u32 \<Rightarrow> nodecache \<Rightarrow> int result \<times> nodecache" where
  "pgactive_local_node_seq_id nodes_relid rows nid mydb nc =
     map_prod (map_sum id (\<lambda>node. case node of None \<Rightarrow> - 1 | Some i \<Rightarrow> ni_seq_id i)) id
       (pgactive_nodecache_lookup nodes_relid rows (pgactive_make_my_nodeid nid mydb) True nc)"

definition pgactive_nodeid_name ::
  "u32 result \<Rightarrow> node_row list \<Rightarrow> pgactiveNodeId \<Rightarrow> bool \<Rightarrow> nodecache \<Rightarrow> string result \<times> nodecache" where
  "pgactive_nodeid_name nodes_relid rows node missing_ok nc =
     map_prod (map_sum id (\<lambda>info. case info of None \<Rightarrow> ''(unknown)''
         | Some i \<Rightarrow> (case ni_name i of None \<Rightarrow> ''(unknown)'' | Some n \<Rightarrow> n))) id
       (pgactive_nodecache_lookup nodes_relid rows node missing_ok nc)"

definition pgactive_setup_my_cached_node_names ::
  "u32 result \<Rightarrow> node_row list \<Rightarrow> u64 \<Rightarrow> u32 \<Rightarrow> nodecache \<Rightarrow> unit result \<times> nodecache" where
  "pgactive_setup_my_cached_node_names nodes_relid rows nid mydb nc =
     (case pgactive_nodeid_name nodes_relid rows (pgactive_make_my_nodeid nid mydb) False nc of
        (Inl e, nc) \<Rightarrow> (Inl e, nc)
      | (Inr name, nc) \<Rightarrow> (Inr (), nc\<lparr>my_node_name := Some name\<rparr>))"

definition pgactive_setup_cached_remote_name ::
  "u32 result \<Rightarrow> node_row list \<Rightarrow> pgactiveNodeId \<Rightarrow> nodecache \<Rightarrow> unit result \<times> nodecache" where
  "pgactive_setup_cached_remote_name nodes_relid rows remote_nodeid nc =
     (case pgactive_nodeid_name nodes_relid rows remote_nodeid False nc of
        (Inl e, nc) \<Rightarrow> (Inl e, nc)
      | (Inr name, nc) \<Rightarrow>
          (Inr (), nc\<lparr>remote_node_name := Some name,
                      remote_node_id := pgactive_nodeid_cpy (remote_node_id nc) remote_nodeid\<rparr>))"

definition pgactive_get_my_cached_node_name ::
  "bool \<Rightarrow> u32 result \<Rightarrow> node_row list \<Rightarrow> u64 \<Rightarrow> u32 \<Rightarrow> nodecache \<Rightarrow> string option result \<times> nodecache" where
  "pgactive_get_my_cached_node_name in_xact nodes_relid rows nid mydb nc =
     (if my_node_name nc \<noteq> None then (Inr (my_node_name nc), nc)
      else if in_xact then pgactive_local_node_name nodes_relid rows nid mydb nc
      else (Inr (Some ''(unknown)''), nc))"

definition pgactive_get_my_cached_remote_name ::
  "bool \<Rightarrow> u32 result \<Rightarrow> node_row list \<Rightarrow> pgactiveNodeId \<Rightarrow> nodecache \<Rightarrow> string result \<times> nodecache" where
  "pgactive_get_my_cached_remote_name in_xact nodes_relid rows remote_nodeid nc =
     (case remote_node_name nc of
        Some name \<Rightarrow>
          if pgactive_nodeid_eq (Some (remote_node_id nc)) (Some remote_nodeid) then (Inr name, nc)
          else if in_xact then pgactive_nodeid_name nodes_relid rows remote_nodeid True nc
          else (Inr ''(unknown)'', nc)
      | None \<Rightarrow>
          if in_xact then pgactive_nodeid_name nodes_relid rows remote_nodeid True nc
          else (Inr ''(unknown)'', nc))"

section \<open>Keys\<close>

lemma sysid_str_eq [simp]: "sysid_str node = dec_string (unat (sysid node))"
  using length_dec_u64 [of "sysid node"] by (simp add: sysid_str_def snprintf_def)

lemma row_of_inject: "row_of m r \<Longrightarrow> row_of n r \<Longrightarrow> m = n"
  by (cases m; cases n) (auto simp: row_of_def intro: unsigned_word_eqI)

section \<open>Sequence ids\<close>

lemma seq_ids_simps [simp]:
  "seq_ids [] = []"
  "seq_ids (r # rs) = (case node_seq_id r of None \<Rightarrow> [] | Some i \<Rightarrow> [i]) @ seq_ids rs"
  "seq_ids (rs @ rs') = seq_ids rs @ seq_ids rs'"
  by (simp_all add: seq_ids_def)

lemma live_nodes_append [simp]: "live_nodes (rs @ rs') = live_nodes rs @ live_nodes rs'"
  by (simp add: live_nodes_def)

lemma foldl_max_ge:
  fixes a :: int
  shows "a \<le> foldl max a xs \<and> (\<forall>x \<in> set xs. x \<le> foldl max a xs)"
  by (induction xs arbitrary: a) (auto simp: max_def split: if_splits dest: spec, force+)

lemma foldl_max_mem:
  fixes a :: int
  shows "foldl max a xs \<in> insert a (set xs)"
  by (induction xs arbitrary: a) (auto simp: max_def split: if_splits)

lemma sql_max_ge: "x \<in> set xs \<Longrightarrow> \<exists>m. sql_max xs = Some m \<and> x \<le> m"
  using foldl_max_ge by (auto simp: sql_max_def split: list.splits)

lemma sql_max_mem: "sql_max xs = Some m \<Longrightarrow> m \<in> set xs"
  using foldl_max_mem by (auto simp: sql_max_def split: list.splits)

lemma sql_max_None: "sql_max xs = None \<longleftrightarrow> xs = []"
  by (simp add: sql_max_def split: list.splits)

lemma seq_ids_live: "set (seq_ids (live_nodes rows)) \<subseteq> set (seq_ids rows)"
  by (auto simp: seq_ids_def live_nodes_def)

lemma next_node_seq_id_fresh: "next_node_seq_id rows \<notin> set (seq_ids (live_nodes rows))"
proof (cases "filter (\<lambda>x. x \<notin> set (seq_ids (live_nodes rows))) (generate_series 1 (sql_max (seq_ids rows)))")
  case Nil
  show ?thesis
  proof
    assume "next_node_seq_id rows \<in> set (seq_ids (live_nodes rows))"
    from sql_max_ge [OF this] Nil show False
      by (auto simp: next_node_seq_id_def)
  qed
next
  case (Cons x xs)
  then have "x \<notin> set (seq_ids (live_nodes rows))"
    by (auto simp: filter_eq_Cons_iff)
  with Cons show ?thesis by (simp add: next_node_seq_id_def)
qed

lemma all_taken_le:
  assumes "\<forall>y. 1 \<le> y \<and> y < x \<longrightarrow> y \<in> set ids"
  shows "x \<le> int (length ids) + 1"
proof -
  have "{1..<x} \<subseteq> set ids" using assms by auto
  then have "card {1..<x} \<le> card (set ids)" by (rule card_mono [rotated]) simp
  also have "\<dots> \<le> length ids" by (rule card_length)
  finally show ?thesis by simp
qed

lemma filter_upto_first:
  "filter P [a..b] = x # xs \<Longrightarrow> a \<le> y \<Longrightarrow> y < x \<Longrightarrow> \<not> P y"
proof (induction a b arbitrary: x rule: upto.induct)
  case (1 a b)
  show ?case
  proof (cases "a \<le> b")
    case True
    then have "filter P [a..b] = (if P a then a # filter P [a + 1..b] else filter P [a + 1..b])"
      by (simp add: upto_rec1)
    with 1 True show ?thesis by (cases "a = y") (auto split: if_splits)
  next
    case False
    with 1 show ?thesis by simp
  qed
qed

lemma next_node_seq_id_bound:
  "next_node_seq_id rows \<le> int (length (seq_ids (live_nodes rows))) + 1"
proof (cases "filter (\<lambda>x. x \<notin> set (seq_ids (live_nodes rows))) (generate_series 1 (sql_max (seq_ids rows)))")
  case Nil
  have *: "\<forall>y. 1 \<le> y \<and> y \<le> m \<longrightarrow> y \<in> set (seq_ids (live_nodes rows))"
    if "sql_max (seq_ids rows) = Some m" for m
    using Nil that by (auto simp: generate_series_def filter_empty_conv)
  show ?thesis
  proof (cases "sql_max (seq_ids (live_nodes rows))")
    case None
    with Nil show ?thesis by (simp add: next_node_seq_id_def)
  next
    case (Some l)
    then have "l \<in> set (seq_ids rows)" using sql_max_mem seq_ids_live by blast
    then obtain m where "sql_max (seq_ids rows) = Some m" "l \<le> m" using sql_max_ge by blast
    with * have "l + 1 \<le> int (length (seq_ids (live_nodes rows))) + 1"
      by (intro all_taken_le) auto
    with Nil Some show ?thesis by (simp add: next_node_seq_id_def)
  qed
next
  case (Cons x xs)
  have "\<forall>y. 1 \<le> y \<and> y < x \<longrightarrow> y \<in> set (seq_ids (live_nodes rows))"
    using Cons filter_upto_first [where a = 1 and x = x and xs = xs]
    by (auto simp: generate_series_def split: option.splits)
  from all_taken_le [OF this] Cons show ?thesis by (simp add: next_node_seq_id_def)
qed

lemma filter_singleton_split:
  assumes "length (filter P xs) = 1"
  obtains ys x zs where "xs = ys @ x # zs" "P x" "\<forall>y \<in> set ys \<union> set zs. \<not> P y"
proof -
  from assms obtain x where "filter P xs = [x]" by (auto simp: length_Suc_conv)
  then obtain ys zs where "xs = ys @ x # zs" "P x" "\<forall>y \<in> set ys. \<not> P y" "filter P zs = []"
    by (auto simp: filter_eq_Cons_iff)
  with that [of ys x zs] show thesis by (auto simp: filter_empty_conv)
qed

lemma set_remote_status_ready_ok:
  assumes "pgactive_nodes_set_remote_status_ready conn myid rows = Inr rows'"
  shows "length (filter (row_of myid) rows) = 1"
    and "rows' = map (\<lambda>r. if row_of myid r
                         then r\<lparr>node_status := Some (node_status_code pgactive_NODE_STATUS_READY),
                                node_seq_id := Some (next_node_seq_id rows)\<rparr>
                         else r) rows"
  using assms
  by (auto simp: pgactive_nodes_set_remote_status_ready_def bind_result_eq_Inr Let_def split: if_splits)

text \<open>
  C22: finishing a join hands out a sequence id that no live node has, at most one more than
  the number of ids in use, so the ids of the live nodes stay pairwise different.
\<close>

theorem ready_keeps_seq_ids_distinct:
  assumes distinct: "distinct (seq_ids (live_nodes rows))"
    and ready: "pgactive_nodes_set_remote_status_ready conn myid rows = Inr rows'"
  shows "distinct (seq_ids (live_nodes rows')) \<and>
    (\<exists>r \<in> set rows'. row_of myid r \<and> node_status r = Some (node_status_code pgactive_NODE_STATUS_READY) \<and>
       (\<exists>i. node_seq_id r = Some i \<and> i \<notin> set (seq_ids (live_nodes rows)) \<and>
          i \<le> int (length (seq_ids (live_nodes rows))) + 1))"
proof -
  let ?i = "next_node_seq_id rows"
  let ?f = "\<lambda>r. r\<lparr>node_status := Some (node_status_code pgactive_NODE_STATUS_READY), node_seq_id := Some ?i\<rparr>"
  from set_remote_status_ready_ok [OF ready] obtain ys r zs
    where rows: "rows = ys @ r # zs" and r: "row_of myid r" "\<forall>y \<in> set ys \<union> set zs. \<not> row_of myid y"
      and rows': "rows' = map (\<lambda>r. if row_of myid r then ?f r else r) rows"
    by (metis filter_singleton_split)
  from rows rows' r have eq: "rows' = ys @ ?f r # zs" by (simp add: map_idI)
  have "live_nodes (?f r # zs) = ?f r # live_nodes zs"
    by (simp add: live_nodes_def is_killed_def)
  then have ids: "seq_ids (live_nodes rows') = seq_ids (live_nodes ys) @ ?i # seq_ids (live_nodes zs)"
    by (simp add: eq)
  have "live_nodes (r # zs) = live_nodes [r] @ live_nodes zs" by (simp add: live_nodes_def)
  then have old: "seq_ids (live_nodes rows)
    = seq_ids (live_nodes ys) @ seq_ids (live_nodes [r]) @ seq_ids (live_nodes zs)"
    by (simp add: rows)
  have "row_of myid (?f r)" using r by (simp add: row_of_def)
  with ids old distinct next_node_seq_id_fresh [of rows] next_node_seq_id_bound [of rows] show ?thesis
    by (auto simp: eq)
qed

definition sample_node :: "u64 \<Rightarrow> char \<Rightarrow> int option \<Rightarrow> node_row" where
  "sample_node s st i = \<lparr>node_sysid = dec_string (unat s), node_timeline = 0, node_dboid = 5,
     node_status = Some st, node_name = Some ''n'', node_dsn = None, node_init_from_dsn = None,
     node_read_only = None, node_seq_id = i\<rparr>"

definition sample_conn :: join_conn where
  "sample_conn = \<lparr>begin_ok = True, ddl_lock_remote = Inr (), commit_ok = True\<rparr>"

theorem ready_keeps_seq_ids_distinct_witness:
  "let rows = [sample_node 1 CHR ''r'' (Some 1), sample_node 2 CHR ''k'' (Some 2),
               sample_node 3 CHR ''r'' (Some 3), sample_node 4 CHR ''c'' None];
       myid = \<lparr>sysid = 4, timeline = 0, dboid = 5\<rparr>;
       rows' = [sample_node 1 CHR ''r'' (Some 1), sample_node 2 CHR ''k'' (Some 2),
               sample_node 3 CHR ''r'' (Some 3), sample_node 4 CHR ''r'' (Some 2)]
   in distinct (seq_ids (live_nodes rows)) \<and>
      pgactive_nodes_set_remote_status_ready sample_conn myid rows = Inr rows' \<and>
      distinct (seq_ids (live_nodes rows'))"
proof -
  let ?rows = "[sample_node 1 CHR ''r'' (Some 1), sample_node 2 CHR ''k'' (Some 2),
               sample_node 3 CHR ''r'' (Some 3), sample_node 4 CHR ''c'' None]"
  let ?rows' = "[sample_node 1 CHR ''r'' (Some 1), sample_node 2 CHR ''k'' (Some 2),
               sample_node 3 CHR ''r'' (Some 3), sample_node 4 CHR ''r'' (Some 2)]"
  have d: "distinct (seq_ids (live_nodes ?rows))" by code_simp
  have r: "pgactive_nodes_set_remote_status_ready sample_conn \<lparr>sysid = 4, timeline = 0, dboid = 5\<rparr> ?rows = Inr ?rows'"
    by code_simp
  from ready_keeps_seq_ids_distinct [OF d r] d r show ?thesis by (simp add: Let_def)
qed

section \<open>Coherence of the node cache\<close>

text \<open>
  A session with the server: lookups against the current table, and committed changes of the
  table, of which the server tells the session if it registered a callback.
\<close>

inductive session_step :: "u32 \<Rightarrow> node_row list \<times> nodecache \<Rightarrow> node_row list \<times> nodecache \<Rightarrow> bool"
  for relid :: u32 where
  lookup: "session_step relid (rows, nc)
     (rows, snd (pgactive_nodecache_lookup (Inr relid) rows node missing_ok nc))"
| change: "session_step relid (rows, nc)
     (rows', if callback_registered nc then pgactive_nodecache_invalidate_callback relid nc else nc)"
| other: "session_step relid (rows, nc)
     (rows, if callback_registered nc then pgactive_nodecache_invalidate_callback relid' nc else nc)"

inductive_cases session_stepE: "session_step relid s s'"

text \<open>Every valid entry is what the table says, and a session with a table watches it.\<close>

definition nodecache_inv :: "u32 \<Rightarrow> node_row list \<times> nodecache \<Rightarrow> bool" where
  "nodecache_inv relid = (\<lambda>(rows, nc).
     (pgactiveNodeCacheHash nc = None \<or> callback_registered nc \<and> pgactiveNodesRelid nc = relid) \<and>
     (\<forall>h n e. pgactiveNodeCacheHash nc = Some h \<longrightarrow> h n = Some e \<longrightarrow> ni_valid e \<longrightarrow>
        pgactive_nodes_get_local_info rows n = Inr (Some e)))"

lemma local_info_fields:
  "pgactive_nodes_get_local_info rows n = Inr (Some e) \<Longrightarrow> ni_id e = n \<and> ni_valid e"
  by (auto simp: pgactive_nodes_get_local_info_def split: list.splits option.splits)

lemma loaded_entry:
  assumes "pgactive_nodes_get_local_info rows n = Inr (Some e)"
  shows "(zero_entry n)\<lparr>ni_status := ni_status e, ni_local_dsn := ni_local_dsn e,
      ni_init_from_dsn := ni_init_from_dsn e, ni_read_only := ni_read_only e, ni_name := ni_name e,
      ni_seq_id := ni_seq_id e, ni_valid := True\<rparr> = e"
  using local_info_fields [OF assms] by (cases e) (simp add: zero_entry_def)

lemma nodecache_load_inv:
  assumes "nodecache_inv relid (rows, nc)" "pgactiveNodeCacheHash nc = Some h"
  shows "nodecache_inv relid (rows, snd (nodecache_load rows n mok h nc))"
  using assms
  by (auto simp: nodecache_inv_def nodecache_load_def Let_def zero_entry_def
      loaded_entry [unfolded zero_entry_def, simplified]
      split: sum.splits option.splits if_splits)

lemma lookup_cases:
  assumes "nodecache_inv relid (rows, nc)"
  obtains (hit) h e where "pgactiveNodeCacheHash nc = Some h" "h n = Some e" "ni_valid e"
      "pgactive_nodecache_lookup (Inr relid) rows n mok nc = (Inr (Some e), nc)"
  | (load) h nc' where "pgactiveNodeCacheHash nc' = Some h" "nodecache_inv relid (rows, nc')"
      "pgactive_nodecache_lookup (Inr relid) rows n mok nc = nodecache_load rows n mok h nc'"
proof (cases "pgactiveNodeCacheHash nc")
  case None
  let ?nc = "nc\<lparr>pgactiveNodeCacheHash := Some Map.empty, pgactiveNodesRelid := relid, callback_registered := True\<rparr>"
  from None have "pgactive_nodecache_lookup (Inr relid) rows n mok nc = nodecache_load rows n mok Map.empty ?nc"
    by (simp add: pgactive_nodecache_lookup_def pgactive_nodecache_initialize_def Let_def)
  with load [of ?nc Map.empty] show thesis by (simp add: nodecache_inv_def)
next
  case (Some h)
  show thesis
  proof (cases "\<exists>e. h n = Some e \<and> ni_valid e")
    case True
    with Some hit show thesis by (auto simp: pgactive_nodecache_lookup_def)
  next
    case False
    with Some have "pgactive_nodecache_lookup (Inr relid) rows n mok nc = nodecache_load rows n mok h nc"
      by (auto simp: pgactive_nodecache_lookup_def split: option.splits)
    with Some assms load show thesis by blast
  qed
qed

lemma session_step_inv:
  assumes "session_step relid s s'" "nodecache_inv relid s"
  shows "nodecache_inv relid s'"
  using assms
proof (cases rule: session_step.cases)
  case (lookup rows nc node mok)
  with assms have inv: "nodecache_inv relid (rows, nc)" by simp
  then show ?thesis
    unfolding lookup(2)
    by (cases rule: lookup_cases [of relid rows nc node mok]) (use inv in \<open>auto intro: nodecache_load_inv\<close>)
next
  case (change rows nc rows')
  with assms show ?thesis
    by (auto simp: nodecache_inv_def pgactive_nodecache_invalidate_callback_def split: option.splits)
next
  case (other rows nc relid')
  with assms show ?thesis
    by (auto simp: nodecache_inv_def pgactive_nodecache_invalidate_callback_def split: option.splits)
qed

lemma lookup_result:
  assumes "nodecache_inv relid (rows, nc)"
  shows "fst (pgactive_nodecache_lookup (Inr relid) rows n mok nc) =
    (case pgactive_nodes_get_local_info rows n of
       Inr None \<Rightarrow> if mok then Inr None else Inl (Error ''could not find node'')
     | r \<Rightarrow> r)"
  using assms
proof (cases rule: lookup_cases [of relid rows nc n mok])
  case (hit h e)
  with assms have "pgactive_nodes_get_local_info rows n = Inr (Some e)"
    by (auto simp: nodecache_inv_def)
  with hit show ?thesis by simp
next
  case (load h nc')
  then show ?thesis
    by (auto simp: nodecache_load_def Let_def loaded_entry split: sum.splits option.splits)
qed

interpretation node_cache: caching_system "session_step relid" "nodecache_inv relid" "\<lambda>_. True"
  "\<lambda>(rows, nc) (n, mok). fst (pgactive_nodecache_lookup (Inr relid) rows n mok nc)"
  "\<lambda>(rows, nc) (n, mok). (case pgactive_nodes_get_local_info rows n of
     Inr None \<Rightarrow> if mok then Inr None else Inl (Error ''could not find node'') | r \<Rightarrow> r)"
  for relid :: u32
proof unfold_locales
  show "session_step relid s s' \<Longrightarrow> nodecache_inv relid s \<Longrightarrow> nodecache_inv relid s'" for s s'
    by (rule session_step_inv)
qed (auto simp: lookup_result)


definition fresh_nodecache :: nodecache where
  "fresh_nodecache = \<lparr>pgactiveNodeCacheHash = None, pgactiveNodesRelid = 0, callback_registered = False,
     my_node_name = None, remote_node_id = \<lparr>sysid = 0, timeline = 0, dboid = 0\<rparr>, remote_node_name = None\<rparr>"

lemma fresh_nodecache_inv: "nodecache_inv relid (rows, fresh_nodecache)"
  by (simp add: nodecache_inv_def fresh_nodecache_def)

text \<open>
  C21: the node cache is transparent: after any sequence of lookups and of table changes of
  which the server notified the session, a lookup answers exactly what a scan of the table
  answers at that moment, including the missing-node error.
\<close>

theorem nodecache_transparent:
  assumes "(session_step relid)\<^sup>*\<^sup>* (rows0, fresh_nodecache) (rows, nc)"
  shows "fst (pgactive_nodecache_lookup (Inr relid) rows node missing_ok nc) =
    (case pgactive_nodes_get_local_info rows node of
       Inr None \<Rightarrow> if missing_ok then Inr None else Inl (Error ''could not find node'')
     | r \<Rightarrow> r)"
  using node_cache.transparent [OF assms fresh_nodecache_inv, of "(node, missing_ok)"] by simp

theorem nodecache_transparent_witness:
  "let nc = snd (pgactive_nodecache_lookup (Inr 99) [] \<lparr>sysid = 1, timeline = 0, dboid = 5\<rparr> True fresh_nodecache)
   in fst (pgactive_nodecache_lookup (Inr 99) [] \<lparr>sysid = 1, timeline = 0, dboid = 5\<rparr> False nc)
      = Inl (Error ''could not find node'')"
proof -
  let ?n = "\<lparr>sysid = 1, timeline = 0, dboid = 5\<rparr>"
  have "(session_step 99)\<^sup>*\<^sup>* ([], fresh_nodecache)
      ([], snd (pgactive_nodecache_lookup (Inr 99) [] ?n True fresh_nodecache))"
    by (rule r_into_rtranclp) (rule session_step.lookup)
  from nodecache_transparent [OF this, of ?n False] show ?thesis
    by (simp add: Let_def pgactive_nodes_get_local_info_def)
qed

text \<open>
  When the first lookup of a session fails because \<open>pgactive_nodes\<close> does not exist yet, the
  hash table has been created but the callback has not been registered; the session then
  serves the entry it loaded first, whatever the table says later.
\<close>

theorem nodecache_stale_after_failed_init:
  "let n = \<lparr>sysid = 1, timeline = 0, dboid = 5\<rparr>;
       nc1 = snd (pgactive_nodecache_lookup (Inl (Error ''cache lookup failed'')) [] n True fresh_nodecache);
       rows = [sample_node 1 CHR ''i'' None];
       nc2 = snd (pgactive_nodecache_lookup (Inr 99) rows n True nc1);
       rows' = [sample_node 1 CHR ''r'' (Some 1)];
       nc3 = (if callback_registered nc2 then pgactive_nodecache_invalidate_callback 99 nc2 else nc2)
   in map_sum id (map_option ni_status) (fst (pgactive_nodecache_lookup (Inr 99) rows' n True nc3)) = Inr (Some CHR ''i'') \<and>
      map_sum id (map_option ni_status) (pgactive_nodes_get_local_info rows' n) = Inr (Some CHR ''r'')"
  by code_simp

section \<open>Connection configurations of live nodes\<close>

lemma distinct_on_set: "set (distinct_on key xs) \<subseteq> set xs"
  by (induction key xs rule: distinct_on.induct) auto

lemma distinct_on_key: "x \<in> set xs \<Longrightarrow> \<exists>y \<in> set (distinct_on key xs). key y = key x"
proof (induction key xs rule: distinct_on.induct)
  case (2 key y ys)
  then show ?case by (cases "key x = key y") auto
qed simp

lemma map_result_ok:
  "(\<forall>x \<in> set xs. \<exists>y. f x = Inr y) \<Longrightarrow> \<exists>ys. map_result f xs = Inr ys"
  by (induction xs) auto

lemma map_result_set: "map_result f xs = Inr ys \<Longrightarrow> set ys = {y. \<exists>x \<in> set xs. f x = Inr y}"
proof (induction xs arbitrary: ys)
  case (Cons x xs)
  then show ?case by (fastforce simp: bind_result_eq_Inr)
qed simp

lemma map_result_fail: "x \<in> set xs \<Longrightarrow> f x = Inl e \<Longrightarrow> \<exists>e'. map_result f xs = Inl e'"
proof (induction xs)
  case (Cons y ys)
  then show ?case by (cases "f y"; cases "map_result f ys") auto
qed simp

lemma connection_rows_mem:
  "(c, n) \<in> set (connection_rows conns rows) \<longleftrightarrow> c \<in> set conns \<and> n \<in> set rows \<and>
     conn_sysid c = node_sysid n \<and> conn_timeline c = node_timeline n \<and> conn_dboid c = node_dboid n \<and>
     node_status n \<noteq> None \<and> \<not> is_killed n"
  by (auto simp: connection_rows_def is_killed_def)

definition conn_of :: "pgactiveNodeId \<Rightarrow> conn_row \<Rightarrow> bool" where
  "conn_of node c \<longleftrightarrow> conn_sysid c = sysid_str node \<and> conn_timeline c = timeline node \<and> conn_dboid c = dboid node"

lemma sscanf_sysid [codec_simps]:
  "sscanf [ConvU 64] (dec_string (unat (s :: u64))) = [VU (unat s)]"
  using sscanf_ConvU [of "unat s" 64 "[]" "[]"] by simp

lemma config_of_conn:
  assumes "conn_of node c" "conn_replication_sets c = Some sets"
  shows "\<exists>cfg. connection_config_of q (c, n) = Inr cfg \<and> cfg_remote_node cfg = node \<and> cfg_dsn cfg = conn_dsn c"
  using assms by (cases node) (simp add: connection_config_of_def conn_of_def sscanf_sysid del: sscanf.simps)

lemma find_ex: "(\<exists>x. find P xs = Some x \<and> P x) \<longleftrightarrow> (\<exists>x \<in> set xs. P x)"
  by (induction xs) auto

lemma conn_of_inject: "conn_of m c \<Longrightarrow> conn_of n c \<Longrightarrow> m = n"
  by (cases m; cases n) (auto simp: conn_of_def intro: unsigned_word_eqI)

lemma connection_rows_distinct:
  assumes "\<And>xs. set (order_by xs) = set xs"
  shows "(\<exists>x \<in> set (distinct_on conn_key (order_by (connection_rows conns rows))). conn_of node (fst x))
    \<longleftrightarrow> (\<exists>c \<in> set conns. \<exists>r \<in> set rows. conn_of node c \<and> row_of node r \<and> node_status r \<noteq> None \<and> \<not> is_killed r)"
    (is "?L \<longleftrightarrow> ?R")
proof
  assume ?L
  then obtain x where x': "x \<in> set (distinct_on conn_key (order_by (connection_rows conns rows)))"
      and cx: "conn_of node (fst x)" by blast
  from subsetD [OF distinct_on_set x'] have x: "x \<in> set (connection_rows conns rows)" by (simp only: assms)
  obtain c n where "x = (c, n)" by (cases x)
  with x cx have "c \<in> set conns \<and> n \<in> set rows \<and> conn_of node c \<and> row_of node n \<and> node_status n \<noteq> None \<and> \<not> is_killed n"
    by (simp add: connection_rows_mem conn_of_def row_of_def)
  then show ?R by blast
next
  assume ?R
  then obtain c r where "c \<in> set conns" "r \<in> set rows" "conn_of node c" "row_of node r"
      "node_status r \<noteq> None" "\<not> is_killed r" by blast
  then have c: "(c, r) \<in> set (connection_rows conns rows)" "conn_of node c"
    by (simp_all add: connection_rows_mem conn_of_def row_of_def)
  with distinct_on_key [of "(c, r)" "order_by (connection_rows conns rows)" conn_key]
  obtain y where "y \<in> set (distinct_on conn_key (order_by (connection_rows conns rows)))"
      "conn_key y = conn_key (c, r)" by (auto simp: assms)
  moreover from this(2) c(2) have "conn_of node (fst y)" by (simp add: conn_of_def conn_key_def)
  ultimately show ?L by blast
qed

text \<open>
  A node has a connection configuration exactly when it has a connection row and a node
  row that is not killed, and the configuration found is that node's own; killed nodes and
  nodes without a node row are left out.
\<close>

theorem connection_config_found_iff:
  assumes spi: "spi_ok env"
    and order_by: "\<And>xs. set (order_by xs) = set xs"
    and stored: "\<forall>c \<in> set conns. (\<exists>m. conn_of m c) \<and> conn_replication_sets c \<noteq> None"
  shows "(\<exists>cfg. pgactive_get_connection_config q order_by env conns rows node False = Inr (Some cfg) \<and>
            cfg_remote_node cfg = node)
    \<longleftrightarrow> (\<exists>c \<in> set conns. \<exists>r \<in> set rows. conn_of node c \<and> row_of node r \<and>
          node_status r \<noteq> None \<and> \<not> is_killed r)"
proof -
  let ?rows = "distinct_on conn_key (order_by (connection_rows conns rows))"
  have cfg: "\<exists>y. connection_config_of q x = Inr y \<and> (cfg_remote_node y = node \<longleftrightarrow> conn_of node (fst x))"
    if x: "x \<in> set ?rows" for x
  proof -
    from x distinct_on_set have "x \<in> set (order_by (connection_rows conns rows))" by (rule subsetD [rotated])
    then have "x \<in> set (connection_rows conns rows)" by (simp only: order_by)
    then have "fst x \<in> set conns" by (auto simp: connection_rows_def)
    with stored obtain m sets where m: "conn_of m (fst x)" "conn_replication_sets (fst x) = Some sets" by blast
    from config_of_conn [OF this, of q "snd x"] conn_of_inject [OF m(1), of node] m(1) show ?thesis by auto
  qed
  then have "\<forall>x \<in> set ?rows. \<exists>y. connection_config_of q x = Inr y" by blast
  from map_result_ok [OF this] obtain cfgs where cfgs: "map_result (connection_config_of q) ?rows = Inr cfgs" ..
  have "pgactive_read_connection_configs q order_by env conns rows = Inr (rev cfgs)"
    using spi cfgs by (simp add: pgactive_read_connection_configs_def)
  then have "(\<exists>cfg. pgactive_get_connection_config q order_by env conns rows node False = Inr (Some cfg) \<and>
            cfg_remote_node cfg = node) \<longleftrightarrow> (\<exists>cfg \<in> set cfgs. cfg_remote_node cfg = node)"
    using find_ex [of "\<lambda>cfg. cfg_remote_node cfg = node" "rev cfgs"]
    by (auto simp add: pgactive_get_connection_config_def split: option.split)
  also have "\<dots> \<longleftrightarrow> (\<exists>x \<in> set ?rows. \<exists>y. connection_config_of q x = Inr y \<and> cfg_remote_node y = node)"
    unfolding map_result_set [OF cfgs] by blast
  also have "\<dots> \<longleftrightarrow> (\<exists>x \<in> set ?rows. conn_of node (fst x))"
  proof (intro bex_cong refl)
    fix x assume "x \<in> set ?rows"
    from cfg [OF this] show "(\<exists>y. connection_config_of q x = Inr y \<and> cfg_remote_node y = node) \<longleftrightarrow> conn_of node (fst x)"
      by auto
  qed
  finally show ?thesis by (simp only: connection_rows_distinct [OF order_by])
qed

definition sample_conn_row :: "u64 \<Rightarrow> string list option \<Rightarrow> conn_row" where
  "sample_conn_row s sets = \<lparr>conn_sysid = dec_string (unat s), conn_timeline = 0, conn_dboid = 5,
     conn_dsn = ''dbname=a'', conn_apply_delay = None, conn_replication_sets = sets\<rparr>"

theorem connection_config_found_iff_witness:
  "\<exists>cfg. pgactive_get_connection_config id id \<lparr>schema_present = True, spi_ok = True\<rparr>
      [sample_conn_row 1 (Some [''default'']), sample_conn_row 2 (Some [])]
      [sample_node 1 CHR ''r'' (Some 1), sample_node 2 CHR ''k'' (Some 2)]
      \<lparr>sysid = 1, timeline = 0, dboid = 5\<rparr> False = Inr (Some cfg)"
proof -
  let ?conns = "[sample_conn_row 1 (Some [''default'']), sample_conn_row 2 (Some [])]"
  have "conn_of \<lparr>sysid = s, timeline = 0, dboid = 5\<rparr> (sample_conn_row s sets)" for s sets
    by (simp add: conn_of_def sample_conn_row_def)
  moreover have "conn_replication_sets (sample_conn_row s (Some sets)) \<noteq> None" for s sets
    by (simp add: sample_conn_row_def)
  ultimately have "\<forall>c \<in> set ?conns. (\<exists>m. conn_of m c) \<and> conn_replication_sets c \<noteq> None"
    by (simp only: list.set ball_simps) blast
  from connection_config_found_iff [of "\<lparr>schema_present = True, spi_ok = True\<rparr>" id, OF _ _ this,
      of id "[sample_node 1 CHR ''r'' (Some 1), sample_node 2 CHR ''k'' (Some 2)]"
        "\<lparr>sysid = 1, timeline = 0, dboid = 5\<rparr>"]
  show ?thesis by (auto simp: sample_conn_row_def sample_node_def conn_of_def row_of_def is_killed_def)
qed

text \<open>
  A live node whose connection row has a null list of replication sets makes every read of
  the connection configurations fail: the array is dereferenced before the null flag is tested.
\<close>

theorem null_replication_sets_fail:
  assumes spi: "spi_ok env"
    and order_by: "\<And>xs. set (order_by xs) = set xs"
    and key: "\<forall>c' \<in> set conns. conn_of node c' \<longrightarrow> c' = c"
    and c: "c \<in> set conns" "conn_of node c" "conn_replication_sets c = None"
    and r: "r \<in> set rows" "row_of node r" "node_status r \<noteq> None" "\<not> is_killed r"
  shows "\<exists>e. pgactive_read_connection_configs q order_by env conns rows = Inl e"
proof -
  let ?rows = "distinct_on conn_key (order_by (connection_rows conns rows))"
  from c r connection_rows_distinct [where node = node and conns = conns and rows = rows, OF order_by]
  obtain x where x: "x \<in> set ?rows" "conn_of node (fst x)" by blast
  from subsetD [OF distinct_on_set x(1)] have "x \<in> set (connection_rows conns rows)"
    by (simp only: order_by)
  then have "fst x \<in> set conns" by (auto simp: connection_rows_def)
  with key x(2) have "fst x = c" by blast
  with c have "\<exists>e. connection_config_of q x = Inl e"
    by (cases x) (auto simp: connection_config_of_def conn_of_def sscanf_sysid simp del: sscanf.simps)
  then obtain e where "map_result (connection_config_of q) ?rows = Inl e"
    using map_result_fail [OF x(1)] by blast
  with spi show ?thesis by (simp add: pgactive_read_connection_configs_def)
qed

theorem null_replication_sets_fail_witness:
  "\<exists>e. pgactive_read_connection_configs id id \<lparr>schema_present = True, spi_ok = True\<rparr>
      [sample_conn_row 1 None] [sample_node 1 CHR ''r'' (Some 1)] = Inl e"
  by (rule null_replication_sets_fail [where node = "\<lparr>sysid = 1, timeline = 0, dboid = 5\<rparr>"
      and c = "sample_conn_row 1 None" and r = "sample_node 1 CHR ''r'' (Some 1)"])
    (simp_all add: sample_conn_row_def sample_node_def conn_of_def row_of_def is_killed_def)

end
