(* ===== verification/Global_Seq.thy ===== *)
theory Global_Seq
  imports Node_Catalog "HOL-Library.Signed_Division"
begin

text \<open>
  Global sequences, \<^verbatim>\<open>src/pgactive_seq.c\<close>: an identifier is composed of a millisecond timestamp
  (40 bits), the node's sequence id (10 bits) and the local sequence (14 bits).  C's division
  and remainder truncate towards zero, which is \<open>sdiv\<close> and \<open>smod\<close>; the signed 64-bit
  arithmetic before the range checks stays in range, the shifts are on the 64-bit pattern.
\<close>

section \<open>Definitions\<close>

definition TIMESTAMP_BITS :: nat where
  "TIMESTAMP_BITS = 40"

definition SEQUENCE_BITS :: nat where
  "SEQUENCE_BITS = 14"

definition NODEID_BITS :: nat where
  "NODEID_BITS = 10"

definition MAX_SEQ_ID :: int where
  "MAX_SEQ_ID = 2 ^ SEQUENCE_BITS - 1"

definition MAX_TIMESTAMP :: int where
  "MAX_TIMESTAMP = 2 ^ TIMESTAMP_BITS - 1"

definition MAX_NODE_ID :: int where
  "MAX_NODE_ID = 2 ^ NODEID_BITS - 1"

definition seq_ts_epoch :: int where
  "seq_ts_epoch = 529111339634"

text \<open>The static variables of the file and the node cache of the same backend.\<close>

record seq_backend =
  seq_nodeid :: int
  seq_nodeid_dboid :: u32
  seq_nodecache :: nodecache

definition global_seq_read_nodeid ::
  "u32 result \<Rightarrow> node_row list \<Rightarrow> u64 \<Rightarrow> u32 \<Rightarrow> nodecache \<Rightarrow> int result \<times> nodecache" where
  "global_seq_read_nodeid nodes_relid rows nid mydb nc =
     (case pgactive_local_node_seq_id nodes_relid rows nid mydb nc of
        (Inl e, nc) \<Rightarrow> (Inl e, nc)
      | (Inr seq_id, nc) \<Rightarrow>
          (if seq_id = - 1 then Inl (Error ''node sequence ID not allocated'')
           else if seq_id < 0 \<or> seq_id > MAX_NODE_ID then Inl (Error ''node sequence ID out of range'')
           else Inr seq_id, nc))"

definition global_seq_get_nodeid ::
  "u32 result \<Rightarrow> node_row list \<Rightarrow> u64 \<Rightarrow> u32 \<Rightarrow> seq_backend \<Rightarrow> int result \<times> seq_backend" where
  "global_seq_get_nodeid nodes_relid rows nid mydb b =
     (if seq_nodeid_dboid b \<noteq> mydb
      then case global_seq_read_nodeid nodes_relid rows nid mydb (seq_nodecache b) of
             (Inl e, nc) \<Rightarrow> (Inl e, b\<lparr>seq_nodecache := nc\<rparr>)
           | (Inr i, nc) \<Rightarrow> (Inr i, b\<lparr>seq_nodecache := nc, seq_nodeid := i, seq_nodeid_dboid := mydb\<rparr>)
      else (Inr (seq_nodeid b), b))"

text \<open>
  \<open>now\<close> is \<open>GetCurrentTimestamp()\<close>, \<open>override\<close> the optional second argument, \<open>nextval_oid\<close> the
  server's sequence on its own state.  The sequence has advanced when a range check fails.
\<close>

definition pgactive_snowflake_id_nextval_oid ::
  "('s \<Rightarrow> int result \<times> 's) \<Rightarrow> u32 result \<Rightarrow> node_row list \<Rightarrow> u64 \<Rightarrow> u32 \<Rightarrow> int \<Rightarrow> int option \<Rightarrow>
   seq_backend \<Rightarrow> 's \<Rightarrow> u64 result \<times> seq_backend \<times> 's" where
  "pgactive_snowflake_id_nextval_oid nextval_oid nodes_relid rows nid mydb now override b s =
     (let current_ts = (case override of None \<Rightarrow> now | Some t \<Rightarrow> t);
          timestamp = current_ts sdiv 1000 - seq_ts_epoch
      in case global_seq_get_nodeid nodes_relid rows nid mydb b of
           (Inl e, b) \<Rightarrow> (Inl e, b, s)
         | (Inr nodeid, b) \<Rightarrow>
             (case nextval_oid s of
                (Inl e, s) \<Rightarrow> (Inl e, b, s)
              | (Inr sequenced, s) \<Rightarrow>
                  let sequence = sequenced smod MAX_SEQ_ID
                  in (if timestamp < 0 \<or> timestamp > MAX_TIMESTAMP
                      then Inl (Error ''cannot generate sequence, timestamp out of range'')
                      else if nodeid < 0 \<or> nodeid > MAX_NODE_ID
                      then Inl (Error ''nodeid must be in range'')
                      else if sequence < 0 then Inl (Error ''sequence produced negative value'')
                      else Inr (push_bit (64 - TIMESTAMP_BITS) (word_of_int timestamp)
                                OR push_bit (64 - TIMESTAMP_BITS - NODEID_BITS) (word_of_int nodeid)
                                OR word_of_int sequence), b, s)))"

lemmas seq_consts = TIMESTAMP_BITS_def SEQUENCE_BITS_def NODEID_BITS_def MAX_SEQ_ID_def
  MAX_TIMESTAMP_def MAX_NODE_ID_def

section \<open>The fields of an identifier\<close>

definition snowflake :: "int \<Rightarrow> int \<Rightarrow> int \<Rightarrow> u64" where
  "snowflake t n q = push_bit 24 (word_of_int t) OR push_bit 14 (word_of_int n) OR word_of_int q"

definition snowflake_ok :: "int \<Rightarrow> int \<Rightarrow> int \<Rightarrow> bool" where
  "snowflake_ok t n q \<longleftrightarrow> 0 \<le> t \<and> t < 2 ^ 40 \<and> 0 \<le> n \<and> n < 2 ^ 10 \<and> 0 \<le> q \<and> q < 2 ^ 14 - 1"

lemma bit_word_of_int_small:
  "0 \<le> k \<Longrightarrow> k < 2 ^ n \<Longrightarrow> n \<le> m \<Longrightarrow> \<not> bit (word_of_int k :: u64) m"
  by (metis bit_take_bit_iff bit_word_of_int_iff not_less take_bit_int_eq_self)

lemma snowflake_fields:
  assumes "snowflake_ok t n q"
  shows "drop_bit 24 (snowflake t n q) = (word_of_int t :: u64)"
    and "take_bit 10 (drop_bit 14 (snowflake t n q)) = (word_of_int n :: u64)"
    and "take_bit 14 (snowflake t n q) = (word_of_int q :: u64)"
proof -
  have q: "\<not> bit (word_of_int q :: u64) m" if "14 \<le> m" for m
    using assms that by (intro bit_word_of_int_small [of _ 14]) (auto simp: snowflake_ok_def)
  have n: "\<not> bit (word_of_int n :: u64) m" if "10 \<le> m" for m
    using assms that by (intro bit_word_of_int_small [of _ 10]) (auto simp: snowflake_ok_def)
  have t: "\<not> bit (word_of_int t :: u64) m" if "40 \<le> m" for m
    using assms that by (intro bit_word_of_int_small [of _ 40]) (auto simp: snowflake_ok_def)
  show "drop_bit 24 (snowflake t n q) = (word_of_int t :: u64)"
    using q n t by (auto simp: bit_eq_iff bit_simps snowflake_def simp del: bit_word_of_int_iff)
  show "take_bit 10 (drop_bit 14 (snowflake t n q)) = (word_of_int n :: u64)"
    using q n t by (auto simp: bit_eq_iff bit_simps snowflake_def simp del: bit_word_of_int_iff)
  show "take_bit 14 (snowflake t n q) = (word_of_int q :: u64)"
    using q n t by (auto simp: bit_eq_iff bit_simps snowflake_def simp del: bit_word_of_int_iff)
qed

lemma snowflake_value:
  assumes "snowflake_ok t n q"
  shows "uint (snowflake t n q) = t * 2 ^ 24 + n * 2 ^ 14 + q"
proof -
  let ?u = "unat (snowflake t n q)"
  have small: "unat (word_of_int k :: u64) = nat k" if "0 \<le> k" "k < 2 ^ 40" for k
    using that by (simp add: unsigned_of_int take_bit_int_eq_self)
  have "unat (drop_bit 24 (snowflake t n q)) = ?u div 2 ^ 24"
    "unat (take_bit 10 (drop_bit 14 (snowflake t n q))) = (?u div 2 ^ 14) mod 2 ^ 10"
    "unat (take_bit 14 (snowflake t n q)) = ?u mod 2 ^ 14"
    by (simp_all only: unat_drop_bit_eq unsigned_take_bit_eq drop_bit_eq_div [where 'a = nat]
        take_bit_eq_mod [where 'a = nat])
  with snowflake_fields [OF assms] small [of t] small [of n] small [of q] assms
  have f: "?u div 16777216 = nat t" "(?u div 16384) mod 1024 = nat n" "?u mod 16384 = nat q"
    by (simp_all add: snowflake_ok_def)
  have "?u div 16384 div 1024 = ?u div 16777216" by (simp add: div_mult2_eq [symmetric])
  with div_mult_mod_eq [of ?u 16384] div_mult_mod_eq [of "?u div 16384" 1024]
  have "?u = (?u div 16777216) * 16777216 + ((?u div 16384) mod 1024) * 16384 + ?u mod 16384" by linarith
  with f have "?u = nat t * 16777216 + nat n * 16384 + nat q" by simp
  then have "int ?u = t * 16777216 + n * 16384 + q" using assms by (simp add: snowflake_ok_def)
  then show ?thesis by simp
qed

lemma digits_unique:
  fixes a a' r r' m :: int
  assumes "a * m + r = a' * m + r'" "0 \<le> r" "r < m" "0 \<le> r'" "r' < m"
  shows "a = a'"
proof -
  have "(a * m + r) div m = a" using assms(2,3) by simp
  moreover have "(a' * m + r') div m = a'" using assms(4,5) by simp
  ultimately show ?thesis using assms(1) by simp
qed

lemma snowflake_inject:
  assumes "snowflake_ok t n q" "snowflake_ok t' n' q'" "snowflake t n q = snowflake t' n' q'"
  shows "t = t' \<and> n = n' \<and> q = q'"
proof -
  have eq: "t * 16777216 + (n * 16384 + q) = t' * 16777216 + (n' * 16384 + q')"
    using snowflake_value [OF assms(1)] snowflake_value [OF assms(2)] assms(3) by simp
  have b: "0 \<le> n * 16384 + q" "n * 16384 + q < 16777216" "0 \<le> n' * 16384 + q'" "n' * 16384 + q' < 16777216"
    "0 \<le> q" "q < 16384" "0 \<le> q'" "q' < 16384"
    using assms(1,2) by (auto simp: snowflake_ok_def)
  from eq b(1-4) have t: "t = t'" by (rule digits_unique)
  with eq have "n * 16384 + q = n' * 16384 + q'" by simp
  from digits_unique [OF this b(5-8)] this t show ?thesis by simp
qed

lemma snowflake_signed:
  assumes "snowflake_ok t n q"
  shows "sint (snowflake t n q) =
    (if t < 2 ^ 39 then t * 2 ^ 24 + n * 2 ^ 14 + q else t * 2 ^ 24 + n * 2 ^ 14 + q - 2 ^ 64)"
proof -
  have "sint (snowflake t n q) = signed_take_bit 63 (t * 2 ^ 24 + n * 2 ^ 14 + q)"
    using snowflake_value [OF assms] by (simp add: sint_uint)
  also have "\<dots> = (t * 2 ^ 24 + n * 2 ^ 14 + q + 2 ^ 63) mod 2 ^ 64 - 2 ^ 63"
    by (simp add: signed_take_bit_eq_take_bit_shift take_bit_eq_mod)
  also have "\<dots> = (if t < 2 ^ 39 then t * 2 ^ 24 + n * 2 ^ 14 + q else t * 2 ^ 24 + n * 2 ^ 14 + q - 2 ^ 64)"
  proof -
    let ?v = "t * 2 ^ 24 + n * 2 ^ 14 + q"
    show ?thesis
    proof (cases "t < 2 ^ 39")
      case True
      then have "0 \<le> ?v + 2 ^ 63" "?v + 2 ^ 63 < 2 ^ 64" using assms by (auto simp: snowflake_ok_def)
      with True show ?thesis by (simp add: mod_pos_pos_trivial)
    next
      case False
      then have "0 \<le> ?v - 2 ^ 63" "?v - 2 ^ 63 < 2 ^ 64" using assms by (auto simp: snowflake_ok_def)
      then have "(?v - 2 ^ 63) mod 2 ^ 64 = ?v - 2 ^ 63" by (rule mod_pos_pos_trivial)
      moreover have "?v + 2 ^ 63 = (?v - 2 ^ 63) + 2 ^ 64" by simp
      ultimately have "(?v + 2 ^ 63) mod 2 ^ 64 = ?v - 2 ^ 63" by (simp only: mod_add_self2)
      with False show ?thesis by simp
    qed
  qed
  finally show ?thesis .
qed

lemma snowflake_result:
  assumes "pgactive_snowflake_id_nextval_oid nv relid rows nid mydb now ov b s = (Inr res, b', s')"
  obtains n v where "global_seq_get_nodeid relid rows nid mydb b = (Inr n, b')" "nv s = (Inr v, s')"
    "snowflake_ok ((case ov of None \<Rightarrow> now | Some t \<Rightarrow> t) sdiv 1000 - seq_ts_epoch) n (v smod 16383)"
    "res = snowflake ((case ov of None \<Rightarrow> now | Some t \<Rightarrow> t) sdiv 1000 - seq_ts_epoch) n (v smod 16383)"
proof -
  let ?t = "(case ov of None \<Rightarrow> now | Some t \<Rightarrow> t) sdiv 1000 - seq_ts_epoch"
  from assms obtain n v where n: "global_seq_get_nodeid relid rows nid mydb b = (Inr n, b')"
      and v: "nv s = (Inr v, s')"
      and c: "\<not> (?t < 0 \<or> ?t > MAX_TIMESTAMP)" "\<not> (n < 0 \<or> n > MAX_NODE_ID)" "\<not> v smod MAX_SEQ_ID < 0"
      and r: "res = snowflake ?t n (v smod MAX_SEQ_ID)"
    unfolding pgactive_snowflake_id_nextval_oid_def Let_def snowflake_def
    by (simp add: TIMESTAMP_BITS_def NODEID_BITS_def split: prod.splits sum.splits if_splits)
  have m: "MAX_SEQ_ID = 16383" by (simp add: seq_consts)
  have "snowflake_ok ?t n (v smod 16383)"
    using c smod_int_range [of 16383 v] by (simp add: snowflake_ok_def seq_consts)
  with that n v r show thesis by (simp only: m)
qed

section \<open>Uniqueness and order\<close>

text \<open>
  Equal identifiers come from the same node id, the same millisecond and local sequence
  values that agree modulo \<open>MAX_SEQ_ID\<close>: two calls collide only when one node draws 16383
  values within one millisecond.
\<close>

theorem snowflake_unique:
  assumes "pgactive_snowflake_id_nextval_oid nv relid rows nid mydb now None b s = (Inr res, b1, s1)"
    and "pgactive_snowflake_id_nextval_oid nv' relid' rows' nid' mydb' now' None b' s' = (Inr res, b1', s1')"
  shows "fst (global_seq_get_nodeid relid rows nid mydb b) = fst (global_seq_get_nodeid relid' rows' nid' mydb' b') \<and>
    now sdiv 1000 = now' sdiv 1000 \<and>
    (\<exists>v v'. fst (nv s) = Inr v \<and> fst (nv' s') = Inr v' \<and> v smod MAX_SEQ_ID = v' smod MAX_SEQ_ID)"
proof -
  obtain n v where 1: "global_seq_get_nodeid relid rows nid mydb b = (Inr n, b1)" "nv s = (Inr v, s1)"
    "snowflake_ok (now sdiv 1000 - seq_ts_epoch) n (v smod 16383)"
    "res = snowflake (now sdiv 1000 - seq_ts_epoch) n (v smod 16383)"
    using snowflake_result [OF assms(1)] by auto
  obtain n' v' where 2: "global_seq_get_nodeid relid' rows' nid' mydb' b' = (Inr n', b1')" "nv' s' = (Inr v', s1')"
    "snowflake_ok (now' sdiv 1000 - seq_ts_epoch) n' (v' smod 16383)"
    "res = snowflake (now' sdiv 1000 - seq_ts_epoch) n' (v' smod 16383)"
    using snowflake_result [OF assms(2)] by auto
  from snowflake_inject [OF 1(3) 2(3)] 1(4) 2(4) have "now sdiv 1000 = now' sdiv 1000 \<and> n = n' \<and> v smod 16383 = v' smod 16383"
    by simp
  with 1 2 show ?thesis by (simp add: seq_consts)
qed

definition sample_backend :: seq_backend where
  "sample_backend = \<lparr>seq_nodeid = - 1, seq_nodeid_dboid = 0, seq_nodecache = fresh_nodecache\<rparr>"

definition sample_nextval :: "int \<Rightarrow> int result \<times> int" where
  "sample_nextval v = (Inr v, v + 1)"

theorem snowflake_unique_witness:
  "let call = pgactive_snowflake_id_nextval_oid sample_nextval (Inr 99) [sample_node 7 CHR ''r'' (Some 3)] 7 5
         800000000000000 None sample_backend
   in \<exists>res. fst (call 5) = Inr res \<and> fst (call 16388) = Inr res \<and>
      fst (sample_nextval 5) = Inr (5 :: int) \<and> (5 :: int) smod MAX_SEQ_ID = 16388 smod MAX_SEQ_ID"
proof -
  let ?call = "pgactive_snowflake_id_nextval_oid sample_nextval (Inr 99) [sample_node 7 CHR ''r'' (Some 3)] 7 5
         800000000000000 None sample_backend"
  have "fst (?call 5) = Inr 4544757566911070213" "fst (?call 16388) = Inr 4544757566911070213"
    by code_simp+
  moreover from this obtain x y where "?call 5 = (Inr 4544757566911070213, x)" "?call 16388 = (Inr 4544757566911070213, y)"
    by (metis prod.collapse)
  with snowflake_unique [of sample_nextval "Inr 99" "[sample_node 7 CHR ''r'' (Some 3)]" 7 5 800000000000000
      sample_backend 5 4544757566911070213 "fst x" "snd x" sample_nextval "Inr 99"
      "[sample_node 7 CHR ''r'' (Some 3)]" 7 5 800000000000000 sample_backend 16388 "fst y" "snd y"]
  have "(5 :: int) smod MAX_SEQ_ID = 16388 smod MAX_SEQ_ID" by (simp add: sample_nextval_def)
  ultimately show ?thesis by (simp add: Let_def sample_nextval_def)
qed

lemma seq_ids_mem: "r \<in> set xs \<Longrightarrow> node_seq_id r = Some i \<Longrightarrow> i \<in> set (seq_ids xs)"
  by (force simp: seq_ids_def)

lemma seq_ids_unique:
  assumes "distinct (seq_ids xs)" "r \<in> set xs" "r' \<in> set xs" "node_seq_id r = Some i" "node_seq_id r' = Some i"
  shows "r = r'"
  using assms
proof (induction xs)
  case (Cons x xs)
  then show ?case using seq_ids_mem by (cases "x = r"; cases "x = r'") auto
qed simp

text \<open>A backend that has not cached a node id yet reads the one in the table.\<close>

lemma get_nodeid_reads_table:
  assumes "nodecache_inv relid (rows, seq_nodecache b)" "seq_nodeid_dboid b \<noteq> mydb"
    and "filter (row_of (pgactive_make_my_nodeid nid mydb)) rows = [r]"
    and "global_seq_get_nodeid (Inr relid) rows nid mydb b = (Inr n, b')"
  shows "node_seq_id r = Some n \<and> 0 \<le> n \<and> n \<le> MAX_NODE_ID"
proof -
  let ?me = "pgactive_make_my_nodeid nid mydb"
  let ?l = "pgactive_nodecache_lookup (Inr relid) rows ?me True (seq_nodecache b)"
  from assms(2,4) obtain nc' where "global_seq_read_nodeid (Inr relid) rows nid mydb (seq_nodecache b) = (Inr n, nc')"
    by (auto simp: global_seq_get_nodeid_def split: prod.splits sum.splits)
  then have "map_sum id (\<lambda>node. case node of None \<Rightarrow> - 1 | Some i \<Rightarrow> ni_seq_id i) (fst ?l) = Inr n"
    and n: "n \<noteq> - 1" "0 \<le> n" "n \<le> MAX_NODE_ID"
    by (auto simp: global_seq_read_nodeid_def pgactive_local_node_seq_id_def
        split: prod.splits sum.splits if_splits dest: arg_cong [where f = fst])
  then have "map_sum id (\<lambda>node. case node of None \<Rightarrow> - 1 | Some i \<Rightarrow> ni_seq_id i)
      (pgactive_nodes_get_local_info rows ?me) = Inr n"
    unfolding lookup_result [OF assms(1)] by (auto split: sum.splits option.splits)
  with n assms(3) show ?thesis
    by (auto simp: pgactive_nodes_get_local_info_def split: option.splits)
qed



text \<open>
  C38: as long as the timestamp fits 39 bits, identifiers are non-negative and a later
  millisecond gives a greater identifier, on whatever nodes the two are drawn; from the
  40th bit on (in 2034) the signed result is negative although the range check accepts it.
\<close>

theorem snowflake_time_order:
  assumes "pgactive_snowflake_id_nextval_oid nv relid rows nid mydb now None b s = (Inr res, b1, s1)"
    and "pgactive_snowflake_id_nextval_oid nv' relid' rows' nid' mydb' now' None b' s' = (Inr res', b1', s1')"
    and "now sdiv 1000 < now' sdiv 1000"
  shows "(now' sdiv 1000 - seq_ts_epoch < 2 ^ 39 \<longrightarrow> 0 \<le> sint res \<and> sint res < sint res') \<and>
    (2 ^ 39 \<le> now' sdiv 1000 - seq_ts_epoch \<longrightarrow> sint res' < 0)"
proof -
  obtain n q where 1: "snowflake_ok (now sdiv 1000 - seq_ts_epoch) n q"
      "res = snowflake (now sdiv 1000 - seq_ts_epoch) n q"
    using snowflake_result [OF assms(1)] by (metis option.simps(4))
  obtain n' q' where 2: "snowflake_ok (now' sdiv 1000 - seq_ts_epoch) n' q'"
      "res' = snowflake (now' sdiv 1000 - seq_ts_epoch) n' q'"
    using snowflake_result [OF assms(2)] by (metis option.simps(4))
  show ?thesis
    unfolding 1(2) 2(2) snowflake_signed [OF 1(1)] snowflake_signed [OF 2(1)]
    using 1(1) 2(1) assms(3) by (auto simp: snowflake_ok_def)
qed

theorem snowflake_time_order_witness:
  "let call = (\<lambda>now. fst (pgactive_snowflake_id_nextval_oid sample_nextval (Inr 99)
                [sample_node 7 CHR ''r'' (Some 3)] 7 5 now None sample_backend 5))
   in \<exists>res res' res''. call 800000000000000 = Inr res \<and> call 800000000001000 = Inr res' \<and>
      call 1200000000000000 = Inr res'' \<and> 0 \<le> sint res \<and> sint res < sint res' \<and> sint res'' < 0"
proof -
  let ?call = "\<lambda>now. pgactive_snowflake_id_nextval_oid sample_nextval (Inr 99)
                [sample_node 7 CHR ''r'' (Some 3)] 7 5 now None sample_backend 5"
  have "\<not> isl (fst (?call 800000000000000))" "\<not> isl (fst (?call 800000000001000))"
    "\<not> isl (fst (?call 1200000000000000))" by code_simp+
  then obtain r1 x r2 y r3 z where c: "?call 800000000000000 = (Inr r1, fst x, snd x)"
      "?call 800000000001000 = (Inr r2, fst y, snd y)" "?call 1200000000000000 = (Inr r3, fst z, snd z)"
    by (metis isl_def obj_sumE prod.collapse)
  from snowflake_time_order [OF c(1,2)] snowflake_time_order [OF c(1,3)] c show ?thesis
    by (simp add: Let_def seq_ts_epoch_def)
qed

text \<open>
  C39: with a node id in range and a non-negative value from the local sequence, an identifier
  is returned exactly when the clock lies in the supported range; otherwise the call fails,
  and the local sequence has advanced in both cases.
\<close>

theorem snowflake_succeeds_iff:
  assumes "global_seq_get_nodeid relid rows nid mydb b = (Inr n, b')" "0 \<le> n" "n \<le> MAX_NODE_ID"
    and "nv s = (Inr v, s')" "0 \<le> v"
  shows "snd (snd (pgactive_snowflake_id_nextval_oid nv relid rows nid mydb now None b s)) = s' \<and>
    ((\<exists>res. fst (pgactive_snowflake_id_nextval_oid nv relid rows nid mydb now None b s) = Inr res)
     \<longleftrightarrow> seq_ts_epoch \<le> now sdiv 1000 \<and> now sdiv 1000 \<le> seq_ts_epoch + MAX_TIMESTAMP)"
proof -
  have "\<not> v smod MAX_SEQ_ID < 0" using assms(5) smod_int_compares(2) [of v MAX_SEQ_ID] by (simp add: seq_consts)
  with assms show ?thesis
    by (auto simp: pgactive_snowflake_id_nextval_oid_def Let_def)
qed

theorem snowflake_succeeds_iff_witness:
  "let call = (\<lambda>now. pgactive_snowflake_id_nextval_oid sample_nextval (Inr 99)
                [sample_node 7 CHR ''r'' (Some 3)] 7 5 now None (sample_backend\<lparr>seq_nodeid := 3, seq_nodeid_dboid := 5\<rparr>) 5)
   in snd (snd (call 0)) = 6 \<and> (\<nexists>res. fst (call 0) = Inr res) \<and> (\<exists>res. fst (call 800000000000000) = Inr res)"
proof -
  let ?b = "sample_backend\<lparr>seq_nodeid := 3, seq_nodeid_dboid := 5\<rparr>"
  have g: "global_seq_get_nodeid (Inr 99) [sample_node 7 CHR ''r'' (Some 3)] 7 5 ?b = (Inr 3, ?b)"
    by (simp add: global_seq_get_nodeid_def)
  have v: "sample_nextval 5 = (Inr 5, 6)" by (simp add: sample_nextval_def)
  from snowflake_succeeds_iff [where nv = sample_nextval and now = 0, OF g _ _ v] snowflake_succeeds_iff [where nv = sample_nextval and now = 800000000000000, OF g _ _ v]
  show ?thesis by (simp add: Let_def seq_consts seq_ts_epoch_def)
qed

end
