(* ===== verification/Lock_State.thy ===== *)
theory Lock_State
  imports Node_Catalog
begin

text \<open>
  The global DDL lock on one node: \<^verbatim>\<open>src/pgactive_locks.c\<close> and \<^verbatim>\<open>include/pgactive_locks.h\<close>.
  \<open>pgactiveLocksDBState\<close> is the database's slot in shared memory, \<open>lock_row\<close> a row of
  \<open>pgactive_global_locks\<close>, and \<open>lock_sys\<close> adds the messages logged to WAL, the latches that were
  set, and the two static variables that every process has its own copy of.  Each handler is
  an operation on \<open>lock_sys\<close>; the code of a handler runs with the control segment's
  \<open>LWLock\<close> around its accesses, so one handler is one step of the model.  Assertions are
  not part of the operations; that they hold is proved.
\<close>

section \<open>Types\<close>

datatype pgactiveLockType = pgactive_LOCK_NOLOCK | pgactive_LOCK_DDL | pgactive_LOCK_WRITE

datatype pgactiveLockState =
    pgactive_LOCKSTATE_NOLOCK
  | pgactive_LOCKSTATE_ACQUIRE_TALLY_CONFIRMATIONS
  | pgactive_LOCKSTATE_ACQUIRE_ACQUIRED
  | pgactive_LOCKSTATE_PEER_BEGIN_CATCHUP
  | pgactive_LOCKSTATE_PEER_CANCEL_XACTS
  | pgactive_LOCKSTATE_PEER_CATCHUP
  | pgactive_LOCKSTATE_PEER_CONFIRMED

fun lock_type_code :: "pgactiveLockType \<Rightarrow> u32" where
  "lock_type_code pgactive_LOCK_NOLOCK = 0"
| "lock_type_code pgactive_LOCK_DDL = 1"
| "lock_type_code pgactive_LOCK_WRITE = 2"

fun lock_state_code :: "pgactiveLockState \<Rightarrow> nat" where
  "lock_state_code pgactive_LOCKSTATE_NOLOCK = 0"
| "lock_state_code pgactive_LOCKSTATE_ACQUIRE_TALLY_CONFIRMATIONS = 1"
| "lock_state_code pgactive_LOCKSTATE_ACQUIRE_ACQUIRED = 2"
| "lock_state_code pgactive_LOCKSTATE_PEER_BEGIN_CATCHUP = 3"
| "lock_state_code pgactive_LOCKSTATE_PEER_CANCEL_XACTS = 4"
| "lock_state_code pgactive_LOCKSTATE_PEER_CATCHUP = 5"
| "lock_state_code pgactive_LOCKSTATE_PEER_CONFIRMED = 6"

text \<open>C compares enumerators by their values.\<close>

instantiation pgactiveLockType :: linorder
begin

definition less_eq_pgactiveLockType :: "pgactiveLockType \<Rightarrow> pgactiveLockType \<Rightarrow> bool" where
  "less_eq_pgactiveLockType a b \<longleftrightarrow> unat (lock_type_code a) \<le> unat (lock_type_code b)"

definition less_pgactiveLockType :: "pgactiveLockType \<Rightarrow> pgactiveLockType \<Rightarrow> bool" where
  "less_pgactiveLockType a b \<longleftrightarrow> unat (lock_type_code a) < unat (lock_type_code b)"

instance
proof
  fix a b :: pgactiveLockType
  show "a \<le> b \<Longrightarrow> b \<le> a \<Longrightarrow> a = b"
    by (cases a; cases b) (simp_all add: less_eq_pgactiveLockType_def)
qed (auto simp: less_eq_pgactiveLockType_def less_pgactiveLockType_def)

end

instantiation pgactiveLockState :: linorder
begin

definition less_eq_pgactiveLockState :: "pgactiveLockState \<Rightarrow> pgactiveLockState \<Rightarrow> bool" where
  "less_eq_pgactiveLockState a b \<longleftrightarrow> lock_state_code a \<le> lock_state_code b"

definition less_pgactiveLockState :: "pgactiveLockState \<Rightarrow> pgactiveLockState \<Rightarrow> bool" where
  "less_pgactiveLockState a b \<longleftrightarrow> lock_state_code a < lock_state_code b"

instance
proof
  fix a b :: pgactiveLockState
  show "a \<le> b \<Longrightarrow> b \<le> a \<Longrightarrow> a = b"
    by (cases a; cases b) (simp_all add: less_eq_pgactiveLockState_def)
qed (auto simp: less_eq_pgactiveLockState_def less_pgactiveLockState_def)

end

record pgactiveLocksDBState =
  in_use :: bool
  ldb_dboid :: u32
  nnodes :: int
  locked_and_loaded :: bool
  lockcount :: int
  lock_holder :: u16
  lock_holder_local_pid :: int
  lock_type :: pgactiveLockType
  lock_state :: pgactiveLockState
  acquire_confirmed :: int
  acquire_declined :: int
  replay_confirmed :: int
  replay_confirmed_lsn :: u64
  requestor :: "nat option"
  waiters :: "nat list"

record lock_row =
  locktype :: string
  owning_sysid :: string
  owning_timeline :: u32
  owning_datid :: u32
  owner_created_lock_at :: int
  acquired_sysid :: string
  acquired_timeline :: u32
  acquired_datid :: u32
  acquired_lock_at :: "u64 option"
  row_state :: "string option"

text \<open>
  \<open>pending\<close> and \<open>this_xact_acquired_lock\<close> are indexed by the process id of the process whose
  static variable it is.
\<close>

record lock_sys =
  db :: pgactiveLocksDBState
  global_locks :: "lock_row list"
  wal :: "(bool \<times> bytes) list"
  latches_set :: "nat list"
  pending :: "int \<Rightarrow> pgactiveLockState option"
  this_xact_acquired_lock :: "int \<Rightarrow> bool"

text \<open>
  What one pass of the loop of \<open>cancel_conflicting_transactions\<close> finds out about the current
  entry: whether the backend is gone, whether its transaction has an xid, the two clock
  readings, and the pid returned by the signalling routine.
\<close>

record conflict_obs =
  co_proc_gone :: bool
  co_has_xid :: bool
  co_now1 :: int
  co_now2 :: int
  co_signalled_pid :: int

text \<open>The process a handler runs in, and what the server's routines answer to it.\<close>

record lock_env =
  e_pq :: pq_api
  e_nid :: u64
  e_mydb :: u32
  e_pid :: int
  e_proc :: nat
  e_session_origin :: u16
  e_by_oid :: "u16 \<Rightarrow> string option"
  e_by_name :: "string \<Rightarrow> u16 option"
  e_now :: int
  e_insert_lsn :: u64
  e_skip_ddl_replication :: bool
  e_max_ddl_lock_delay :: int
  e_max_standby_streaming_delay :: int
  e_ddl_lock_timeout :: int
  e_LockTimeout :: int
  e_nconflicts :: nat
  e_conflict_obs :: "conflict_obs list"

type_synonym 'a lock_op = "(lock_sys, 'a) op"

abbreviation my_nodeid :: "lock_env \<Rightarrow> pgactiveNodeId" where
  "my_nodeid env \<equiv> pgactive_make_my_nodeid (e_nid env) (e_mydb env)"

definition upd_db :: "(pgactiveLocksDBState \<Rightarrow> pgactiveLocksDBState) \<Rightarrow> unit lock_op" where
  "upd_db f = smodify (\<lambda>s. s\<lparr>db := f (db s)\<rparr>)"

section \<open>Shared memory\<close>

definition pgactive_locks_shmem_size :: "nat \<Rightarrow> nat \<Rightarrow> nat \<Rightarrow> nat \<Rightarrow> nat \<Rightarrow> nat" where
  "pgactive_locks_shmem_size sizeof_ctl sizeof_dbstate sizeof_waiter max_databases total_procs =
     sizeof_ctl + sizeof_dbstate * max_databases + sizeof_waiter * total_procs"

text \<open>
  The addresses that \<open>pgactive_locks_shmem_startup\<close> stores, relative to the segment.  Adding an
  integer to a pointer scales it by the size of what the pointer points to.
\<close>

definition pgactive_locks_shmem_startup :: "nat \<Rightarrow> nat \<Rightarrow> nat \<Rightarrow> nat \<Rightarrow> nat \<times> nat" where
  "pgactive_locks_shmem_startup sizeof_ctl sizeof_dbstate sizeof_waiter max_databases =
     (sizeof_ctl * sizeof_dbstate,
      sizeof_ctl * sizeof_waiter + sizeof_dbstate * max_databases * sizeof_waiter)"

text \<open>The zeroed slot that \<open>pgactive_locks_find_database\<close> reserves.\<close>

definition zero_dbstate :: "u32 \<Rightarrow> pgactiveLocksDBState" where
  "zero_dbstate mydb = \<lparr>in_use = True, ldb_dboid = mydb, nnodes = 0, locked_and_loaded = False,
     lockcount = 0, lock_holder = InvalidRepOriginId, lock_holder_local_pid = 0,
     lock_type = pgactive_LOCK_NOLOCK, lock_state = pgactive_LOCKSTATE_NOLOCK,
     acquire_confirmed = 0, acquire_declined = 0, replay_confirmed = 0, replay_confirmed_lsn = 0,
     requestor = None, waiters = []\<rparr>"

text \<open>
  The scan of the whole array: the offset of the slot and the array after a slot was reserved.
  \<open>off\<close> counts from the start of the array and \<open>free_off\<close> is \<open>None\<close> for -1.  The function
  compares with \<open>MyDatabaseId\<close>; its own argument \<open>dboid\<close> appears in the message only.
\<close>

fun find_database_scan :: "u32 \<Rightarrow> nat \<Rightarrow> nat option \<Rightarrow> pgactiveLocksDBState list \<Rightarrow> nat + nat option" where
  "find_database_scan mydb off free_off [] = Inr free_off"
| "find_database_scan mydb off free_off (d # ds) =
     (if in_use d \<and> ldb_dboid d = mydb then Inl off
      else find_database_scan mydb (Suc off)
             (if \<not> in_use d \<and> free_off = None then Some off else free_off) ds)"

definition pgactive_locks_find_database ::
  "u32 \<Rightarrow> pgactiveLocksDBState list \<Rightarrow> u32 \<Rightarrow> bool \<Rightarrow> (nat \<times> pgactiveLocksDBState list) result" where
  "pgactive_locks_find_database mydb dbs db_oid create =
     (case find_database_scan mydb 0 None dbs of
        Inl off \<Rightarrow> Inr (off, dbs)
      | Inr free_off \<Rightarrow>
          if \<not> create then Inl (Error ''database is not configured for pgactive or pgactive is still starting up'')
          else (case free_off of
                  Some off \<Rightarrow> Inr (off, dbs[off := zero_dbstate mydb])
                | None \<Rightarrow> Inl (Error ''too many databases pgactive-enabled for pgactive.max_databases'')))"

text \<open>
  \<open>pgactive_my_locks_database\<close> points to this database's slot, the component \<open>db\<close>; the pointer is
  set once the slot is in use, and a slot in use stays in use.
\<close>

definition pgactive_locks_find_my_database :: "lock_env \<Rightarrow> bool \<Rightarrow> unit lock_op" where
  "pgactive_locks_find_my_database env create s =
     (if in_use (db s) then (Inr (), s)
      else if create then (Inr (), s\<lparr>db := zero_dbstate (e_mydb env)\<rparr>)
      else (Inl (Error ''database is not configured for pgactive or pgactive is still starting up''), s))"

section \<open>Waiters\<close>

definition pgactive_locks_addwaiter :: "nat \<Rightarrow> unit lock_op" where
  "pgactive_locks_addwaiter proc s =
     (if proc \<in> set (waiters (db s)) then (Inr (), s)
      else (Inr (), s\<lparr>db := (db s)\<lparr>waiters := proc # waiters (db s)\<rparr>\<rparr>))"

text \<open>A node pushed twice is its own successor: the list has it twice in a row.\<close>

fun on_unlock_loop :: "nat list \<Rightarrow> unit lock_op" where
  "on_unlock_loop [] s = (Inr (), s\<lparr>db := (db s)\<lparr>waiters := []\<rparr>\<rparr>)"
| "on_unlock_loop (w # ws) s =
     (let s = s\<lparr>db := (db s)\<lparr>waiters := ws\<rparr>\<rparr>
      in if ws \<noteq> [] \<and> hd ws = w then (Inl (Panic ''cycle detected in DDL lock waiter linked list''), s)
         else on_unlock_loop ws (s\<lparr>latches_set := latches_set s @ [w]\<rparr>))"

definition pgactive_locks_on_unlock :: "unit lock_op" where
  "pgactive_locks_on_unlock s = on_unlock_loop (waiters (db s)) s"

definition SetLatch :: "nat option \<Rightarrow> unit lock_op" where
  "SetLatch latch = smodify (\<lambda>s. s\<lparr>latches_set := latches_set s @ (case latch of None \<Rightarrow> [] | Some l \<Rightarrow> [l])\<rparr>)"

section \<open>Transactions and messages\<close>

definition pgactive_locks_set_commit_pending_state :: "lock_env \<Rightarrow> pgactiveLockState \<Rightarrow> unit lock_op" where
  "pgactive_locks_set_commit_pending_state env st =
     smodify (\<lambda>s. s\<lparr>pending := (pending s)(e_pid env := Some st)\<rparr>)"

definition pgactive_lock_state_xact_callback :: "lock_env \<Rightarrow> bool \<Rightarrow> unit lock_op" where
  "pgactive_lock_state_xact_callback env is_commit =
     smodify (\<lambda>s. case pending s (e_pid env) of
         Some st \<Rightarrow> if is_commit then s\<lparr>db := (db s)\<lparr>lock_state := st\<rparr>, pending := (pending s)(e_pid env := None)\<rparr> else s
       | None \<Rightarrow> s)"

text \<open>\<open>CommitTransactionCommand\<close> in a worker runs the callback above.\<close>

definition CommitTransactionCommand :: "lock_env \<Rightarrow> unit lock_op" where
  "CommitTransactionCommand env = pgactive_lock_state_xact_callback env True"

definition AbortOutOfAnyTransaction :: "lock_env \<Rightarrow> unit lock_op" where
  "AbortOutOfAnyTransaction env = pgactive_lock_state_xact_callback env False"

text \<open>The message is logged under pgactive's prefix; the buffer is empty afterwards.\<close>

definition pgactive_send_message :: "bytes \<Rightarrow> bool \<Rightarrow> unit lock_op" where
  "pgactive_send_message m transactional = smodify (\<lambda>s. s\<lparr>wal := wal s @ [(transactional, m)]\<rparr>)"

abbreviation prepare_message :: "lock_env \<Rightarrow> pgactiveMessageType \<Rightarrow> bytes" where
  "prepare_message env t \<equiv> pgactive_prepare_message (e_pq env) (my_nodeid env) [] t"

definition fetch_sysid :: "lock_env \<Rightarrow> u16 \<Rightarrow> pgactiveNodeId lock_op" where
  "fetch_sysid env origin =
     slift (pgactive_fetch_sysid_via_node_id (e_by_oid env) (e_nid env) (e_mydb env) origin zero_nodeid)"

section \<open>Lock types and states by name\<close>

definition lock_type_of_code :: "u32 \<Rightarrow> pgactiveLockType option" where
  "lock_type_of_code t =
     (if t = 0 then Some pgactive_LOCK_NOLOCK else if t = 1 then Some pgactive_LOCK_DDL
      else if t = 2 then Some pgactive_LOCK_WRITE else None)"

definition pgactive_lock_type_to_name :: "u32 \<Rightarrow> string result" where
  "pgactive_lock_type_to_name t =
     (case lock_type_of_code t of
        Some pgactive_LOCK_NOLOCK \<Rightarrow> Inr ''nolock''
      | Some pgactive_LOCK_DDL \<Rightarrow> Inr ''ddl_lock''
      | Some pgactive_LOCK_WRITE \<Rightarrow> Inr ''write_lock''
      | None \<Rightarrow> Inl (Error ''unknown lock type''))"

definition pgactive_lock_name_to_type :: "string \<Rightarrow> pgactiveLockType result" where
  "pgactive_lock_name_to_type n =
     (if strcasecmp n ''nolock'' = 0 then Inr pgactive_LOCK_NOLOCK
      else if strcasecmp n ''ddl_lock'' = 0 then Inr pgactive_LOCK_DDL
      else if strcasecmp n ''write_lock'' = 0 then Inr pgactive_LOCK_WRITE
      else Inl (Error ''unknown lock type''))"

fun pgactive_lock_state_to_name :: "pgactiveLockState \<Rightarrow> string" where
  "pgactive_lock_state_to_name pgactive_LOCKSTATE_NOLOCK = ''nolock''"
| "pgactive_lock_state_to_name pgactive_LOCKSTATE_ACQUIRE_TALLY_CONFIRMATIONS = ''acquire_tally_confirmations''"
| "pgactive_lock_state_to_name pgactive_LOCKSTATE_ACQUIRE_ACQUIRED = ''acquire_acquired''"
| "pgactive_lock_state_to_name pgactive_LOCKSTATE_PEER_BEGIN_CATCHUP = ''peer_begin_catchup''"
| "pgactive_lock_state_to_name pgactive_LOCKSTATE_PEER_CANCEL_XACTS = ''peer_cancel_xacts''"
| "pgactive_lock_state_to_name pgactive_LOCKSTATE_PEER_CATCHUP = ''peer_catchup''"
| "pgactive_lock_state_to_name pgactive_LOCKSTATE_PEER_CONFIRMED = ''peer_confirmed''"

section \<open>The acquiring node\<close>

text \<open>
  \<open>pgactive_acquire_ddl_lock\<close> up to its wait loop.  The result says whether the loop is entered:
  the lock may be held already.
\<close>

definition acquire_ddl_lock_begin :: "lock_env \<Rightarrow> pgactiveLockType \<Rightarrow> bool lock_op" where
  "acquire_ddl_lock_begin env lt =
     sseq (pgactive_locks_find_my_database env False)
     (sbind (sget (\<lambda>s. this_xact_acquired_lock s (e_pid env))) (\<lambda>held.
      sbind (sget db) (\<lambda>d.
      if held \<and> lock_type d \<ge> lt then sret False
      else if \<not> held \<and> e_skip_ddl_replication env
        then sfail (Error ''global DDL locking attempt rejected by configuration'')
      else if \<not> held \<and> nnodes d < 0
        then sfail (Error ''no peer nodes or peer node count unknown, cannot acquire global lock'')
      else if \<not> held \<and> lockcount d > 0
        then sseq (fetch_sysid env (lock_holder d))
               (sfail (Error ''database is locked against ddl by another node''))
      else
        sseq (smodify (\<lambda>s. if held then s
                 else s\<lparr>db := (db s)\<lparr>lockcount := lockcount (db s) + 1, lock_holder_local_pid := e_pid env\<rparr>,
                        this_xact_acquired_lock := (this_xact_acquired_lock s)(e_pid env := True)\<rparr>))
        (sseq (upd_db (\<lambda>d. d\<lparr>lock_holder := InvalidRepOriginId, acquire_confirmed := 0, acquire_declined := 0,
                 requestor := Some (e_proc env), lock_type := lt,
                 lock_state := pgactive_LOCKSTATE_ACQUIRE_TALLY_CONFIRMATIONS\<rparr>))
        (sseq (pgactive_send_message
                 (pq_sendint (e_pq env) (prepare_message env pgactive_MESSAGE_ACQUIRE_LOCK) (lock_type_code lt) 4) False)
        (sret True))))))"

text \<open>One pass of the wait loop with what follows it; \<open>False\<close> means that the backend waits on.\<close>

definition acquire_ddl_lock_poll :: "lock_env \<Rightarrow> bool lock_op" where
  "acquire_ddl_lock_poll env =
     sbind (sget db) (\<lambda>d.
     if acquire_declined d > 0
     then sfail (Error ''could not acquire global lock - another node has declined our lock request'')
     else if acquire_confirmed d \<ge> nnodes d
     then sseq (upd_db (\<lambda>d. d\<lparr>acquire_confirmed := 0, acquire_declined := 0, requestor := None,
                  lock_state := pgactive_LOCKSTATE_ACQUIRE_ACQUIRED\<rparr>))
          (sret True)
     else sret False)"

definition pgactive_acquire_global_lock :: "lock_env \<Rightarrow> string \<Rightarrow> bool lock_op" where
  "pgactive_acquire_global_lock env mode =
     (if e_skip_ddl_replication env then sret False
      else sbind (slift (pgactive_lock_name_to_type mode)) (acquire_ddl_lock_begin env))"

text \<open>
  The transaction callback of a user backend, for commit and abort alike.
\<close>

definition pgactive_lock_holder_xact_callback :: "lock_env \<Rightarrow> unit lock_op" where
  "pgactive_lock_holder_xact_callback env =
     sbind (sget (\<lambda>s. this_xact_acquired_lock s (e_pid env))) (\<lambda>held.
     if \<not> held then sret ()
     else sseq (pgactive_send_message
                  (pgactive_send_nodeid (e_pq env) (prepare_message env pgactive_MESSAGE_RELEASE_LOCK) (my_nodeid env) False) False)
          (sseq (upd_db (\<lambda>d. if lockcount d > 0 then d\<lparr>lockcount := lockcount d - 1\<rparr> else d))
          (sseq (smodify (\<lambda>s. s\<lparr>this_xact_acquired_lock := (this_xact_acquired_lock s)(e_pid env := False)\<rparr>))
          (sseq (upd_db (\<lambda>d. d\<lparr>lock_holder_local_pid := 0, lock_type := pgactive_LOCK_NOLOCK,
                   lock_state := pgactive_LOCKSTATE_NOLOCK, replay_confirmed := 0,
                   replay_confirmed_lsn := 0, requestor := None\<rparr>))
          (sbind (sget db) (\<lambda>d. if lockcount d = 0 then pgactive_locks_on_unlock else sret ()))))))"

section \<open>The peers\<close>

definition check_is_my_origin_node :: "lock_env \<Rightarrow> pgactiveNodeId \<Rightarrow> bool lock_op" where
  "check_is_my_origin_node env peer =
     sbind (fetch_sysid env (e_session_origin env)) (\<lambda>session_origin_node.
     sseq (CommitTransactionCommand env)
     (sret (pgactive_nodeid_eq (Some peer) (Some session_origin_node))))"

definition check_is_my_node :: "lock_env \<Rightarrow> pgactiveNodeId \<Rightarrow> bool" where
  "check_is_my_node env node = pgactive_nodeid_eq (Some node) (Some (my_nodeid env))"

text \<open>\<open>None\<close> is an end of time that never comes, and a loop that was interrupted.\<close>

definition cancel_time :: "lock_env \<Rightarrow> int option" where
  "cancel_time env =
     (if e_ddl_lock_timeout env > 0 \<or> e_LockTimeout env > 0
      then Some (e_now env + 1000 * (if e_ddl_lock_timeout env > 0 then e_ddl_lock_timeout env else e_LockTimeout env))
      else None)"

definition kill_time :: "lock_env \<Rightarrow> int" where
  "kill_time env = e_now env + 1000 * (if e_max_ddl_lock_delay env > 0 then e_max_ddl_lock_delay env
                                       else e_max_standby_streaming_delay env)"

fun cancel_loop :: "int option \<Rightarrow> int \<Rightarrow> nat \<Rightarrow> conflict_obs list \<Rightarrow> bool option" where
  "cancel_loop canceltime killtime 0 obs = Some True"
| "cancel_loop canceltime killtime (Suc n) [] = None"
| "cancel_loop canceltime killtime (Suc n) (ob # obs) =
     (if co_proc_gone ob then cancel_loop canceltime killtime n obs
      else if \<not> co_has_xid ob then cancel_loop canceltime killtime n obs
      else if (case canceltime of None \<Rightarrow> False | Some t \<Rightarrow> co_now1 ob < t) then Some False
      else if co_now2 ob < killtime then cancel_loop canceltime killtime (Suc n) obs
      else if co_signalled_pid ob = 0 then cancel_loop canceltime killtime n obs
      else cancel_loop canceltime killtime (Suc n) obs)"

definition cancel_conflicting_transactions :: "lock_env \<Rightarrow> bool lock_op" where
  "cancel_conflicting_transactions env =
     sseq (upd_db (\<lambda>d. d\<lparr>lock_state := pgactive_LOCKSTATE_PEER_CANCEL_XACTS\<rparr>))
     (case cancel_loop (cancel_time env) (kill_time env) (e_nconflicts env) (e_conflict_obs env) of
        None \<Rightarrow> sfail (Fatal ''terminating connection due to administrator command'')
      | Some b \<Rightarrow> sret b)"

definition pgactive_request_replay_confirmation :: "lock_env \<Rightarrow> unit lock_op" where
  "pgactive_request_replay_confirmation env =
     sseq (pgactive_send_message
             (pq_sendint64 (e_pq env) (prepare_message env pgactive_MESSAGE_REQUEST_REPLAY_CONFIRM) (e_insert_lsn env)) False)
     (upd_db (\<lambda>d. d\<lparr>replay_confirmed := 0, replay_confirmed_lsn := e_insert_lsn env,
                     lock_state := pgactive_LOCKSTATE_PEER_CATCHUP\<rparr>))"

text \<open>The rows that \<open>locks_begin_scan\<close> finds.\<close>

definition locks_begin_scan :: "pgactiveNodeId \<Rightarrow> lock_row \<Rightarrow> bool" where
  "locks_begin_scan node r \<longleftrightarrow>
     owning_sysid r = snprintf 33 [ConvU 64] [VU (unat (sysid node))] \<and>
     owning_timeline r = timeline node \<and> owning_datid r = dboid node"

text \<open>
  The update loops of the upgrade and of the confirmation: exactly one row of the owner is
  rewritten; none or several end the server.
\<close>

definition update_owner_row ::
  "lock_env \<Rightarrow> pgactiveNodeId \<Rightarrow> (lock_row \<Rightarrow> lock_row) \<Rightarrow> pgactiveLockState \<Rightarrow> string \<Rightarrow> unit lock_op" where
  "update_owner_row env node f st missing s =
     (case filter (locks_begin_scan node) (global_locks s) of
        [] \<Rightarrow> (Inl (Panic missing), s)
      | [r] \<Rightarrow> pgactive_locks_set_commit_pending_state env st
                (s\<lparr>global_locks := map (\<lambda>r. if locks_begin_scan node r then f r else r) (global_locks s)\<rparr>)
      | _ \<Rightarrow> (Inl (Panic ''duplicate lock?''), s))"

definition pgactive_send_confirm_lock :: "lock_env \<Rightarrow> unit lock_op" where
  "pgactive_send_confirm_lock env =
     sseq (upd_db (\<lambda>d. d\<lparr>replay_confirmed := 0, replay_confirmed_lsn := 0, requestor := None\<rparr>))
     (sbind (sget db) (\<lambda>d.
      sbind (fetch_sysid env (lock_holder d)) (\<lambda>replay.
      sseq (pgactive_send_message
              (pq_sendint (e_pq env)
                 (pgactive_send_nodeid (e_pq env) (prepare_message env pgactive_MESSAGE_CONFIRM_LOCK) replay False)
                 (lock_type_code (lock_type d)) 4) True)
      (sseq (update_owner_row env replay (\<lambda>r. r\<lparr>row_state := Some ''acquired''\<rparr>)
               pgactive_LOCKSTATE_PEER_CONFIRMED ''got confirmation for unknown lock'')
      (CommitTransactionCommand env)))))"

text \<open>The code after the label \<open>decline\<close>; \<open>t\<close> is the lock type asked for.\<close>

definition decline_ddl_lock :: "lock_env \<Rightarrow> pgactiveNodeId \<Rightarrow> u32 \<Rightarrow> unit lock_op" where
  "decline_ddl_lock env node t =
     sbind (sget db) (\<lambda>d.
     sseq (fetch_sysid env (lock_holder d))
     (sseq (CommitTransactionCommand env)
     (pgactive_send_message
        (pq_sendint (e_pq env)
           (pgactive_send_nodeid (e_pq env) (prepare_message env pgactive_MESSAGE_DECLINE_LOCK) node False) t 4) False)))"

text \<open>The row a peer inserts; the columns are those of \<open>pgactive_global_locks\<close>.\<close>

definition new_lock_row :: "lock_env \<Rightarrow> pgactiveNodeId \<Rightarrow> string \<Rightarrow> lock_row" where
  "new_lock_row env node lock_name =
     \<lparr>locktype = lock_name,
      owning_sysid = sprintf [ConvU 64] [VU (unat (sysid node))],
      owning_timeline = timeline node, owning_datid = dboid node,
      owner_created_lock_at = e_now env,
      acquired_sysid = sprintf [ConvU 64] [VU (unat (sysid (my_nodeid env)))],
      acquired_timeline = timeline (my_nodeid env), acquired_datid = dboid (my_nodeid env),
      acquired_lock_at = None, row_state = Some ''catchup''\<rparr>"

text \<open>The unique index on (locktype, owning_sysid, owning_timeline, owning_datid).\<close>

definition same_lock_key :: "lock_row \<Rightarrow> lock_row \<Rightarrow> bool" where
  "same_lock_key r r' \<longleftrightarrow> locktype r = locktype r' \<and> owning_sysid r = owning_sysid r' \<and>
     owning_timeline r = owning_timeline r' \<and> owning_datid r = owning_datid r'"

text \<open>
  A request from the peer this worker replays from: a free lock is granted locally (a write
  lock waits for the replay of all peers before it is confirmed, a DDL lock is confirmed at
  once), a lesser lock of the same peer is upgraded, anything else is declined.
\<close>

text \<open>The first branch: no lock is held, a row is added and the lock is given to the sender.\<close>

definition acquire_grant :: "lock_env \<Rightarrow> pgactiveNodeId \<Rightarrow> u32 \<Rightarrow> string \<Rightarrow> unit lock_op" where
  "acquire_grant env node t lock_name =
     (let lt = the (lock_type_of_code t) in
      sseq (pgactive_locks_set_commit_pending_state env pgactive_LOCKSTATE_PEER_BEGIN_CATCHUP)
      (sbind (sget (\<lambda>s. \<exists>r \<in> set (global_locks s). same_lock_key r (new_lock_row env node lock_name))) (\<lambda>dup.
       if dup
       then sseq (AbortOutOfAnyTransaction env) (decline_ddl_lock env node t)
       else
         sseq (smodify (\<lambda>s. s\<lparr>global_locks := global_locks s @ [new_lock_row env node lock_name]\<rparr>))
         (sseq (CommitTransactionCommand env)
         (sseq (upd_db (\<lambda>d. d\<lparr>lockcount := lockcount d + 1, lock_type := lt, lock_holder := e_session_origin env\<rparr>))
         (if lt \<ge> pgactive_LOCK_WRITE
          then sbind (cancel_conflicting_transactions env) (\<lambda>ok.
                 if \<not> ok then decline_ddl_lock env node t
                 else pgactive_request_replay_confirmation env)
          else pgactive_send_confirm_lock env))))))"

text \<open>The second branch: the holder asks for a stronger lock than the one it has.\<close>

definition acquire_upgrade :: "lock_env \<Rightarrow> pgactiveNodeId \<Rightarrow> u32 \<Rightarrow> string \<Rightarrow> unit lock_op" where
  "acquire_upgrade env node t lock_name =
     (let lt = the (lock_type_of_code t) in
      sbind (sget db) (\<lambda>d.
      sbind (fetch_sysid env (lock_holder d)) (\<lambda>replay_node.
      sseq (update_owner_row env replay_node (\<lambda>r. r\<lparr>locktype := lock_name, row_state := Some ''catchup''\<rparr>)
              pgactive_LOCKSTATE_PEER_BEGIN_CATCHUP ''got lock in memory without corresponding lock table entry'')
      (sseq (CommitTransactionCommand env)
      (if lt \<ge> pgactive_LOCK_WRITE
       then sbind (cancel_conflicting_transactions env) (\<lambda>ok.
              if \<not> ok then decline_ddl_lock env node t
              else sseq (upd_db (\<lambda>d. d\<lparr>lock_type := lt\<rparr>)) (pgactive_request_replay_confirmation env))
       else sseq (upd_db (\<lambda>d. d\<lparr>lock_type := lt\<rparr>)) (pgactive_send_confirm_lock env))))))"

definition pgactive_process_acquire_ddl_lock :: "lock_env \<Rightarrow> pgactiveNodeId \<Rightarrow> u32 \<Rightarrow> unit lock_op" where
  "pgactive_process_acquire_ddl_lock env node t =
     sbind (slift (pgactive_lock_type_to_name t)) (\<lambda>lock_name.
     sbind (check_is_my_origin_node env node) (\<lambda>mine.
     if \<not> mine then sret ()
     else
     sseq (pgactive_locks_find_my_database env False)
     (sbind (sget db) (\<lambda>d.
      if lockcount d = 0 then acquire_grant env node t lock_name
      else if lock_holder d = e_session_origin env \<and> the (lock_type_of_code t) > lock_type d
      then acquire_upgrade env node t lock_name
      else decline_ddl_lock env node t))))"

lemmas process_acquire_defs = pgactive_process_acquire_ddl_lock_def acquire_grant_def acquire_upgrade_def

text \<open>The rows of the owner are deleted in the transaction that also resets the state.\<close>

definition pgactive_locks_release_local_ddl_lock :: "lock_env \<Rightarrow> pgactiveNodeId \<Rightarrow> unit lock_op" where
  "pgactive_locks_release_local_ddl_lock env lock =
     sseq (pgactive_locks_find_my_database env False)
     (sbind (sget (\<lambda>s. \<exists>r \<in> set (global_locks s). locks_begin_scan lock r)) (\<lambda>found.
      if \<not> found then CommitTransactionCommand env
      else
        sseq (smodify (\<lambda>s. s\<lparr>global_locks := filter (\<lambda>r. \<not> locks_begin_scan lock r) (global_locks s)\<rparr>))
        (sseq (pgactive_locks_set_commit_pending_state env pgactive_LOCKSTATE_NOLOCK)
        (sbind (sget (\<lambda>s. requestor (db s))) (\<lambda>latch.
         sseq (CommitTransactionCommand env)
         (sseq (upd_db (\<lambda>d. d\<lparr>lockcount := lockcount d - 1, lock_holder := InvalidRepOriginId,
                  lock_type := pgactive_LOCK_NOLOCK, replay_confirmed := 0, replay_confirmed_lsn := 0,
                  requestor := None\<rparr>))
         (sseq pgactive_locks_on_unlock (SetLatch latch))))))))"

definition pgactive_process_release_ddl_lock :: "lock_env \<Rightarrow> pgactiveNodeId \<Rightarrow> pgactiveNodeId \<Rightarrow> unit lock_op" where
  "pgactive_process_release_ddl_lock env origin lock =
     sbind (check_is_my_origin_node env origin) (\<lambda>mine.
     if \<not> mine then sret () else pgactive_locks_release_local_ddl_lock env lock)"

definition pgactive_locks_node_detached :: "lock_env \<Rightarrow> pgactiveNodeId \<Rightarrow> unit lock_op" where
  "pgactive_locks_node_detached env node =
     sseq (pgactive_locks_find_my_database env False)
     (sbind (sget db) (\<lambda>d.
      if lock_type d > pgactive_LOCK_NOLOCK
      then sbind (fetch_sysid env (lock_holder d)) (\<lambda>owner.
           sseq (CommitTransactionCommand env)
           (if pgactive_nodeid_eq (Some node) (Some owner)
            then pgactive_locks_release_local_ddl_lock env node else sret ()))
      else sret ()))"

definition pgactive_process_confirm_ddl_lock ::
  "lock_env \<Rightarrow> pgactiveNodeId \<Rightarrow> pgactiveNodeId \<Rightarrow> u32 \<Rightarrow> unit lock_op" where
  "pgactive_process_confirm_ddl_lock env origin lock t =
     sbind (check_is_my_origin_node env origin) (\<lambda>mine.
     if \<not> mine then sret ()
     else if \<not> check_is_my_node env lock then sret ()
     else
     sseq (pgactive_locks_find_my_database env False)
     (sbind (sget db) (\<lambda>d.
      if lock_type_code (lock_type d) \<noteq> t then sret ()
      else sseq (upd_db (\<lambda>d. d\<lparr>acquire_confirmed := acquire_confirmed d + 1\<rparr>)) (SetLatch (requestor d)))))"

definition pgactive_process_decline_ddl_lock ::
  "lock_env \<Rightarrow> pgactiveNodeId \<Rightarrow> pgactiveNodeId \<Rightarrow> u32 \<Rightarrow> unit lock_op" where
  "pgactive_process_decline_ddl_lock env origin lock t =
     sbind (check_is_my_origin_node env origin) (\<lambda>mine.
     if \<not> mine then sret ()
     else
     sseq (pgactive_locks_find_my_database env False)
     (sbind (sget db) (\<lambda>d.
      if lock_type_code (lock_type d) \<noteq> t then sret ()
      else sseq (upd_db (\<lambda>d. d\<lparr>acquire_declined := acquire_declined d + 1\<rparr>)) (SetLatch (requestor d)))))"

definition pgactive_process_request_replay_confirm :: "lock_env \<Rightarrow> pgactiveNodeId \<Rightarrow> u64 \<Rightarrow> unit lock_op" where
  "pgactive_process_request_replay_confirm env node request_lsn =
     sbind (check_is_my_origin_node env node) (\<lambda>mine.
     if \<not> mine then sret ()
     else sseq (pgactive_locks_find_my_database env False)
          (pgactive_send_message
             (pq_sendint64 (e_pq env) (prepare_message env pgactive_MESSAGE_REPLAY_CONFIRM) request_lsn) False))"

definition pgactive_process_replay_confirm :: "lock_env \<Rightarrow> pgactiveNodeId \<Rightarrow> u64 \<Rightarrow> unit lock_op" where
  "pgactive_process_replay_confirm env node request_lsn =
     sbind (check_is_my_origin_node env node) (\<lambda>mine.
     if \<not> mine then sret ()
     else
     sseq (pgactive_locks_find_my_database env False)
     (sbind (sget db) (\<lambda>d.
      if replay_confirmed_lsn d = request_lsn
      then sseq (upd_db (\<lambda>d. d\<lparr>replay_confirmed := replay_confirmed d + 1\<rparr>))
           (if replay_confirmed d + 1 \<ge> nnodes d then pgactive_send_confirm_lock env else sret ())
      else sret ())))"

text \<open>The loop over the rows of the restarted node, one pass for each row found.\<close>

fun remote_startup_loop :: "lock_env \<Rightarrow> pgactiveNodeId \<Rightarrow> lock_row list \<Rightarrow> unit lock_op" where
  "remote_startup_loop env node [] = sret ()"
| "remote_startup_loop env node (r # rs) =
     sseq (smodify (\<lambda>s. s\<lparr>global_locks := remove1 r (global_locks s)\<rparr>))
     (sseq (pgactive_locks_set_commit_pending_state env pgactive_LOCKSTATE_NOLOCK)
     (sseq (upd_db (\<lambda>d. if lockcount d = 0 then d
              else d\<lparr>lockcount := lockcount d - 1, lock_holder := InvalidRepOriginId,
                     lock_type := pgactive_LOCK_NOLOCK, replay_confirmed := 0, replay_confirmed_lsn := 0\<rparr>))
     (sseq (sbind (sget db) (\<lambda>d. if lockcount d = 0 then pgactive_locks_on_unlock else sret ()))
     (remote_startup_loop env node rs))))"

definition pgactive_locks_process_remote_startup :: "lock_env \<Rightarrow> pgactiveNodeId \<Rightarrow> unit lock_op" where
  "pgactive_locks_process_remote_startup env node =
     sseq (pgactive_locks_find_my_database env False)
     (sbind (sget (\<lambda>s. filter (locks_begin_scan node) (global_locks s))) (\<lambda>rs.
      sseq (remote_startup_loop env node rs) (CommitTransactionCommand env)))"

section \<open>Start of the per-database worker\<close>

definition startup_row :: "lock_env \<Rightarrow> lock_row \<Rightarrow> unit lock_op" where
  "startup_row env r =
     (let st = (case row_state r of None \<Rightarrow> ''catchup'' | Some st \<Rightarrow> st)
      in case sscanf [ConvU 64] (owning_sysid r) of
           [VU sys] \<Rightarrow>
             sbind (slift (pgactive_fetch_node_id_via_sysid (e_by_name env) (e_mydb env)
                      \<lparr>sysid = of_nat sys, timeline = owning_timeline r, dboid = owning_datid r\<rparr>)) (\<lambda>node_id.
             sbind (slift (pgactive_lock_name_to_type (locktype r))) (\<lambda>lt.
             if strcmp st ''acquired'' = 0
             then upd_db (\<lambda>d. d\<lparr>lock_holder := node_id, lockcount := lockcount d + 1, lock_type := lt,
                     lock_state := pgactive_LOCKSTATE_PEER_CONFIRMED\<rparr>)
             else if strcmp st ''catchup'' = 0
             then sseq (pgactive_send_message
                     (pq_sendint64 (e_pq env) (prepare_message env pgactive_MESSAGE_REQUEST_REPLAY_CONFIRM) (e_insert_lsn env)) False)
                  (upd_db (\<lambda>d. d\<lparr>lock_holder := node_id, lockcount := lockcount d + 1, lock_type := lt,
                     lock_state := pgactive_LOCKSTATE_PEER_CATCHUP, replay_confirmed := 0,
                     replay_confirmed_lsn := e_insert_lsn env\<rparr>))
             else sfail (Panic ''unknown lockstate'')))
         | _ \<Rightarrow> sfail (Error ''could not parse sysid''))"

fun startup_rows :: "lock_env \<Rightarrow> lock_row list \<Rightarrow> unit lock_op" where
  "startup_rows env [] = sret ()"
| "startup_rows env (r # rs) = sseq (startup_row env r) (startup_rows env rs)"

definition pgactive_locks_startup :: "lock_env \<Rightarrow> unit lock_op" where
  "pgactive_locks_startup env =
     sseq (pgactive_locks_find_my_database env True)
     (sbind (sget db) (\<lambda>d.
      if locked_and_loaded d then sret ()
      else
        sseq (upd_db (\<lambda>d. d\<lparr>waiters := [], nnodes := - 1\<rparr>))
        (sseq (pgactive_send_message (prepare_message env pgactive_MESSAGE_START) False)
        (sbind (sget (\<lambda>s. filter (\<lambda>r. acquired_datid r = ldb_dboid (db s)) (global_locks s))) (\<lambda>rs.
         sseq (startup_rows env rs)
         (sseq (CommitTransactionCommand env)
         (upd_db (\<lambda>d. d\<lparr>locked_and_loaded := True\<rparr>))))))))"

definition pgactive_locks_set_nnodes :: "int \<Rightarrow> unit lock_op" where
  "pgactive_locks_set_nnodes n = upd_db (\<lambda>d. d\<lparr>nnodes := n\<rparr>)"

section \<open>Local writers\<close>

definition pgactive_locks_peer_has_lock :: "bool \<Rightarrow> pgactiveLockType \<Rightarrow> pgactiveLocksDBState \<Rightarrow> bool" where
  "pgactive_locks_peer_has_lock xact_acquired min_mode d \<longleftrightarrow>
     \<not> xact_acquired \<and> lockcount d > 0 \<and> lock_type d \<ge> min_mode \<and> lock_holder d \<noteq> InvalidRepOriginId"

text \<open>
  The waiting loops of \<open>pgactive_locks_check_dml\<close>.  Other processes change the slot while
  this one sleeps: every pass comes with a clock reading and the slot as the pass finds it.
  \<open>Inr False\<close> is a backend that still sleeps when the observations end.
\<close>

fun check_dml_loop :: "int option \<Rightarrow> bool \<Rightarrow> (int \<times> pgactiveLocksDBState) list \<Rightarrow> bool result" where
  "check_dml_loop canceltime xact_acquired [] = Inr False"
| "check_dml_loop canceltime xact_acquired ((now, d) # obs) =
     (if (case canceltime of None \<Rightarrow> False | Some t \<Rightarrow> now < t)
      then Inl (Error ''canceling statement due to global lock timeout'')
      else if \<not> pgactive_locks_peer_has_lock xact_acquired pgactive_LOCK_WRITE d then Inr True
      else check_dml_loop canceltime xact_acquired obs)"

text \<open>The first loop sleeps until the per-database worker has loaded the locks.\<close>

fun wait_loaded ::
  "pgactiveLocksDBState \<Rightarrow> (int \<times> pgactiveLocksDBState) list \<Rightarrow> (pgactiveLocksDBState \<times> (int \<times> pgactiveLocksDBState) list) option" where
  "wait_loaded d [] = (if locked_and_loaded d then Some (d, []) else None)"
| "wait_loaded d ((now, d') # obs) = (if locked_and_loaded d then Some (d, (now, d') # obs) else wait_loaded d' obs)"

definition pgactive_locks_check_dml ::
  "lock_env \<Rightarrow> (int \<times> pgactiveLocksDBState) list \<Rightarrow> bool lock_op" where
  "pgactive_locks_check_dml env obs =
     (if e_skip_ddl_replication env then sret True
      else
      sseq (pgactive_locks_find_my_database env False)
      (sbind (sget db) (\<lambda>d0.
       case wait_loaded d0 obs of
         None \<Rightarrow> sret False
       | Some (d, obs) \<Rightarrow>
           sseq (upd_db (\<lambda>_. d))
           (sbind (sget (\<lambda>s. this_xact_acquired_lock s (e_pid env))) (\<lambda>held.
            if pgactive_locks_peer_has_lock held pgactive_LOCK_WRITE d
            then sseq (pgactive_locks_addwaiter (e_proc env)) (slift (check_dml_loop (cancel_time env) held obs))
            else sret True)))))"

section \<open>Dispatch of a received message\<close>

text \<open>An empty rest is the old protocol, which had no lock type.\<close>

definition getmsg_lock_type :: "lock_env \<Rightarrow> bytes \<Rightarrow> u32 lock_op" where
  "getmsg_lock_type env message =
     (if message = [] then sret (lock_type_code pgactive_LOCK_WRITE)
      else slift (map_sum id fst (pq_getmsgint (e_pq env) message 4)))"

definition pgactive_locks_process_message :: "lock_env \<Rightarrow> u32 \<Rightarrow> pgactiveNodeId \<Rightarrow> bytes \<Rightarrow> bool lock_op" where
  "pgactive_locks_process_message env msg_type origin message =
     (if msg_type = message_type_code pgactive_MESSAGE_START
      then sseq (pgactive_locks_process_remote_startup env origin) (sret True)
      else if msg_type = message_type_code pgactive_MESSAGE_ACQUIRE_LOCK
      then sbind (getmsg_lock_type env message) (\<lambda>t.
           sseq (pgactive_process_acquire_ddl_lock env origin t) (sret True))
      else if msg_type = message_type_code pgactive_MESSAGE_RELEASE_LOCK
      then sbind (slift (pgactive_getmsg_nodeid (e_pq env) message False)) (\<lambda>(peer, rest).
           sseq (pgactive_process_release_ddl_lock env origin peer) (sret True))
      else if msg_type = message_type_code pgactive_MESSAGE_CONFIRM_LOCK
      then sbind (slift (pgactive_getmsg_nodeid (e_pq env) message False)) (\<lambda>(peer, rest).
           sbind (getmsg_lock_type env rest) (\<lambda>t.
           sseq (pgactive_process_confirm_ddl_lock env origin peer t) (sret True)))
      else if msg_type = message_type_code pgactive_MESSAGE_DECLINE_LOCK
      then sbind (slift (pgactive_getmsg_nodeid (e_pq env) message False)) (\<lambda>(peer, rest).
           sbind (getmsg_lock_type env rest) (\<lambda>t.
           sseq (pgactive_process_decline_ddl_lock env origin peer t) (sret True)))
      else if msg_type = message_type_code pgactive_MESSAGE_REQUEST_REPLAY_CONFIRM
      then sbind (slift (pq_getmsgint64 (e_pq env) message)) (\<lambda>(confirm_lsn, rest).
           sseq (pgactive_process_request_replay_confirm env origin confirm_lsn) (sret True))
      else if msg_type = message_type_code pgactive_MESSAGE_REPLAY_CONFIRM
      then sbind (slift (pq_getmsgint64 (e_pq env) message)) (\<lambda>(confirm_lsn, rest).
           sseq (pgactive_process_replay_confirm env origin confirm_lsn) (sret True))
      else sret False)"

text \<open>
  The apply worker's entry point.  The result is the origin position to advance to: a
  message outside a transaction advances it here.
\<close>

definition pgactive_process_remote_message :: "lock_env \<Rightarrow> bytes \<Rightarrow> u64 option lock_op" where
  "pgactive_process_remote_message env s0 =
     sbind (slift (read_remote_message (e_pq env) s0)) (\<lambda>m.
     sseq (pgactive_locks_process_message env (rm_type m) (rm_origin m) (rm_body m))
     (sret (if rm_transactional m then None else Some (rm_lsn m))))"

section \<open>Monitoring\<close>

record global_locks_info =
  gl_owner_replorigin :: "u16 option"
  gl_owner_sysid :: "string option"
  gl_owner_timeline :: "u32 option"
  gl_owner_dboid :: "u32 option"
  gl_lock_mode :: "string option"
  gl_lock_state :: string
  gl_owner_local_pid :: "int option"
  gl_lockcount :: int
  gl_npeers :: int
  gl_npeers_confirmed :: int
  gl_npeers_declined :: int
  gl_npeers_replayed :: int
  gl_replay_upto :: "u64 option"

text \<open>
  \<open>junk\<close> is the content of the local variable \<open>locknodeid\<close> before anything is assigned to it.
\<close>

definition pgactive_get_global_locks_info ::
  "lock_env \<Rightarrow> bool \<Rightarrow> pgactiveNodeId \<Rightarrow> lock_sys \<Rightarrow> global_locks_info result" where
  "pgactive_get_global_locks_info env activated junk s =
     (if \<not> activated then Inl (Error ''pgactive is not active in this database'')
      else if \<not> in_use (db s)
        then Inl (Error ''database is not configured for pgactive or pgactive is still starting up'')
      else
      let d = db s; held = lockcount d > 0 in
      bind_result (if held then pgactive_fetch_sysid_via_node_id_ifexists (e_by_oid env) (e_nid env) (e_mydb env) (lock_holder d) True
                   else Inr None) (\<lambda>owner.
      bind_result (if held then map_sum id Some (pgactive_lock_type_to_name (lock_type_code (lock_type d))) else Inr None) (\<lambda>mode.
      let locknodeid = (case owner of None \<Rightarrow> junk | Some n \<Rightarrow> n) in
      Inr \<lparr>gl_owner_replorigin = (if held then Some (lock_holder d) else None),
           gl_owner_sysid = map_option (\<lambda>n. snprintf 33 [ConvU 64] [VU (unat (sysid n))]) owner,
           gl_owner_timeline = map_option timeline owner,
           gl_owner_dboid = map_option dboid owner,
           gl_lock_mode = mode,
           gl_lock_state = pgactive_lock_state_to_name (lock_state d),
           gl_owner_local_pid = (if pgactive_nodeid_eq (Some (my_nodeid env)) (Some locknodeid) then None
                                 else Some (lock_holder_local_pid d)),
           gl_lockcount = lockcount d, gl_npeers = nnodes d,
           gl_npeers_confirmed = acquire_confirmed d, gl_npeers_declined = acquire_declined d,
           gl_npeers_replayed = replay_confirmed d,
           gl_replay_upto = (if replay_confirmed_lsn d \<noteq> 0 then Some (replay_confirmed_lsn d) else None)\<rparr>)))"

section \<open>Evaluation of the building blocks\<close>

lemma lock_scan_eq: "locks_begin_scan node r \<longleftrightarrow>
    owning_sysid r = dec_string (unat (sysid node)) \<and> owning_timeline r = timeline node \<and> owning_datid r = dboid node"
  using length_dec_u64 [of "sysid node"] by (simp add: locks_begin_scan_def snprintf_def)

lemma lock_scan_unique: "locks_begin_scan m r \<Longrightarrow> locks_begin_scan n r \<longleftrightarrow> m = n"
  by (cases m; cases n) (auto simp: lock_scan_eq intro: unsigned_word_eqI)

lemma scan_new_row [simp]: "locks_begin_scan node (new_lock_row env node' nm) \<longleftrightarrow> node = node'"
  by (cases node; cases node') (auto simp: lock_scan_eq new_lock_row_def intro: unsigned_word_eqI [OF sym])

lemma commit_idle [lock_simps]:
  "pending s = (\<lambda>_. None) \<Longrightarrow> CommitTransactionCommand env s = (Inr (), s)"
  by (simp add: CommitTransactionCommand_def pgactive_lock_state_xact_callback_def)

lemma commit_pending [lock_simps]:
  "pending s = (\<lambda>_. None)(e_pid env := Some st) \<Longrightarrow>
     CommitTransactionCommand env s = (Inr (), s\<lparr>db := (db s)\<lparr>lock_state := st\<rparr>, pending := (\<lambda>_. None)\<rparr>)"
  by (auto simp: CommitTransactionCommand_def pgactive_lock_state_xact_callback_def fun_upd_def
      cong: if_cong)

lemma set_pending [lock_simps]:
  "pgactive_locks_set_commit_pending_state env st s = (Inr (), s\<lparr>pending := (pending s)(e_pid env := Some st)\<rparr>)"
  by (simp add: pgactive_locks_set_commit_pending_state_def)

lemma upd_db_eq [lock_simps]: "upd_db f s = (Inr (), s\<lparr>db := f (db s)\<rparr>)"
  by (simp add: upd_db_def)

lemma send_message_eq [lock_simps]:
  "pgactive_send_message m tr s = (Inr (), s\<lparr>wal := wal s @ [(tr, m)]\<rparr>)"
  by (simp add: pgactive_send_message_def)

lemma find_my_database_in_use [lock_simps]:
  "in_use (db s) \<Longrightarrow> pgactive_locks_find_my_database env c s = (Inr (), s)"
  by (simp add: pgactive_locks_find_my_database_def)

lemma set_latch_eq [lock_simps]:
  "SetLatch l s = (Inr (), s\<lparr>latches_set := latches_set s @ (case l of None \<Rightarrow> [] | Some l \<Rightarrow> [l])\<rparr>)"
  by (simp add: SetLatch_def)

lemma on_unlock_loop_distinct:
  "distinct ws \<Longrightarrow> on_unlock_loop ws s =
     (Inr (), s\<lparr>db := (db s)\<lparr>waiters := []\<rparr>, latches_set := latches_set s @ ws\<rparr>)"
proof (induction ws arbitrary: s)
  case (Cons w ws)
  then have "\<not> (ws \<noteq> [] \<and> hd ws = w)" by (cases ws) auto
  with Cons show ?case by (simp add: Let_def)
qed simp

lemma on_unlock_distinct [lock_simps]:
  "distinct (waiters (db s)) \<Longrightarrow> pgactive_locks_on_unlock s =
     (Inr (), s\<lparr>db := (db s)\<lparr>waiters := []\<rparr>, latches_set := latches_set s @ waiters (db s)\<rparr>)"
  by (simp add: pgactive_locks_on_unlock_def on_unlock_loop_distinct)

text \<open>The identity that the node's catalogue gives an origin.\<close>

definition origin_node :: "lock_env \<Rightarrow> u16 \<Rightarrow> pgactiveNodeId result" where
  "origin_node cx i = pgactive_fetch_sysid_via_node_id (e_by_oid cx) (e_nid cx) (e_mydb cx) i zero_nodeid"

definition same_node :: "lock_env \<Rightarrow> lock_env \<Rightarrow> bool" where
  "same_node cx env \<longleftrightarrow> e_by_oid env = e_by_oid cx \<and> e_by_name env = e_by_name cx \<and>
     e_nid env = e_nid cx \<and> e_mydb env = e_mydb cx \<and> e_pq env = e_pq cx"

lemma fetch_sysid_eq [lock_simps]: "same_node cx env \<Longrightarrow> fetch_sysid env i s = (origin_node cx i, s)"
  by (simp add: fetch_sysid_def origin_node_def same_node_def)

lemma origin_node_local [simp]: "origin_node cx InvalidRepOriginId = Inr (my_nodeid cx)"
  by (simp add: origin_node_def pgactive_fetch_sysid_via_node_id_def
      pgactive_fetch_sysid_via_node_id_ifexists_def)

lemma my_origin_node_eq [lock_simps]:
  assumes "same_node cx env" "pending s = (\<lambda>_. None)"
  shows "check_is_my_origin_node env peer s =
    (case origin_node cx (e_session_origin env) of Inl e \<Rightarrow> (Inl e, s) | Inr n \<Rightarrow> (Inr (peer = n), s))"
proof (cases "origin_node cx (e_session_origin env)")
  case (Inl e)
  with assms show ?thesis by (simp add: check_is_my_origin_node_def fetch_sysid_eq)
next
  case (Inr n)
  with assms show ?thesis by (simp add: check_is_my_origin_node_def fetch_sysid_eq commit_idle)
qed

end
