(* ===== verification/Lock_Safety.thy ===== *)
theory Lock_Safety
  imports Lock_State
begin

text \<open>
  What one node's lock manager guarantees.  \<open>lock_inv\<close> ties the slot in shared memory to the
  rows of \<open>pgactive_global_locks\<close> and to the backends' own flags; every handler keeps it and none
  of them reaches a \<open>PANIC\<close>.  From it follow the assertions in the code, that a restart
  recovers the lock a peer holds, that writers are held back while a peer has the write lock,
  and that releasing wakes every waiter.
\<close>

section \<open>The invariant\<close>

abbreviation peer_state :: "pgactiveLockState \<Rightarrow> bool" where
  "peer_state st \<equiv> st \<in> {pgactive_LOCKSTATE_PEER_BEGIN_CATCHUP, pgactive_LOCKSTATE_PEER_CANCEL_XACTS,
     pgactive_LOCKSTATE_PEER_CATCHUP, pgactive_LOCKSTATE_PEER_CONFIRMED}"

abbreviation acquire_state :: "pgactiveLockState \<Rightarrow> bool" where
  "acquire_state st \<equiv> st \<in> {pgactive_LOCKSTATE_ACQUIRE_TALLY_CONFIRMATIONS, pgactive_LOCKSTATE_ACQUIRE_ACQUIRED}"

definition no_lock :: "lock_sys \<Rightarrow> bool" where
  "no_lock s \<longleftrightarrow> lockcount (db s) = 0 \<and> lock_type (db s) = pgactive_LOCK_NOLOCK \<and>
     lock_holder (db s) = InvalidRepOriginId \<and> lock_holder_local_pid (db s) = 0 \<and>
     global_locks s = [] \<and> this_xact_acquired_lock s = (\<lambda>_. False)"

definition local_lock :: "lock_sys \<Rightarrow> bool" where
  "local_lock s \<longleftrightarrow> lockcount (db s) = 1 \<and> lock_type (db s) > pgactive_LOCK_NOLOCK \<and>
     lock_holder (db s) = InvalidRepOriginId \<and> lock_holder_local_pid (db s) \<noteq> 0 \<and>
     global_locks s = [] \<and> this_xact_acquired_lock s = (\<lambda>p. p = lock_holder_local_pid (db s))"

definition valid_origin :: "u16 \<Rightarrow> bool" where
  "valid_origin i \<longleftrightarrow> i \<noteq> InvalidRepOriginId \<and> i \<noteq> DoNotReplicateId"

text \<open>The row on disk for a peer's lock: its owner, its progress and its type.\<close>

definition peer_row :: "lock_env \<Rightarrow> u16 \<Rightarrow> pgactiveLockState \<Rightarrow> pgactiveLockType \<Rightarrow> lock_row \<Rightarrow> bool" where
  "peer_row cx holder st lt r \<longleftrightarrow>
     (\<exists>n. origin_node cx holder = Inr n \<and> locks_begin_scan n r) \<and>
     row_state r = Some (if st = pgactive_LOCKSTATE_PEER_CONFIRMED then ''acquired'' else ''catchup'') \<and>
     (\<exists>lt'. pgactive_lock_name_to_type (locktype r) = Inr lt' \<and> lt \<le> lt') \<and>
     acquired_datid r = e_mydb cx"

definition peer_lock :: "lock_env \<Rightarrow> lock_sys \<Rightarrow> bool" where
  "peer_lock cx s \<longleftrightarrow> lockcount (db s) = 1 \<and> lock_type (db s) > pgactive_LOCK_NOLOCK \<and>
     valid_origin (lock_holder (db s)) \<and> lock_holder_local_pid (db s) = 0 \<and>
     this_xact_acquired_lock s = (\<lambda>_. False) \<and>
     (\<exists>r. global_locks s = [r] \<and> peer_row cx (lock_holder (db s)) (lock_state (db s)) (lock_type (db s)) r)"

definition lock_inv :: "lock_env \<Rightarrow> lock_sys \<Rightarrow> bool" where
  "lock_inv cx s \<longleftrightarrow>
     in_use (db s) \<and> ldb_dboid (db s) = e_mydb cx \<and> distinct (waiters (db s)) \<and> pending s = (\<lambda>_. None) \<and>
     (replay_confirmed_lsn (db s) \<noteq> 0 \<longrightarrow> peer_state (lock_state (db s))) \<and>
     (requestor (db s) \<noteq> None \<longrightarrow> lock_state (db s) = pgactive_LOCKSTATE_ACQUIRE_TALLY_CONFIRMATIONS) \<and>
     (if lock_state (db s) = pgactive_LOCKSTATE_NOLOCK then no_lock s
      else if acquire_state (lock_state (db s)) then local_lock s
      else peer_lock cx s)"

definition is_panic :: "'a result \<Rightarrow> bool" where
  "is_panic r \<longleftrightarrow> (\<exists>m. r = Inl (Panic m))"

definition safe :: "lock_env \<Rightarrow> 'a lock_op \<Rightarrow> bool" where
  "safe cx m \<longleftrightarrow> (\<forall>s. lock_inv cx s \<longrightarrow> lock_inv cx (snd (m s)) \<and> \<not> is_panic (fst (m s)))"

lemma safeI: "(\<And>s. lock_inv cx s \<Longrightarrow> lock_inv cx (snd (m s)) \<and> \<not> is_panic (fst (m s))) \<Longrightarrow> safe cx m"
  by (simp add: safe_def)

lemma is_panic_simps [simp]:
  "\<not> is_panic (Inr x)" "\<not> is_panic (Inl (Error m))" "\<not> is_panic (Inl (Fatal m))" "is_panic (Inl (Panic m))"
  by (simp_all add: is_panic_def)

lemma lock_type_less [simp]:
  "pgactive_LOCK_NOLOCK < lt \<longleftrightarrow> lt \<noteq> pgactive_LOCK_NOLOCK"
  "pgactive_LOCK_WRITE \<le> lt \<longleftrightarrow> lt = pgactive_LOCK_WRITE"
  "pgactive_LOCK_DDL \<le> lt \<longleftrightarrow> lt \<noteq> pgactive_LOCK_NOLOCK"
  by (cases lt; simp add: less_pgactiveLockType_def less_eq_pgactiveLockType_def)+

lemma lock_type_code_inject [simp]: "lock_type_code a = lock_type_code b \<longleftrightarrow> a = b"
  by (cases a; cases b) simp_all

lemma lock_type_of_code [simp]: "lock_type_of_code (lock_type_code lt) = Some lt"
  by (cases lt) (simp_all add: lock_type_of_code_def)

lemma lock_type_to_name_eq:
  "pgactive_lock_type_to_name (lock_type_code lt) = Inr (case lt of pgactive_LOCK_NOLOCK \<Rightarrow> ''nolock''
     | pgactive_LOCK_DDL \<Rightarrow> ''ddl_lock'' | pgactive_LOCK_WRITE \<Rightarrow> ''write_lock'')"
  unfolding pgactive_lock_type_to_name_def lock_type_of_code by (cases lt) simp_all

lemma lock_name_to_type_eq:
  "pgactive_lock_name_to_type ''nolock'' = Inr pgactive_LOCK_NOLOCK"
  "pgactive_lock_name_to_type ''ddl_lock'' = Inr pgactive_LOCK_DDL"
  "pgactive_lock_name_to_type ''write_lock'' = Inr pgactive_LOCK_WRITE"
  by (simp_all add: pgactive_lock_name_to_type_def strcasecmp_def tolower_def)

lemma lock_name_roundtrip:
  "pgactive_lock_type_to_name (lock_type_code lt) = Inr nm \<Longrightarrow> pgactive_lock_name_to_type nm = Inr lt"
  unfolding lock_type_to_name_eq by (cases lt) (auto simp: lock_name_to_type_eq)

text \<open>A lookup that fails raises an error, never a \<open>PANIC\<close>.\<close>

lemma origin_node_no_panic [simp]: "origin_node cx i = Inl e \<Longrightarrow> \<not> is_panic (Inl e)"
  by (auto simp: origin_node_def pgactive_fetch_sysid_via_node_id_def is_panic_def
      pgactive_fetch_sysid_via_node_id_ifexists_def pgactive_parse_replident_name_def bind_result_def
      split: if_splits option.splits sum.splits list.splits conv_val.splits)

section \<open>What the handlers do from a state that satisfies the invariant\<close>

definition worker_env :: "lock_env \<Rightarrow> lock_env \<Rightarrow> bool" where
  "worker_env cx env \<longleftrightarrow> same_node cx env \<and> valid_origin (e_session_origin env) \<and> e_insert_lsn env \<noteq> 0"

definition backend_env :: "lock_env \<Rightarrow> lock_env \<Rightarrow> bool" where
  "backend_env cx env \<longleftrightarrow> same_node cx env \<and> e_pid env \<noteq> 0"

definition confirm_message :: "lock_env \<Rightarrow> pgactiveNodeId \<Rightarrow> pgactiveLockType \<Rightarrow> bytes" where
  "confirm_message env n lt = pq_sendint (e_pq env)
     (pgactive_send_nodeid (e_pq env) (prepare_message env pgactive_MESSAGE_CONFIRM_LOCK) n False) (lock_type_code lt) 4"

lemma send_confirm_lock_eval:
  assumes "same_node cx env" "pending s = (\<lambda>_. None)" "global_locks s = [r]"
    "origin_node cx (lock_holder (db s)) = Inr n" "locks_begin_scan n r"
  shows "pgactive_send_confirm_lock env s =
    (Inr (), s\<lparr>db := (db s)\<lparr>replay_confirmed := 0, replay_confirmed_lsn := 0, requestor := None,
                  lock_state := pgactive_LOCKSTATE_PEER_CONFIRMED\<rparr>,
               global_locks := [r\<lparr>row_state := Some ''acquired''\<rparr>],
               wal := wal s @ [(True, confirm_message env n (lock_type (db s)))]\<rparr>)"
  using assms
  by (cases s) (simp add: pgactive_send_confirm_lock_def lock_simps update_owner_row_def confirm_message_def
      del: fun_upd_apply)

lemma request_replay_eval:
  "pgactive_request_replay_confirmation env s =
    (Inr (), s\<lparr>db := (db s)\<lparr>replay_confirmed := 0, replay_confirmed_lsn := e_insert_lsn env,
                  lock_state := pgactive_LOCKSTATE_PEER_CATCHUP\<rparr>,
               wal := wal s @ [(False, pq_sendint64 (e_pq env)
                  (prepare_message env pgactive_MESSAGE_REQUEST_REPLAY_CONFIRM) (e_insert_lsn env))]\<rparr>)"
  by (simp add: pgactive_request_replay_confirmation_def lock_simps)

lemma decline_eval:
  assumes "same_node cx env" "pending s = (\<lambda>_. None)" "origin_node cx (lock_holder (db s)) = Inr n"
  shows "decline_ddl_lock env node t s =
    (Inr (), s\<lparr>wal := wal s @ [(False, pq_sendint (e_pq env)
       (pgactive_send_nodeid (e_pq env) (prepare_message env pgactive_MESSAGE_DECLINE_LOCK) node False) t 4)]\<rparr>)"
  using assms by (simp add: decline_ddl_lock_def lock_simps)

lemma cancel_eval:
  "cancel_conflicting_transactions env s =
    (case cancel_loop (cancel_time env) (kill_time env) (e_nconflicts env) (e_conflict_obs env) of
       None \<Rightarrow> Inl (Fatal ''terminating connection due to administrator command'') | Some b \<Rightarrow> Inr b,
     s\<lparr>db := (db s)\<lparr>lock_state := pgactive_LOCKSTATE_PEER_CANCEL_XACTS\<rparr>\<rparr>)"
  by (simp add: cancel_conflicting_transactions_def lock_simps split: option.split)

lemma inv_base:
  assumes "lock_inv cx s"
  shows "in_use (db s)" "pending s = (\<lambda>_. None)" "distinct (waiters (db s))" "ldb_dboid (db s) = e_mydb cx"
  using assms by (simp_all add: lock_inv_def)

lemma inv_cases:
  assumes "lock_inv cx s"
  obtains (free) "lock_state (db s) = pgactive_LOCKSTATE_NOLOCK" "no_lock s" "replay_confirmed_lsn (db s) = 0" "requestor (db s) = None"
  | (own) "acquire_state (lock_state (db s))" "local_lock s" "replay_confirmed_lsn (db s) = 0"
  | (peer) "peer_state (lock_state (db s))" "peer_lock cx s" "requestor (db s) = None"
  using assms by (cases "lock_state (db s)") (auto simp: lock_inv_def)

lemma inv_lockcount_0: "lock_inv cx s \<Longrightarrow> lockcount (db s) = 0 \<longleftrightarrow> lock_state (db s) = pgactive_LOCKSTATE_NOLOCK"
  by (erule inv_cases) (auto simp: no_lock_def local_lock_def peer_lock_def)

lemma inv_holder:
  assumes "lock_inv cx s" obtains n where "origin_node cx (lock_holder (db s)) = Inr n"
  using assms
proof (cases rule: inv_cases)
  case free
  with that show thesis by (simp add: no_lock_def)
next
  case own
  with that show thesis by (simp add: local_lock_def)
next
  case peer
  with that show thesis by (auto simp: peer_lock_def peer_row_def)
qed

text \<open>A state in a peer's hands, described by what a handler wrote.\<close>

lemma peer_invI:
  assumes "in_use (db s)" "ldb_dboid (db s) = e_mydb cx" "distinct (waiters (db s))" "pending s = (\<lambda>_. None)"
    and "peer_state (lock_state (db s))" "requestor (db s) = None" "peer_lock cx s"
  shows "lock_inv cx s"
  using assms by (auto simp: lock_inv_def)

lemma peer_row_new:
  assumes "origin_node cx i = Inr n" "same_node cx env" "pgactive_lock_type_to_name (lock_type_code lt) = Inr nm"
    "st \<noteq> pgactive_LOCKSTATE_PEER_CONFIRMED"
  shows "peer_row cx i st lt (new_lock_row env n nm)"
  using assms lock_name_roundtrip [OF assms(3)]
  by (auto simp: peer_row_def) (auto simp: new_lock_row_def same_node_def pgactive_make_my_nodeid_def)

definition granted :: "lock_env \<Rightarrow> pgactiveNodeId \<Rightarrow> pgactiveLockType \<Rightarrow> string \<Rightarrow> lock_sys \<Rightarrow> lock_sys" where
  "granted env node lt nm s =
     s\<lparr>global_locks := [new_lock_row env node nm],
       db := (db s)\<lparr>lock_state := pgactive_LOCKSTATE_PEER_BEGIN_CATCHUP, lockcount := 1, lock_type := lt,
                    lock_holder := e_session_origin env\<rparr>\<rparr>"

definition after_grant :: "lock_env \<Rightarrow> pgactiveNodeId \<Rightarrow> pgactiveLockType \<Rightarrow> unit lock_op" where
  "after_grant env node lt =
     (if lt = pgactive_LOCK_WRITE
      then sbind (cancel_conflicting_transactions env) (\<lambda>ok.
             if \<not> ok then decline_ddl_lock env node (lock_type_code lt)
             else pgactive_request_replay_confirmation env)
      else pgactive_send_confirm_lock env)"

lemma acquire_free_eval:
  assumes "same_node cx env" "in_use (db s)" "pending s = (\<lambda>_. None)" "no_lock s"
    "origin_node cx (e_session_origin env) = Inr node" "pgactive_lock_type_to_name (lock_type_code lt) = Inr nm"
  shows "pgactive_process_acquire_ddl_lock env node (lock_type_code lt) s =
    after_grant env node lt (granted env node lt nm s)"
proof -
  have c: "CommitTransactionCommand env
      (s\<lparr>pending := (\<lambda>_. None)(e_pid env := Some st), global_locks := gl\<rparr>) =
      (Inr (), s\<lparr>global_locks := gl, db := (db s)\<lparr>lock_state := st\<rparr>\<rparr>)" for st gl
    using assms(3) by (cases s) (simp add: lock_simps)
  show ?thesis
    using assms
    by (cases "lt = pgactive_LOCK_WRITE")
      (simp_all add: process_acquire_defs lock_simps no_lock_def c after_grant_def granted_def Let_def
        del: lock_type_code.simps)
qed

lemma after_grant_safe:
  assumes env: "worker_env cx env" and node: "origin_node cx (lock_holder (db s)) = Inr node"
    and s: "in_use (db s)" "ldb_dboid (db s) = e_mydb cx" "distinct (waiters (db s))" "pending s = (\<lambda>_. None)"
      "requestor (db s) = None" "peer_lock cx s" "lock_state (db s) = pgactive_LOCKSTATE_PEER_BEGIN_CATCHUP"
  shows "lock_inv cx (snd (after_grant env node lt s)) \<and> \<not> is_panic (fst (after_grant env node lt s))"
proof (cases "lt = pgactive_LOCK_WRITE")
  case True
  let ?s1 = "s\<lparr>db := (db s)\<lparr>lock_state := pgactive_LOCKSTATE_PEER_CANCEL_XACTS\<rparr>\<rparr>"
  have same: "same_node cx env" using env by (simp add: worker_env_def)
  have p1: "peer_lock cx ?s1" using s by (auto simp: peer_lock_def peer_row_def)
  then have i1: "lock_inv cx ?s1" using s by (intro peer_invI) auto
  show ?thesis
  proof (cases "cancel_loop (cancel_time env) (kill_time env) (e_nconflicts env) (e_conflict_obs env)")
    case None
    with True i1 show ?thesis by (simp add: after_grant_def cancel_eval)
  next
    case (Some ok)
    have d: "decline_ddl_lock env node t ?s1 = (Inr (), ?s1\<lparr>wal := wal ?s1 @ [(False, pq_sendint (e_pq env)
       (pgactive_send_nodeid (e_pq env) (prepare_message env pgactive_MESSAGE_DECLINE_LOCK) node False) t 4)]\<rparr>)" for t
      using node s same by (intro decline_eval) simp_all
    have inv_wal: "lock_inv cx (?s1\<lparr>wal := w\<rparr>)" for w using i1 by (simp add: lock_inv_def no_lock_def local_lock_def peer_lock_def)
    show ?thesis
    proof (cases ok)
      case False
      with True Some d inv_wal show ?thesis by (simp add: after_grant_def cancel_eval)
    next
      case ok: True
      have "peer_lock cx (snd (pgactive_request_replay_confirmation env ?s1))"
        using p1 by (auto simp: request_replay_eval peer_lock_def peer_row_def)
      then have "lock_inv cx (snd (pgactive_request_replay_confirmation env ?s1))"
        using s by (intro peer_invI) (auto simp: request_replay_eval)
      with True Some ok show ?thesis by (simp add: after_grant_def cancel_eval request_replay_eval)
    qed
  qed
next
  case False
  have same: "same_node cx env" using env by (simp add: worker_env_def)
  from s obtain r where r: "global_locks s = [r]"
      and row: "peer_row cx (lock_holder (db s)) pgactive_LOCKSTATE_PEER_BEGIN_CATCHUP (lock_type (db s)) r"
    by (auto simp: peer_lock_def)
  from row node have scan: "locks_begin_scan node r" by (simp add: peer_row_def)
  note eval = send_confirm_lock_eval [OF same s(4) r node scan]
  have row': "peer_row cx (lock_holder (db s)) pgactive_LOCKSTATE_PEER_CONFIRMED (lock_type (db s)) (r\<lparr>row_state := Some ''acquired''\<rparr>)"
    using row by (auto simp: peer_row_def lock_scan_eq)
  then have "peer_lock cx (snd (pgactive_send_confirm_lock env s))"
    using s(6) by (simp add: eval peer_lock_def)
  then have "lock_inv cx (snd (pgactive_send_confirm_lock env s))"
    using s by (intro peer_invI) (auto simp: eval)
  with False show ?thesis by (simp add: after_grant_def eval)
qed

lemma inv_wal [simp]: "lock_inv cx (s\<lparr>wal := w\<rparr>) \<longleftrightarrow> lock_inv cx s"
  by (simp add: lock_inv_def no_lock_def local_lock_def peer_lock_def)

lemma inv_latches [simp]: "lock_inv cx (s\<lparr>latches_set := w\<rparr>) \<longleftrightarrow> lock_inv cx s"
  by (simp add: lock_inv_def no_lock_def local_lock_def peer_lock_def)

lemma decline_safe:
  assumes "same_node cx env" "lock_inv cx s"
  shows "lock_inv cx (snd (decline_ddl_lock env node t s)) \<and> \<not> is_panic (fst (decline_ddl_lock env node t s))"
proof -
  from inv_holder [OF assms(2)] obtain n where "origin_node cx (lock_holder (db s)) = Inr n" .
  with assms inv_base [OF assms(2)] show ?thesis by (simp add: decline_eval)
qed

text \<open>The upgrade of a DDL lock: the owner's row is rewritten, then the lock is treated as new.\<close>

definition upgraded :: "lock_env \<Rightarrow> string \<Rightarrow> lock_sys \<Rightarrow> lock_sys" where
  "upgraded env nm s =
     s\<lparr>global_locks := map (\<lambda>r. r\<lparr>locktype := nm, row_state := Some ''catchup''\<rparr>) (global_locks s),
       db := (db s)\<lparr>lock_state := pgactive_LOCKSTATE_PEER_BEGIN_CATCHUP\<rparr>\<rparr>"

lemma acquire_upgrade_eval:
  assumes "same_node cx env" "lock_inv cx s" "lock_state (db s) \<noteq> pgactive_LOCKSTATE_NOLOCK"
    "origin_node cx (e_session_origin env) = Inr node" "lock_holder (db s) = e_session_origin env"
    "lock_type (db s) < pgactive_LOCK_WRITE" "valid_origin (e_session_origin env)"
    "pgactive_lock_type_to_name (lock_type_code pgactive_LOCK_WRITE) = Inr nm"
  shows "pgactive_process_acquire_ddl_lock env node (lock_type_code pgactive_LOCK_WRITE) s =
    sbind (cancel_conflicting_transactions env) (\<lambda>ok.
      if \<not> ok then decline_ddl_lock env node (lock_type_code pgactive_LOCK_WRITE)
      else sseq (upd_db (\<lambda>d. d\<lparr>lock_type := pgactive_LOCK_WRITE\<rparr>)) (pgactive_request_replay_confirmation env))
    (upgraded env nm s)"
proof -
  from assms(2) have "peer_lock cx s"
  proof (cases rule: inv_cases)
    case own
    with assms show ?thesis by (simp add: local_lock_def valid_origin_def)
  qed (use assms in simp_all)
  then obtain r where r: "global_locks s = [r]" "lockcount (db s) = 1" "locks_begin_scan node r"
    using assms by (auto simp: peer_lock_def peer_row_def)
  have c: "CommitTransactionCommand env
      (s\<lparr>global_locks := gl, pending := (\<lambda>_. None)(e_pid env := Some st)\<rparr>) =
      (Inr (), s\<lparr>global_locks := gl, db := (db s)\<lparr>lock_state := st\<rparr>\<rparr>)" for st gl
    using inv_base(2) [OF assms(2)] by (cases s) (simp add: lock_simps)
  show ?thesis
    using assms r inv_base [OF assms(2)]
    by (simp add: process_acquire_defs lock_simps Let_def update_owner_row_def c upgraded_def
        del: lock_type_code.simps)
qed

lemma upgraded_peer_lock:
  assumes "peer_lock cx s" "pgactive_lock_type_to_name (lock_type_code pgactive_LOCK_WRITE) = Inr nm"
    "lock_type (db s) < pgactive_LOCK_WRITE"
  shows "peer_lock cx (upgraded env nm s)"
    and "peer_lock cx ((upgraded env nm s)\<lparr>db := (db (upgraded env nm s))\<lparr>lock_type := pgactive_LOCK_WRITE\<rparr>\<rparr>)"
  using assms lock_name_roundtrip [OF assms(2)]
  by (auto simp: peer_lock_def peer_row_def upgraded_def lock_scan_eq)

lemma acquire_upgrade_safe:
  assumes env: "worker_env cx env" and inv: "lock_inv cx s" "lock_state (db s) \<noteq> pgactive_LOCKSTATE_NOLOCK"
    and node: "origin_node cx (e_session_origin env) = Inr node" "lock_holder (db s) = e_session_origin env"
    and lt: "lock_type (db s) < pgactive_LOCK_WRITE" "pgactive_lock_type_to_name (lock_type_code pgactive_LOCK_WRITE) = Inr nm"
  shows "lock_inv cx (snd (pgactive_process_acquire_ddl_lock env node (lock_type_code pgactive_LOCK_WRITE) s)) \<and>
    \<not> is_panic (fst (pgactive_process_acquire_ddl_lock env node (lock_type_code pgactive_LOCK_WRITE) s))"
proof -
  have same: "same_node cx env" and vo: "valid_origin (e_session_origin env)" using env by (auto simp: worker_env_def)
  from inv node vo have pl: "peer_lock cx s" "requestor (db s) = None"
    by (cases rule: inv_cases; simp add: local_lock_def valid_origin_def)+
  let ?u = "upgraded env nm s"
  note up = upgraded_peer_lock [OF pl(1) lt(2,1), of env]
  let ?s1 = "?u\<lparr>db := (db ?u)\<lparr>lock_state := pgactive_LOCKSTATE_PEER_CANCEL_XACTS\<rparr>\<rparr>"
  have base: "in_use (db ?u)" "ldb_dboid (db ?u) = e_mydb cx" "distinct (waiters (db ?u))" "pending ?u = (\<lambda>_. None)"
      "requestor (db ?u) = None" "lock_state (db ?u) = pgactive_LOCKSTATE_PEER_BEGIN_CATCHUP"
    using inv_base [OF inv(1)] pl(2) by (simp_all add: upgraded_def)
  have i1: "lock_inv cx ?s1"
    using base up(1) by (intro peer_invI) (auto simp: peer_lock_def peer_row_def)
  let ?s2 = "?s1\<lparr>db := (db ?s1)\<lparr>lock_type := pgactive_LOCK_WRITE\<rparr>\<rparr>"
  have i2: "lock_inv cx (snd (pgactive_request_replay_confirmation env ?s2))"
    using base up(2) by (intro peer_invI) (auto simp: peer_lock_def peer_row_def request_replay_eval)
  note eval = acquire_upgrade_eval [OF same inv node lt(1) vo lt(2)]
  show ?thesis
  proof (cases "cancel_loop (cancel_time env) (kill_time env) (e_nconflicts env) (e_conflict_obs env)")
    case None
    with i1 show ?thesis by (simp add: eval cancel_eval del: lock_type_code.simps)
  next
    case (Some ok)
    with i2 decline_safe [OF same i1] show ?thesis
      by (cases ok) (simp_all add: eval cancel_eval upd_db_eq request_replay_eval del: lock_type_code.simps)
  qed
qed

lemma process_acquire_safe:
  assumes env: "worker_env cx env" and t: "lock_type_of_code t \<noteq> Some pgactive_LOCK_NOLOCK"
  shows "safe cx (pgactive_process_acquire_ddl_lock env node t)"
proof (rule safeI)
  fix s assume inv: "lock_inv cx s"
  have same: "same_node cx env" and vo: "valid_origin (e_session_origin env)" using env by (auto simp: worker_env_def)
  note base = inv_base [OF inv]
  show "lock_inv cx (snd (pgactive_process_acquire_ddl_lock env node t s)) \<and>
    \<not> is_panic (fst (pgactive_process_acquire_ddl_lock env node t s))"
  proof (cases "lock_type_of_code t")
    case None
    with inv show ?thesis
      by (simp add: process_acquire_defs pgactive_lock_type_to_name_def)
  next
    case (Some lt)
    then have tc: "t = lock_type_code lt" by (auto simp: lock_type_of_code_def split: if_splits)
    obtain nm where nm: "pgactive_lock_type_to_name (lock_type_code lt) = Inr nm"
      by (simp add: lock_type_to_name_eq)
    show ?thesis
    proof (cases "origin_node cx (e_session_origin env) = Inr node")
      case False
      then show ?thesis
        using inv nm same base
        by (cases "origin_node cx (e_session_origin env)")
          (auto simp: tc process_acquire_defs lock_simps simp del: lock_type_code.simps)
    next
      case node: True
      show ?thesis
      proof (cases "lock_state (db s) = pgactive_LOCKSTATE_NOLOCK")
        case True
        with inv have free: "no_lock s" "requestor (db s) = None" by (auto elim: inv_cases)
        let ?g = "granted env node lt nm s"
        have "peer_lock cx ?g"
          using free vo t Some node peer_row_new [OF node same nm, of pgactive_LOCKSTATE_PEER_BEGIN_CATCHUP]
          by (simp add: granted_def peer_lock_def no_lock_def)
        then have "lock_inv cx (snd (after_grant env node lt ?g)) \<and> \<not> is_panic (fst (after_grant env node lt ?g))"
          using base free node by (intro after_grant_safe [OF env]) (simp_all add: granted_def)
        then show ?thesis
          unfolding tc acquire_free_eval [OF same base(1,2) free(1) node nm] .
      next
        case False
        then have lc: "lockcount (db s) \<noteq> 0" using inv_lockcount_0 [OF inv] by simp
        show ?thesis
        proof (cases "lock_holder (db s) = e_session_origin env \<and> lock_type (db s) < lt")
          case True
          then have "lock_type (db s) \<noteq> pgactive_LOCK_NOLOCK" "lock_type (db s) < lt"
            using inv False vo by (auto elim!: inv_cases simp: local_lock_def peer_lock_def valid_origin_def)
          then have "lt = pgactive_LOCK_WRITE"
            by (cases lt; cases "lock_type (db s)") (simp_all add: less_pgactiveLockType_def)
          with True nm show ?thesis
            using acquire_upgrade_safe [OF env inv False node, of nm] tc by (simp del: lock_type_code.simps)
        next
          case no: False
          then have "pgactive_process_acquire_ddl_lock env node t s = decline_ddl_lock env node t s"
            using lc nm same base node tc
            by (auto simp: process_acquire_defs lock_simps Let_def simp del: lock_type_code.simps)
          with decline_safe [OF same inv] show ?thesis by simp
        qed
      qed
    qed
  qed
qed

text \<open>Releasing: with a row of the owner the lock is freed and every waiter woken.\<close>

lemma release_local_eval:
  assumes "same_node cx env" "lock_inv cx s" "global_locks s = [r]" "locks_begin_scan lock r"
  shows "pgactive_locks_release_local_ddl_lock env lock s =
    (Inr (), s\<lparr>global_locks := [],
       db := (db s)\<lparr>lock_state := pgactive_LOCKSTATE_NOLOCK, lockcount := lockcount (db s) - 1,
               lock_holder := InvalidRepOriginId, lock_type := pgactive_LOCK_NOLOCK,
               replay_confirmed := 0, replay_confirmed_lsn := 0, requestor := None, waiters := []\<rparr>,
       latches_set := latches_set s @ waiters (db s) @ (case requestor (db s) of None \<Rightarrow> [] | Some l \<Rightarrow> [l])\<rparr>)"
proof -
  have c: "CommitTransactionCommand env
      (s\<lparr>global_locks := gl, pending := (\<lambda>_. None)(e_pid env := Some st)\<rparr>) =
      (Inr (), s\<lparr>global_locks := gl, db := (db s)\<lparr>lock_state := st\<rparr>\<rparr>)" for st gl
    using inv_base(2) [OF assms(2)] by (cases s) (simp add: lock_simps)
  show ?thesis
    using assms inv_base [OF assms(2)]
    by (simp add: pgactive_locks_release_local_ddl_lock_def lock_simps c del: fun_upd_apply)
qed

lemma release_local_none:
  assumes "same_node cx env" "lock_inv cx s" "\<forall>r \<in> set (global_locks s). \<not> locks_begin_scan lock r"
  shows "pgactive_locks_release_local_ddl_lock env lock s = (Inr (), s)"
proof -
  have n: "\<not> (\<exists>r \<in> set (global_locks s). locks_begin_scan lock r)" using assms(3) by blast
  show ?thesis
    using assms inv_base [OF assms(2)] by (simp add: pgactive_locks_release_local_ddl_lock_def lock_simps n)
qed

lemma inv_rows:
  assumes "lock_inv cx s"
  obtains "global_locks s = []" | r where "global_locks s = [r]" "peer_lock cx s" "peer_state (lock_state (db s))"
    "requestor (db s) = None"
  using assms by (cases rule: inv_cases) (auto simp: no_lock_def local_lock_def peer_lock_def)

lemma freed_inv:
  assumes "lock_inv cx s" "peer_lock cx s"
    and "s' = s\<lparr>global_locks := [],
       db := (db s)\<lparr>lock_state := pgactive_LOCKSTATE_NOLOCK, lockcount := lockcount (db s) - 1,
               lock_holder := InvalidRepOriginId, lock_type := pgactive_LOCK_NOLOCK,
               replay_confirmed := 0, replay_confirmed_lsn := 0, requestor := None, waiters := []\<rparr>,
       latches_set := ls\<rparr>"
  shows "lock_inv cx s'"
  using assms by (simp add: lock_inv_def no_lock_def peer_lock_def)

lemma release_local_safe: "same_node cx env \<Longrightarrow> safe cx (pgactive_locks_release_local_ddl_lock env lock)"
proof (rule safeI)
  fix s assume same: "same_node cx env" and inv: "lock_inv cx s"
  show "lock_inv cx (snd (pgactive_locks_release_local_ddl_lock env lock s)) \<and>
    \<not> is_panic (fst (pgactive_locks_release_local_ddl_lock env lock s))"
  proof (cases "\<exists>r \<in> set (global_locks s). locks_begin_scan lock r")
    case False
    with release_local_none [OF same inv] inv show ?thesis by simp
  next
    case True
    with inv obtain r where r: "global_locks s = [r]" "locks_begin_scan lock r" "peer_lock cx s"
      by (auto elim: inv_rows)
    from freed_inv [OF inv r(3) refl] release_local_eval [OF same inv r(1,2)] show ?thesis by simp
  qed
qed

lemma safe_origin_check:
  assumes "same_node cx env" "safe cx m"
  shows "safe cx (sbind (check_is_my_origin_node env peer) (\<lambda>mine. if \<not> mine then sret () else m))"
proof (rule safeI)
  fix s assume inv: "lock_inv cx s"
  show "lock_inv cx (snd (sbind (check_is_my_origin_node env peer) (\<lambda>mine. if \<not> mine then sret () else m) s)) \<and>
    \<not> is_panic (fst (sbind (check_is_my_origin_node env peer) (\<lambda>mine. if \<not> mine then sret () else m) s))"
  proof (cases "origin_node cx (e_session_origin env)")
    case (Inl e)
    with assms inv inv_base [OF inv] show ?thesis by (simp add: my_origin_node_eq)
  next
    case (Inr n)
    with assms inv inv_base [OF inv] show ?thesis by (simp add: my_origin_node_eq safe_def)
  qed
qed

lemma process_release_safe: "worker_env cx env \<Longrightarrow> safe cx (pgactive_process_release_ddl_lock env origin lock)"
  unfolding pgactive_process_release_ddl_lock_def worker_env_def
  by (intro safe_origin_check release_local_safe) auto

text \<open>Counting a confirmation or a refusal changes only a counter.\<close>

lemma inv_acquire_counters [simp]:
  "lock_inv cx (s\<lparr>db := (db s)\<lparr>acquire_confirmed := i\<rparr>\<rparr>) \<longleftrightarrow> lock_inv cx s"
  "lock_inv cx (s\<lparr>db := (db s)\<lparr>acquire_declined := i\<rparr>\<rparr>) \<longleftrightarrow> lock_inv cx s"
  "lock_inv cx (s\<lparr>db := (db s)\<lparr>replay_confirmed := i\<rparr>\<rparr>) \<longleftrightarrow> lock_inv cx s"
  "lock_inv cx (s\<lparr>db := (db s)\<lparr>nnodes := i\<rparr>\<rparr>) \<longleftrightarrow> lock_inv cx s"
  by (simp_all add: lock_inv_def no_lock_def local_lock_def peer_lock_def)

lemma process_confirm_safe: "worker_env cx env \<Longrightarrow> safe cx (pgactive_process_confirm_ddl_lock env origin lock t)"
  unfolding pgactive_process_confirm_ddl_lock_def worker_env_def
  by (intro safe_origin_check safeI) (auto simp: lock_simps inv_base)

lemma process_decline_safe: "worker_env cx env \<Longrightarrow> safe cx (pgactive_process_decline_ddl_lock env origin lock t)"
  unfolding pgactive_process_decline_ddl_lock_def worker_env_def
  by (intro safe_origin_check safeI) (auto simp: lock_simps inv_base)

lemma process_request_replay_safe:
  "worker_env cx env \<Longrightarrow> safe cx (pgactive_process_request_replay_confirm env origin lsn)"
  unfolding pgactive_process_request_replay_confirm_def worker_env_def
  by (intro safe_origin_check safeI) (auto simp: lock_simps inv_base)

lemma confirmed_inv:
  assumes "lock_inv cx s" "peer_lock cx s" "global_locks s = [r]" "requestor (db s) = None"
    and "s' = s\<lparr>db := (db s)\<lparr>replay_confirmed := 0, replay_confirmed_lsn := 0, requestor := None,
                  lock_state := pgactive_LOCKSTATE_PEER_CONFIRMED\<rparr>,
               global_locks := [r\<lparr>row_state := Some ''acquired''\<rparr>], wal := w\<rparr>"
  shows "lock_inv cx s'"
proof (rule peer_invI)
  show "peer_lock cx s'" using assms by (auto simp: peer_lock_def peer_row_def lock_scan_eq)
qed (use assms inv_base [OF assms(1)] in simp_all)

lemma process_replay_confirm_safe:
  assumes env: "worker_env cx env" and lsn: "lsn \<noteq> 0"
  shows "safe cx (pgactive_process_replay_confirm env origin lsn)"
  unfolding pgactive_process_replay_confirm_def
proof (intro safe_origin_check safeI)
  show same: "same_node cx env" using env by (simp add: worker_env_def)
  let ?m = "sseq (pgactive_locks_find_my_database env False)
     (sbind (sget db) (\<lambda>d.
      if replay_confirmed_lsn d = lsn
      then sseq (upd_db (\<lambda>d. d\<lparr>replay_confirmed := replay_confirmed d + 1\<rparr>))
           (if replay_confirmed d + 1 \<ge> nnodes d then pgactive_send_confirm_lock env else sret ())
      else sret ()))"
  fix s assume inv: "lock_inv cx s"
  note base = inv_base [OF inv]
  show "lock_inv cx (snd (?m s)) \<and> \<not> is_panic (fst (?m s))"
  proof (cases "replay_confirmed_lsn (db s) = lsn")
    case False
    with inv base show ?thesis by (simp add: lock_simps)
  next
    case True
    with lsn inv have "peer_state (lock_state (db s))" by (auto simp: lock_inv_def)
    with inv obtain r where r: "global_locks s = [r]" "peer_lock cx s" "requestor (db s) = None"
      by (cases rule: inv_cases) (auto simp: peer_lock_def)
    then obtain n where n: "origin_node cx (lock_holder (db s)) = Inr n" "locks_begin_scan n r"
      by (auto simp: peer_lock_def peer_row_def)
    define s1 where "s1 = s\<lparr>db := (db s)\<lparr>replay_confirmed := replay_confirmed (db s) + 1\<rparr>\<rparr>"
    have i1: "lock_inv cx s1" using inv by (simp add: s1_def)
    have p1: "peer_lock cx s1" "global_locks s1 = [r]" "requestor (db s1) = None" "pending s1 = (\<lambda>_. None)"
        "origin_node cx (lock_holder (db s1)) = Inr n"
      using r n base by (simp_all add: s1_def peer_lock_def)
    have "lock_inv cx (snd (pgactive_send_confirm_lock env s1)) \<and> \<not> is_panic (fst (pgactive_send_confirm_lock env s1))"
      using send_confirm_lock_eval [OF same p1(4,2,5) n(2)] confirmed_inv [OF i1 p1(1-3) refl] by simp
    with True i1 base show ?thesis by (simp add: lock_simps s1_def [symmetric])
  qed
qed

lemma remote_startup_safe:
  assumes env: "worker_env cx env"
  shows "safe cx (pgactive_locks_process_remote_startup env node)"
proof (rule safeI)
  fix s assume inv: "lock_inv cx s"
  note base = inv_base [OF inv]
  show "lock_inv cx (snd (pgactive_locks_process_remote_startup env node s)) \<and>
    \<not> is_panic (fst (pgactive_locks_process_remote_startup env node s))"
  proof (cases "filter (locks_begin_scan node) (global_locks s)")
    case Nil
    with inv base show ?thesis by (simp add: pgactive_locks_process_remote_startup_def lock_simps)
  next
    case (Cons r rs)
    then have "r \<in> set (global_locks s)" by (auto simp: filter_eq_Cons_iff)
    with inv obtain "global_locks s = [r]" "peer_lock cx s" "requestor (db s) = None"
      by (auto elim: inv_rows)
    with Cons have r: "global_locks s = [r]" "peer_lock cx s" "requestor (db s) = None" "locks_begin_scan node r" "rs = []"
      by (auto split: if_splits)
    from r(2) have lc: "lockcount (db s) = 1" by (simp add: peer_lock_def)
    have "pgactive_locks_process_remote_startup env node s =
      (Inr (), s\<lparr>global_locks := [],
        db := (db s)\<lparr>lock_state := pgactive_LOCKSTATE_NOLOCK, lockcount := 0,
               lock_holder := InvalidRepOriginId, lock_type := pgactive_LOCK_NOLOCK,
               replay_confirmed := 0, replay_confirmed_lsn := 0, requestor := None, waiters := []\<rparr>,
        latches_set := latches_set s @ waiters (db s)\<rparr>)"
      using r lc base
      by (cases s, cases "db s") (simp add: pgactive_locks_process_remote_startup_def lock_simps del: fun_upd_apply)
    with freed_inv [OF inv r(2)] lc show ?thesis by simp
  qed
qed

lemma node_detached_safe: "same_node cx env \<Longrightarrow> safe cx (pgactive_locks_node_detached env node)"
proof (rule safeI)
  fix s assume same: "same_node cx env" and inv: "lock_inv cx s"
  obtain n where n: "origin_node cx (lock_holder (db s)) = Inr n" using inv_holder [OF inv] .
  show "lock_inv cx (snd (pgactive_locks_node_detached env node s)) \<and>
    \<not> is_panic (fst (pgactive_locks_node_detached env node s))"
    using same inv inv_base [OF inv] n release_local_safe [OF same, of node]
    by (auto simp: pgactive_locks_node_detached_def lock_simps safe_def)
qed

lemma set_nnodes_safe: "safe cx (pgactive_locks_set_nnodes n)"
  by (rule safeI) (simp add: pgactive_locks_set_nnodes_def lock_simps)

lemma inv_waiters: "lock_inv cx s \<Longrightarrow> distinct ws \<Longrightarrow> lock_inv cx (s\<lparr>db := (db s)\<lparr>waiters := ws\<rparr>\<rparr>)"
proof -
  have "no_lock (s\<lparr>db := (db s)\<lparr>waiters := ws\<rparr>\<rparr>) = no_lock s" "local_lock (s\<lparr>db := (db s)\<lparr>waiters := ws\<rparr>\<rparr>) = local_lock s"
    "peer_lock cx (s\<lparr>db := (db s)\<lparr>waiters := ws\<rparr>\<rparr>) = peer_lock cx s"
    by (simp_all add: no_lock_def local_lock_def peer_lock_def)
  then show "lock_inv cx s \<Longrightarrow> distinct ws \<Longrightarrow> lock_inv cx (s\<lparr>db := (db s)\<lparr>waiters := ws\<rparr>\<rparr>)"
    by (simp add: lock_inv_def)
qed

lemma addwaiter_safe: "safe cx (pgactive_locks_addwaiter p)"
  by (rule safeI) (simp add: pgactive_locks_addwaiter_def inv_waiters inv_base)

section \<open>The acquiring backend\<close>

definition asking :: "lock_env \<Rightarrow> pgactiveLockType \<Rightarrow> lock_sys \<Rightarrow> lock_sys" where
  "asking env lt s =
     s\<lparr>db := (db s)\<lparr>lockcount := 1, lock_holder_local_pid := e_pid env, lock_holder := InvalidRepOriginId,
                    acquire_confirmed := 0, acquire_declined := 0, requestor := Some (e_proc env), lock_type := lt,
                    lock_state := pgactive_LOCKSTATE_ACQUIRE_TALLY_CONFIRMATIONS\<rparr>,
       this_xact_acquired_lock := (\<lambda>p. p = e_pid env),
       wal := wal s @ [(False, pq_sendint (e_pq env) (prepare_message env pgactive_MESSAGE_ACQUIRE_LOCK) (lock_type_code lt) 4)]\<rparr>"

lemma acquire_begin_eval:
  assumes "same_node cx env" "lock_inv cx s"
  shows "acquire_ddl_lock_begin env lt s =
    (let held = this_xact_acquired_lock s (e_pid env); d = db s in
     if held \<and> lock_type d \<ge> lt then (Inr False, s)
     else if \<not> held \<and> e_skip_ddl_replication env
       then (Inl (Error ''global DDL locking attempt rejected by configuration''), s)
     else if \<not> held \<and> nnodes d < 0
       then (Inl (Error ''no peer nodes or peer node count unknown, cannot acquire global lock''), s)
     else if \<not> held \<and> lock_state d \<noteq> pgactive_LOCKSTATE_NOLOCK
       then (Inl (Error ''database is locked against ddl by another node''), s)
     else (Inr True, asking env lt s))"
proof -
  obtain n where n: "origin_node cx (lock_holder (db s)) = Inr n" using inv_holder [OF assms(2)] .
  have lc: "lockcount (db s) > 0 \<longleftrightarrow> lock_state (db s) \<noteq> pgactive_LOCKSTATE_NOLOCK"
    using assms(2) by (cases rule: inv_cases) (auto simp: no_lock_def local_lock_def peer_lock_def)
  show ?thesis
  proof (cases "this_xact_acquired_lock s (e_pid env)")
    case True
    then have l: "local_lock s" by (cases rule: inv_cases [OF assms(2)]) (auto simp: no_lock_def peer_lock_def)
    with True have "lock_holder_local_pid (db s) = e_pid env" "lockcount (db s) = 1"
      "this_xact_acquired_lock s = (\<lambda>p. p = e_pid env)" by (auto simp: local_lock_def)
    with True inv_base [OF assms(2)] show ?thesis
      by (cases s, cases "db s") (simp add: acquire_ddl_lock_begin_def lock_simps asking_def Let_def)
  next
    case False
    show ?thesis
    proof (cases "lock_state (db s) = pgactive_LOCKSTATE_NOLOCK")
      case True
      with assms(2) have "no_lock s" by (auto elim: inv_cases)
      then have "lockcount (db s) = 0" "(this_xact_acquired_lock s)(e_pid env := True) = (\<lambda>p. p = e_pid env)"
        by (auto simp: no_lock_def fun_eq_iff)
      with False True inv_base [OF assms(2)] show ?thesis
        by (cases s, cases "db s") (simp add: acquire_ddl_lock_begin_def lock_simps asking_def Let_def del: fun_upd_apply)
    next
      case held: False
      with lc have "lockcount (db s) > 0" by simp
      with False held inv_base [OF assms(2)] assms(1) n show ?thesis
        by (simp add: acquire_ddl_lock_begin_def lock_simps Let_def)
    qed
  qed
qed

lemma asking_inv:
  assumes "lock_inv cx s" "e_pid env \<noteq> 0" "lt \<noteq> pgactive_LOCK_NOLOCK"
    "this_xact_acquired_lock s (e_pid env) \<or> lock_state (db s) = pgactive_LOCKSTATE_NOLOCK"
  shows "lock_inv cx (asking env lt s)"
proof -
  from assms have "global_locks s = [] \<and> replay_confirmed_lsn (db s) = 0"
    by (cases rule: inv_cases [OF assms(1)]) (auto simp: no_lock_def local_lock_def peer_lock_def)
  with assms inv_base [OF assms(1)] show ?thesis
    by (simp add: lock_inv_def asking_def local_lock_def)
qed

lemma acquire_begin_safe:
  assumes "backend_env cx env" "lt \<noteq> pgactive_LOCK_NOLOCK"
  shows "safe cx (acquire_ddl_lock_begin env lt)"
proof (rule safeI)
  fix s assume inv: "lock_inv cx s"
  have "same_node cx env" "e_pid env \<noteq> 0" using assms by (simp_all add: backend_env_def)
  with acquire_begin_eval [OF _ inv] asking_inv [OF inv _ assms(2)] inv
  show "lock_inv cx (snd (acquire_ddl_lock_begin env lt s)) \<and> \<not> is_panic (fst (acquire_ddl_lock_begin env lt s))"
    by (simp add: Let_def)
qed

lemma acquire_poll_safe:
  assumes "lock_inv cx s" "lock_state (db s) = pgactive_LOCKSTATE_ACQUIRE_TALLY_CONFIRMATIONS"
  shows "lock_inv cx (snd (acquire_ddl_lock_poll env s)) \<and> \<not> is_panic (fst (acquire_ddl_lock_poll env s))"
proof -
  let ?s = "s\<lparr>db := (db s)\<lparr>acquire_confirmed := 0, acquire_declined := 0, requestor := None,
              lock_state := pgactive_LOCKSTATE_ACQUIRE_ACQUIRED\<rparr>\<rparr>"
  have "local_lock s" using assms by (auto elim: inv_cases)
  then have "local_lock ?s" by (simp add: local_lock_def)
  moreover have "replay_confirmed_lsn (db s) = 0" using assms by (auto elim: inv_cases)
  ultimately have "lock_inv cx ?s" using inv_base [OF assms(1)] by (simp add: lock_inv_def)
  with assms(1) show ?thesis by (simp add: acquire_ddl_lock_poll_def lock_simps)
qed

lemma xact_end_eval:
  assumes "lock_inv cx s" "this_xact_acquired_lock s (e_pid env)"
  shows "pgactive_lock_holder_xact_callback env s =
    (Inr (), s\<lparr>wal := wal s @ [(False, pgactive_send_nodeid (e_pq env)
                 (prepare_message env pgactive_MESSAGE_RELEASE_LOCK) (my_nodeid env) False)],
       this_xact_acquired_lock := (\<lambda>_. False),
       db := (db s)\<lparr>lockcount := 0, lock_holder_local_pid := 0, lock_type := pgactive_LOCK_NOLOCK,
               lock_state := pgactive_LOCKSTATE_NOLOCK, replay_confirmed := 0, replay_confirmed_lsn := 0,
               requestor := None, waiters := []\<rparr>,
       latches_set := latches_set s @ waiters (db s)\<rparr>)"
proof -
  from assms have l: "local_lock s"
    by (cases rule: inv_cases [OF assms(1)]) (auto simp: no_lock_def peer_lock_def)
  then have "(this_xact_acquired_lock s)(e_pid env := False) = (\<lambda>_. False)"
    using assms(2) by (auto simp: local_lock_def fun_eq_iff)
  with l assms(2) inv_base [OF assms(1)] show ?thesis
    by (simp add: pgactive_lock_holder_xact_callback_def lock_simps local_lock_def)
qed

lemma xact_end_safe: "safe cx (pgactive_lock_holder_xact_callback env)"
proof (rule safeI)
  fix s assume inv: "lock_inv cx s"
  show "lock_inv cx (snd (pgactive_lock_holder_xact_callback env s)) \<and>
    \<not> is_panic (fst (pgactive_lock_holder_xact_callback env s))"
  proof (cases "this_xact_acquired_lock s (e_pid env)")
    case True
    then have "local_lock s" by (cases rule: inv_cases [OF inv]) (auto simp: no_lock_def peer_lock_def)
    with xact_end_eval [OF inv True] inv_base [OF inv] show ?thesis
      by (simp add: lock_inv_def) (simp add: local_lock_def no_lock_def)
  next
    case False
    with inv show ?thesis by (simp add: pgactive_lock_holder_xact_callback_def)
  qed
qed

section \<open>Restart after a crash\<close>

text \<open>Shared memory and the processes are gone; the table and the log survive.\<close>

definition crash :: "lock_sys \<Rightarrow> lock_sys" where
  "crash s = s\<lparr>db := (zero_dbstate 0)\<lparr>in_use := False\<rparr>, pending := (\<lambda>_. None), this_xact_acquired_lock := (\<lambda>_. False)\<rparr>"

definition origins_ok :: "lock_env \<Rightarrow> bool" where
  "origins_ok cx \<longleftrightarrow> (\<forall>nm i. e_by_name cx nm = Some i \<longrightarrow> e_by_oid cx i = Some nm \<and> valid_origin i)"

lemma origin_node_by_name:
  assumes "origins_ok cx" "e_by_name cx (pgactive_replident_name n (e_mydb cx)) = Some i"
  shows "origin_node cx i = Inr n" "valid_origin i"
  using assms
  by (auto simp: origins_ok_def origin_node_def pgactive_fetch_sysid_via_node_id_def valid_origin_def
      pgactive_fetch_sysid_via_node_id_ifexists_def parse_replident_name)

text \<open>The slot after the start with one row: \<open>i\<close> is the owner's origin, \<open>lt\<close> the row's type.\<close>

definition restored :: "lock_env \<Rightarrow> bool \<Rightarrow> u16 \<Rightarrow> pgactiveLockType \<Rightarrow> pgactiveLocksDBState" where
  "restored env acquired i lt =
     (zero_dbstate (e_mydb env))\<lparr>nnodes := - 1, lock_holder := i, lockcount := 1, lock_type := lt,
        lock_state := (if acquired then pgactive_LOCKSTATE_PEER_CONFIRMED else pgactive_LOCKSTATE_PEER_CATCHUP),
        replay_confirmed_lsn := (if acquired then 0 else e_insert_lsn env), locked_and_loaded := True\<rparr>"

lemma startup_empty:
  assumes "global_locks s = []"
  shows "pgactive_locks_startup env (crash s) =
    (Inr (), (crash s)\<lparr>db := (zero_dbstate (e_mydb env))\<lparr>nnodes := - 1, locked_and_loaded := True\<rparr>,
                       wal := wal s @ [(False, prepare_message env pgactive_MESSAGE_START)]\<rparr>)"
  using assms
  by (simp add: pgactive_locks_startup_def crash_def pgactive_locks_find_my_database_def zero_dbstate_def lock_simps)

lemma startup_row_parse:
  assumes "same_node cx env" "locks_begin_scan n r" "pgactive_lock_name_to_type (locktype r) = Inr lt"
    "e_by_name cx (pgactive_replident_name n (e_mydb cx)) = Some i" "row_state r = Some (if acq then ''acquired'' else ''catchup'')"
  shows "startup_row env r =
    (if acq then upd_db (\<lambda>d. d\<lparr>lock_holder := i, lockcount := lockcount d + 1, lock_type := lt,
                     lock_state := pgactive_LOCKSTATE_PEER_CONFIRMED\<rparr>)
     else sseq (pgactive_send_message
                     (pq_sendint64 (e_pq env) (prepare_message env pgactive_MESSAGE_REQUEST_REPLAY_CONFIRM) (e_insert_lsn env)) False)
                  (upd_db (\<lambda>d. d\<lparr>lock_holder := i, lockcount := lockcount d + 1, lock_type := lt,
                     lock_state := pgactive_LOCKSTATE_PEER_CATCHUP, replay_confirmed := 0,
                     replay_confirmed_lsn := e_insert_lsn env\<rparr>)))"
proof -
  have n: "\<lparr>sysid = of_nat (unat (sysid n)), timeline = owning_timeline r, dboid = owning_datid r\<rparr> = n"
    using assms(2) by (cases n) (simp add: lock_scan_eq)
  have "pgactive_fetch_node_id_via_sysid (e_by_name env) (e_mydb env) n = Inr i"
    using assms(1,4) by (simp add: pgactive_fetch_node_id_via_sysid_def same_node_def)
  moreover have "sscanf [ConvU 64] (owning_sysid r) = [VU (unat (sysid n))]"
    using assms(2) by (simp add: lock_scan_eq sscanf_sysid del: sscanf.simps)
  ultimately show ?thesis
    using assms(3,5) n by (intro ext) (simp add: startup_row_def Let_def del: sscanf.simps)
qed

lemma startup_one:
  assumes env: "same_node cx env" and row: "global_locks s = [r]" "acquired_datid r = e_mydb cx" "locks_begin_scan n r"
    "pgactive_lock_name_to_type (locktype r) = Inr lt" "row_state r = Some (if acq then ''acquired'' else ''catchup'')"
    and i: "e_by_name cx (pgactive_replident_name n (e_mydb cx)) = Some i"
  shows "pgactive_locks_startup env (crash s) =
    (Inr (), (crash s)\<lparr>db := restored env acq i lt,
       wal := wal s @ [(False, prepare_message env pgactive_MESSAGE_START)] @
         (if acq then [] else [(False, pq_sendint64 (e_pq env)
            (prepare_message env pgactive_MESSAGE_REQUEST_REPLAY_CONFIRM) (e_insert_lsn env))])\<rparr>)"
proof -
  have "e_mydb env = e_mydb cx" using env by (simp add: same_node_def)
  with row show ?thesis
    by (cases acq) (simp_all add: pgactive_locks_startup_def crash_def pgactive_locks_find_my_database_def
        zero_dbstate_def lock_simps restored_def startup_row_parse [OF env row(3,4) i row(5)])
qed

lemma restored_inv:
  assumes "origins_ok cx" "same_node cx env" "e_insert_lsn env \<noteq> 0"
    and "global_locks s = [r]" "acquired_datid r = e_mydb cx" "locks_begin_scan n r"
    and "pgactive_lock_name_to_type (locktype r) = Inr lt" "lt \<noteq> pgactive_LOCK_NOLOCK"
    and "row_state r = Some (if acq then ''acquired'' else ''catchup'')"
    and "e_by_name cx (pgactive_replident_name n (e_mydb cx)) = Some i"
  shows "lock_inv cx ((crash s)\<lparr>db := restored env acq i lt, wal := w\<rparr>)"
  using assms origin_node_by_name [OF assms(1,10)]
  by (cases acq) (auto simp: lock_inv_def restored_def crash_def zero_dbstate_def peer_lock_def peer_row_def same_node_def)

lemma fresh_inv:
  assumes "same_node cx env" "global_locks s = []"
  shows "lock_inv cx ((crash s)\<lparr>db := (zero_dbstate (e_mydb env))\<lparr>nnodes := k, locked_and_loaded := True\<rparr>, wal := w\<rparr>)"
  using assms by (simp add: lock_inv_def crash_def zero_dbstate_def no_lock_def same_node_def)

section \<open>Reachable states\<close>

text \<open>
  Peers send lock types that name a lock, and positions that are valid.  Neither is checked by
  the receiver outside of assertions.
\<close>

definition honest :: "lock_env \<Rightarrow> u32 \<Rightarrow> bytes \<Rightarrow> bool" where
  "honest env ty body \<longleftrightarrow>
     (ty = message_type_code pgactive_MESSAGE_ACQUIRE_LOCK \<longrightarrow>
        (\<forall>t rest. pq_getmsgint (e_pq env) body 4 = Inr (t, rest) \<longrightarrow> lock_type_of_code t \<noteq> Some pgactive_LOCK_NOLOCK)) \<and>
     (ty = message_type_code pgactive_MESSAGE_REPLAY_CONFIRM \<longrightarrow>
        (\<forall>l rest. pq_getmsgint64 (e_pq env) body = Inr (l, rest) \<longrightarrow> l \<noteq> 0))"

definition reader_errors_plain :: "pq_api \<Rightarrow> bool" where
  "reader_errors_plain pq \<longleftrightarrow> (\<forall>m n. \<not> is_panic (pq_getmsgint pq m n)) \<and> (\<forall>m. \<not> is_panic (pq_getmsgint64 pq m))"

inductive lock_step :: "lock_env \<Rightarrow> lock_sys \<Rightarrow> lock_sys \<Rightarrow> bool" for cx :: lock_env where
  acquire: "backend_env cx env \<Longrightarrow> lt \<noteq> pgactive_LOCK_NOLOCK \<Longrightarrow>
     lock_step cx s (snd (acquire_ddl_lock_begin env lt s))"
| poll: "this_xact_acquired_lock s (e_pid env) \<Longrightarrow>
     lock_state (db s) = pgactive_LOCKSTATE_ACQUIRE_TALLY_CONFIRMATIONS \<Longrightarrow>
     lock_step cx s (snd (acquire_ddl_lock_poll env s))"
| xact_end: "lock_step cx s (snd (pgactive_lock_holder_xact_callback env s))"
| message: "worker_env cx env \<Longrightarrow> honest env ty body \<Longrightarrow>
     lock_step cx s (snd (pgactive_locks_process_message env ty origin body s))"
| detach: "same_node cx env \<Longrightarrow> lock_step cx s (snd (pgactive_locks_node_detached env node s))"
| set_nnodes: "lock_step cx s (snd (pgactive_locks_set_nnodes n s))"
| wait: "lock_step cx s (snd (pgactive_locks_addwaiter p s))"
| restart: "same_node cx env \<Longrightarrow> e_insert_lsn env \<noteq> 0 \<Longrightarrow>
     pgactive_locks_startup env (crash s) = (Inr (), s') \<Longrightarrow> lock_step cx s s'"

inductive_cases lock_stepE: "lock_step cx s s'"

definition lock_init :: "lock_env \<Rightarrow> lock_sys \<Rightarrow> bool" where
  "lock_init cx s \<longleftrightarrow> db s = (zero_dbstate (e_mydb cx))\<lparr>nnodes := - 1, locked_and_loaded := True\<rparr> \<and>
     global_locks s = [] \<and> pending s = (\<lambda>_. None) \<and> this_xact_acquired_lock s = (\<lambda>_. False)"

definition lock_reachable :: "lock_env \<Rightarrow> lock_sys \<Rightarrow> bool" where
  "lock_reachable cx s \<longleftrightarrow> (\<exists>s0. lock_init cx s0 \<and> (lock_step cx)\<^sup>*\<^sup>* s0 s)"

lemma safe_ret: "safe cx (sret x)"
  by (rule safeI) simp

lemma safe_sseq: "safe cx m \<Longrightarrow> safe cx n \<Longrightarrow> safe cx (sseq m n)"
proof (rule safeI)
  fix s assume "safe cx m" "safe cx n" "lock_inv cx s"
  moreover obtain r s1 where "m s = (r, s1)" by fastforce
  ultimately show "lock_inv cx (snd (sseq m n s)) \<and> \<not> is_panic (fst (sseq m n s))"
    by (cases r) (auto simp: safe_def is_panic_def)
qed

lemma safe_sbind_slift:
  assumes "\<And>x. r = Inr x \<Longrightarrow> safe cx (f x)" "\<not> is_panic r"
  shows "safe cx (sbind (slift r) f)"
  using assms by (cases r) (auto simp: safe_def is_panic_def)

lemma safe_if: "(b \<Longrightarrow> safe cx m) \<Longrightarrow> (\<not> b \<Longrightarrow> safe cx n) \<Longrightarrow> safe cx (if b then m else n)"
  by simp

lemma safe_prod: "(\<And>a b. p = (a, b) \<Longrightarrow> safe cx (f a b)) \<Longrightarrow> safe cx (case p of (a, b) \<Rightarrow> f a b)"
  by (cases p) simp

lemmas handler_safe = remote_startup_safe process_acquire_safe process_release_safe process_confirm_safe
  process_decline_safe process_request_replay_safe process_replay_confirm_safe

lemma getmsg_nodeid_no_panic: "reader_errors_plain pq \<Longrightarrow> \<not> is_panic (pgactive_getmsg_nodeid pq m False)"
  by (auto simp: pgactive_getmsg_nodeid_def reader_errors_plain_def bind_result_def Let_def is_panic_def
      split: sum.splits)

lemma getmsg_lock_type_eq:
  "getmsg_lock_type env m = slift (if m = [] then Inr (lock_type_code pgactive_LOCK_WRITE)
     else map_sum id fst (pq_getmsgint (e_pq env) m 4))"
  by (simp add: getmsg_lock_type_def fun_eq_iff)

lemma lock_type_result_no_panic:
  "reader_errors_plain pq \<Longrightarrow> \<not> is_panic (if m = [] then Inr (lock_type_code lt) else map_sum id fst (pq_getmsgint pq m 4))"
  by (cases "pq_getmsgint pq m 4") (auto simp: reader_errors_plain_def is_panic_def)

lemma process_message_safe:
  assumes env: "worker_env cx env" "honest env ty body" and pq: "reader_errors_plain (e_pq cx)"
  shows "safe cx (pgactive_locks_process_message env ty origin body)"
proof -
  have pq': "reader_errors_plain (e_pq env)" using env pq by (simp add: worker_env_def same_node_def)
  have p64: "\<not> is_panic (pq_getmsgint64 (e_pq env) body)" using pq' by (simp add: reader_errors_plain_def)
  have acq: "lock_type_of_code t \<noteq> Some pgactive_LOCK_NOLOCK"
    if "ty = message_type_code pgactive_MESSAGE_ACQUIRE_LOCK"
      "(if body = [] then Inr (lock_type_code pgactive_LOCK_WRITE) else map_sum id fst (pq_getmsgint (e_pq env) body 4)) = Inr t" for t
    using env(2) that by (cases "pq_getmsgint (e_pq env) body 4")
      (auto simp: honest_def lock_type_of_code_def split: if_splits)
  have rep: "l \<noteq> 0" if "ty = message_type_code pgactive_MESSAGE_REPLAY_CONFIRM" "pq_getmsgint64 (e_pq env) body = Inr (l, rest)" for l rest
    using env(2) that by (simp add: honest_def)
  note hs = handler_safe [OF env(1)]
  note np = getmsg_nodeid_no_panic [OF pq', of body] lock_type_result_no_panic [OF pq'] p64
  show ?thesis
    unfolding pgactive_locks_process_message_def getmsg_lock_type_eq
    by (intro safe_if safe_sbind_slift safe_prod safe_sseq safe_ret hs np) (use acq rep in blast)+
qed

lemma startup_recovers:
  assumes cx: "origins_ok cx" and inv: "lock_inv cx s" and env: "same_node cx env" "e_insert_lsn env \<noteq> 0"
    and row: "global_locks s = [r]" "locks_begin_scan n r"
    and i: "e_by_name cx (pgactive_replident_name n (e_mydb cx)) = Some i"
  obtains lt where "lock_type (db s) \<le> lt"
    "pgactive_locks_startup env (crash s) =
      (Inr (), (crash s)\<lparr>db := restored env (lock_state (db s) = pgactive_LOCKSTATE_PEER_CONFIRMED) i lt,
         wal := wal s @ [(False, prepare_message env pgactive_MESSAGE_START)] @
           (if lock_state (db s) = pgactive_LOCKSTATE_PEER_CONFIRMED then []
            else [(False, pq_sendint64 (e_pq env)
              (prepare_message env pgactive_MESSAGE_REQUEST_REPLAY_CONFIRM) (e_insert_lsn env))])\<rparr>)"
    "lock_inv cx (snd (pgactive_locks_startup env (crash s)))"
proof -
  from inv row(1) have pl: "peer_lock cx s" by (auto elim: inv_rows)
  with row(1) obtain lt where r: "row_state r = Some (if lock_state (db s) = pgactive_LOCKSTATE_PEER_CONFIRMED then ''acquired'' else ''catchup'')"
      "pgactive_lock_name_to_type (locktype r) = Inr lt" "lock_type (db s) \<le> lt" "acquired_datid r = e_mydb cx"
      "lock_type (db s) \<noteq> pgactive_LOCK_NOLOCK"
    by (auto simp: peer_lock_def peer_row_def)
  then have "lt \<noteq> pgactive_LOCK_NOLOCK"
    by (cases lt; cases "lock_type (db s)") (auto simp: less_eq_pgactiveLockType_def)
  from restored_inv [OF cx env row(1) r(4) row(2) r(2) this r(1) i] startup_one [OF env(1) row(1) r(4) row(2) r(2,1) i]
    r(3) that show thesis by simp
qed

lemma restart_inv:
  assumes "origins_ok cx" "lock_inv cx s" "same_node cx env" "e_insert_lsn env \<noteq> 0"
    and ok: "pgactive_locks_startup env (crash s) = (Inr (), s')"
  shows "lock_inv cx s'"
  using assms(2)
proof (cases rule: inv_rows)
  case 1
  with startup_empty [OF this, of env] ok fresh_inv [OF assms(3) 1] show ?thesis by simp
next
  case (2 r)
  then obtain n where n: "locks_begin_scan n r" "acquired_datid r = e_mydb cx"
    by (auto simp: peer_lock_def peer_row_def)
  have "\<exists>i. e_by_name cx (pgactive_replident_name n (e_mydb cx)) = Some i"
  proof (rule ccontr)
    assume none: "\<not> ?thesis"
    have nn: "\<lparr>sysid = of_nat (unat (sysid n)), timeline = owning_timeline r, dboid = owning_datid r\<rparr> = n"
      using n(1) by (cases n) (simp add: lock_scan_eq)
    have "sscanf [ConvU 64] (owning_sysid r) = [VU (unat (sysid n))]"
      using n(1) by (simp add: lock_scan_eq sscanf_sysid del: sscanf.simps)
    moreover from none have "pgactive_fetch_node_id_via_sysid (e_by_name env) (e_mydb env) n = Inl (Error ''replication origin does not exist'')"
      using assms(3) by (simp add: pgactive_fetch_node_id_via_sysid_def same_node_def)
    ultimately have "startup_row env r s0 = (Inl (Error ''replication origin does not exist''), s0)" for s0
      using nn by (simp add: startup_row_def Let_def del: sscanf.simps)
    with ok 2(1) n(2) assms(3) show False
      by (simp add: pgactive_locks_startup_def crash_def pgactive_locks_find_my_database_def zero_dbstate_def
          lock_simps same_node_def)
  qed
  then obtain i where "e_by_name cx (pgactive_replident_name n (e_mydb cx)) = Some i" by blast
  from startup_recovers [OF assms(1-4) 2(1) n(1) this] ok show ?thesis by (metis snd_conv)
qed

lemma lock_step_inv:
  assumes "lock_step cx s s'" "origins_ok cx" "reader_errors_plain (e_pq cx)" "lock_inv cx s"
  shows "lock_inv cx s'"
  using assms(1)
proof cases
  case (acquire env lt)
  with assms(4) acquire_begin_safe show ?thesis by (auto simp: safe_def)
next
  case (poll env)
  with assms(4) acquire_poll_safe show ?thesis by auto
next
  case (xact_end env)
  with assms(4) xact_end_safe show ?thesis by (auto simp: safe_def)
next
  case (message env ty body origin)
  with assms process_message_safe show ?thesis by (auto simp: safe_def)
next
  case (detach env node)
  with assms(4) node_detached_safe show ?thesis by (auto simp: safe_def)
next
  case (set_nnodes n)
  with assms(4) set_nnodes_safe show ?thesis by (auto simp: safe_def)
next
  case (wait p)
  with assms(4) addwaiter_safe show ?thesis by (auto simp: safe_def)
next
  case (restart env)
  with assms restart_inv show ?thesis by blast
qed

lemma lock_init_inv: "lock_init cx s \<Longrightarrow> lock_inv cx s"
  by (simp add: lock_init_def lock_inv_def no_lock_def zero_dbstate_def)

interpretation lock_steps: step_system "lock_step cx" "\<lambda>s. origins_ok cx \<and> reader_errors_plain (e_pq cx) \<and> lock_inv cx s" for cx
  by unfold_locales (auto intro: lock_step_inv)

lemma reachable_inv:
  assumes "origins_ok cx" "reader_errors_plain (e_pq cx)" "lock_reachable cx s"
  shows "lock_inv cx s"
proof -
  from assms(3) obtain s0 where "(lock_step cx)\<^sup>*\<^sup>* s0 s" "lock_init cx s0" by (auto simp: lock_reachable_def)
  with assms(1,2) show ?thesis
    using lock_steps.reachable_keeps [of cx s0 s] lock_init_inv by blast
qed

end
