(* ===== verification/Lock_Properties.thy ===== *)
theory Lock_Properties
  imports Lock_Safety
begin

text \<open>
  The statements about the global DDL lock on one node: the assertions of
  \<^verbatim>\<open>src/pgactive_locks.c\<close>, recovery after a crash, the wake-up of waiters, the quorum of replay
  confirmations, and the places where the code does not do what its comments say.
\<close>

section \<open>A concrete node\<close>

definition peer_a :: pgactiveNodeId where
  "peer_a = \<lparr>sysid = 7, timeline = 0, dboid = 16384\<rparr>"

definition sample_cx :: lock_env where
  "sample_cx = \<lparr>e_pq = pq_network, e_nid = 1, e_mydb = 5, e_pid = 100, e_proc = 4, e_session_origin = 3,
     e_by_oid = (\<lambda>i. if i = 3 then Some (pgactive_replident_name peer_a 5) else None),
     e_by_name = (\<lambda>n. if n = pgactive_replident_name peer_a 5 then Some 3 else None),
     e_now = 0, e_insert_lsn = 1000, e_skip_ddl_replication = False, e_max_ddl_lock_delay = - 1,
     e_max_standby_streaming_delay = 30000, e_ddl_lock_timeout = - 1, e_LockTimeout = 0,
     e_nconflicts = 0, e_conflict_obs = []\<rparr>"

definition sample_sys :: lock_sys where
  "sample_sys = \<lparr>db = (zero_dbstate 5)\<lparr>nnodes := - 1, locked_and_loaded := True\<rparr>, global_locks = [], wal = [],
     latches_set = [], pending = (\<lambda>_. None), this_xact_acquired_lock = (\<lambda>_. False)\<rparr>"

lemma sample_cx_ok:
  "origins_ok sample_cx" "reader_errors_plain (e_pq sample_cx)" "same_node sample_cx sample_cx"
  "worker_env sample_cx sample_cx" "backend_env sample_cx sample_cx" "origin_node sample_cx 3 = Inr peer_a"
proof -
  show "reader_errors_plain (e_pq sample_cx)"
    by (auto simp: reader_errors_plain_def sample_cx_def pq_network_def split_msg_def is_panic_def)
  show "origin_node sample_cx 3 = Inr peer_a"
    by (simp add: origin_node_def sample_cx_def pgactive_fetch_sysid_via_node_id_def
        pgactive_fetch_sysid_via_node_id_ifexists_def parse_replident_name InvalidRepOriginId_def DoNotReplicateId_def)
qed (auto simp: origins_ok_def sample_cx_def valid_origin_def InvalidRepOriginId_def DoNotReplicateId_def
    same_node_def worker_env_def backend_env_def split: if_splits)

lemma sample_init: "lock_init sample_cx sample_sys"
  by (simp add: lock_init_def sample_sys_def sample_cx_def)

lemma sample_reachable: "lock_reachable sample_cx sample_sys"
  using sample_init by (auto simp: lock_reachable_def)

lemma reachable_step: "lock_reachable cx s \<Longrightarrow> lock_step cx s s' \<Longrightarrow> lock_reachable cx s'"
  unfolding lock_reachable_def by (blast intro: rtranclp.rtrancl_into_rtrancl)

text \<open>The body of the message by which the peer asks for a write lock.\<close>

definition ask_write :: bytes where
  "ask_write = pq_sendint pq_network [] (lock_type_code pgactive_LOCK_WRITE) 4"

definition sample_granted :: lock_sys where
  "sample_granted = snd (pgactive_locks_process_message sample_cx (message_type_code pgactive_MESSAGE_ACQUIRE_LOCK)
     peer_a ask_write sample_sys)"

lemma ask_write_honest: "honest sample_cx (message_type_code pgactive_MESSAGE_ACQUIRE_LOCK) ask_write"
  using net.getmsgint4_send [of "lock_type_code pgactive_LOCK_WRITE" "[]"]
  by (simp add: honest_def ask_write_def sample_cx_def lock_type_of_code_def del: lock_type_code.simps)
    (simp add: lock_type_of_code_def)

lemma sample_granted_reachable: "lock_reachable sample_cx sample_granted"
  unfolding sample_granted_def
  by (rule reachable_step [OF sample_reachable lock_step.message [OF sample_cx_ok(4) ask_write_honest]])

lemma sample_granted_eq:
  "sample_granted = sample_sys\<lparr>
     global_locks := [new_lock_row sample_cx peer_a ''write_lock''],
     db := (db sample_sys)\<lparr>lock_state := pgactive_LOCKSTATE_PEER_CATCHUP, lockcount := 1,
        lock_type := pgactive_LOCK_WRITE, lock_holder := 3, replay_confirmed := 0, replay_confirmed_lsn := 1000\<rparr>,
     wal := [(False, pq_sendint64 pq_network
        (prepare_message sample_cx pgactive_MESSAGE_REQUEST_REPLAY_CONFIRM) 1000)]\<rparr>"
proof -
  have nl: "no_lock sample_sys" "in_use (db sample_sys)" "pending sample_sys = (\<lambda>_. None)"
    by (simp_all add: no_lock_def sample_sys_def zero_dbstate_def)
  have o: "origin_node sample_cx (e_session_origin sample_cx) = Inr peer_a"
    using sample_cx_ok(6) by (simp add: sample_cx_def [THEN arg_cong [where f = e_session_origin]])
  have t: "getmsg_lock_type sample_cx ask_write = sret (lock_type_code pgactive_LOCK_WRITE)"
    using net.getmsgint4_send [of "lock_type_code pgactive_LOCK_WRITE" "[]"] net.sendint_nonempty [of 4 "lock_type_code pgactive_LOCK_WRITE"]
    by (auto simp: getmsg_lock_type_def ask_write_def sample_cx_def fun_eq_iff simp del: lock_type_code.simps)
  have nm: "pgactive_lock_type_to_name (lock_type_code pgactive_LOCK_WRITE) = Inr ''write_lock''"
    by (simp add: lock_type_to_name_eq del: lock_type_code.simps)
  show ?thesis
    unfolding sample_granted_def pgactive_locks_process_message_def t
    using acquire_free_eval [OF sample_cx_ok(3) nl(2,3,1) o nm]
    by (simp add: after_grant_def cancel_eval request_replay_eval granted_def sample_cx_def sample_sys_def
        zero_dbstate_def del: lock_type_code.simps)
qed

section \<open>Consistency\<close>





section \<open>Recovery\<close>



section \<open>Waiting writers\<close>

text \<open>
  C33: when the peer that holds the local lock releases it, the lock is free again, its row is
  gone, and every backend that waited on it has its latch set and is no longer on the list.
\<close>

theorem release_wakes_all_waiters:
  assumes "origins_ok cx" "reader_errors_plain (e_pq cx)" "lock_reachable cx s"
    and env: "worker_env cx env" "origin_node cx (e_session_origin env) = Inr n"
    and held: "peer_state (lock_state (db s))" "origin_node cx (lock_holder (db s)) = Inr n"
  shows "\<exists>s'. pgactive_process_release_ddl_lock env n n s = (Inr (), s') \<and>
    lock_state (db s') = pgactive_LOCKSTATE_NOLOCK \<and> lockcount (db s') = 0 \<and> global_locks s' = [] \<and>
    waiters (db s') = [] \<and> set (waiters (db s)) \<subseteq> set (latches_set s')"
proof -
  have inv: "lock_inv cx s" by (rule reachable_inv [OF assms(1-3)])
  have same: "same_node cx env" using env by (simp add: worker_env_def)
  from inv held(1) have pl: "peer_lock cx s" by (cases rule: inv_cases) auto
  with held(2) obtain r where r: "global_locks s = [r]" "locks_begin_scan n r" "lockcount (db s) = 1"
    by (auto simp: peer_lock_def peer_row_def)
  from env(2) same inv_base [OF inv]
  have "pgactive_process_release_ddl_lock env n n s = pgactive_locks_release_local_ddl_lock env n s"
    by (simp add: pgactive_process_release_ddl_lock_def lock_simps)
  with release_local_eval [OF same inv r(1,2)] r(3) show ?thesis by auto
qed

theorem release_wakes_all_waiters_witness:
  "\<exists>s'. pgactive_process_release_ddl_lock sample_cx peer_a peer_a (snd (pgactive_locks_addwaiter 9 sample_granted)) = (Inr (), s') \<and>
    waiters (db s') = [] \<and> 9 \<in> set (latches_set s')"
proof -
  let ?s = "snd (pgactive_locks_addwaiter 9 sample_granted)"
  have "lock_reachable sample_cx ?s" by (rule reachable_step [OF sample_granted_reachable lock_step.wait])
  moreover have "peer_state (lock_state (db ?s))" "lock_holder (db ?s) = 3" "waiters (db ?s) = [9]"
    by (simp_all add: pgactive_locks_addwaiter_def sample_granted_eq sample_sys_def zero_dbstate_def)
  moreover have "e_session_origin sample_cx = 3" by (simp add: sample_cx_def)
  ultimately show ?thesis
    using release_wakes_all_waiters [OF sample_cx_ok(1,2) _ sample_cx_ok(4), of ?s peer_a] sample_cx_ok(6) by auto
qed

lemma check_dml_loop_passes:
  "check_dml_loop t held obs = Inr True \<Longrightarrow> \<exists>(now, d) \<in> set obs. \<not> pgactive_locks_peer_has_lock held pgactive_LOCK_WRITE d"
  by (induction t held obs rule: check_dml_loop.induct) (auto split: if_splits)

lemma wait_loaded_mem:
  "wait_loaded d0 obs = Some (d, obs') \<Longrightarrow> d \<in> insert d0 (snd ` set obs) \<and> set obs' \<subseteq> set obs"
  by (induction d0 obs rule: wait_loaded.induct) (auto split: if_splits)



text \<open>
  The lock timeout of a waiting statement is tested the wrong way round: with a timeout
  configured, a statement that finds the database locked fails at once while the timeout has
  not passed, and it is never cancelled after the timeout has passed.
\<close>

theorem dml_timeout_inverted:
  assumes "cancel_time env = Some t"
  shows "(now < t \<longrightarrow> check_dml_loop (cancel_time env) held ((now, d) # obs)
            = Inl (Error ''canceling statement due to global lock timeout'')) \<and>
    ((\<forall>(now, d) \<in> set obs. t \<le> now) \<longrightarrow> (\<exists>b. check_dml_loop (cancel_time env) held obs = Inr b))"
proof -
  have "\<exists>b. check_dml_loop (cancel_time env) held obs = Inr b" if "\<forall>(now, d) \<in> set obs. t \<le> now"
    using that unfolding assms by (induction obs) auto
  with assms show ?thesis by simp
qed

theorem dml_timeout_inverted_witness:
  "let env = sample_cx\<lparr>e_LockTimeout := 5000\<rparr>; locked = db sample_granted
   in check_dml_loop (cancel_time env) False [(10, locked)] = Inl (Error ''canceling statement due to global lock timeout'') \<and>
      (\<exists>b. check_dml_loop (cancel_time env) False [(6000000, locked), (9000000, locked)] = Inr b)"
proof -
  let ?env = "sample_cx\<lparr>e_LockTimeout := 5000\<rparr>"
  have "cancel_time ?env = Some 5000000" by (simp add: cancel_time_def sample_cx_def)
  from dml_timeout_inverted [OF this, of 10 False "db sample_granted" "[]"]
    dml_timeout_inverted [OF this, of 10 False "db sample_granted" "[(6000000, db sample_granted), (9000000, db sample_granted)]"]
  show ?thesis by (simp add: Let_def)
qed


definition busy_writer :: "int \<Rightarrow> conflict_obs" where
  "busy_writer now = \<lparr>co_proc_gone = False, co_has_xid = True, co_now1 = now, co_now2 = now, co_signalled_pid = 0\<rparr>"


text \<open>
  With a lock timeout configured, the grace period for writers is not granted: as long as
  the timeout has not passed, the first writer found makes the peer decline the lock.
\<close>

theorem cancel_conflicting_no_grace:
  assumes "cancel_time env = Some t" "0 < e_nconflicts env"
    and "e_conflict_obs env = ob # obs" "\<not> co_proc_gone ob" "co_has_xid ob" "co_now1 ob < t"
  shows "fst (cancel_conflicting_transactions env s) = Inr False"
  using assms by (cases "e_nconflicts env") (simp_all add: cancel_eval)

theorem cancel_conflicting_no_grace_witness:
  "fst (cancel_conflicting_transactions (sample_cx\<lparr>e_LockTimeout := 5000, e_nconflicts := 1, e_conflict_obs := [busy_writer 1]\<rparr>) sample_sys)
    = Inr False"
  by (rule cancel_conflicting_no_grace [of _ 5000000 "busy_writer 1" "[]"])
    (simp_all add: sample_cx_def cancel_time_def busy_writer_def)

section \<open>The quorum of replay confirmations\<close>

fun replay_confirms :: "lock_env list \<Rightarrow> u64 \<Rightarrow> lock_sys \<Rightarrow> lock_sys" where
  "replay_confirms [] lsn s = s"
| "replay_confirms (env # envs) lsn s =
     replay_confirms envs lsn
       (snd (pgactive_process_replay_confirm env (projr (origin_node env (e_session_origin env))) lsn s))"

lemma replay_confirm_eval:
  assumes "same_node cx env" "in_use (db s)" "pending s = (\<lambda>_. None)" "origin_node cx (e_session_origin env) = Inr n"
  shows "pgactive_process_replay_confirm env n lsn s =
    (if replay_confirmed_lsn (db s) = lsn
     then (let s1 = s\<lparr>db := (db s)\<lparr>replay_confirmed := replay_confirmed (db s) + 1\<rparr>\<rparr>
           in if nnodes (db s) \<le> replay_confirmed (db s) + 1 then pgactive_send_confirm_lock env s1 else (Inr (), s1))
     else (Inr (), s))"
  using assms by (simp add: pgactive_process_replay_confirm_def lock_simps Let_def)

lemma same_node_origin: "same_node cx env \<Longrightarrow> origin_node env i = origin_node cx i"
  by (simp add: origin_node_def same_node_def)

lemma replay_confirms_short:
  assumes "\<forall>env \<in> set envs. same_node cx env \<and> (\<exists>n. origin_node cx (e_session_origin env) = Inr n)"
    and "in_use (db s)" "pending s = (\<lambda>_. None)" "replay_confirmed_lsn (db s) = lsn"
    and "replay_confirmed (db s) + int (length envs) < nnodes (db s)"
  shows "replay_confirms envs lsn s = s\<lparr>db := (db s)\<lparr>replay_confirmed := replay_confirmed (db s) + int (length envs)\<rparr>\<rparr>"
  using assms
proof (induction envs arbitrary: s)
  case Nil
  then show ?case by simp
next
  case (Cons env envs)
  then obtain n where n: "same_node cx env" "origin_node cx (e_session_origin env) = Inr n" by auto
  let ?s1 = "s\<lparr>db := (db s)\<lparr>replay_confirmed := replay_confirmed (db s) + 1\<rparr>\<rparr>"
  have step: "replay_confirms (env # envs) lsn s = replay_confirms envs lsn ?s1"
    using Cons.prems n by (simp add: same_node_origin [OF n(1)] replay_confirm_eval [OF n(1) _ _ n(2)] Let_def)
  have "replay_confirms envs lsn ?s1 = ?s1\<lparr>db := (db ?s1)\<lparr>replay_confirmed := replay_confirmed (db ?s1) + int (length envs)\<rparr>\<rparr>"
    using Cons.prems by (intro Cons.IH) auto
  then show ?case unfolding step by (simp add: algebra_simps)
qed

lemma replay_confirms_append: "replay_confirms (a @ b) lsn s = replay_confirms b lsn (replay_confirms a lsn s)"
  by (induction a arbitrary: s) auto

text \<open>
  C18: a write lock in catchup is confirmed to its requestor exactly when as many peers as the
  node has have confirmed the replay position: before the last of them nothing is logged, and
  with the last one the row and the slot become confirmed and one confirmation is logged.
\<close>

theorem replay_quorum:
  assumes "origins_ok cx" "reader_errors_plain (e_pq cx)" "lock_reachable cx s"
    and peers: "\<forall>e \<in> set (env # envs). same_node cx e \<and> (\<exists>n. origin_node cx (e_session_origin e) = Inr n)"
    and catchup: "lock_state (db s) = pgactive_LOCKSTATE_PEER_CATCHUP" "replay_confirmed (db s) = 0"
      "replay_confirmed_lsn (db s) = lsn"
    and quorum: "nnodes (db s) = int (length (env # envs))"
  shows "wal (replay_confirms envs lsn s) = wal s \<and>
    lock_state (db (replay_confirms envs lsn s)) = pgactive_LOCKSTATE_PEER_CATCHUP \<and>
    (\<exists>n. origin_node cx (lock_holder (db s)) = Inr n \<and>
      wal (replay_confirms (envs @ [env]) lsn s) = wal s @ [(True, confirm_message env n (lock_type (db s)))]) \<and>
    lock_state (db (replay_confirms (envs @ [env]) lsn s)) = pgactive_LOCKSTATE_PEER_CONFIRMED \<and>
    (\<forall>r \<in> set (global_locks (replay_confirms (envs @ [env]) lsn s)). row_state r = Some ''acquired'')"
proof -
  have inv: "lock_inv cx s" by (rule reachable_inv [OF assms(1-3)])
  then have pl: "peer_lock cx s" using catchup(1) by (cases rule: inv_cases) auto
  then obtain r n where r: "global_locks s = [r]" "origin_node cx (lock_holder (db s)) = Inr n" "locks_begin_scan n r"
    by (auto simp: peer_lock_def peer_row_def)
  have short: "replay_confirms envs lsn s = s\<lparr>db := (db s)\<lparr>replay_confirmed := int (length envs)\<rparr>\<rparr>"
    using replay_confirms_short [of envs cx s lsn] peers inv_base [OF inv] catchup quorum by simp
  let ?s0 = "s\<lparr>db := (db s)\<lparr>replay_confirmed := int (length envs)\<rparr>\<rparr>"
  let ?s1 = "s\<lparr>db := (db s)\<lparr>replay_confirmed := int (length envs) + 1\<rparr>\<rparr>"
  from peers obtain m where env: "same_node cx env" "origin_node cx (e_session_origin env) = Inr m" by auto
  have last: "replay_confirms (envs @ [env]) lsn s = snd (pgactive_send_confirm_lock env ?s1)"
    using catchup quorum inv_base [OF inv] env
    by (simp add: replay_confirms_append short same_node_origin [OF env(1)] replay_confirm_eval [OF env(1) _ _ env(2)] Let_def)
  have "pgactive_send_confirm_lock env ?s1 =
      (Inr (), ?s1\<lparr>db := (db ?s1)\<lparr>replay_confirmed := 0, replay_confirmed_lsn := 0, requestor := None,
                  lock_state := pgactive_LOCKSTATE_PEER_CONFIRMED\<rparr>,
               global_locks := [r\<lparr>row_state := Some ''acquired''\<rparr>],
               wal := wal ?s1 @ [(True, confirm_message env n (lock_type (db ?s1)))]\<rparr>)"
    using r inv_base [OF inv] by (intro send_confirm_lock_eval [OF env(1)]) simp_all
  then show ?thesis unfolding last short using r catchup by simp
qed

theorem replay_quorum_witness:
  "let s = snd (pgactive_locks_set_nnodes 2 sample_granted)
   in wal (replay_confirms [sample_cx] 1000 s) = wal s \<and>
      lock_state (db (replay_confirms [sample_cx, sample_cx] 1000 s)) = pgactive_LOCKSTATE_PEER_CONFIRMED"
proof -
  let ?s = "snd (pgactive_locks_set_nnodes 2 sample_granted)"
  have "lock_reachable sample_cx ?s" by (rule reachable_step [OF sample_granted_reachable lock_step.set_nnodes])
  moreover have "lock_state (db ?s) = pgactive_LOCKSTATE_PEER_CATCHUP" "replay_confirmed (db ?s) = 0"
    "replay_confirmed_lsn (db ?s) = 1000" "nnodes (db ?s) = int (length [sample_cx, sample_cx])"
    by (simp_all add: pgactive_locks_set_nnodes_def lock_simps sample_granted_eq)
  moreover have "e_session_origin sample_cx = 3" by (simp add: sample_cx_def)
  ultimately show ?thesis
    using replay_quorum [OF sample_cx_ok(1,2), of ?s sample_cx "[sample_cx]" 1000] sample_cx_ok(3,6) by (simp add: Let_def)
qed

section \<open>From a request to its handler\<close>

lemma begun_state:
  assumes "same_node cx env" "lock_inv cx s" "acquire_ddl_lock_begin env lt s = (Inr True, s')"
  shows "s' = asking env lt s"
  using assms by (simp add: acquire_begin_eval Let_def split: if_splits)

lemma getmsg_type_body:
  assumes "pq_format (e_pq env)"
  shows "getmsg_lock_type env (pq_sendint (e_pq env) [] t 4) = sret t"
  using pq_format.getmsgint4_send [OF assms, of t "[]"] pq_format.sendint_nonempty [OF assms, of 4 t]
  by (simp add: getmsg_lock_type_def fun_eq_iff)

text \<open>
  C19: the request that an acquiring backend logs reaches the handler of every peer unchanged: the
  record it adds to the log, framed by the output plugin and read by a peer's apply worker, runs
  the peer's handler for this node and this lock type, and the replay position advances.
\<close>

theorem acquire_request_reaches_handler:
  assumes pq: "pq_format (e_pq env)" and inv: "lock_inv cx s" and node: "same_node cx env"
    and begun: "acquire_ddl_lock_begin env lt s = (Inr True, s')"
    and peer: "e_pq env' = e_pq env" and len: "length (snd (last (wal s'))) < 2 ^ 31"
  shows "\<exists>m frame inner. wal s' = wal s @ [(False, m)] \<and>
    pg_decode_message (e_pq env) lsn False pgactive_LOGICAL_MSG_PREFIX m = Some frame \<and>
    pq_getmsgbyte (e_pq env') frame = Inr (of_char CHR ''M'', inner) \<and>
    pgactive_process_remote_message env' inner t =
      sseq (pgactive_process_acquire_ddl_lock env' (my_nodeid env) (lock_type_code lt)) (sret (Some lsn)) t"
proof -
  let ?body = "pq_sendint (e_pq env) [] (lock_type_code lt) 4"
  let ?m = "prepare_message env pgactive_MESSAGE_ACQUIRE_LOCK @ ?body"
  have m: "pq_sendint (e_pq env) (prepare_message env pgactive_MESSAGE_ACQUIRE_LOCK) (lock_type_code lt) 4 = ?m"
    by (rule pq_format.sendint_append [OF pq])
  have s': "wal s' = wal s @ [(False, ?m)]"
    using begun_state [OF node inv begun] m by (simp add: asking_def)
  obtain frame where f: "pg_decode_message (e_pq env) lsn False pgactive_LOGICAL_MSG_PREFIX ?m = Some frame"
    by (simp add: pg_decode_message_def strcmp_eq_0)
  from pq_format.read_remote_message_frame [OF pq _ refl f] len s' obtain inner where
    i: "pq_getmsgbyte (e_pq env) frame = Inr (of_char CHR ''M'', inner)"
      "read_remote_message (e_pq env) inner = Inr \<lparr>rm_transactional = False, rm_lsn = lsn,
         rm_type = message_type_code pgactive_MESSAGE_ACQUIRE_LOCK, rm_origin = my_nodeid env, rm_body = ?body\<rparr>"
    by auto
  have "getmsg_lock_type env' ?body = sret (lock_type_code lt)"
    using getmsg_type_body [of env' "lock_type_code lt"] pq peer by simp
  then have "pgactive_process_remote_message env' inner t =
      sseq (pgactive_process_acquire_ddl_lock env' (my_nodeid env) (lock_type_code lt)) (sret (Some lsn)) t"
    using i(2) peer
    by (simp add: pgactive_process_remote_message_def pgactive_locks_process_message_def sseq_def sbind_def
        del: lock_type_code.simps split: prod.split sum.split)
  with s' f i(1) peer show ?thesis by auto
qed

theorem acquire_request_reaches_handler_witness:
  "\<exists>s' m frame inner. acquire_ddl_lock_begin sample_cx pgactive_LOCK_DDL (snd (pgactive_locks_set_nnodes 1 sample_sys)) = (Inr True, s') \<and>
    wal s' = [(False, m)] \<and>
    pg_decode_message pq_network 42 False pgactive_LOGICAL_MSG_PREFIX m = Some frame \<and>
    pq_getmsgbyte pq_network frame = Inr (of_char CHR ''M'', inner)"
proof -
  let ?s = "snd (pgactive_locks_set_nnodes 1 sample_sys)"
  have inv: "lock_inv sample_cx ?s"
    using set_nnodes_safe lock_init_inv [OF sample_init] by (auto simp: safe_def)
  have begun: "acquire_ddl_lock_begin sample_cx pgactive_LOCK_DDL ?s = (Inr True, asking sample_cx pgactive_LOCK_DDL ?s)"
    unfolding acquire_begin_eval [OF sample_cx_ok(3) inv]
    by (simp add: pgactive_locks_set_nnodes_def lock_simps sample_sys_def zero_dbstate_def sample_cx_def Let_def)
  have w: "wal ?s = []" by (simp add: pgactive_locks_set_nnodes_def lock_simps sample_sys_def)
  have len: "length (snd (last (wal (asking sample_cx pgactive_LOCK_DDL ?s)))) < 2 ^ 31"
    by (simp add: asking_def sample_cx_def pq_network_def pgactive_prepare_message_def pgactive_send_nodeid_def Let_def)
  have e: "e_pq sample_cx = pq_network" by (simp add: sample_cx_def)
  then have "pq_format (e_pq sample_cx)" using net.pq_format_axioms by simp
  from acquire_request_reaches_handler [OF this inv sample_cx_ok(3) begun refl len, of 42 ?s] begun w show ?thesis
    unfolding e by auto
qed

section \<open>Where the code does not do what it says\<close>

text \<open>
  A refusal is counted without checking whose request was refused: when a peer declines the
  request of a third node in the same mode, this node's own acquisition fails at its next look.
\<close>

theorem foreign_decline_counted:
  assumes node: "same_node cx env" and inv: "lock_inv cx s"
    and origin: "origin_node cx (e_session_origin env) = Inr peer"
    and tally: "lock_state (db s) = pgactive_LOCKSTATE_ACQUIRE_TALLY_CONFIRMATIONS" "acquire_declined (db s) = 0"
    and foreign: "other \<noteq> my_nodeid env"
  shows "\<exists>s'. pgactive_process_decline_ddl_lock env peer other (lock_type_code (lock_type (db s))) s = (Inr (), s') \<and>
    acquire_ddl_lock_poll env' s' = (Inl (Error ''could not acquire global lock - another node has declined our lock request''), s')"
  using assms inv_base [OF inv]
  by (simp add: pgactive_process_decline_ddl_lock_def lock_simps acquire_ddl_lock_poll_def)

theorem foreign_decline_counted_witness:
  "let s = asking sample_cx pgactive_LOCK_DDL sample_sys
   in \<exists>s'. pgactive_process_decline_ddl_lock sample_cx peer_a \<lparr>sysid = 9, timeline = 0, dboid = 1\<rparr> (lock_type_code pgactive_LOCK_DDL) s = (Inr (), s') \<and>
      acquire_ddl_lock_poll sample_cx s' = (Inl (Error ''could not acquire global lock - another node has declined our lock request''), s')"
proof -
  let ?s = "asking sample_cx pgactive_LOCK_DDL sample_sys"
  have "lock_inv sample_cx ?s"
    by (rule asking_inv [OF lock_init_inv [OF sample_init]])
      (simp_all add: sample_cx_def sample_sys_def zero_dbstate_def)
  moreover have "lock_state (db ?s) = pgactive_LOCKSTATE_ACQUIRE_TALLY_CONFIRMATIONS" "acquire_declined (db ?s) = 0"
    "lock_type (db ?s) = pgactive_LOCK_DDL" by (simp_all add: asking_def)
  moreover have "\<lparr>sysid = 9, timeline = 0, dboid = 1\<rparr> \<noteq> my_nodeid sample_cx"
    by (simp add: pgactive_make_my_nodeid_def sample_cx_def)
  moreover have "e_session_origin sample_cx = 3" by (simp add: sample_cx_def)
  ultimately show ?thesis
    using foreign_decline_counted [OF sample_cx_ok(3), of ?s peer_a] sample_cx_ok(6) by (simp add: Let_def del: lock_type_code.simps)
qed

lemma fetch_ifexists:
  "pgactive_fetch_sysid_via_node_id by_oid nid mydb i z = Inr n \<Longrightarrow>
     pgactive_fetch_sysid_via_node_id_ifexists by_oid nid mydb i True = Inr (Some n)"
  by (auto simp: pgactive_fetch_sysid_via_node_id_def pgactive_fetch_sysid_via_node_id_ifexists_def bind_result_eq_Inr
      split: option.splits if_splits)

text \<open>
  The view of the lock hides the pid of the holding backend exactly when the lock belongs to
  the local node, which is the only case in which there is one; for a peer's lock it shows zero.
\<close>

theorem lock_info_pid_inverted:
  assumes "origins_ok cx" "reader_errors_plain (e_pq cx)" "lock_reachable cx s" "same_node cx env"
    and "lockcount (db s) = 1" and "pgactive_get_global_locks_info env True junk s = Inr info"
    and "\<forall>i. valid_origin i \<longrightarrow> origin_node cx i \<noteq> Inr (my_nodeid cx)"
  shows "gl_owner_local_pid info = (if acquire_state (lock_state (db s)) then None else Some 0)"
proof -
  have inv: "lock_inv cx s" by (rule reachable_inv [OF assms(1-3)])
  obtain n where n: "origin_node cx (lock_holder (db s)) = Inr n" using inv_holder [OF inv] .
  have o: "pgactive_fetch_sysid_via_node_id_ifexists (e_by_oid env) (e_nid env) (e_mydb env) (lock_holder (db s)) True = Inr (Some n)"
    using n assms(4) by (intro fetch_ifexists) (simp add: origin_node_def same_node_def)
  have my: "my_nodeid env = my_nodeid cx" using assms(4) by (simp add: same_node_def)
  have pid: "gl_owner_local_pid info = (if my_nodeid cx = n then None else Some (lock_holder_local_pid (db s)))"
    using assms(5,6) inv_base(1) [OF inv] unfolding my [symmetric] pgactive_get_global_locks_info_def
    by (auto simp: Let_def o lock_type_to_name_eq simp del: lock_type_code.simps)
  from inv show ?thesis
  proof (cases rule: inv_cases)
    case free
    with assms(5) show ?thesis by (simp add: no_lock_def)
  next
    case own
    then have "lock_holder (db s) = InvalidRepOriginId" by (simp add: local_lock_def)
    with n have "n = my_nodeid cx" by simp
    with own pid show ?thesis by simp
  next
    case peer
    then have "valid_origin (lock_holder (db s))" "lock_holder_local_pid (db s) = 0" by (simp_all add: peer_lock_def)
    moreover from this n assms(7) have "my_nodeid cx \<noteq> n" by auto
    ultimately show ?thesis using peer pid by auto
  qed
qed

theorem lock_info_pid_inverted_witness:
  "\<exists>info. pgactive_get_global_locks_info sample_cx True peer_a sample_granted = Inr info \<and> gl_owner_local_pid info = Some 0"
proof -
  have lc: "lockcount (db sample_granted) = 1" "lock_state (db sample_granted) = pgactive_LOCKSTATE_PEER_CATCHUP"
    "lock_holder (db sample_granted) = 3" "in_use (db sample_granted)"
    by (simp_all add: sample_granted_eq sample_sys_def zero_dbstate_def)
  have "pgactive_fetch_sysid_via_node_id_ifexists (e_by_oid sample_cx) (e_nid sample_cx) (e_mydb sample_cx) 3 True = Inr (Some peer_a)"
    using sample_cx_ok(6) by (intro fetch_ifexists) (simp add: origin_node_def)
  with lc obtain info where info: "pgactive_get_global_locks_info sample_cx True peer_a sample_granted = Inr info"
    by (simp add: pgactive_get_global_locks_info_def Let_def lock_type_to_name_eq del: lock_type_code.simps)
  have "origin_node sample_cx i \<noteq> Inr (my_nodeid sample_cx)" if "valid_origin i" for i
  proof (cases "i = 3")
    case True
    then show ?thesis using sample_cx_ok(6) by (simp add: peer_a_def pgactive_make_my_nodeid_def sample_cx_def)
  next
    case False
    then have "e_by_oid sample_cx i = None" by (simp add: sample_cx_def)
    with that show ?thesis
      by (simp add: origin_node_def pgactive_fetch_sysid_via_node_id_def pgactive_fetch_sysid_via_node_id_ifexists_def valid_origin_def)
  qed
  with lock_info_pid_inverted [OF sample_cx_ok(1,2) sample_granted_reachable sample_cx_ok(3) lc(1) info] info lc show ?thesis
    by auto
qed

text \<open>
  The offsets stored for the arrays behind the control structure are scaled by the element
  size, so the waiter array always ends beyond the shared memory that was requested.
\<close>

theorem locks_shmem_overrun:
  assumes "0 < sizeof_ctl" "1 < sizeof_waiter"
  shows "snd (pgactive_locks_shmem_startup sizeof_ctl sizeof_dbstate sizeof_waiter max_databases) + sizeof_waiter * total_procs
    > pgactive_locks_shmem_size sizeof_ctl sizeof_dbstate sizeof_waiter max_databases total_procs"
proof -
  have "sizeof_ctl < sizeof_ctl * sizeof_waiter" "sizeof_dbstate * max_databases \<le> sizeof_dbstate * max_databases * sizeof_waiter"
    using assms by simp_all
  from add_less_le_mono [OF this] show ?thesis
    by (simp add: pgactive_locks_shmem_startup_def pgactive_locks_shmem_size_def)
qed

theorem locks_shmem_overrun_witness:
  "snd (pgactive_locks_shmem_startup 24 104 16 2) + 16 * 150 > pgactive_locks_shmem_size 24 104 16 2 150"
  using locks_shmem_overrun [of 24 16 104 2 150] by simp

end
