(* ===== verification/Relation_Cache.thy ===== *)
theory Relation_Cache
  imports Node_Catalog
begin

text \<open>
  The per-backend relation cache of \<^verbatim>\<open>src/pgactive_relcache.c\<close>: replication set names, the
  JSON security label that assigns a relation to replication sets, the cached entries with
  their invalidation, and the computation of which actions on a relation are replicated.
  The server's JSON parser is the parameter \<open>jsonb_in\<close>, which yields whether the root is an
  object and the tokens that \<open>JsonbIteratorNext\<close> returns; its sort is the parameter \<open>qsort\<close>
  with the contract \<open>strcmp_sort\<close>.  Reading memory that was never written is \<open>Panic\<close>.
\<close>

section \<open>The C library's sorted arrays\<close>

text \<open>\<open>strncmp (a, b, n) == 0\<close>; a string is followed by its terminator.\<close>

fun strncmp_eq :: "nat \<Rightarrow> string \<Rightarrow> string \<Rightarrow> bool" where
  "strncmp_eq 0 s t = True"
| "strncmp_eq (Suc n) [] [] = True"
| "strncmp_eq (Suc n) (c # s) (d # t) = (c = d \<and> strncmp_eq n s t)"
| "strncmp_eq (Suc n) s t = False"

text \<open>\<open>bsearch\<close> between the indices \<open>l\<close> and \<open>u\<close>; \<open>cmp i\<close> compares the key with element \<open>i\<close>.\<close>

function bsearch :: "(nat \<Rightarrow> int) \<Rightarrow> nat \<Rightarrow> nat \<Rightarrow> nat option" where
  "bsearch cmp l u =
     (if u \<le> l then None
      else let idx = (l + u) div 2 in
        if cmp idx < 0 then bsearch cmp l idx
        else if cmp idx > 0 then bsearch cmp (idx + 1) u
        else Some idx)"
  by auto
termination
  by (relation "measure (\<lambda>(cmp, l, u). u - l)") auto

declare bsearch.simps [simp del]

definition sorted_strcmp :: "string list \<Rightarrow> bool" where
  "sorted_strcmp = sorted_wrt (\<lambda>a b. strcmp a b \<le> 0)"

locale strcmp_sort =
  fixes qsort :: "string list \<Rightarrow> string list"
  assumes qsort_set: "set (qsort xs) = set xs"
    and qsort_length: "length (qsort xs) = length xs"
    and qsort_sorted: "sorted_strcmp (qsort xs)"

lemma bsearch_hit: "bsearch cmp l u = Some i \<Longrightarrow> l \<le> i \<and> i < u \<and> cmp i = 0"
proof (induction cmp l u rule: bsearch.induct)
  case (1 cmp l u)
  show ?case
  proof (cases "u \<le> l")
    case True
    with "1.prems" show ?thesis by (simp add: bsearch.simps)
  next
    case False
    let ?m = "(l + u) div 2"
    have m: "l \<le> ?m" "?m < u" using False by linarith+
    consider "cmp ?m < 0" | "cmp ?m > 0" | "cmp ?m = 0" by linarith
    then show ?thesis
    proof cases
      case 1
      then have "bsearch cmp l ?m = Some i" using "1.prems" False by (subst (asm) bsearch.simps) (simp add: Let_def)
      with "1.IH"(1) [OF False refl 1] show ?thesis using m by linarith
    next
      case 2
      then have "bsearch cmp (?m + 1) u = Some i" using "1.prems" False by (subst (asm) bsearch.simps) (simp add: Let_def)
      with "1.IH"(2) [OF False refl] 2 show ?thesis using m by simp
    next
      case 3
      then have "i = ?m" using "1.prems" False by (subst (asm) bsearch.simps) (simp add: Let_def)
      then show ?thesis using 3 m by simp
    qed
  qed
qed

lemma bsearch_complete:
  assumes "l \<le> i" "i < u" "cmp i = 0"
    and mono: "\<And>j k. l \<le> j \<Longrightarrow> j < k \<Longrightarrow> k < u \<Longrightarrow> cmp j < 0 \<Longrightarrow> cmp k < 0"
    and mono': "\<And>j k. l \<le> j \<Longrightarrow> j < k \<Longrightarrow> k < u \<Longrightarrow> cmp k > 0 \<Longrightarrow> cmp j > 0"
  shows "bsearch cmp l u \<noteq> None"
  using assms
proof (induction cmp l u rule: bsearch.induct)
  case (1 cmp l u)
  have lu: "\<not> u \<le> l" using "1.prems"(1,2) by simp
  let ?m = "(l + u) div 2"
  have m: "l \<le> ?m" "?m < u" using lu by linarith+
  consider "cmp ?m < 0" | "cmp ?m > 0" | "cmp ?m = 0" by linarith
  then show ?case
  proof cases
    case 1
    have "i < ?m"
    proof (rule ccontr)
      assume "\<not> i < ?m"
      then have "?m < i \<or> ?m = i" by linarith
      then show False using "1.prems"(2,3) "1.prems"(4) [of ?m i] m 1 by auto
    qed
    then have "bsearch cmp l ?m \<noteq> None"
    proof (rule "1.IH"(1) [OF lu refl 1 "1.prems"(1) _ "1.prems"(3)])
      fix j k assume "l \<le> j" "j < k" "k < ?m"
      then show "cmp j < 0 \<Longrightarrow> cmp k < 0" "cmp k > 0 \<Longrightarrow> cmp j > 0"
        using "1.prems"(4,5) [of j k] m by auto
    qed
    then show ?thesis using 1 lu by (subst bsearch.simps) (simp add: Let_def)
  next
    case 2
    have i: "?m + 1 \<le> i"
    proof (rule ccontr)
      assume "\<not> ?m + 1 \<le> i"
      then have "i < ?m \<or> ?m = i" by linarith
      then show False using "1.prems"(1,3) "1.prems"(5) [of i ?m] m 2 by auto
    qed
    have n: "\<not> cmp ?m < 0" using 2 by simp
    have "bsearch cmp (?m + 1) u \<noteq> None"
    proof (rule "1.IH"(2) [OF lu refl n 2 i "1.prems"(2,3)])
      fix j k assume "?m + 1 \<le> j" "j < k" "k < u"
      then show "cmp j < 0 \<Longrightarrow> cmp k < 0" "cmp k > 0 \<Longrightarrow> cmp j > 0"
        using "1.prems"(4,5) [of j k] m by auto
    qed
    then show ?thesis using 2 lu by (subst bsearch.simps) (simp add: Let_def)
  next
    case 3
    then show ?thesis using lu by (subst bsearch.simps) (simp add: Let_def)
  qed
qed

lemma bsearch_strcmp_iff:
  assumes "sorted_strcmp xs"
  shows "bsearch (\<lambda>i. strcmp key (xs ! i)) 0 (length xs) \<noteq> None \<longleftrightarrow> key \<in> set xs"
proof
  assume "bsearch (\<lambda>i. strcmp key (xs ! i)) 0 (length xs) \<noteq> None"
  then obtain i where "bsearch (\<lambda>i. strcmp key (xs ! i)) 0 (length xs) = Some i" by blast
  from bsearch_hit [OF this] show "key \<in> set xs" by auto
next
  assume "key \<in> set xs"
  then obtain i where i: "i < length xs" "xs ! i = key" by (auto simp: in_set_conv_nth)
  show "bsearch (\<lambda>i. strcmp key (xs ! i)) 0 (length xs) \<noteq> None"
  proof (rule bsearch_complete [of 0 i])
    fix j k assume "j < k" "k < length xs"
    with assms have le: "strcmp (xs ! j) (xs ! k) \<le> 0" by (auto simp: sorted_strcmp_def sorted_wrt_iff_nth_less)
    show "strcmp key (xs ! k) < 0" if "strcmp key (xs ! j) < 0" using strcmp_trans_less [OF that le] .
    show "strcmp key (xs ! j) > 0" if "strcmp key (xs ! k) > 0"
      using that le strcmp_antisym strcmp_trans by (metis linorder_not_le)
  qed (use i in simp_all)
qed


section \<open>Cached relations\<close>

text \<open>\<^verbatim>\<open>include/pgactive.h\<close>\<close>

datatype pgactiveConflictType =
    pgactiveConflictType_InsertInsert
  | pgactiveConflictType_InsertUpdate
  | pgactiveConflictType_UpdateUpdate
  | pgactiveConflictType_UpdateDelete
  | pgactiveConflictType_DeleteDelete
  | pgactiveConflictType_UnhandledTxAbort

record pgactiveConflictHandler =
  handler_oid :: u32
  handler_type :: pgactiveConflictType
  handler_timeframe :: u64

text \<open>
  \<open>rel_sets\<close> is the array behind \<open>replication_sets\<close>; an element is \<open>None\<close> until it is
  written.  \<open>rel_handlers\<close> is \<open>None\<close> while the list has not been loaded.
\<close>

record pgactiveRelation =
  rel_reloid :: u32
  rel_valid :: bool
  rel_handlers :: "pgactiveConflictHandler list option"
  rel_sets :: "string option list"
  rel_num_sets :: int
  computed_repl_valid :: bool
  computed_repl_insert :: bool
  computed_repl_update :: bool
  computed_repl_delete :: bool

definition pgactive_validate_replication_set_name :: "string \<Rightarrow> bool \<Rightarrow> unit result" where
  "pgactive_validate_replication_set_name name allow_implicit =
     (if length name = 0 then Inl (Error ''replication set name is too short'')
      else if length name \<ge> NAMEDATALEN then Inl (Error ''replication set name is too long'')
      else if \<not> list_all (\<lambda>c. (97 \<le> (of_char c :: nat) \<and> (of_char c :: nat) \<le> 122)
                             \<or> (48 \<le> (of_char c :: nat) \<and> (of_char c :: nat) \<le> 57)
                             \<or> c = CHR ''_'' \<or> c = CHR ''-'') name
        then Inl (Error ''replication set name contains invalid character'')
      else if \<not> allow_implicit \<and> (strcmp name ''default'' = 0 \<or> strcmp name ''all'' = 0)
        then Inl (Error ''replication set name is reserved'')
      else Inr ())"

text \<open>
  The tokens of \<open>JsonbIteratorNext\<close>; the opening ones carry \<open>it->nElems\<close>.  A scalar is a
  string, a boolean or something else.
\<close>

datatype jb_scalar = JbString string | JbBool bool | JbOther

datatype jb_token =
    WJB_BEGIN_OBJECT nat
  | WJB_END_OBJECT
  | WJB_BEGIN_ARRAY nat
  | WJB_END_ARRAY
  | WJB_KEY string
  | WJB_VALUE jb_scalar
  | WJB_ELEM jb_scalar

record label_parser =
  parsing_sets :: bool
  lp_level :: int
  lp_rel :: "pgactiveRelation option"

definition alloc_sets :: "nat \<Rightarrow> label_parser \<Rightarrow> label_parser" where
  "alloc_sets n p = (if parsing_sets p
     then p\<lparr>lp_rel := map_option (\<lambda>r. r\<lparr>rel_sets := replicate n None\<rparr>) (lp_rel p)\<rparr> else p)"

text \<open>Storing a name at index \<open>num_replication_sets++\<close>.\<close>

definition store_set :: "string \<Rightarrow> pgactiveRelation \<Rightarrow> pgactiveRelation result" where
  "store_set name r =
     (if nat (rel_num_sets r) < length (rel_sets r)
      then Inr (r\<lparr>rel_sets := (rel_sets r)[nat (rel_num_sets r) := Some name],
                  rel_num_sets := rel_num_sets r + 1\<rparr>)
      else Inl (Panic ''write beyond the end of an array''))"

definition parse_set_element :: "jb_scalar \<Rightarrow> (label_parser, unit) op" where
  "parse_set_element v p =
     (if lp_level p \<noteq> 2 then (Inl (Error ''unexpected level for set''), p)
      else case v of
        JbString name \<Rightarrow>
          (case pgactive_validate_replication_set_name name False of
             Inl e \<Rightarrow> (Inl e, p)
           | Inr _ \<Rightarrow>
               (case lp_rel p of
                  None \<Rightarrow> (Inr (), p)
                | Some r \<Rightarrow>
                    (case store_set name r of
                       Inl e \<Rightarrow> (Inl e, p)
                     | Inr r' \<Rightarrow> (Inr (), p\<lparr>lp_rel := Some r'\<rparr>))))
      | _ \<Rightarrow> (Inl (Panic ''string member of a value that is not a string''), p))"

text \<open>One pass of the iterator loop.\<close>

definition parse_label_token :: "jb_token \<Rightarrow> (label_parser, unit) op" where
  "parse_label_token tok p =
     (if lp_level p = 0 \<and> (case tok of WJB_BEGIN_OBJECT n \<Rightarrow> False | _ \<Rightarrow> True)
      then (Inl (Error ''root element needs to be an object''), p)
      else if lp_level p = 0 \<and> (case tok of WJB_BEGIN_OBJECT n \<Rightarrow> n > 1 | _ \<Rightarrow> False)
      then (Inl (Error ''only 'sets' allowed on root level''), p)
      else if lp_level p = 1 \<and> (case tok of WJB_KEY k \<Rightarrow> True | _ \<Rightarrow> False)
      then (case tok of WJB_KEY k \<Rightarrow>
              if \<not> strncmp_eq (length k) k ''sets'' then (Inl (Error ''unexpected key''), p)
              else (Inr (), p\<lparr>parsing_sets := True,
                     lp_rel := map_option (\<lambda>r. r\<lparr>rel_num_sets := 0\<rparr>) (lp_rel p)\<rparr>))
      else case tok of
        WJB_BEGIN_ARRAY n \<Rightarrow> (Inr (), (alloc_sets n p)\<lparr>lp_level := lp_level p + 1\<rparr>)
      | WJB_BEGIN_OBJECT n \<Rightarrow> (Inr (), (alloc_sets n p)\<lparr>lp_level := lp_level p + 1\<rparr>)
      | WJB_END_ARRAY \<Rightarrow> (Inr (), p\<lparr>lp_level := lp_level p - 1, parsing_sets := False\<rparr>)
      | WJB_END_OBJECT \<Rightarrow> (Inr (), p\<lparr>lp_level := lp_level p - 1, parsing_sets := False\<rparr>)
      | WJB_ELEM v \<Rightarrow>
          if parsing_sets p then parse_set_element v p else (Inl (Error ''unexpected content''), p)
      | _ \<Rightarrow>
          if parsing_sets p then (Inl (Error ''unexpected element type''), p)
          else (Inl (Error ''unexpected content''), p))"

fun parse_label_tokens :: "jb_token list \<Rightarrow> (label_parser, unit) op" where
  "parse_label_tokens [] p = (Inr (), p)"
| "parse_label_tokens (t # ts) p =
     (case parse_label_token t p of (Inl e, p') \<Rightarrow> (Inl e, p') | (Inr _, p') \<Rightarrow> parse_label_tokens ts p')"

text \<open>The final \<open>qsort\<close> compares the first \<open>num_replication_sets\<close> strings.\<close>

definition sort_sets :: "(string list \<Rightarrow> string list) \<Rightarrow> pgactiveRelation \<Rightarrow> pgactiveRelation result" where
  "sort_sets qsort r =
     (let n = nat (rel_num_sets r); used = take n (rel_sets r) in
      if rel_num_sets r \<le> 0 then Inr r
      else if length used < n \<or> None \<in> set used then Inl (Panic ''use of uninitialized memory'')
      else Inr (r\<lparr>rel_sets := map Some (qsort (map the used)) @ drop n (rel_sets r)\<rparr>))"

definition pgactive_parse_relation_options ::
  "(string \<Rightarrow> (bool \<times> jb_token list) result) \<Rightarrow> (string list \<Rightarrow> string list) \<Rightarrow> string option \<Rightarrow>
   (pgactiveRelation option, unit) op" where
  "pgactive_parse_relation_options jsonb_in qsort label rel =
     (case label of None \<Rightarrow> (Inr (), rel)
      | Some l \<Rightarrow>
          (case jsonb_in l of
             Inl e \<Rightarrow> (Inl e, rel)
           | Inr (root_is_object, toks) \<Rightarrow>
               if \<not> root_is_object then (Inl (Error ''root needs to be an object''), rel)
               else case parse_label_tokens toks \<lparr>parsing_sets = False, lp_level = 0, lp_rel = rel\<rparr> of
                 (Inl e, p) \<Rightarrow> (Inl e, lp_rel p)
               | (Inr _, p) \<Rightarrow>
                   (case lp_rel p of
                      None \<Rightarrow> (Inr (), None)
                    | Some r \<Rightarrow>
                        (case sort_sets qsort r of
                           Inl e \<Rightarrow> (Inl e, Some r)
                         | Inr r' \<Rightarrow> (Inr (), Some r')))))"


section \<open>The cache\<close>

text \<open>
  \<open>None\<close> is the hash table before its creation, which also registers the callback.  What the
  server contributes: whether the relation can be opened, its security label, the JSON
  parser, the sort, and the former content of the memory that a new entry's \<open>valid\<close> flag
  occupies, which nothing initialises.
\<close>

type_synonym relcache = "(u32 \<Rightarrow> pgactiveRelation option) option"

record relcache_env =
  rc_table_exists :: "u32 \<Rightarrow> bool"
  rc_seclabel :: "u32 \<Rightarrow> string option"
  rc_jsonb_in :: "string \<Rightarrow> (bool \<times> jb_token list) result"
  rc_qsort :: "string list \<Rightarrow> string list"
  rc_garbage :: bool

definition InvalidOid :: u32 where
  "InvalidOid = 0"

definition pgactiveRelcacheHashInvalidateCallback :: "u32 \<Rightarrow> relcache \<Rightarrow> relcache" where
  "pgactiveRelcacheHashInvalidateCallback relid cache =
     (case cache of None \<Rightarrow> None
      | Some h \<Rightarrow>
          Some (if relid = InvalidOid then (\<lambda>k. map_option (\<lambda>e. e\<lparr>rel_valid := False\<rparr>) (h k))
                else h(relid := map_option (\<lambda>e. e\<lparr>rel_valid := False\<rparr>) (h relid))))"

definition pgactive_relcache_initialize :: relcache where
  "pgactive_relcache_initialize = Some (\<lambda>_. None)"

text \<open>The \<open>memset\<close> from \<open>conflict_handlers\<close> to the end of the structure, and the two stores after it.\<close>

definition reset_entry :: "u32 \<Rightarrow> bool \<Rightarrow> pgactiveRelation" where
  "reset_entry oid v = \<lparr>rel_reloid = oid, rel_valid = v, rel_handlers = None, rel_sets = [], rel_num_sets = - 1,
     computed_repl_valid = False, computed_repl_insert = False, computed_repl_update = False,
     computed_repl_delete = False\<rparr>"

definition pgactive_table_open :: "relcache_env \<Rightarrow> u32 \<Rightarrow> (relcache, pgactiveRelation) op" where
  "pgactive_table_open env oid cache =
     (if \<not> rc_table_exists env oid then (Inl (Error ''could not open relation''), cache)
      else
        let h = (case cache of None \<Rightarrow> the pgactive_relcache_initialize | Some h \<Rightarrow> h);
            flag = (case h oid of None \<Rightarrow> rc_garbage env | Some e \<Rightarrow> rel_valid e)
        in if h oid \<noteq> None \<and> flag then (Inr (the (h oid)), Some h)
           else case pgactive_parse_relation_options (rc_jsonb_in env) (rc_qsort env) (rc_seclabel env oid)
                       (Some (reset_entry oid flag)) of
                  (Inl err, r) \<Rightarrow> (Inl err, Some (h(oid := r)))
                | (Inr _, r) \<Rightarrow> (let r' = (the r)\<lparr>rel_valid := True\<rparr> in (Inr r', Some (h(oid \<mapsto> r')))))"

section \<open>Replication settings\<close>

definition relation_in_replication_set :: "pgactiveRelation \<Rightarrow> string \<Rightarrow> bool" where
  "relation_in_replication_set r setname \<longleftrightarrow>
     (if strcmp setname ''all'' = 0 then True
      else if strcmp setname ''default'' = 0 \<and> rel_num_sets r = - 1 then True
      else if rel_num_sets r \<le> 0 then False
      else bsearch (\<lambda>i. strcmp setname (the (rel_sets r ! i))) 0 (nat (rel_num_sets r)) \<noteq> None)"

record replset_row =
  set_name :: string
  replicate_inserts :: bool
  replicate_updates :: bool
  replicate_deletes :: bool

text \<open>\<open>namestrcpy\<close> cuts the name to the size of a \<open>NameData\<close>.\<close>

definition replset_lookup :: "replset_row list \<Rightarrow> string \<Rightarrow> replset_row option" where
  "replset_lookup rows cname = List.find (\<lambda>r. set_name r = take (NAMEDATALEN - 1) cname) rows"

fun compute_settings_loop :: "replset_row list \<Rightarrow> string list \<Rightarrow> pgactiveRelation \<Rightarrow> pgactiveRelation" where
  "compute_settings_loop rows [] r = r"
| "compute_settings_loop rows (setname # sets) r =
     (if \<not> relation_in_replication_set r setname then compute_settings_loop rows sets r
      else
        let r' = (case replset_lookup rows setname of
                    Some t \<Rightarrow> r\<lparr>computed_repl_insert := computed_repl_insert r \<or> replicate_inserts t,
                               computed_repl_update := computed_repl_update r \<or> replicate_updates t,
                               computed_repl_delete := computed_repl_delete r \<or> replicate_deletes t\<rparr>
                  | None \<Rightarrow> r\<lparr>computed_repl_insert := True, computed_repl_update := True, computed_repl_delete := True\<rparr>)
        in if computed_repl_insert r' \<and> computed_repl_update r' \<and> computed_repl_delete r' then r'
           else compute_settings_loop rows sets r')"

text \<open>\<open>None\<close> is \<open>conf_num_replication_sets == -1\<close>: replicate everything.\<close>

definition pgactive_heap_compute_replication_settings ::
  "replset_row list \<Rightarrow> string list option \<Rightarrow> pgactiveRelation \<Rightarrow> pgactiveRelation" where
  "pgactive_heap_compute_replication_settings rows conf r =
     (case conf of
        None \<Rightarrow> r\<lparr>computed_repl_insert := True, computed_repl_update := True, computed_repl_delete := True,
                  computed_repl_valid := True\<rparr>
      | Some sets \<Rightarrow> (compute_settings_loop rows sets r)\<lparr>computed_repl_valid := True\<rparr>)"


section \<open>Labels and sets\<close>

text \<open>The tokens of the label \<open>{"sets": [...]}\<close> that \<open>pgactive_set_table_replication_sets\<close> writes.\<close>

definition sets_tokens :: "string list \<Rightarrow> jb_token list" where
  "sets_tokens names = [WJB_BEGIN_OBJECT 1, WJB_KEY ''sets'', WJB_BEGIN_ARRAY (length names)]
     @ map (\<lambda>n. WJB_ELEM (JbString n)) names @ [WJB_END_ARRAY, WJB_END_OBJECT]"

definition valid_set_name :: "string \<Rightarrow> bool" where
  "valid_set_name name \<longleftrightarrow> pgactive_validate_replication_set_name name False = Inr ()"

lemma validate_name [simp]: "valid_set_name name \<Longrightarrow> pgactive_validate_replication_set_name name False = Inr ()"
  by (simp add: valid_set_name_def)

lemma valid_set_name_reserved: "valid_set_name name \<Longrightarrow> name \<noteq> ''all'' \<and> name \<noteq> ''default''"
  by (auto simp: valid_set_name_def pgactive_validate_replication_set_name_def split: if_splits)

lemma parse_set_elements:
  assumes "list_all valid_set_name names"
  shows "parse_label_tokens (map (\<lambda>n. WJB_ELEM (JbString n)) names @ rest)
      \<lparr>parsing_sets = True, lp_level = 2,
       lp_rel = Some (r\<lparr>rel_sets := map Some before @ replicate (length names) None,
                        rel_num_sets := int (length before)\<rparr>)\<rparr>
    = parse_label_tokens rest \<lparr>parsing_sets = True, lp_level = 2,
       lp_rel = Some (r\<lparr>rel_sets := map Some (before @ names), rel_num_sets := int (length (before @ names))\<rparr>)\<rparr>"
  using assms
proof (induction names arbitrary: before)
  case Nil
  then show ?case by simp
next
  case (Cons n names)
  have upd: "(map Some before @ None # replicate (length names) None)[length before := Some n]
      = map Some (before @ [n]) @ replicate (length names) None"
    using list_update_length [of "map Some before" None "replicate (length names) None" "Some n"] by simp
  show ?case
    using Cons.IH [of "before @ [n]"] Cons.prems
    by (simp add: parse_label_token_def parse_set_element_def store_set_def upd add.commute)
qed

lemma parse_sets_tokens:
  assumes "list_all valid_set_name names"
  shows "parse_label_tokens (sets_tokens names) \<lparr>parsing_sets = False, lp_level = 0, lp_rel = Some r\<rparr>
    = (Inr (), \<lparr>parsing_sets = False, lp_level = 0,
         lp_rel = Some (r\<lparr>rel_sets := map Some names, rel_num_sets := int (length names)\<rparr>)\<rparr>)"
proof -
  have swap: "r\<lparr>rel_num_sets := 0, rel_sets := x\<rparr> = r\<lparr>rel_sets := x, rel_num_sets := 0\<rparr>" for x
    by simp
  show ?thesis
    using parse_set_elements [OF assms, where rest = "[WJB_END_ARRAY, WJB_END_OBJECT]" and r = r and before = "[]"]
    by (simp add: sets_tokens_def parse_label_token_def alloc_sets_def swap)
qed

text \<open>What a cached relation says about its label.\<close>

definition labelled :: "string list option \<Rightarrow> pgactiveRelation \<Rightarrow> bool" where
  "labelled lab r \<longleftrightarrow>
     (case lab of None \<Rightarrow> rel_num_sets r = - 1
      | Some names \<Rightarrow> (\<exists>xs. rel_sets r = map Some xs \<and> rel_num_sets r = int (length xs) \<and>
                             set xs = set names \<and> sorted_strcmp xs))"

lemma sorted_strcmp_Nil [simp]: "sorted_strcmp []"
  by (simp add: sorted_strcmp_def)

context strcmp_sort
begin

lemma qsort_Nil: "qsort [] = []"
  using qsort_length [of "[]"] by simp

lemma parse_options_sets:
  assumes "jsonb_in l = Inr (True, sets_tokens names)" "list_all valid_set_name names"
  shows "\<exists>r'. pgactive_parse_relation_options jsonb_in qsort (Some l) (Some r) = (Inr (), Some r') \<and>
    labelled (Some names) r' \<and> r' = r\<lparr>rel_sets := rel_sets r', rel_num_sets := rel_num_sets r'\<rparr>"
  using assms(2)
  by (cases "names = []")
     (auto simp: pgactive_parse_relation_options_def assms(1) parse_sets_tokens sort_sets_def labelled_def
       qsort_set qsort_length qsort_sorted intro!: exI [of _ "qsort names"] exI [of _ "[]"])

lemma parse_options_none:
  "pgactive_parse_relation_options jsonb_in qsort None rel = (Inr (), rel)"
  by (simp add: pgactive_parse_relation_options_def)

end

lemma in_replication_set_iff:
  assumes "labelled lab r" and "\<And>names. lab = Some names \<Longrightarrow> list_all valid_set_name names"
  shows "relation_in_replication_set r s \<longleftrightarrow>
    s = ''all'' \<or> (case lab of None \<Rightarrow> s = ''default'' | Some names \<Rightarrow> s \<in> set names)"
proof (cases lab)
  case None
  with assms(1) show ?thesis by (simp add: relation_in_replication_set_def labelled_def)
next
  case (Some names)
  with assms(1) obtain xs where xs: "rel_sets r = map Some xs" "rel_num_sets r = int (length xs)"
      "set xs = set names" "sorted_strcmp xs"
    by (auto simp: labelled_def)
  have "bsearch (\<lambda>i. strcmp s (the (rel_sets r ! i))) l u = bsearch (\<lambda>i. strcmp s (xs ! i)) l u"
    if "u \<le> length xs" for l u
    using that xs(1)
  proof (induction "\<lambda>i. strcmp s (xs ! i)" l u rule: bsearch.induct)
    case (1 l u)
    show ?case
    proof (cases "u \<le> l")
      case True
      then show ?thesis by (simp add: bsearch.simps)
    next
      case False
      then have "(l + u) div 2 < length xs" "(l + u) div 2 \<le> length xs" using "1.prems" by auto
      with 1 False show ?thesis by (subst (1 2) bsearch.simps) (simp add: Let_def)
    qed
  qed
  with xs have "bsearch (\<lambda>i. strcmp s (the (rel_sets r ! i))) 0 (nat (rel_num_sets r)) \<noteq> None \<longleftrightarrow> s \<in> set names"
    using bsearch_strcmp_iff [OF xs(4), of s] by simp
  with xs Some show ?thesis by (auto simp: relation_in_replication_set_def)
qed


text \<open>A sort with the contract, for concrete runs.\<close>

fun strcmp_insert :: "string \<Rightarrow> string list \<Rightarrow> string list" where
  "strcmp_insert x [] = [x]"
| "strcmp_insert x (y # ys) = (if strcmp x y \<le> 0 then x # y # ys else y # strcmp_insert x ys)"

definition strcmp_isort :: "string list \<Rightarrow> string list" where
  "strcmp_isort xs = foldr strcmp_insert xs []"

lemma set_strcmp_insert [simp]: "set (strcmp_insert x xs) = insert x (set xs)"
  by (induction xs) auto

lemma length_strcmp_insert [simp]: "length (strcmp_insert x xs) = Suc (length xs)"
  by (induction xs) auto

lemma sorted_strcmp_insert: "sorted_strcmp xs \<Longrightarrow> sorted_strcmp (strcmp_insert x xs)"
proof (induction xs)
  case Nil
  then show ?case by (simp add: sorted_strcmp_def)
next
  case (Cons y ys)
  then have y: "\<forall>z \<in> set ys. strcmp y z \<le> 0" "sorted_strcmp ys" by (auto simp: sorted_strcmp_def)
  show ?case
  proof (cases "strcmp x y \<le> 0")
    case True
    with y show ?thesis by (auto simp: sorted_strcmp_def intro: strcmp_trans)
  next
    case False
    then have "strcmp y x \<le> 0" using strcmp_antisym [of y x] by linarith
    with False y Cons.IH show ?thesis by (auto simp: sorted_strcmp_def)
  qed
qed

interpretation isort: strcmp_sort strcmp_isort
proof
  fix xs :: "string list"
  show "set (strcmp_isort xs) = set xs" by (induction xs) (simp_all add: strcmp_isort_def)
  show "length (strcmp_isort xs) = length xs" by (induction xs) (simp_all add: strcmp_isort_def)
  show "sorted_strcmp (strcmp_isort xs)"
    by (induction xs) (simp_all add: strcmp_isort_def sorted_strcmp_insert)
qed

section \<open>Which actions are replicated\<close>

definition set_member :: "string list option \<Rightarrow> string \<Rightarrow> bool" where
  "set_member lab s \<longleftrightarrow> s = ''all'' \<or> (case lab of None \<Rightarrow> s = ''default'' | Some names \<Rightarrow> s \<in> set names)"

definition set_allows ::
  "replset_row list \<Rightarrow> string list option \<Rightarrow> (replset_row \<Rightarrow> bool) \<Rightarrow> string \<Rightarrow> bool" where
  "set_allows rows lab sel s \<longleftrightarrow>
     set_member lab s \<and> (case replset_lookup rows s of None \<Rightarrow> True | Some t \<Rightarrow> sel t)"

definition replicated ::
  "replset_row list \<Rightarrow> string list option \<Rightarrow> string list option \<Rightarrow> (replset_row \<Rightarrow> bool) \<Rightarrow> bool" where
  "replicated rows conf lab sel \<longleftrightarrow>
     (case conf of None \<Rightarrow> True
      | Some sets \<Rightarrow> (\<exists>s \<in> set sets. set_allows rows lab sel s))"

definition sane_names :: "string list option \<Rightarrow> bool" where
  "sane_names lab \<longleftrightarrow> (\<forall>names. lab = Some names \<longrightarrow> list_all valid_set_name names)"

lemma in_set_member:
  assumes "labelled lab r" "sane_names lab"
  shows "relation_in_replication_set r s = set_member lab s"
  using in_replication_set_iff [OF assms(1)] assms(2) by (simp add: set_member_def sane_names_def)

lemma labelled_update [simp]:
  "labelled lab (r\<lparr>computed_repl_insert := a\<rparr>) = labelled lab r"
  "labelled lab (r\<lparr>computed_repl_update := a\<rparr>) = labelled lab r"
  "labelled lab (r\<lparr>computed_repl_delete := a\<rparr>) = labelled lab r"
  "labelled lab (r\<lparr>computed_repl_valid := a\<rparr>) = labelled lab r"
  "labelled lab (r\<lparr>rel_valid := a\<rparr>) = labelled lab r"
  "labelled lab (r\<lparr>rel_handlers := hs\<rparr>) = labelled lab r"
  by (simp_all add: labelled_def split: option.split)

lemma compute_settings_loop_spec:
  assumes "labelled lab r" "sane_names lab"
  shows "computed_repl_insert (compute_settings_loop rows sets r)
      = (computed_repl_insert r \<or> (\<exists>s \<in> set sets. set_allows rows lab replicate_inserts s))"
    and "computed_repl_update (compute_settings_loop rows sets r)
      = (computed_repl_update r \<or> (\<exists>s \<in> set sets. set_allows rows lab replicate_updates s))"
    and "computed_repl_delete (compute_settings_loop rows sets r)
      = (computed_repl_delete r \<or> (\<exists>s \<in> set sets. set_allows rows lab replicate_deletes s))"
    and "labelled lab (compute_settings_loop rows sets r)"
  using assms(1)
  by (induction sets arbitrary: r)
     (auto simp: in_set_member [OF _ assms(2)] set_allows_def Let_def split: option.split)


definition settings_computed ::
  "replset_row list \<Rightarrow> string list option \<Rightarrow> string list option \<Rightarrow> pgactiveRelation \<Rightarrow> bool" where
  "settings_computed rows conf lab r \<longleftrightarrow>
     computed_repl_insert r = replicated rows conf lab replicate_inserts \<and>
     computed_repl_update r = replicated rows conf lab replicate_updates \<and>
     computed_repl_delete r = replicated rows conf lab replicate_deletes"

definition settings_clear :: "pgactiveRelation \<Rightarrow> bool" where
  "settings_clear r \<longleftrightarrow> \<not> computed_repl_insert r \<and> \<not> computed_repl_update r \<and> \<not> computed_repl_delete r"

lemma compute_replication_settings_spec:
  assumes "labelled lab r" "sane_names lab" "settings_clear r"
  shows "settings_computed rows conf lab (pgactive_heap_compute_replication_settings rows conf r)"
    and "labelled lab (pgactive_heap_compute_replication_settings rows conf r)"
    and "computed_repl_valid (pgactive_heap_compute_replication_settings rows conf r)"
  using assms compute_settings_loop_spec [OF assms(1,2)]
  by (auto simp: pgactive_heap_compute_replication_settings_def settings_computed_def settings_clear_def
      replicated_def split: option.split)

lemma compute_settings_loop_frame [simp]:
  "rel_valid (compute_settings_loop rows sets r) = rel_valid r"
  "rel_reloid (compute_settings_loop rows sets r) = rel_reloid r"
  "rel_handlers (compute_settings_loop rows sets r) = rel_handlers r"
  by (induction sets arbitrary: r) (auto simp: Let_def split: option.split)

lemma compute_replication_settings_frame [simp]:
  "rel_valid (pgactive_heap_compute_replication_settings rows conf r) = rel_valid r"
  "rel_reloid (pgactive_heap_compute_replication_settings rows conf r) = rel_reloid r"
  by (auto simp: pgactive_heap_compute_replication_settings_def split: option.split)

section \<open>The cache tells the current labels\<close>

definition current_labels :: "relcache_env \<Rightarrow> (u32 \<Rightarrow> string list option) \<Rightarrow> bool" where
  "current_labels env labs \<longleftrightarrow>
     (\<forall>oid. case rc_seclabel env oid of
        None \<Rightarrow> labs oid = None
      | Some l \<Rightarrow> (\<exists>names. rc_jsonb_in env l = Inr (True, sets_tokens names) \<and> labs oid = Some names \<and>
                     list_all valid_set_name names))"

definition entry_ok ::
  "replset_row list \<Rightarrow> string list option \<Rightarrow> string list option \<Rightarrow> u32 \<Rightarrow> pgactiveRelation \<Rightarrow> bool" where
  "entry_ok rows conf lab oid e \<longleftrightarrow>
     labelled lab e \<and> rel_reloid e = oid \<and>
     (if computed_repl_valid e then settings_computed rows conf lab e else settings_clear e)"

definition relcache_inv ::
  "replset_row list \<Rightarrow> string list option \<Rightarrow> (u32 \<Rightarrow> string list option) \<Rightarrow> relcache \<Rightarrow> bool" where
  "relcache_inv rows conf labs cache \<longleftrightarrow>
     (\<forall>h oid e. cache = Some h \<longrightarrow> h oid = Some e \<longrightarrow> rel_valid e \<longrightarrow> entry_ok rows conf (labs oid) oid e)"

lemma relcache_inv_None [simp]: "relcache_inv rows conf labs None"
  by (simp add: relcache_inv_def)

lemma current_labels_sane: "current_labels env labs \<Longrightarrow> sane_names (labs oid)"
  by (auto simp: current_labels_def sane_names_def split: option.splits dest!: spec [of _ oid])

lemma entry_ok_valid [simp]: "entry_ok rows conf lab oid (e\<lparr>rel_valid := v\<rparr>) = entry_ok rows conf lab oid e"
  by (simp add: entry_ok_def settings_computed_def settings_clear_def)

lemma reset_entry_labelled:
  assumes "strcmp_sort (rc_qsort env)" "current_labels env labs"
  shows "\<exists>r. pgactive_parse_relation_options (rc_jsonb_in env) (rc_qsort env) (rc_seclabel env oid)
      (Some (reset_entry oid flag)) = (Inr (), Some r) \<and> entry_ok rows conf (labs oid) oid r \<and>
      \<not> computed_repl_valid r"
proof (cases "rc_seclabel env oid")
  case None
  with assms(2) have "labs oid = None" by (auto simp: current_labels_def dest!: spec [of _ oid])
  with None show ?thesis
    by (simp add: pgactive_parse_relation_options_def entry_ok_def labelled_def reset_entry_def settings_clear_def)
next
  case (Some l)
  with assms(2) obtain names where n: "rc_jsonb_in env l = Inr (True, sets_tokens names)"
      "labs oid = Some names" "list_all valid_set_name names"
    by (auto simp: current_labels_def dest!: spec [of _ oid])
  from strcmp_sort.parse_options_sets [OF assms(1), of "rc_jsonb_in env", OF n(1,3), of "reset_entry oid flag"] obtain r where r:
    "pgactive_parse_relation_options (rc_jsonb_in env) (rc_qsort env) (Some l) (Some (reset_entry oid flag)) = (Inr (), Some r)"
    "labelled (Some names) r"
    "r = (reset_entry oid flag)\<lparr>rel_sets := rel_sets r, rel_num_sets := rel_num_sets r\<rparr>" by blast
  have "\<not> computed_repl_valid r" "settings_clear r" "rel_reloid r = oid"
    by (subst r(3); simp add: reset_entry_def settings_clear_def)+
  with Some r n(2) show ?thesis by (simp add: entry_ok_def)
qed

lemma table_open_current:
  assumes "strcmp_sort (rc_qsort env)" "current_labels env labs" "rc_table_exists env oid"
    and inv: "relcache_inv rows conf labs cache"
  shows "\<exists>r h. pgactive_table_open env oid cache = (Inr r, Some h) \<and> h oid = Some r \<and> rel_valid r \<and>
    entry_ok rows conf (labs oid) oid r \<and> relcache_inv rows conf labs (Some h)"
proof -
  define h where "h = (case cache of None \<Rightarrow> (\<lambda>_. None) | Some h \<Rightarrow> h)"
  have h: "relcache_inv rows conf labs (Some h)"
    using inv by (cases cache) (auto simp: h_def relcache_inv_def)
  show ?thesis
  proof (cases "\<exists>e. h oid = Some e \<and> rel_valid e")
    case True
    then obtain e where e: "h oid = Some e" "rel_valid e" by blast
    with h have "entry_ok rows conf (labs oid) oid e" by (simp add: relcache_inv_def)
    with e h show ?thesis
      using assms(3)
      by (cases cache) (auto simp: pgactive_table_open_def Let_def h_def pgactive_relcache_initialize_def)
  next
    case False
    define flag where "flag = (case h oid of None \<Rightarrow> rc_garbage env | Some e \<Rightarrow> rel_valid e)"
    from reset_entry_labelled [OF assms(1,2)] obtain r where r:
      "pgactive_parse_relation_options (rc_jsonb_in env) (rc_qsort env) (rc_seclabel env oid)
         (Some (reset_entry oid flag)) = (Inr (), Some r)" "entry_ok rows conf (labs oid) oid r" by blast
    have hc: "(case cache of None \<Rightarrow> the pgactive_relcache_initialize | Some h \<Rightarrow> h) = h"
      by (cases cache) (simp_all add: h_def pgactive_relcache_initialize_def)
    have "\<not> (h oid \<noteq> None \<and> flag)" using False by (auto simp: flag_def)
    then have "pgactive_table_open env oid cache = (Inr (r\<lparr>rel_valid := True\<rparr>), Some (h(oid \<mapsto> r\<lparr>rel_valid := True\<rparr>)))"
      using assms(3) r(1) by (auto simp: pgactive_table_open_def hc flag_def [symmetric] Let_def)
    moreover have "relcache_inv rows conf labs (Some (h(oid \<mapsto> r\<lparr>rel_valid := True\<rparr>)))"
      using h r(2) by (simp add: relcache_inv_def)
    ultimately show ?thesis using r(2) by simp
  qed
qed

lemma invalidate_inv:
  assumes "relcache_inv rows conf labs cache" "\<And>k. k \<noteq> oid \<Longrightarrow> labs' k = labs k"
  shows "oid \<noteq> InvalidOid \<Longrightarrow> relcache_inv rows conf labs' (pgactiveRelcacheHashInvalidateCallback oid cache)"
  using assms
  by (auto simp: pgactiveRelcacheHashInvalidateCallback_def relcache_inv_def split: option.splits if_splits)

lemma invalidate_all_inv: "relcache_inv rows' conf labs' (pgactiveRelcacheHashInvalidateCallback InvalidOid cache)"
  by (auto simp: pgactiveRelcacheHashInvalidateCallback_def relcache_inv_def split: option.splits)

section \<open>Properties\<close>

text \<open>
  C23: opening a relation and computing its settings (label parsed, set names sorted, each
  configured set searched by \<open>bsearch\<close>, the loop left as soon as all three actions are
  replicated, the result cached in the entry) gives exactly the direct definition: an action
  is replicated if there is no configuration, or if some configured set contains the relation
  and does not exclude the action.  This holds in every cache state that satisfies the
  invariant, whatever was cached before, and the cache keeps the invariant when the entry
  with its settings is stored.
\<close>

theorem replication_settings_equivalence:
  assumes "strcmp_sort (rc_qsort env)" "current_labels env labs" "rc_table_exists env oid"
    and "relcache_inv rows conf labs cache"
  shows "\<exists>r h. pgactive_table_open env oid cache = (Inr r, Some h) \<and>
    (let r' = (if computed_repl_valid r then r else pgactive_heap_compute_replication_settings rows conf r) in
       computed_repl_insert r' = replicated rows conf (labs oid) replicate_inserts \<and>
       computed_repl_update r' = replicated rows conf (labs oid) replicate_updates \<and>
       computed_repl_delete r' = replicated rows conf (labs oid) replicate_deletes \<and>
       relcache_inv rows conf labs (Some (h(oid \<mapsto> r'))))"
proof -
  from table_open_current [OF assms] obtain r h where r: "pgactive_table_open env oid cache = (Inr r, Some h)"
      "rel_valid r" "entry_ok rows conf (labs oid) oid r" "relcache_inv rows conf labs (Some h)"
    by blast
  define r' where "r' = (if computed_repl_valid r then r else pgactive_heap_compute_replication_settings rows conf r)"
  have ok: "entry_ok rows conf (labs oid) oid r'"
    and sc: "settings_computed rows conf (labs oid) r'"
    using r(3) compute_replication_settings_spec [OF _ current_labels_sane [OF assms(2)], of oid r rows conf]
    by (auto simp: r'_def entry_ok_def)
  from ok r(4) have "relcache_inv rows conf labs (Some (h(oid \<mapsto> r')))" by (simp add: relcache_inv_def)
  with r(1) sc show ?thesis
    by (intro exI [of _ r] exI [of _ h]) (simp add: r'_def [symmetric] settings_computed_def Let_def)
qed

definition example_relcache_env :: relcache_env where
  "example_relcache_env = \<lparr>rc_table_exists = (\<lambda>oid. oid = 7), rc_seclabel = (\<lambda>oid. if oid = 7 then Some ''L'' else None),
     rc_jsonb_in = (\<lambda>l. Inr (True, sets_tokens [''reports'', ''eu''])), rc_qsort = strcmp_isort, rc_garbage = True\<rparr>"

lemma example_relcache_env_fields:
  "rc_table_exists example_relcache_env 7" "rc_qsort example_relcache_env = strcmp_isort"
  by (simp_all add: example_relcache_env_def)

theorem replication_settings_equivalence_witness:
  "\<exists>r h. pgactive_table_open example_relcache_env 7 None = (Inr r, Some h) \<and>
    (let r' = (if computed_repl_valid r then r
               else pgactive_heap_compute_replication_settings
                 [\<lparr>set_name = ''eu'', replicate_inserts = True, replicate_updates = False, replicate_deletes = False\<rparr>]
                 (Some [''us'', ''eu'']) r) in
       computed_repl_insert r' \<and> \<not> computed_repl_update r' \<and> \<not> computed_repl_delete r')"
proof -
  let ?labs = "\<lambda>oid :: u32. if oid = 7 then Some [''reports'', ''eu''] else None"
  have "current_labels example_relcache_env ?labs"
    by (simp add: current_labels_def example_relcache_env_def valid_set_name_def NAMEDATALEN_def
        pgactive_validate_replication_set_name_def)
  then show ?thesis
    using replication_settings_equivalence [of example_relcache_env ?labs 7
      "[\<lparr>set_name = ''eu'', replicate_inserts = True, replicate_updates = False, replicate_deletes = False\<rparr>]"
      "Some [''us'', ''eu'']" None] isort.strcmp_sort_axioms
    by (simp add: replicated_def set_allows_def set_member_def replset_lookup_def NAMEDATALEN_def
        Let_def example_relcache_env_fields split del: if_split) blast
qed

end
