(* ===== verification/Database_Cache.thy ===== *)
theory Database_Cache
  imports Relation_Cache
begin

text \<open>
  The per-backend cache of databases of \<^verbatim>\<open>src/pgactive_dbcache.c\<close>, which tells whether pgactive is
  active in a database, and the security label hook \<open>pgactive_object_relabel\<close> of
  \<^verbatim>\<open>src/pgactive.c\<close> that keeps both label caches coherent.  The catalogue (database names and
  labels) belongs to the server; it is an argument of the lookup.
\<close>

record pgactiveDatabaseCacheEntry =
  db_oid :: u32
  dbname :: "string option"
  db_valid :: bool
  pgactive_activated :: bool

type_synonym dbcache = "(u32 \<Rightarrow> pgactiveDatabaseCacheEntry option) option"

record db_catalog =
  datname :: "u32 \<Rightarrow> string option"
  db_label :: "u32 \<Rightarrow> string option"

definition pgactive_dbcache_invalidate_entry :: "dbcache \<Rightarrow> dbcache" where
  "pgactive_dbcache_invalidate_entry cache =
     map_option (\<lambda>h k. map_option (\<lambda>e. e\<lparr>db_valid := False\<rparr>) (h k)) cache"

definition pgactive_dbcache_initialize :: dbcache where
  "pgactive_dbcache_initialize = Some (\<lambda>_. None)"

section \<open>The label of a database\<close>

record db_label_parser =
  parsing_pgactive :: bool
  db_level :: int
  is_active :: bool

definition parse_db_token :: "jb_token \<Rightarrow> (db_label_parser, unit) op" where
  "parse_db_token tok p =
     (if db_level p = 0 then
        (case tok of
           WJB_BEGIN_OBJECT n \<Rightarrow>
             if n > 1 then (Inl (Error ''only 'pgactive' allowed on root level''), p)
             else (Inr (), p\<lparr>db_level := db_level p + 1\<rparr>)
         | _ \<Rightarrow> (Inl (Error ''root element needs to be an object''), p))
      else if db_level p = 1 then
        (case tok of
           WJB_KEY k \<Rightarrow>
             if \<not> strncmp_eq (length k) k ''pgactive'' then (Inl (Error ''unexpected key''), p)
             else (Inr (), p\<lparr>parsing_pgactive := True\<rparr>)
         | WJB_VALUE v \<Rightarrow>
             if \<not> parsing_pgactive p then (Inl (Error ''in wrong state when parsing key''), p)
             else (case v of
                     JbBool b \<Rightarrow> (Inr (), p\<lparr>is_active := b\<rparr>)
                   | _ \<Rightarrow> (Inl (Error ''unexpected type for key pgactive''), p))
         | WJB_END_OBJECT \<Rightarrow> (Inr (), p\<lparr>db_level := db_level p - 1, parsing_pgactive := False\<rparr>)
         | _ \<Rightarrow> (Inl (Error ''unexpected content''), p))
      else if tok = WJB_END_OBJECT then (Inr (), p\<lparr>db_level := db_level p - 1, parsing_pgactive := False\<rparr>)
      else (Inl (Error ''unexpected content''), p))"

fun parse_db_tokens :: "jb_token list \<Rightarrow> (db_label_parser, unit) op" where
  "parse_db_tokens [] p = (Inr (), p)"
| "parse_db_tokens (t # ts) p =
     (case parse_db_token t p of (Inl e, p') \<Rightarrow> (Inl e, p') | (Inr _, p') \<Rightarrow> parse_db_tokens ts p')"

text \<open>The result and the final content of \<open>*is_active\<close>; a caller that passes no pointer ignores the second.\<close>

definition pgactive_parse_database_options ::
  "(string \<Rightarrow> (bool \<times> jb_token list) result) \<Rightarrow> string option \<Rightarrow> bool \<Rightarrow> unit result \<times> bool" where
  "pgactive_parse_database_options jsonb_in label active =
     (case label of None \<Rightarrow> (Inr (), active)
      | Some l \<Rightarrow>
          (case jsonb_in l of
             Inl e \<Rightarrow> (Inl e, active)
           | Inr (root_is_object, toks) \<Rightarrow>
               if \<not> root_is_object then (Inl (Error ''root needs to be an object''), active)
               else let (r, p) = parse_db_tokens toks \<lparr>parsing_pgactive = False, db_level = 0, is_active = active\<rparr>
                    in (r, is_active p)))"

section \<open>The cache\<close>

definition pgactive_dbcache_lookup ::
  "(string \<Rightarrow> (bool \<times> jb_token list) result) \<Rightarrow> db_catalog \<Rightarrow> u32 \<Rightarrow> bool \<Rightarrow>
   (dbcache, pgactiveDatabaseCacheEntry option) op" where
  "pgactive_dbcache_lookup jsonb_in cat oid missing_ok cache =
     (let h = (case cache of None \<Rightarrow> the pgactive_dbcache_initialize | Some h \<Rightarrow> h);
          zeroed = \<lparr>db_oid = oid, dbname = None, db_valid = False, pgactive_activated = False\<rparr>
      in if (case h oid of None \<Rightarrow> False | Some e \<Rightarrow> db_valid e) then (Inr (h oid), Some h)
         else case datname cat oid of
           None \<Rightarrow> (if \<not> missing_ok then Inl (Error ''cache lookup failed for database'') else Inr None,
                    Some (h(oid \<mapsto> zeroed)))
         | Some name \<Rightarrow>
             (case pgactive_parse_database_options jsonb_in (db_label cat oid) False of
                (Inl e, a) \<Rightarrow> (Inl e, Some (h(oid \<mapsto> zeroed\<lparr>dbname := Some name, pgactive_activated := a\<rparr>)))
              | (Inr _, a) \<Rightarrow>
                  let e = zeroed\<lparr>dbname := Some name, pgactive_activated := a, db_valid := True\<rparr>
                  in (Inr (Some e), Some (h(oid \<mapsto> e)))))"

definition pgactive_is_pgactive_activated_db ::
  "(string \<Rightarrow> (bool \<times> jb_token list) result) \<Rightarrow> db_catalog \<Rightarrow> u32 \<Rightarrow> (dbcache, bool) op" where
  "pgactive_is_pgactive_activated_db jsonb_in cat oid cache =
     (case pgactive_dbcache_lookup jsonb_in cat oid False cache of
        (Inl e, c) \<Rightarrow> (Inl e, c)
      | (Inr None, c) \<Rightarrow> (Inl (Panic ''null pointer dereference''), c)
      | (Inr (Some e), c) \<Rightarrow> (Inr (pgactive_activated e), c))"

section \<open>The label hook\<close>

definition RelationRelationId :: u32 where
  "RelationRelationId = 1259"

definition DatabaseRelationId :: u32 where
  "DatabaseRelationId = 1262"

datatype invalidation = InvalRelcache u32 | InvalCatalog u32

text \<open>
  \<open>owner\<close> says whether the user owns the object.  The result is the list of invalidations
  that commit sends; the label itself is stored by the server after the hook returns.
\<close>

definition pgactive_object_relabel ::
  "(string \<Rightarrow> (bool \<times> jb_token list) result) \<Rightarrow> (string list \<Rightarrow> string list) \<Rightarrow> bool \<Rightarrow> u32 \<Rightarrow> u32 \<Rightarrow> string option \<Rightarrow>
   invalidation list result" where
  "pgactive_object_relabel jsonb_in qsort owner class_id object_id label =
     (if class_id = RelationRelationId then
        (if \<not> owner then Inl (Error ''must be owner of table'')
         else bind_result (fst (pgactive_parse_relation_options jsonb_in qsort label None)) (\<lambda>_.
              Inr [InvalRelcache object_id]))
      else if class_id = DatabaseRelationId then
        (if \<not> owner then Inl (Error ''must be owner of database'')
         else bind_result (fst (pgactive_parse_database_options jsonb_in label False)) (\<lambda>_.
              Inr [InvalCatalog DatabaseRelationId]))
      else Inl (Error ''unsupported object type''))"

section \<open>The cache is coherent\<close>

text \<open>
  A backend during its life: labels set through the hook, other changes of \<^verbatim>\<open>pg_database\<close> (which
  the server announces with the same invalidation), and lookups.
\<close>

definition deliver :: "invalidation list \<Rightarrow> dbcache \<Rightarrow> dbcache" where
  "deliver invs cache =
     (if InvalCatalog DatabaseRelationId \<in> set invs then pgactive_dbcache_invalidate_entry cache else cache)"

inductive db_step ::
  "(string \<Rightarrow> (bool \<times> jb_token list) result) \<Rightarrow> (string list \<Rightarrow> string list) \<Rightarrow>
   db_catalog \<times> dbcache \<Rightarrow> db_catalog \<times> dbcache \<Rightarrow> bool"
  for jsonb_in qsort where
  relabel: "pgactive_object_relabel jsonb_in qsort owner class_id oid label = Inr invs \<Longrightarrow>
    db_step jsonb_in qsort (cat, cache)
      (if class_id = DatabaseRelationId then cat\<lparr>db_label := (db_label cat)(oid := label)\<rparr> else cat, deliver invs cache)"
| alter: "db_step jsonb_in qsort (cat, cache)
      (\<lparr>datname = (datname cat)(oid := name), db_label = (if name = None then (db_label cat)(oid := None) else db_label cat)\<rparr>,
       deliver [InvalCatalog DatabaseRelationId] cache)"
| look: "db_step jsonb_in qsort (cat, cache) (cat, snd (pgactive_dbcache_lookup jsonb_in cat oid missing_ok cache))"

definition db_active ::
  "(string \<Rightarrow> (bool \<times> jb_token list) result) \<Rightarrow> db_catalog \<Rightarrow> u32 \<Rightarrow> bool result" where
  "db_active jsonb_in cat oid =
     (case datname cat oid of None \<Rightarrow> Inl (Error ''cache lookup failed for database'')
      | Some _ \<Rightarrow>
          (case pgactive_parse_database_options jsonb_in (db_label cat oid) False of
             (Inl e, _) \<Rightarrow> Inl e | (Inr _, a) \<Rightarrow> Inr a))"

definition dbcache_inv ::
  "(string \<Rightarrow> (bool \<times> jb_token list) result) \<Rightarrow> db_catalog \<times> dbcache \<Rightarrow> bool" where
  "dbcache_inv jsonb_in s \<longleftrightarrow>
     (\<forall>h oid e. snd s = Some h \<longrightarrow> h oid = Some e \<longrightarrow> db_valid e \<longrightarrow>
        db_active jsonb_in (fst s) oid = Inr (pgactive_activated e))"

lemma invalidated_inv: "dbcache_inv jsonb_in (cat, pgactive_dbcache_invalidate_entry cache)"
  by (auto simp: dbcache_inv_def pgactive_dbcache_invalidate_entry_def)

definition cache_base :: "dbcache \<Rightarrow> u32 \<Rightarrow> pgactiveDatabaseCacheEntry option" where
  "cache_base cache = (case cache of None \<Rightarrow> (\<lambda>_. None) | Some h \<Rightarrow> h)"

lemma dbcache_inv_base:
  "dbcache_inv jsonb_in (cat, cache) \<longleftrightarrow>
    (\<forall>oid e. cache_base cache oid = Some e \<longrightarrow> db_valid e \<longrightarrow> db_active jsonb_in cat oid = Inr (pgactive_activated e))"
  by (cases cache) (auto simp: dbcache_inv_def cache_base_def)

text \<open>A lookup hits a valid entry, or replaces the entry by what the catalogue says.\<close>

lemma lookup_hit:
  assumes "cache_base cache oid = Some e" "db_valid e"
  shows "pgactive_dbcache_lookup jsonb_in cat oid missing_ok cache = (Inr (Some e), Some (cache_base cache))"
  using assms
  by (cases cache) (simp_all add: pgactive_dbcache_lookup_def cache_base_def pgactive_dbcache_initialize_def)

lemma lookup_miss:
  assumes "\<not> (\<exists>e. cache_base cache oid = Some e \<and> db_valid e)"
  shows "\<exists>e. pgactive_dbcache_lookup jsonb_in cat oid False cache
      = (case db_active jsonb_in cat oid of Inl err \<Rightarrow> Inl err | Inr _ \<Rightarrow> Inr (Some e), Some ((cache_base cache)(oid \<mapsto> e))) \<and>
      snd (pgactive_dbcache_lookup jsonb_in cat oid missing_ok cache) = Some ((cache_base cache)(oid \<mapsto> e)) \<and>
      (case db_active jsonb_in cat oid of Inl _ \<Rightarrow> \<not> db_valid e | Inr a \<Rightarrow> pgactive_activated e = a)"
proof -
  have h: "(case cache of None \<Rightarrow> the pgactive_dbcache_initialize | Some h \<Rightarrow> h) = cache_base cache"
    by (simp add: cache_base_def pgactive_dbcache_initialize_def split: option.split)
  have m: "(case cache_base cache oid of None \<Rightarrow> False | Some e \<Rightarrow> db_valid e) = False"
    using assms by (auto split: option.split)
  show ?thesis
    unfolding pgactive_dbcache_lookup_def h Let_def m
    by (auto simp: db_active_def split: option.splits prod.splits sum.splits)
qed

lemma lookup_inv:
  assumes "dbcache_inv jsonb_in (cat, cache)"
  shows "dbcache_inv jsonb_in (cat, snd (pgactive_dbcache_lookup jsonb_in cat oid missing_ok cache))"
proof (cases "\<exists>e. cache_base cache oid = Some e \<and> db_valid e")
  case True
  then obtain e where "cache_base cache oid = Some e" "db_valid e" by blast
  from lookup_hit [OF this] assms show ?thesis by (simp add: dbcache_inv_base) (simp add: cache_base_def)
next
  case False
  from lookup_miss [OF this, where jsonb_in = jsonb_in and cat = cat and missing_ok = missing_ok] obtain e where
    "snd (pgactive_dbcache_lookup jsonb_in cat oid missing_ok cache) = Some ((cache_base cache)(oid \<mapsto> e))"
    "case db_active jsonb_in cat oid of Inl _ \<Rightarrow> \<not> db_valid e | Inr a \<Rightarrow> pgactive_activated e = a" by blast
  with assms show ?thesis
    by (simp add: dbcache_inv_base split: sum.splits) (auto simp: cache_base_def)
qed

lemma relabel_database_invalidates:
  "pgactive_object_relabel jsonb_in qsort owner DatabaseRelationId oid label = Inr invs \<Longrightarrow>
   InvalCatalog DatabaseRelationId \<in> set invs"
  by (auto simp: pgactive_object_relabel_def bind_result_eq_Inr RelationRelationId_def DatabaseRelationId_def
      split: if_splits)

lemma db_step_inv:
  "db_step jsonb_in qsort s s' \<Longrightarrow> dbcache_inv jsonb_in s \<Longrightarrow> dbcache_inv jsonb_in s'"
proof (induction rule: db_step.induct)
  case (relabel owner class_id oid label invs cat cache)
  then show ?case
    using relabel_database_invalidates by (auto simp: deliver_def invalidated_inv)
qed (auto simp: deliver_def invalidated_inv lookup_inv)

lemma activated_from_inv:
  assumes "dbcache_inv jsonb_in (cat, cache)"
  shows "fst (pgactive_is_pgactive_activated_db jsonb_in cat oid cache) = db_active jsonb_in cat oid"
proof (cases "\<exists>e. cache_base cache oid = Some e \<and> db_valid e")
  case True
  then obtain e where e: "cache_base cache oid = Some e" "db_valid e" by blast
  with assms lookup_hit [OF e] show ?thesis
    by (simp add: pgactive_is_pgactive_activated_db_def dbcache_inv_base)
next
  case False
  from lookup_miss [OF this, where jsonb_in = jsonb_in and cat = cat and missing_ok = False] show ?thesis
    by (auto simp: pgactive_is_pgactive_activated_db_def split: sum.splits)
qed

interpretation db_cache: caching_system "db_step jsonb_in qsort" "dbcache_inv jsonb_in" "\<lambda>_. True"
  "\<lambda>(cat, cache) oid. fst (pgactive_is_pgactive_activated_db jsonb_in cat oid cache)" "\<lambda>(cat, cache) oid. db_active jsonb_in cat oid"
  for jsonb_in qsort
proof unfold_locales
  show "db_step jsonb_in qsort s s' \<Longrightarrow> dbcache_inv jsonb_in s \<Longrightarrow> dbcache_inv jsonb_in s'" for s s'
    by (rule db_step_inv)
qed (auto simp: activated_from_inv)

text \<open>
  C26: the cache of databases is transparent.  After any sequence of label changes through the
  security label hook, of other changes to databases, and of lookups (failed ones included),
  \<open>pgactive_is_pgactive_activated_db\<close> answers what the current label of the database says:
  the error for a missing database, the parse error of a malformed label, false without a
  label, and otherwise the value of its key \<^verbatim>\<open>pgactive\<close>.
\<close>

theorem dbcache_transparent:
  assumes "(db_step jsonb_in qsort)\<^sup>*\<^sup>* (cat0, None) (cat, cache)"
  shows "fst (pgactive_is_pgactive_activated_db jsonb_in cat oid cache) = db_active jsonb_in cat oid"
  using db_cache.transparent [OF assms, of oid] by (simp add: dbcache_inv_def)

definition example_jsonb :: "string \<Rightarrow> (bool \<times> jb_token list) result" where
  "example_jsonb l =
     (if l = ''on'' then Inr (True, [WJB_BEGIN_OBJECT 1, WJB_KEY ''pgactive'', WJB_VALUE (JbBool True), WJB_END_OBJECT])
      else Inl (Error ''invalid input syntax for type json''))"

theorem dbcache_transparent_witness:
  "let cat0 = \<lparr>datname = (\<lambda>oid. if oid = 5 then Some ''app'' else None), db_label = (\<lambda>_. None)\<rparr>;
       cache = snd (pgactive_dbcache_lookup example_jsonb cat0 5 False None);
       cat = cat0\<lparr>db_label := (db_label cat0)(5 := Some ''on'')\<rparr>;
       cache = deliver [InvalCatalog DatabaseRelationId] cache
   in fst (pgactive_is_pgactive_activated_db example_jsonb cat 5 cache) = Inr True"
proof -
  define cat0 where "cat0 = \<lparr>datname = (\<lambda>oid :: u32. if oid = 5 then Some ''app'' else None), db_label = (\<lambda>_. None)\<rparr>"
  define c1 where "c1 = snd (pgactive_dbcache_lookup example_jsonb cat0 5 False None)"
  define cat where "cat = cat0\<lparr>db_label := (db_label cat0)(5 := Some ''on'')\<rparr>"
  have "pgactive_object_relabel example_jsonb id True DatabaseRelationId 5 (Some ''on'') = Inr [InvalCatalog DatabaseRelationId]"
    by (simp add: pgactive_object_relabel_def RelationRelationId_def DatabaseRelationId_def example_jsonb_def
        pgactive_parse_database_options_def parse_db_token_def)
  from db_step.relabel [OF this, of cat0 c1]
  have "db_step example_jsonb id (cat0, c1) (cat, deliver [InvalCatalog DatabaseRelationId] c1)"
    by (simp add: cat_def)
  with db_step.look [of example_jsonb id cat0 None 5 False]
  have "(db_step example_jsonb id)\<^sup>*\<^sup>* (cat0, None) (cat, deliver [InvalCatalog DatabaseRelationId] c1)"
    by (simp add: c1_def)
  from dbcache_transparent [OF this, of 5] show ?thesis
    by (simp add: Let_def cat0_def [symmetric] c1_def cat_def db_active_def)
       (simp add: cat0_def example_jsonb_def pgactive_parse_database_options_def parse_db_token_def)
qed

end
