(* ===== verification/Worker_Slots.thy ===== *)
theory Worker_Slots
  imports Database_Cache "HOL-Library.Signed_Division"
begin

unbundle bit_operations_syntax

text \<open>
  The shared memory segment of pgactive workers (\<^verbatim>\<open>src/pgactive_shmem.c\<close>), the last error of a
  worker (\<^verbatim>\<open>src/pgactive_elog.c\<close>), the searches of \<^verbatim>\<open>src/pgactive_perdb.c\<close> and the functions
  of \<^verbatim>\<open>src/pgactive.c\<close> that use worker slots.  The structures keep the names of
  \<^verbatim>\<open>include/pgactive.h\<close>.  A pointer to a slot is its index, a latch is the number of its
  process.  The three members of the union \<open>data\<close> are separate fields: the code reads the
  member of the slot's type only and zeroes the whole slot when it allocates one.  Every
  operation runs under the segment's lock in the program and is one step here.
\<close>

section \<open>The structures\<close>

datatype pgactiveWorkerType =
    pgactive_WORKER_EMPTY_SLOT
  | pgactive_WORKER_APPLY
  | pgactive_WORKER_PERDB
  | pgactive_WORKER_WALSENDER

fun worker_type_code :: "pgactiveWorkerType \<Rightarrow> int" where
  "worker_type_code pgactive_WORKER_EMPTY_SLOT = 0"
| "worker_type_code pgactive_WORKER_APPLY = 1"
| "worker_type_code pgactive_WORKER_PERDB = 2"
| "worker_type_code pgactive_WORKER_WALSENDER = 3"

fun pgactiveWorkerTypeNames :: "pgactiveWorkerType \<Rightarrow> string" where
  "pgactiveWorkerTypeNames pgactive_WORKER_EMPTY_SLOT = ''none''"
| "pgactiveWorkerTypeNames pgactive_WORKER_APPLY = ''apply worker''"
| "pgactiveWorkerTypeNames pgactive_WORKER_PERDB = ''per-db worker''"
| "pgactiveWorkerTypeNames pgactive_WORKER_WALSENDER = ''walsender''"

record pgactiveLastErrorInfo =
  errcode :: int
  errtime :: int

text \<open>The members of the server's \<open>PGPROC\<close> that the code reads.\<close>

record PGPROC =
  proc_pid :: int
  proc_databaseId :: u32

record pgactiveApplyWorker =
  apply_dboid :: u32
  apply_perdb :: "nat option"
  apply_remote_node :: pgactiveNodeId
  replay_stop_lsn :: u64
  forward_changesets :: bool
  apply_proclatch :: "nat option"
  last_applied_xact_id :: u32
  last_applied_xact_committs :: int
  last_applied_xact_at :: int

record pgactivePerdbWorker =
  c_dboid :: u32
  perdb_nnodes :: int
  perdb_proclatch :: "nat option"
  p_dboid :: u32
  unregistered :: bool

record pgactiveWalsenderWorker =
  walsnd_walsender :: "nat option"
  walsnd_slot :: "string option"
  walsnd_remote_node :: pgactiveNodeId
  last_sent_xact_id :: u32
  last_sent_xact_committs :: int
  last_sent_xact_at :: int

record pgactiveWorker =
  worker_type :: pgactiveWorkerType
  worker_pid :: int
  worker_proc :: "PGPROC option"
  last_error_info :: pgactiveLastErrorInfo
  data_apply :: pgactiveApplyWorker
  data_perdb :: pgactivePerdbWorker
  data_walsnd :: pgactiveWalsenderWorker

record pgactiveWorkerControl =
  worker_generation :: u16
  pause_apply :: bool
  is_supervisor_restart :: bool
  worker_management_paused :: bool
  supervisor_latch :: "nat option"
  slots :: "pgactiveWorker list"

text \<open>What \<open>memset\<close> to zero leaves.\<close>

definition zero_worker :: pgactiveWorker where
  "zero_worker = \<lparr>worker_type = pgactive_WORKER_EMPTY_SLOT, worker_pid = 0, worker_proc = None,
     last_error_info = \<lparr>errcode = 0, errtime = 0\<rparr>,
     data_apply = \<lparr>apply_dboid = 0, apply_perdb = None, apply_remote_node = zero_nodeid, replay_stop_lsn = 0,
       forward_changesets = False, apply_proclatch = None, last_applied_xact_id = 0, last_applied_xact_committs = 0,
       last_applied_xact_at = 0\<rparr>,
     data_perdb = \<lparr>c_dboid = 0, perdb_nnodes = 0, perdb_proclatch = None, p_dboid = 0, unregistered = False\<rparr>,
     data_walsnd = \<lparr>walsnd_walsender = None, walsnd_slot = None, walsnd_remote_node = zero_nodeid,
       last_sent_xact_id = 0, last_sent_xact_committs = 0, last_sent_xact_at = 0\<rparr>\<rparr>"

text \<open>
  The variables of one process: its slot, the type it acquired the slot with and
  \<open>worker_slot_free_at_rel\<close>; and what identifies it.
\<close>

record worker_process =
  pgactive_worker_slot :: "nat option"
  pgactive_worker_type :: pgactiveWorkerType
  worker_slot_free_at_rel :: bool
  MyProcPid :: int
  MyProcNumber :: nat
  MyDatabaseId :: u32

record worker_sys =
  ctl :: pgactiveWorkerControl
  self :: worker_process

type_synonym 'a worker_op = "(worker_sys, 'a) op"

definition upd_slot :: "nat \<Rightarrow> (pgactiveWorker \<Rightarrow> pgactiveWorker) \<Rightarrow> pgactiveWorkerControl \<Rightarrow> pgactiveWorkerControl" where
  "upd_slot i f c = c\<lparr>slots := (slots c)[i := f (slots c ! i)]\<rparr>"

definition upd_perdb :: "(pgactivePerdbWorker \<Rightarrow> pgactivePerdbWorker) \<Rightarrow> pgactiveWorker \<Rightarrow> pgactiveWorker" where
  "upd_perdb f w = w\<lparr>data_perdb := f (data_perdb w)\<rparr>"

definition upd_apply :: "(pgactiveApplyWorker \<Rightarrow> pgactiveApplyWorker) \<Rightarrow> pgactiveWorker \<Rightarrow> pgactiveWorker" where
  "upd_apply f w = w\<lparr>data_apply := f (data_apply w)\<rparr>"

section \<open>The segment\<close>

definition pgactive_max_workers :: "int \<Rightarrow> int \<Rightarrow> int" where
  "pgactive_max_workers max_worker_processes max_wal_senders = max_worker_processes + max_wal_senders"

definition pgactive_max_databases :: "int \<Rightarrow> int" where
  "pgactive_max_databases max_worker_processes = max_worker_processes sdiv 2 + 1"

text \<open>
  \<open>pgactive_worker_shmem_init\<close> sets the postmaster's generation to 1.  The startup hook runs
  after each (re)start of the postmaster; \<open>found\<close> is the segment when it exists already.
\<close>

definition pgactive_worker_shmem_init :: u16 where
  "pgactive_worker_shmem_init = 1"

definition pgactive_worker_shmem_startup ::
  "nat \<Rightarrow> pgactiveWorkerControl option \<Rightarrow> u16 \<Rightarrow> (pgactiveWorkerControl \<times> u16) result" where
  "pgactive_worker_shmem_startup max_workers found generation =
     (case found of
        Some c \<Rightarrow> Inr (c, generation)
      | None \<Rightarrow>
          if generation = - 1 then Inl (Fatal ''too many postmaster crash/restart cycles, restart the PostgreSQL server'')
          else Inr (\<lparr>worker_generation = generation + 1, pause_apply = False, is_supervisor_restart = False,
                     worker_management_paused = False, supervisor_latch = None,
                     slots = replicate max_workers zero_worker\<rparr>, generation + 1))"

section \<open>Slots\<close>

fun find_slot :: "('w \<Rightarrow> bool) \<Rightarrow> nat \<Rightarrow> 'w list \<Rightarrow> nat option" where
  "find_slot P i [] = None"
| "find_slot P i (w # ws) = (if P w then Some i else find_slot P (Suc i) ws)"

definition pgactive_worker_shmem_alloc :: "pgactiveWorkerType \<Rightarrow> (pgactiveWorkerControl, nat) op" where
  "pgactive_worker_shmem_alloc t c =
     (case find_slot (\<lambda>w. worker_type w = pgactive_WORKER_EMPTY_SLOT) 0 (slots c) of
        Some i \<Rightarrow> (Inr i, c\<lparr>slots := (slots c)[i := zero_worker\<lparr>worker_type := t\<rparr>]\<rparr>)
      | None \<Rightarrow> (Inl (Error ''could not find free slot''), c))"

text \<open>\<open>handle_started\<close> is \<open>None\<close> without a handle, else whether its process runs.\<close>

definition pgactive_worker_shmem_free :: "nat \<Rightarrow> bool option \<Rightarrow> unit worker_op" where
  "pgactive_worker_shmem_free i handle_started s =
     (let w = slots (ctl s) ! i in
      if worker_type w = pgactive_WORKER_PERDB \<and> unregistered (data_perdb w) then (Inr (), s)
      else if worker_type w \<noteq> pgactive_WORKER_EMPTY_SLOT \<and> handle_started = Some True
      then (Inl (Error ''cannot release shared memory slot for a live pgactive worker''), s)
      else
        let s = (if worker_type w \<noteq> pgactive_WORKER_EMPTY_SLOT
                 then s\<lparr>ctl := upd_slot i (\<lambda>_. zero_worker) (ctl s)\<rparr> else s)
        in (Inr (), if pgactive_worker_slot (self s) = Some i
                    then s\<lparr>self := (self s)\<lparr>pgactive_worker_slot := None\<rparr>\<rparr> else s))"

definition pgactive_worker_shmem_acquire :: "pgactiveWorkerType \<Rightarrow> nat \<Rightarrow> bool \<Rightarrow> unit worker_op" where
  "pgactive_worker_shmem_acquire t i free_at_rel s =
     (if length (slots (ctl s)) \<le> i then (Inl (Panic ''slot number beyond the end of the array''), s)
      else if worker_type (slots (ctl s) ! i) \<noteq> t then (Inl (Fatal ''mismatch in worker state''), s)
      else (Inr (), s\<lparr>self := (self s)\<lparr>pgactive_worker_slot := Some i, pgactive_worker_type := t,
                                       worker_slot_free_at_rel := free_at_rel\<rparr>\<rparr>))"

definition pgactive_worker_shmem_release :: "unit worker_op" where
  "pgactive_worker_shmem_release s =
     (case pgactive_worker_slot (self s) of
        None \<Rightarrow> (Inr (), s)
      | Some i \<Rightarrow>
          let w = slots (ctl s) ! i in
          if worker_type w = pgactive_WORKER_PERDB \<and> unregistered (data_perdb w) then (Inr (), s)
          else
            sseq (smodify (\<lambda>s. s\<lparr>ctl := upd_slot i (\<lambda>w. w\<lparr>worker_pid := 0, worker_proc := None\<rparr>) (ctl s),
                                self := (self s)\<lparr>pgactive_worker_type := pgactive_WORKER_EMPTY_SLOT\<rparr>\<rparr>))
            (sseq (if worker_slot_free_at_rel (self s) then pgactive_worker_shmem_free i None else sret ())
             (smodify (\<lambda>s. s\<lparr>self := (self s)\<lparr>pgactive_worker_slot := None\<rparr>\<rparr>))) s)"

text \<open>\<open>proc_exit\<close> runs the callback that \<open>pgactive_worker_shmem_acquire\<close> registered.\<close>

datatype 'a running = Continue 'a | ProcExit int

definition pgactive_worker_exit :: "unit worker_op" where
  "pgactive_worker_exit s =
     (if pgactive_worker_slot (self s) = None then (Inr (), s) else pgactive_worker_shmem_release s)"

definition proc_exit :: "int \<Rightarrow> 'a running worker_op" where
  "proc_exit code = sseq pgactive_worker_exit (sret (ProcExit code))"

definition pgactive_worker_unregister :: "unit running worker_op" where
  "pgactive_worker_unregister s =
     (case pgactive_worker_slot (self s) of
        None \<Rightarrow> (Inr (Continue ()), s)
      | Some i \<Rightarrow>
          sseq (if pgactive_worker_type (self s) = pgactive_WORKER_PERDB
                then smodify (\<lambda>s. s\<lparr>ctl := upd_slot i (upd_perdb (\<lambda>p. p\<lparr>unregistered := True\<rparr>)) (ctl s)\<rparr>)
                else pgactive_worker_shmem_free i None)
          (proc_exit 0) s)"

section \<open>The last error of a worker\<close>

datatype pgactiveTrackedErrorCodes =
    PGACTIVE_ERRCODE_NONE
  | PGACTIVE_ERROR_CODE_MAX_NODES_PARAM_MISMATCH
  | PGACTIVE_ERROR_CODE_APPLY_FAILURE

definition PGACTIVE_TRACKED_ERRORS_CHUNK :: int where
  "PGACTIVE_TRACKED_ERRORS_CHUNK = 64"

fun tracked_error_code :: "pgactiveTrackedErrorCodes \<Rightarrow> int" where
  "tracked_error_code PGACTIVE_ERRCODE_NONE = 0"
| "tracked_error_code PGACTIVE_ERROR_CODE_MAX_NODES_PARAM_MISMATCH = 2"
| "tracked_error_code PGACTIVE_ERROR_CODE_APPLY_FAILURE = PGACTIVE_TRACKED_ERRORS_CHUNK + 2"

definition pgactiveErrorMessages :: "int \<Rightarrow> string option" where
  "pgactiveErrorMessages code =
     (if code = tracked_error_code PGACTIVE_ERRCODE_NONE then Some ''none''
      else if code = tracked_error_code PGACTIVE_ERROR_CODE_MAX_NODES_PARAM_MISMATCH
        then Some ''pgactive_max_nodes_parameter_mismatch''
      else if code = tracked_error_code PGACTIVE_ERROR_CODE_APPLY_FAILURE then Some ''pgactive_apply_failure''
      else None)"

definition pgactive_set_worker_last_error_info ::
  "int \<Rightarrow> nat option \<Rightarrow> pgactiveTrackedErrorCodes \<Rightarrow> pgactiveWorkerControl \<Rightarrow> pgactiveWorkerControl" where
  "pgactive_set_worker_last_error_info now w code c =
     (case w of None \<Rightarrow> c
      | Some i \<Rightarrow> upd_slot i (\<lambda>w. w\<lparr>last_error_info := \<lparr>errcode = tracked_error_code code, errtime = now\<rparr>\<rparr>) c)"

definition reset_last_error :: "pgactiveWorker \<Rightarrow> pgactiveWorker" where
  "reset_last_error w =
     (let e = errcode (last_error_info w) in
      if worker_type w = pgactive_WORKER_PERDB \<and> \<not> (1 \<le> e \<and> e \<le> PGACTIVE_TRACKED_ERRORS_CHUNK) then w
      else if worker_type w = pgactive_WORKER_APPLY \<and>
              \<not> (PGACTIVE_TRACKED_ERRORS_CHUNK + 1 \<le> e \<and> e \<le> 2 * PGACTIVE_TRACKED_ERRORS_CHUNK) then w
      else w\<lparr>last_error_info := \<lparr>errcode = 0, errtime = 0\<rparr>\<rparr>)"

definition pgactive_reset_worker_last_error_info :: "nat option \<Rightarrow> pgactiveWorkerControl \<Rightarrow> pgactiveWorkerControl" where
  "pgactive_reset_worker_last_error_info w c = (case w of None \<Rightarrow> c | Some i \<Rightarrow> upd_slot i reset_last_error c)"

section \<open>Searching the slots\<close>

datatype perdb_search =
    pgactive_UNREGISTERED_PER_DB_WORKER_SLOT_FOUND
  | pgactive_PER_DB_WORKER_SLOT_NOT_FOUND
  | perdb_slot nat

fun perdb_search_code :: "perdb_search \<Rightarrow> int" where
  "perdb_search_code pgactive_UNREGISTERED_PER_DB_WORKER_SLOT_FOUND = - 2"
| "perdb_search_code pgactive_PER_DB_WORKER_SLOT_NOT_FOUND = - 1"
| "perdb_search_code (perdb_slot i) = int i"

definition perdb_worker_of :: "u32 \<Rightarrow> pgactiveWorker \<Rightarrow> bool" where
  "perdb_worker_of dbid w \<longleftrightarrow> worker_type w = pgactive_WORKER_PERDB \<and> p_dboid (data_perdb w) = dbid"

definition find_perdb_worker_slot :: "u32 \<Rightarrow> pgactiveWorkerControl \<Rightarrow> perdb_search" where
  "find_perdb_worker_slot dbid c =
     (case find_slot (perdb_worker_of dbid) 0 (slots c) of
        None \<Rightarrow> pgactive_PER_DB_WORKER_SLOT_NOT_FOUND
      | Some i \<Rightarrow>
          if unregistered (data_perdb (slots c ! i)) then pgactive_UNREGISTERED_PER_DB_WORKER_SLOT_FOUND
          else perdb_slot i)"

definition find_apply_worker_slot :: "u32 \<Rightarrow> pgactiveNodeId \<Rightarrow> pgactiveWorkerControl \<Rightarrow> nat option" where
  "find_apply_worker_slot mydb remote c =
     find_slot (\<lambda>w. worker_type w = pgactive_WORKER_APPLY \<and> apply_dboid (data_apply w) = mydb \<and>
                    pgactive_nodeid_eq (Some (apply_remote_node (data_apply w))) (Some remote)) 0 (slots c)"

text \<open>
  The loop variable \<open>worker\<close> is what the function returns: the slot at which the loop stopped,
  or the last one it looked at.
\<close>

fun get_entry_loop :: "(pgactiveWorker \<Rightarrow> bool) \<Rightarrow> nat option \<Rightarrow> nat \<Rightarrow> pgactiveWorker list \<Rightarrow> nat option" where
  "get_entry_loop P worker i [] = worker"
| "get_entry_loop P worker i (w # ws) = (if P w then Some i else get_entry_loop P (Some i) (Suc i) ws)"

definition peer_worker :: "u32 \<Rightarrow> pgactiveNodeId \<Rightarrow> pgactiveWorkerType \<Rightarrow> pgactiveWorker \<Rightarrow> bool" where
  "peer_worker mydb node t w \<longleftrightarrow>
     worker_type w = t \<and> (case worker_proc w of None \<Rightarrow> False | Some p \<Rightarrow> proc_databaseId p = mydb) \<and>
     (if worker_type w = pgactive_WORKER_APPLY
      then pgactive_nodeid_eq (Some (apply_remote_node (data_apply w))) (Some node)
      else pgactive_nodeid_eq (Some (walsnd_remote_node (data_walsnd w))) (Some node))"

definition pgactive_worker_get_entry ::
  "u32 \<Rightarrow> pgactiveNodeId \<Rightarrow> pgactiveWorkerType \<Rightarrow> pgactiveWorkerControl \<Rightarrow> nat option result" where
  "pgactive_worker_get_entry mydb node t c =
     (if \<not> (t = pgactive_WORKER_APPLY \<or> t = pgactive_WORKER_WALSENDER)
      then Inl (Error ''attempt to get non-peer-specific worker by peer identity'')
      else Inr (get_entry_loop (peer_worker mydb node t) None 0 (slots c)))"

definition pgactive_get_worker_pid_byid ::
  "u32 \<Rightarrow> pgactiveNodeId \<Rightarrow> pgactiveWorkerType \<Rightarrow> pgactiveWorkerControl \<Rightarrow> int result" where
  "pgactive_get_worker_pid_byid mydb node t c =
     bind_result (pgactive_worker_get_entry mydb node t c) (\<lambda>worker.
     Inr (case worker of None \<Rightarrow> 0
          | Some i \<Rightarrow>
              let w = slots c ! i in
              case worker_proc w of None \<Rightarrow> 0
              | Some p \<Rightarrow> if worker_type w = pgactive_WORKER_PERDB
                          then if \<not> unregistered (data_perdb w) then proc_pid p else 0
                          else proc_pid p))"

text \<open>\<open>pg_terminate_backend\<close> is the server's; the second result is the process that is asked to end.\<close>

definition pgactive_terminate_workers_byid ::
  "(int \<Rightarrow> bool) \<Rightarrow> u32 \<Rightarrow> pgactiveNodeId \<Rightarrow> pgactiveWorkerType \<Rightarrow> pgactiveWorkerControl \<Rightarrow>
   (bool \<times> int option) result" where
  "pgactive_terminate_workers_byid pg_terminate_backend mydb node t c =
     bind_result (pgactive_get_worker_pid_byid mydb node t c) (\<lambda>pid.
     if pid = 0 then Inr (False, None) else Inr (pg_terminate_backend pid, Some pid))"

text \<open>The process that gets \<open>SIGUSR2\<close>, if any.\<close>

definition pgactive_terminate_perdb_worker ::
  "bool \<Rightarrow> u32 \<Rightarrow> pgactiveWorkerControl \<Rightarrow> int option result" where
  "pgactive_terminate_perdb_worker has_required_privs dbid c =
     (if \<not> has_required_privs then Inl (Error ''must be superuser to terminate pgactive per-db worker'')
      else let slotno = find_perdb_worker_slot dbid c in
        if perdb_search_code slotno = - 1 then Inr None
        else if perdb_search_code slotno = 0
        then (case slotno of perdb_slot i \<Rightarrow> Inr (Some (worker_pid (slots c ! i))) | _ \<Rightarrow> Inr None)
        else Inr None)"

section \<open>Pausing and reporting\<close>

definition pgactive_apply_pause :: "pgactiveWorkerControl \<Rightarrow> pgactiveWorkerControl" where
  "pgactive_apply_pause c = c\<lparr>pause_apply := True\<rparr>"

text \<open>\<open>SetLatch\<close> of a null pointer ends the server; else the result is the list of latches set.\<close>

definition pgactive_apply_resume :: "(pgactiveWorkerControl, nat list) op" where
  "pgactive_apply_resume c =
     (let c = c\<lparr>pause_apply := False\<rparr>;
          latches = map (\<lambda>w. apply_proclatch (data_apply w))
                      (filter (\<lambda>w. worker_type w = pgactive_WORKER_APPLY) (slots c))
      in if None \<in> set latches then (Inl (Panic ''null pointer dereference''), c)
         else (Inr (map the latches), c))"

definition pgactive_is_apply_paused :: "pgactiveWorkerControl \<Rightarrow> bool" where
  "pgactive_is_apply_paused c = pause_apply c"

definition pgactive_pause_worker_management :: "bool \<Rightarrow> bool \<Rightarrow> (pgactiveWorkerControl, unit) op" where
  "pgactive_pause_worker_management skip_ddl_replication pause c =
     (if pause \<and> \<not> skip_ddl_replication then (Inl (Error ''this function is for internal test use only''), c)
      else (Inr (), c\<lparr>worker_management_paused := pause\<rparr>))"

text \<open>A row of \<open>pgactive_get_workers_info\<close>; \<open>None\<close> is a null column.\<close>

record worker_info =
  wi_sysid :: "string option"
  wi_timeline :: "u32 option"
  wi_dboid :: u32
  wi_type :: string
  wi_pid :: int
  wi_unregistered :: bool
  wi_last_error :: "string option"
  wi_last_error_time :: "int option"

definition worker_info_of :: "pgactiveWorker \<Rightarrow> worker_info" where
  "worker_info_of w =
     (let node = (case worker_type w of
                    pgactive_WORKER_APPLY \<Rightarrow> apply_remote_node (data_apply w)
                  | pgactive_WORKER_WALSENDER \<Rightarrow> walsnd_remote_node (data_walsnd w)
                  | _ \<Rightarrow> zero_nodeid);
          is_perdb = (worker_type w = pgactive_WORKER_PERDB);
          failed = (errcode (last_error_info w) \<noteq> 0)
      in \<lparr>wi_sysid = (if is_perdb then None else Some (snprintf 33 [ConvU 64] [VU (unat (sysid node))])),
          wi_timeline = (if is_perdb then None else Some (timeline node)),
          wi_dboid = (if is_perdb then p_dboid (data_perdb w) else dboid node),
          wi_type = (case worker_type w of
                       pgactive_WORKER_APPLY \<Rightarrow> ''apply'' | pgactive_WORKER_PERDB \<Rightarrow> ''per-db'' | _ \<Rightarrow> ''walsender''),
          wi_pid = worker_pid w,
          wi_unregistered = (is_perdb \<and> unregistered (data_perdb w)),
          wi_last_error = (if failed then pgactiveErrorMessages (errcode (last_error_info w)) else None),
          wi_last_error_time = (if failed then Some (errtime (last_error_info w)) else None)\<rparr>)"

definition pgactive_get_workers_info :: "pgactiveWorkerControl \<Rightarrow> worker_info list" where
  "pgactive_get_workers_info c =
     map worker_info_of (filter (\<lambda>w. worker_type w \<noteq> pgactive_WORKER_EMPTY_SLOT) (slots c))"

definition pgactive_get_last_applied_xact_info ::
  "bool result \<Rightarrow> u32 \<Rightarrow> string \<Rightarrow> u32 \<Rightarrow> u32 \<Rightarrow> pgactiveWorkerControl \<Rightarrow> (u32 \<times> int \<times> int) result" where
  "pgactive_get_last_applied_xact_info activated mydb sysid_s tl_id db_id c =
     bind_result activated (\<lambda>act.
     if \<not> act then Inl (Error ''pgactive is not active in this database'')
     else case sscanf [ConvU 64] sysid_s of
       [VU sys] \<Rightarrow>
         (case find_apply_worker_slot mydb \<lparr>sysid = of_nat sys, timeline = tl_id, dboid = db_id\<rparr> c of
            Some i \<Rightarrow> let a = data_apply (slots c ! i)
                      in Inr (last_applied_xact_id a, last_applied_xact_committs a, last_applied_xact_at a)
          | None \<Rightarrow> Inr (0, 0, 0))
     | _ \<Rightarrow> Inl (Error ''parsing of sysid as uint64 failed''))"

section \<open>Starting a background worker\<close>

datatype elevel = DEBUG5 | DEBUG4 | DEBUG3 | DEBUG2 | DEBUG1 | LOG | INFO | NOTICE | WARNING | ERROR | FATAL | PANIC | OTHER_LEVEL

fun pgactive_error_severity :: "elevel \<Rightarrow> string" where
  "pgactive_error_severity DEBUG1 = ''DEBUG1''"
| "pgactive_error_severity DEBUG2 = ''DEBUG2''"
| "pgactive_error_severity DEBUG3 = ''DEBUG3''"
| "pgactive_error_severity DEBUG4 = ''DEBUG4''"
| "pgactive_error_severity DEBUG5 = ''DEBUG5''"
| "pgactive_error_severity LOG = ''LOG''"
| "pgactive_error_severity INFO = ''INFO''"
| "pgactive_error_severity NOTICE = ''NOTICE''"
| "pgactive_error_severity WARNING = ''WARNING''"
| "pgactive_error_severity ERROR = ''ERROR''"
| "pgactive_error_severity FATAL = ''FATAL''"
| "pgactive_error_severity PANIC = ''PANIC''"
| "pgactive_error_severity OTHER_LEVEL = ''???''"

text \<open>The main argument: the generation in the upper half and the slot number in the lower.\<close>

definition worker_main_arg :: "u16 \<Rightarrow> nat \<Rightarrow> u32" where
  "worker_main_arg generation slot = push_bit 16 (ucast generation) OR of_nat slot"

definition arg_generation :: "u32 \<Rightarrow> u16" where
  "arg_generation a = ucast (drop_bit 16 a)"

definition arg_slot :: "u32 \<Rightarrow> u16" where
  "arg_slot a = ucast (a AND 0xFFFF)"

text \<open>What the server and the catalogues answer while a worker starts.\<close>

record bgworker_env =
  bi_connect :: "unit result"
  bi_schema_oid :: u32
  bi_extension_oid :: u32
  bi_nid_getter :: u32
  bi_spi :: spi_env
  bi_nodes :: "node_row list"
  bi_nid :: u64
  bi_maintain_schema :: "unit result"
  bi_nodes_relid :: "u32 result"
  bi_synchronous_commit :: bool
  bi_log_min_messages :: elevel

record worker_session =
  settings :: "(string \<times> string) list"
  ws_nodecache :: nodecache

definition unregister_and_stop :: "'a running worker_op" where
  "unregister_and_stop =
     sbind pgactive_worker_unregister (\<lambda>r.
       case r of ProcExit n \<Rightarrow> sret (ProcExit n) | Continue _ \<Rightarrow> sfail (Panic ''unreachable''))"

definition bgworker_settings :: "bgworker_env \<Rightarrow> pgactiveWorkerType \<Rightarrow> (string \<times> string) list" where
  "bgworker_settings env t =
     [(''search_path'', ''pgactive, pg_catalog''),
      (''synchronous_commit'', if bi_synchronous_commit env then ''local'' else ''off''),
      (''log_min_messages'', pgactive_error_severity (bi_log_min_messages env))]
     @ (if t = pgactive_WORKER_APPLY then [(''session_replication_role'', ''replica'')] else [])
     @ [(''check_function_bodies'', ''off'')]"

text \<open>The names that go into the node cache at the end of the start.\<close>

definition bgworker_names :: "bgworker_env \<Rightarrow> u32 \<Rightarrow> pgactiveNodeId option \<Rightarrow> nodecache \<Rightarrow> unit result \<times> nodecache" where
  "bgworker_names env dbid remote =
     sseq (pgactive_setup_my_cached_node_names (bi_nodes_relid env) (bi_nodes env) (bi_nid env) dbid)
       (case remote of None \<Rightarrow> sret ()
        | Some node \<Rightarrow> pgactive_setup_cached_remote_name (bi_nodes_relid env) (bi_nodes env) node)"

definition bgworker_finish ::
  "bgworker_env \<Rightarrow> pgactiveWorkerType \<Rightarrow> u32 \<Rightarrow> nat \<Rightarrow> nodecache \<Rightarrow> worker_session running worker_op" where
  "bgworker_finish env t dbid i nc =
     sbind (slift (pgactive_nodes_get_local_status (bi_spi env) (bi_nodes env) (pgactive_make_my_nodeid (bi_nid env) dbid) True)) (\<lambda>mystatus.
     if mystatus = node_status_code pgactive_NODE_STATUS_KILLED \<or> mystatus = CHR 0x00 then unregister_and_stop
     else
     sseq (slift (bi_maintain_schema env))
     (sbind (sget (\<lambda>s. slots (ctl s) ! i)) (\<lambda>w.
      let (r, nc) = bgworker_names env dbid
            (case t of pgactive_WORKER_APPLY \<Rightarrow> Some (apply_remote_node (data_apply w))
             | pgactive_WORKER_WALSENDER \<Rightarrow> Some (walsnd_remote_node (data_walsnd w)) | _ \<Rightarrow> None) nc
      in sseq (slift r) (sret (Continue \<lparr>settings = bgworker_settings env t, ws_nodecache = nc\<rparr>)))))"

definition pgactive_bgworker_init ::
  "bgworker_env \<Rightarrow> u32 \<Rightarrow> pgactiveWorkerType \<Rightarrow> nodecache \<Rightarrow> worker_session running worker_op" where
  "pgactive_bgworker_init env worker_arg t nc =
     sbind (sget (\<lambda>s. worker_generation (ctl s))) (\<lambda>generation.
     if arg_generation worker_arg \<noteq> generation then proc_exit 0
     else
     let i = unat (arg_slot worker_arg) in
     sseq (pgactive_worker_shmem_acquire t i False)
     (sseq (case t of
              pgactive_WORKER_PERDB \<Rightarrow>
                smodify (\<lambda>s. s\<lparr>ctl := upd_slot i (upd_perdb (\<lambda>p. p\<lparr>unregistered := False\<rparr>)) (ctl s)\<rparr>)
            | pgactive_WORKER_APPLY \<Rightarrow>
                smodify (\<lambda>s. s\<lparr>ctl := upd_slot i (upd_apply (\<lambda>a. a\<lparr>last_applied_xact_id := 0, last_applied_xact_committs := 0,
                                          last_applied_xact_at := 0\<rparr>)) (ctl s)\<rparr>)
            | _ \<Rightarrow> sfail (Fatal ''don't know how to connect to this type of worker''))
     (sbind (sget (\<lambda>s. if t = pgactive_WORKER_PERDB then c_dboid (data_perdb (slots (ctl s) ! i))
                       else apply_dboid (data_apply (slots (ctl s) ! i)))) (\<lambda>dbid.
      sseq (slift (bi_connect env))
      (sseq (smodify (\<lambda>s. s\<lparr>self := (self s)\<lparr>MyDatabaseId := dbid\<rparr>,
               ctl := upd_slot i (\<lambda>w. w\<lparr>worker_pid := MyProcPid (self s),
                 worker_proc := Some \<lparr>proc_pid = MyProcPid (self s), proc_databaseId = dbid\<rparr>\<rparr>) (ctl s)\<rparr>))
      (if bi_schema_oid env \<noteq> InvalidOid \<and> bi_extension_oid env = InvalidOid then unregister_and_stop
       else if bi_nid_getter env = InvalidOid then unregister_and_stop
       else bgworker_finish env t dbid i nc))))))"

section \<open>Lemmas\<close>

lemma find_slot_Some:
  "find_slot P i ws = Some k \<Longrightarrow> i \<le> k \<and> k < i + length ws \<and> P (ws ! (k - i)) \<and> (\<forall>j < k - i. \<not> P (ws ! j))"
proof (induction ws arbitrary: i)
  case (Cons w ws)
  show ?case
  proof (cases "P w")
    case False
    with Cons.prems have f: "find_slot P (Suc i) ws = Some k" by simp
    with Cons.IH [OF f] have k: "Suc i \<le> k" "k < Suc i + length ws" "P (ws ! (k - Suc i))"
      "\<forall>j < k - Suc i. \<not> P (ws ! j)" by auto
    have "\<not> P ((w # ws) ! j)" if "j < k - i" for j
      using that k False by (cases j) auto
    moreover have "(w # ws) ! (k - i) = ws ! (k - Suc i)" using k(1) by (simp add: nth_Cons')
    ultimately show ?thesis using k by simp
  qed (use Cons.prems in auto)
qed simp

lemma find_slot_0:
  "find_slot P 0 ws = Some k \<Longrightarrow> k < length ws \<and> P (ws ! k) \<and> (\<forall>j < k. \<not> P (ws ! j))"
  using find_slot_Some [of P 0 ws k] by simp

lemma find_slot_None: "find_slot P i ws = None \<longleftrightarrow> (\<forall>w \<in> set ws. \<not> P w)"
  by (induction ws arbitrary: i) auto

lemma shmem_alloc_Inr:
  assumes "pgactive_worker_shmem_alloc t c = (Inr i, c')"
  shows "i < length (slots c)" "worker_type (slots c ! i) = pgactive_WORKER_EMPTY_SLOT"
    "c' = c\<lparr>slots := (slots c)[i := zero_worker\<lparr>worker_type := t\<rparr>]\<rparr>"
  using assms find_slot_0 [of "\<lambda>w. worker_type w = pgactive_WORKER_EMPTY_SLOT" "slots c" i]
  by (auto simp: pgactive_worker_shmem_alloc_def split: option.splits)

lemma shmem_alloc_total:
  "(\<exists>i c'. pgactive_worker_shmem_alloc t c = (Inr i, c')) \<longleftrightarrow>
   (\<exists>w \<in> set (slots c). worker_type w = pgactive_WORKER_EMPTY_SLOT)"
  using find_slot_None [of "\<lambda>w. worker_type w = pgactive_WORKER_EMPTY_SLOT" 0 "slots c"]
  by (auto simp: pgactive_worker_shmem_alloc_def split: option.splits)

lemma shmem_alloc_Inl: "pgactive_worker_shmem_alloc t c = (Inl e, c') \<Longrightarrow> c' = c"
  by (auto simp: pgactive_worker_shmem_alloc_def split: option.splits)

lemma upd_slot_simps [simp]:
  "length (slots (upd_slot i f c)) = length (slots c)"
  "worker_generation (upd_slot i f c) = worker_generation c"
  "slots (upd_slot i f c) = (slots c)[i := f (slots c ! i)]"
  by (simp_all add: upd_slot_def)

lemma zero_worker_simps [simp]:
  "worker_type zero_worker = pgactive_WORKER_EMPTY_SLOT" "worker_pid zero_worker = 0" "worker_proc zero_worker = None"
  "c_dboid (data_perdb zero_worker) = 0" "p_dboid (data_perdb zero_worker) = 0" "\<not> unregistered (data_perdb zero_worker)"
  "perdb_proclatch (data_perdb zero_worker) = None"
  by (simp_all add: zero_worker_def)

lemma upd_perdb_simps [simp]:
  "worker_type (upd_perdb f w) = worker_type w" "data_perdb (upd_perdb f w) = f (data_perdb w)"
  "worker_proc (upd_perdb f w) = worker_proc w" "worker_pid (upd_perdb f w) = worker_pid w"
  "worker_type (upd_apply g w) = worker_type w" "data_perdb (upd_apply g w) = data_perdb w"
  "data_apply (upd_apply g w) = g (data_apply w)"
  by (simp_all add: upd_perdb_def upd_apply_def)

text \<open>The main argument tells the generation and the slot, as long as the slot number fits.\<close>

lemma arg_generation_main_arg:
  assumes "i < 65536"
  shows "arg_generation (worker_main_arg g i) = g"
proof -
  have "\<not> bit (of_nat i :: u32) (m + 16)" for m
  proof
    assume "bit (of_nat i :: u32) (m + 16)"
    then have "bit i (m + 16)" by (simp add: bit_of_nat_iff)
    then have "2 ^ (m + 16) \<le> i" by (metis bit_iff_odd div_less even_zero not_le)
    moreover have "(2 :: nat) ^ 16 \<le> 2 ^ (m + 16)" by (rule power_increasing) auto
    ultimately show False using assms by simp
  qed
  then show ?thesis
    by (intro bit_eqI) (auto simp: arg_generation_def worker_main_arg_def bit_simps ac_simps)
qed

lemma arg_slot_main_arg:
  assumes "i < 65536"
  shows "unat (arg_slot (worker_main_arg g i)) = i"
proof -
  have m: "(0xFFFF :: u32) = mask 16" by (simp add: mask_eq_exp_minus_1)
  have "arg_slot (worker_main_arg g i) = (of_nat i :: u16)"
    unfolding arg_slot_def worker_main_arg_def m by (intro bit_eqI) (auto simp: bit_simps bit_of_nat_iff)
  with assms show ?thesis by (simp add: unsigned_of_nat take_bit_nat_eq_self)
qed

lemma get_entry_loop_miss:
  "\<forall>w \<in> set ws. \<not> P w \<Longrightarrow> get_entry_loop P worker i ws = (if ws = [] then worker else Some (i + length ws - 1))"
  by (induction ws arbitrary: worker i) auto

section \<open>Properties\<close>

text \<open>
  C31: a worker that was registered before a crash restart of the postmaster ends at once and
  leaves the new segment alone: whatever slot its main argument names, the generation in the
  argument differs from the one that the startup hook put into the segment, so the worker
  exits with code 0, which also ends its registration.  A worker of the current generation
  finds exactly the generation and slot that were packed into its argument.
\<close>

theorem stale_worker_exits:
  assumes "i < 65536" "pgactive_worker_slot (self s) = None"
    and "pgactive_worker_shmem_startup n None g = Inr (ctl s, g')"
  shows "pgactive_bgworker_init env (worker_main_arg g i) t nc s = (Inr (ProcExit 0), s) \<and>
    arg_generation (worker_main_arg (worker_generation (ctl s)) i) = worker_generation (ctl s) \<and>
    unat (arg_slot (worker_main_arg (worker_generation (ctl s)) i)) = i"
proof -
  have "worker_generation (ctl s) = g + 1"
    using assms(3) by (auto simp: pgactive_worker_shmem_startup_def dest!: sym [of _ "ctl s"] split: if_splits)
  then have "arg_generation (worker_main_arg g i) \<noteq> worker_generation (ctl s)"
    by (simp add: arg_generation_main_arg assms(1))
  then have "pgactive_bgworker_init env (worker_main_arg g i) t nc s = (Inr (ProcExit 0), s)"
    using assms(2) by (simp add: pgactive_bgworker_init_def proc_exit_def pgactive_worker_exit_def)
  then show ?thesis by (simp add: arg_generation_main_arg arg_slot_main_arg assms(1))
qed

definition idle_process :: worker_process where
  "idle_process = \<lparr>pgactive_worker_slot = None, pgactive_worker_type = pgactive_WORKER_EMPTY_SLOT,
     worker_slot_free_at_rel = False, MyProcPid = 100, MyProcNumber = 1, MyDatabaseId = 0\<rparr>"

definition fresh_segment :: "u16 \<Rightarrow> pgactiveWorker list \<Rightarrow> pgactiveWorkerControl" where
  "fresh_segment g ws = \<lparr>worker_generation = g, pause_apply = False, is_supervisor_restart = False,
     worker_management_paused = False, supervisor_latch = None, slots = ws\<rparr>"

theorem stale_worker_exits_witness:
  "\<forall>env nc. pgactive_bgworker_init env (worker_main_arg 2 4) pgactive_WORKER_PERDB nc
     \<lparr>ctl = fresh_segment 3 (replicate 8 zero_worker), self = idle_process\<rparr>
   = (Inr (ProcExit 0), \<lparr>ctl = fresh_segment 3 (replicate 8 zero_worker), self = idle_process\<rparr>)"
  using stale_worker_exits [of 4 "\<lparr>ctl = fresh_segment 3 (replicate 8 zero_worker), self = idle_process\<rparr>" 8 2 3]
  by (simp add: idle_process_def fresh_segment_def pgactive_worker_shmem_startup_def)

text \<open>
  \<open>pgactive_worker_get_entry\<close> is documented to return NULL when no worker for the peer
  exists, but it returns the last slot of the array.  So when that slot belongs to a running
  process, whatever it works for, terminating the worker of an absent peer terminates that
  process instead.
\<close>

theorem terminate_absent_peer_hits_last_slot:
  assumes "\<forall>w \<in> set (slots c). \<not> peer_worker mydb node t w"
    and "t = pgactive_WORKER_APPLY \<or> t = pgactive_WORKER_WALSENDER"
    and "slots c \<noteq> []" "worker_proc (last (slots c)) = Some p" "proc_pid p \<noteq> 0"
    and "worker_type (last (slots c)) \<noteq> pgactive_WORKER_PERDB"
  shows "pgactive_terminate_workers_byid pg_terminate_backend mydb node t c
    = Inr (pg_terminate_backend (proc_pid p), Some (proc_pid p))"
  using assms
  by (auto simp: pgactive_terminate_workers_byid_def pgactive_get_worker_pid_byid_def pgactive_worker_get_entry_def
      get_entry_loop_miss last_conv_nth)

definition example_walsender :: "int \<Rightarrow> pgactiveWorker" where
  "example_walsender pid = zero_worker\<lparr>worker_type := pgactive_WORKER_WALSENDER, worker_pid := pid,
     worker_proc := Some \<lparr>proc_pid = pid, proc_databaseId = 9\<rparr>\<rparr>"

theorem terminate_absent_peer_hits_last_slot_witness:
  "pgactive_terminate_workers_byid (\<lambda>_. True) 5 \<lparr>sysid = 7, timeline = 1, dboid = 8\<rparr> pgactive_WORKER_APPLY
     (fresh_segment 2 [zero_worker, example_walsender 4711]) = Inr (True, Some 4711)"
  using terminate_absent_peer_hits_last_slot [of "fresh_segment 2 [zero_worker, example_walsender 4711]" 5
      "\<lparr>sysid = 7, timeline = 1, dboid = 8\<rparr>" pgactive_WORKER_APPLY "\<lparr>proc_pid = 4711, proc_databaseId = 9\<rparr>" "\<lambda>_. True"]
  by (simp add: fresh_segment_def example_walsender_def peer_worker_def)

text \<open>
  \<open>pgactive_terminate_perdb_worker\<close> compares the slot number with the code for "found",
  which is zero, instead of asking for a nonnegative one.  It signals the per-database worker
  exactly when the worker is in the first slot of the array; a worker in any other slot is
  found and silently left running.
\<close>

theorem terminate_perdb_first_slot_only:
  assumes "find_perdb_worker_slot dbid c = perdb_slot i"
  shows "pgactive_terminate_perdb_worker True dbid c = Inr (if i = 0 then Some (worker_pid (slots c ! 0)) else None)"
  using assms by (simp add: pgactive_terminate_perdb_worker_def Let_def)

definition example_perdb :: "u32 \<Rightarrow> int \<Rightarrow> pgactiveWorker" where
  "example_perdb dbid pid = (upd_perdb (\<lambda>p. p\<lparr>c_dboid := dbid, p_dboid := dbid, perdb_proclatch := Some 3\<rparr>)
     zero_worker)\<lparr>worker_type := pgactive_WORKER_PERDB, worker_pid := pid\<rparr>"

theorem terminate_perdb_first_slot_only_witness:
  "pgactive_terminate_perdb_worker True 6 (fresh_segment 2 [example_perdb 5 800, example_perdb 6 900]) = Inr None"
proof -
  have "find_perdb_worker_slot 6 (fresh_segment 2 [example_perdb 5 800, example_perdb 6 900]) = perdb_slot 1"
    by (simp add: find_perdb_worker_slot_def fresh_segment_def example_perdb_def perdb_worker_of_def zero_worker_def upd_perdb_def)
  from terminate_perdb_first_slot_only [OF this] show ?thesis by simp
qed

end
