(* ===== verification/Supervisor.thy ===== *)
theory Supervisor
  imports Worker_Slots
begin

text \<open>
  The supervisor of \<^verbatim>\<open>src/pgactive_supervisor.c\<close>: it registers a per-database worker for every
  activated database that has none, waits until the worker has entered its database into its
  slot, and frees the slots of workers that unregistered themselves
  (\<open>free_unregistered_perdb_workers\<close> of \<^verbatim>\<open>src/pgactive_perdb.c\<close>).
\<close>

section \<open>Operations\<close>

definition on_ctl :: "(pgactiveWorkerControl, 'a) op \<Rightarrow> 'a worker_op" where
  "on_ctl m s = (case m (ctl s) of (r, c) \<Rightarrow> (r, s\<lparr>ctl := c\<rparr>))"

text \<open>
  \<open>registered\<close> and \<open>started\<close> are the answers of \<open>RegisterDynamicBackgroundWorker\<close> and
  \<open>WaitForBackgroundWorkerStartup\<close>.  \<open>Some i\<close>: the worker of slot \<open>i\<close> was started and the
  function goes on to wait for it; \<open>None\<close>: it returned false.
\<close>

definition register_perdb_begin :: "bool \<Rightarrow> bool \<Rightarrow> u32 \<Rightarrow> nat option worker_op" where
  "register_perdb_begin registered started dbid =
     sbind (on_ctl (pgactive_worker_shmem_alloc pgactive_WORKER_PERDB)) (\<lambda>i.
     sseq (smodify (\<lambda>s. s\<lparr>ctl := upd_slot i (upd_perdb (\<lambda>p. p\<lparr>c_dboid := dbid, perdb_nnodes := - 1\<rparr>)) (ctl s)\<rparr>))
     (if \<not> registered \<or> \<not> started then sseq (pgactive_worker_shmem_free i None) (sret None)
      else sret (Some i)))"

definition register_perdb_poll :: "u32 \<Rightarrow> nat \<Rightarrow> pgactiveWorkerControl \<Rightarrow> bool" where
  "register_perdb_poll dbid i c \<longleftrightarrow>
     perdb_proclatch (data_perdb (slots c ! i)) \<noteq> None \<and> p_dboid (data_perdb (slots c ! i)) = dbid"

text \<open>The waiting loop; each pass sees the segment as other processes left it.  \<open>None\<close>: still waiting.\<close>

fun register_perdb_wait :: "u32 \<Rightarrow> nat \<Rightarrow> pgactiveWorkerControl list \<Rightarrow> bool option worker_op" where
  "register_perdb_wait dbid i [] s = (Inr None, s)"
| "register_perdb_wait dbid i (c # obs) s =
     (if register_perdb_poll dbid i c then (Inr (Some True), s\<lparr>ctl := c\<rparr>)
      else register_perdb_wait dbid i obs (s\<lparr>ctl := c\<rparr>))"

definition pgactive_register_perdb_worker ::
  "bool \<Rightarrow> bool \<Rightarrow> u32 \<Rightarrow> pgactiveWorkerControl list \<Rightarrow> bool option worker_op" where
  "pgactive_register_perdb_worker registered started dbid obs =
     sbind (register_perdb_begin registered started dbid) (\<lambda>r.
       case r of None \<Rightarrow> sret (Some False) | Some i \<Rightarrow> register_perdb_wait dbid i obs)"

text \<open>\<open>label\<close> gives the security label of a database.\<close>

fun free_unregistered_loop :: "(u32 \<Rightarrow> string option) \<Rightarrow> nat list \<Rightarrow> unit worker_op" where
  "free_unregistered_loop label [] = sret ()"
| "free_unregistered_loop label (i # is) =
     sbind (sget (\<lambda>s. slots (ctl s) ! i)) (\<lambda>w.
     sseq (if worker_type w \<noteq> pgactive_WORKER_PERDB \<or> \<not> unregistered (data_perdb w) then sret ()
           else if label (p_dboid (data_perdb w)) = None
           then sseq (smodify (\<lambda>s. s\<lparr>ctl := upd_slot i (upd_perdb (\<lambda>p. p\<lparr>unregistered := False\<rparr>)) (ctl s)\<rparr>))
                  (pgactive_worker_shmem_free i None)
           else sret ())
     (free_unregistered_loop label is))"

definition free_unregistered_perdb_workers :: "(u32 \<Rightarrow> string option) \<Rightarrow> unit worker_op" where
  "free_unregistered_perdb_workers label s = free_unregistered_loop label [0..<length (slots (ctl s))] s"

text \<open>
  One database of the scan: \<open>obs\<close> is what the wait for a new worker sees.  The result is the
  number of workers registered, \<open>None\<close> while the supervisor waits.
\<close>

record scan_answer =
  sa_registered :: bool
  sa_started :: bool
  sa_obs :: "pgactiveWorkerControl list"

fun rescan_loop :: "(u32 \<Rightarrow> (dbcache, bool) op) \<Rightarrow> (u32 \<Rightarrow> scan_answer) \<Rightarrow> u32 list \<Rightarrow> int \<Rightarrow> dbcache \<Rightarrow> int option worker_op" where
  "rescan_loop activated ans [] n dbc s = (Inr (Some n), s)"
| "rescan_loop activated ans (dbid # dbs) n dbc s =
     (case activated dbid dbc of
        (Inl e, dbc) \<Rightarrow> (Inl e, s)
      | (Inr act, dbc) \<Rightarrow>
          if \<not> act then rescan_loop activated ans dbs n dbc s
          else if perdb_search_code (find_perdb_worker_slot dbid (ctl s)) = - 1
          then (case pgactive_register_perdb_worker (sa_registered (ans dbid)) (sa_started (ans dbid)) dbid (sa_obs (ans dbid)) s of
                  (Inl e, s) \<Rightarrow> (Inl e, s)
                | (Inr None, s) \<Rightarrow> (Inr None, s)
                | (Inr (Some ok), s) \<Rightarrow> rescan_loop activated ans dbs (if ok then n + 1 else n) dbc s)
          else rescan_loop activated ans dbs n dbc s)"

text \<open>\<open>labelled_dbs\<close> are the databases with a label of the provider, in the order of the heap scan.\<close>

definition pgactive_supervisor_rescan_dbs ::
  "(u32 \<Rightarrow> (dbcache, bool) op) \<Rightarrow> (u32 \<Rightarrow> string option) \<Rightarrow> (u32 \<Rightarrow> scan_answer) \<Rightarrow> u32 list \<Rightarrow> dbcache \<Rightarrow>
   int option worker_op" where
  "pgactive_supervisor_rescan_dbs activated label ans labelled_dbs dbc =
     sbind (rescan_loop activated ans labelled_dbs 0 dbc) (\<lambda>r.
       case r of None \<Rightarrow> sret None
       | Some n \<Rightarrow> sseq (free_unregistered_perdb_workers label) (sret (Some n)))"

definition pgactive_supervisor_createdb :: "u32 \<Rightarrow> u32 result \<Rightarrow> u32 result" where
  "pgactive_supervisor_createdb existing createdb =
     (if existing \<noteq> InvalidOid then Inr existing
      else bind_result createdb (\<lambda>oid. if oid = InvalidOid then Inl (Error ''failed to create supervisor DB'') else Inr oid))"

definition pgactive_get_supervisordb_oid :: "u32 \<Rightarrow> bool \<Rightarrow> u32 running worker_op" where
  "pgactive_get_supervisordb_oid existing missingok =
     (if existing = InvalidOid \<and> \<not> missingok then proc_exit 1 else sret (Continue existing))"

text \<open>The supervisor up to its first scan.  \<open>Continue\<close>: it is connected to its database and goes on to scan.\<close>

definition supervisor_start :: "bool \<Rightarrow> u32 \<Rightarrow> u32 result \<Rightarrow> unit running worker_op" where
  "supervisor_start in_recovery existing createdb =
     (if in_recovery then proc_exit 0
      else sbind (sget (\<lambda>s. is_supervisor_restart (ctl s))) (\<lambda>restart.
        if \<not> restart
        then sseq (slift (pgactive_supervisor_createdb existing createdb))
             (sseq (smodify (\<lambda>s. s\<lparr>ctl := (ctl s)\<lparr>is_supervisor_restart := True\<rparr>\<rparr>)) (proc_exit 1))
        else sseq (smodify (\<lambda>s. s\<lparr>ctl := (ctl s)\<lparr>supervisor_latch := Some (MyProcNumber (self s))\<rparr>\<rparr>))
             (sret (Continue ()))))"

text \<open>The check of assert-enabled builds.\<close>

fun multiple_perdb_loop :: "pgactiveWorker list \<Rightarrow> u32 list \<Rightarrow> bool" where
  "multiple_perdb_loop [] seen = False"
| "multiple_perdb_loop (w # ws) seen =
     (if worker_type w = pgactive_WORKER_EMPTY_SLOT \<or> worker_proc w = None \<or> worker_type w \<noteq> pgactive_WORKER_PERDB \<or>
         p_dboid (data_perdb w) = InvalidOid
      then multiple_perdb_loop ws seen
      else if p_dboid (data_perdb w) \<notin> set seen then multiple_perdb_loop ws (seen @ [p_dboid (data_perdb w)])
      else True)"

definition check_for_multiple_perdb_workers :: "pgactiveWorkerControl \<Rightarrow> unit result" where
  "check_for_multiple_perdb_workers c =
     (if multiple_perdb_loop (slots c) []
      then Inl (Panic ''cannot have more than one per-db worker for a single pgactive-enabled database'') else Inr ())"

end
