(* ===== verification/Perdb_Worker.thy ===== *)
theory Perdb_Worker
  imports Worker_Slots Lock_State
begin

text \<open>
  The per-database worker of \<^verbatim>\<open>src/pgactive_perdb.c\<close>: the commit hook that wakes it, its checks
  at start, and \<open>pgactive_maintain_db_workers\<close>, which ends the workers of detached nodes,
  drops their slots, forgets their locks, launches an apply worker for every peer that has
  none and tells the lock manager how many peers there are.  The replication slots, the
  origins and the background worker API are the server's.
\<close>

section \<open>State\<close>

record ReplicationSlot =
  rs_in_use :: bool
  rs_plugin :: string
  rs_name :: string
  rs_database :: u32

record perdb_state =
  pw :: worker_sys
  pl :: lock_sys
  repl_slots :: "ReplicationSlot list"
  ps_nodecache :: nodecache
  sigterms :: "int list"
  latches :: "nat list"
  origins_dropped :: "string list"

type_synonym 'a perdb_op = "(perdb_state, 'a) op"

definition on_workers :: "'a worker_op \<Rightarrow> 'a perdb_op" where
  "on_workers m s = (case m (pw s) of (r, w) \<Rightarrow> (r, s\<lparr>pw := w\<rparr>))"

definition on_segment :: "(pgactiveWorkerControl, 'a) op \<Rightarrow> 'a perdb_op" where
  "on_segment m s = (case m (ctl (pw s)) of (r, c) \<Rightarrow> (r, s\<lparr>pw := (pw s)\<lparr>ctl := c\<rparr>\<rparr>))"

definition on_locks :: "'a lock_op \<Rightarrow> 'a perdb_op" where
  "on_locks m s = (case m (pl s) of (r, l) \<Rightarrow> (r, s\<lparr>pl := l\<rparr>))"

text \<open>
  What one run of \<open>pgactive_maintain_db_workers\<close> finds.  \<open>me_stale_name\<close> is what the dead stack
  array holds that \<open>rep_origin_to_remove\<close> points to when the names are used.
\<close>

record maintain_env =
  me_lock :: lock_env
  me_spi :: spi_env
  me_nodes :: "node_row list"
  me_conns :: "conn_row list"
  me_order_by :: "(conn_row \<times> node_row) list \<Rightarrow> (conn_row \<times> node_row) list"
  me_nodes_relid :: "u32 result"
  me_slot_drop :: "string \<Rightarrow> unit result"
  me_origin_drop :: "string \<Rightarrow> unit result"
  me_register :: "u32 \<Rightarrow> bool"
  me_stale_name :: string

abbreviation me_myid :: "maintain_env \<Rightarrow> pgactiveNodeId" where
  "me_myid env \<equiv> my_nodeid (me_lock env)"

section \<open>Detached nodes\<close>

definition killed_nodes :: "node_row list \<Rightarrow> pgactiveNodeId list result" where
  "killed_nodes rows =
     map_result (\<lambda>r. case sscanf [ConvU 64] (node_sysid r) of
         [VU n] \<Rightarrow> Inr \<lparr>sysid = of_nat n, timeline = node_timeline r, dboid = node_dboid r\<rparr>
       | _ \<Rightarrow> Inl (Error ''parsing sysid uint64 failed'')) (filter is_killed rows)"

text \<open>\<open>our_killed\<close>: the local node itself is marked as killed.\<close>

definition linked_worker :: "bool \<Rightarrow> pgactiveNodeId \<Rightarrow> pgactiveWorker \<Rightarrow> bool" where
  "linked_worker our_killed node w \<longleftrightarrow>
     (case worker_proc w of None \<Rightarrow> False
      | Some p \<Rightarrow>
          (case worker_type w of
             pgactive_WORKER_APPLY \<Rightarrow>
               our_killed \<and> proc_databaseId p = dboid node \<or>
               pgactive_nodeid_eq (Some (apply_remote_node (data_apply w))) (Some node)
           | pgactive_WORKER_WALSENDER \<Rightarrow>
               our_killed \<and> proc_databaseId p = dboid node \<or>
               pgactive_nodeid_eq (Some (walsnd_remote_node (data_walsnd w))) (Some node)
           | _ \<Rightarrow> False))"

definition slot_to_drop :: "pgactiveNodeId \<Rightarrow> pgactiveNodeId \<Rightarrow> ReplicationSlot \<Rightarrow> bool" where
  "slot_to_drop myid node r \<longleftrightarrow>
     rs_in_use r \<and> strcmp ''pgactive'' (rs_plugin r) = 0 \<and>
     (pgactive_nodeid_eq (Some node) (Some myid) \<and> rs_database r = dboid myid \<or>
      strcmp (rs_name r) (pgactive_slot_name node (dboid myid)) = 0)"

fun drop_slots :: "(string \<Rightarrow> unit result) \<Rightarrow> string list \<Rightarrow> unit perdb_op" where
  "drop_slots slot_drop [] = sret ()"
| "drop_slots slot_drop (n # ns) =
     sseq (slift (slot_drop n))
     (sseq (smodify (\<lambda>s. s\<lparr>repl_slots := map (\<lambda>r. if rs_name r = n then r\<lparr>rs_in_use := False\<rparr> else r) (repl_slots s)\<rparr>))
      (drop_slots slot_drop ns))"

text \<open>
  One detached node: whether processes that are linked to it were found (and told to end), and
  else how many origin names were put on the list.
\<close>

definition detach_node :: "maintain_env \<Rightarrow> bool \<Rightarrow> pgactiveNodeId \<Rightarrow> nat option perdb_op" where
  "detach_node env our_killed node =
     sbind (sget (\<lambda>s. filter (linked_worker our_killed node) (slots (ctl (pw s))))) (\<lambda>alive.
     if alive \<noteq> [] then sseq (smodify (\<lambda>s. s\<lparr>sigterms := sigterms s @ map worker_pid alive\<rparr>)) (sret None)
     else
     sbind (sget (\<lambda>s. map rs_name (filter (slot_to_drop (me_myid env) node) (repl_slots s)))) (\<lambda>drop.
     sseq (drop_slots (me_slot_drop env) drop)
     (sret (Some (if pgactive_nodeid_eq (Some node) (Some (me_myid env)) then 0 else length drop)))))"

record detached =
  d_nnodes :: int
  d_forget :: "pgactiveNodeId list"
  d_origins :: nat

fun detach_loop :: "maintain_env \<Rightarrow> bool \<Rightarrow> pgactiveNodeId list \<Rightarrow> detached \<Rightarrow> detached perdb_op" where
  "detach_loop env our_killed [] acc = sret acc"
| "detach_loop env our_killed (node # nodes) acc =
     sbind (detach_node env our_killed node) (\<lambda>r.
       detach_loop env our_killed nodes
         (case r of None \<Rightarrow> acc\<lparr>d_nnodes := d_nnodes acc + 1\<rparr>
          | Some k \<Rightarrow> acc\<lparr>d_forget := d_forget acc @ [node], d_origins := d_origins acc + k\<rparr>))"

fun forget_loop :: "lock_env \<Rightarrow> pgactiveNodeId list \<Rightarrow> unit perdb_op" where
  "forget_loop env [] = sret ()"
| "forget_loop env (node # nodes) = sseq (on_locks (pgactive_locks_node_detached env node)) (forget_loop env nodes)"

fun drop_origins :: "(string \<Rightarrow> unit result) \<Rightarrow> string list \<Rightarrow> unit perdb_op" where
  "drop_origins origin_drop [] = sret ()"
| "drop_origins origin_drop (n # ns) =
     sseq (slift (origin_drop n))
     (sseq (smodify (\<lambda>s. s\<lparr>origins_dropped := origins_dropped s @ [n]\<rparr>)) (drop_origins origin_drop ns))"

section \<open>Launching apply workers\<close>

definition maintain_rows :: "pgactiveNodeId \<Rightarrow> conn_row list \<Rightarrow> node_row list \<Rightarrow> (conn_row \<times> node_row) list" where
  "maintain_rows myid conns rows =
     [(c, n). c \<leftarrow> conns, n \<leftarrow> rows,
        conn_sysid c = node_sysid n \<and> conn_timeline c = node_timeline n \<and> conn_dboid c = node_dboid n \<and>
        \<not> (conn_sysid c = sysid_str myid \<and> conn_timeline c = timeline myid \<and> conn_dboid c = dboid myid)]"

definition pgactiveSearchNamedReplicationSlot :: "string \<Rightarrow> ReplicationSlot list \<Rightarrow> ReplicationSlot option" where
  "pgactiveSearchNamedReplicationSlot name rs = List.find (\<lambda>r. rs_in_use r \<and> strcmp name (rs_name r) = 0) rs"

definition start_apply_worker :: "(u32 \<Rightarrow> bool) \<Rightarrow> u32 \<Rightarrow> pgactiveNodeId \<Rightarrow> unit worker_op" where
  "start_apply_worker register mydb target =
     (\<lambda>s. case pgactive_worker_shmem_alloc pgactive_WORKER_APPLY (ctl s) of
        (Inl e, c) \<Rightarrow> (Inl e, s\<lparr>ctl := c\<rparr>)
      | (Inr i, c) \<Rightarrow>
          let c = upd_slot i (upd_apply (\<lambda>a. a\<lparr>apply_dboid := mydb, apply_remote_node := target, replay_stop_lsn := 0,
                    forward_changesets := False, apply_perdb := pgactive_worker_slot (self s)\<rparr>)) c
          in if register (worker_main_arg (worker_generation c) i) then (Inr (), s\<lparr>ctl := c\<rparr>)
             else (Inl (Error ''failed to register apply worker''),
                   s\<lparr>ctl := upd_slot i (\<lambda>w. (upd_apply (\<lambda>a. a\<lparr>apply_dboid := InvalidOid, apply_remote_node := zero_nodeid\<rparr>) w)
                              \<lparr>worker_type := pgactive_WORKER_EMPTY_SLOT\<rparr>) c\<rparr>))"

text \<open>One row of the query; the result is what the row adds to the node count.\<close>

definition launch_row :: "maintain_env \<Rightarrow> char \<Rightarrow> conn_row \<times> node_row \<Rightarrow> int perdb_op" where
  "launch_row env our_status = (\<lambda>(c, n).
     case sscanf [ConvU 64] (conn_sysid c) of
       [VU sys] \<Rightarrow>
         (let target = \<lparr>sysid = of_nat sys, timeline = conn_timeline c, dboid = conn_dboid c\<rparr>;
              mydb = e_mydb (me_lock env);
              st = (case node_status n of None \<Rightarrow> CHR 0x00 | Some ch \<Rightarrow> ch);
              ready = node_status_code pgactive_NODE_STATUS_READY;
              inc = (if st = ready then 1 else 0 :: int)
          in if st = node_status_code pgactive_NODE_STATUS_KILLED then sret 0
             else
             sbind (sget (\<lambda>s. ctl (pw s))) (\<lambda>seg.
             case find_apply_worker_slot mydb target seg of
               Some i \<Rightarrow>
                 (case apply_proclatch (data_apply (slots seg ! i)) of
                    None \<Rightarrow> sret inc
                  | Some l \<Rightarrow> sseq (smodify (\<lambda>s. s\<lparr>latches := latches s @ [l]\<rparr>)) (sret inc))
             | None \<Rightarrow>
                 sbind (sget (\<lambda>s. pgactiveSearchNamedReplicationSlot (pgactive_slot_name target mydb) (repl_slots s))) (\<lambda>rslot.
                 if rslot = None \<and> our_status = ready \<and> st = ready then sret inc
                 else sseq (on_workers (start_apply_worker (me_register env) mydb target)) (sret inc))))
     | _ \<Rightarrow> sfail (Error ''parsing sysid uint64 failed''))"

fun launch_loop :: "maintain_env \<Rightarrow> char \<Rightarrow> (conn_row \<times> node_row) list \<Rightarrow> int \<Rightarrow> int perdb_op" where
  "launch_loop env our_status [] n = sret n"
| "launch_loop env our_status (r # rs) n =
     sbind (launch_row env our_status r) (\<lambda>k. launch_loop env our_status rs (n + k))"

definition invalidate_nodecache :: "maintain_env \<Rightarrow> unit perdb_op" where
  "invalidate_nodecache env =
     sbind (slift (me_nodes_relid env)) (\<lambda>relid.
       smodify (\<lambda>s. s\<lparr>ps_nodecache := pgactive_nodecache_invalidate_callback relid (ps_nodecache s)\<rparr>))"

definition set_own_nnodes :: "int \<Rightarrow> unit perdb_op" where
  "set_own_nnodes n = on_workers (\<lambda>s. (Inr (), case pgactive_worker_slot (self s) of None \<Rightarrow> s
     | Some i \<Rightarrow> s\<lparr>ctl := upd_slot i (upd_perdb (\<lambda>p. p\<lparr>perdb_nnodes := n\<rparr>)) (ctl s)\<rparr>))"

definition pgactive_maintain_db_workers :: "maintain_env \<Rightarrow> unit perdb_op" where
  "pgactive_maintain_db_workers env =
     sbind (sget (\<lambda>s. worker_management_paused (ctl (pw s)))) (\<lambda>paused.
     if paused then sret ()
     else
     sbind (slift (pgactive_nodes_get_local_status (me_spi env) (me_nodes env) (me_myid env) False)) (\<lambda>our_status.
     let our_killed = (our_status = node_status_code pgactive_NODE_STATUS_KILLED) in
     sseq (if spi_ok (me_spi env) then sret () else sfail (Error ''SPI error while querying pgactive.pgactive_nodes''))
     (sbind (slift (killed_nodes (me_nodes env))) (\<lambda>nodes.
     sbind (detach_loop env our_killed nodes \<lparr>d_nnodes = 0, d_forget = [], d_origins = 0\<rparr>) (\<lambda>d.
     sseq (swhen (d_nnodes d > 0) (smodify (\<lambda>s. s\<lparr>latches := latches s @ [MyProcNumber (self (pw s))]\<rparr>)))
     (sseq (invalidate_nodecache env)
     (sseq (forget_loop (me_lock env) (d_forget d))
     (sseq (drop_origins (me_origin_drop env) (replicate (d_origins d) (me_stale_name env)))
     (sbind (if our_killed then sret (d_nnodes d)
             else sbind (launch_loop env our_status
                     (distinct_on conn_key (me_order_by env (maintain_rows (me_myid env) (me_conns env) (me_nodes env)))) (d_nnodes d))
                  (\<lambda>n. sseq (invalidate_nodecache env) (sret n))) (\<lambda>n.
      sseq (set_own_nnodes n) (on_locks (pgactive_locks_set_nnodes n))))))))))))"

section \<open>Waking the worker\<close>

record xact_hook =
  xacthook_registered :: bool
  xacthook_connections_changed :: bool

definition pgactive_connections_changed :: "xact_hook \<Rightarrow> xact_hook" where
  "pgactive_connections_changed h = h\<lparr>xacthook_registered := True, xacthook_connections_changed := True\<rparr>"

text \<open>The latch that the callback sets when the transaction commits.\<close>

definition pgactive_perdb_xact_callback :: "bool \<Rightarrow> u32 \<Rightarrow> pgactiveWorkerControl \<Rightarrow> xact_hook \<Rightarrow> nat option \<times> xact_hook" where
  "pgactive_perdb_xact_callback is_commit mydb c h =
     (if is_commit \<and> xacthook_connections_changed h
      then (case find_perdb_worker_slot mydb c of
              perdb_slot i \<Rightarrow> perdb_proclatch (data_perdb (slots c ! i))
            | _ \<Rightarrow> supervisor_latch c, h\<lparr>xacthook_connections_changed := False\<rparr>)
      else (None, h))"

section \<open>Checks at start\<close>

record remote_params =
  rp_max_nodes :: int
  rp_skip_ddl_replication :: bool

definition check_params_ensure_error_cleanup ::
  "int \<Rightarrow> bool \<Rightarrow> int \<Rightarrow> remote_params result \<Rightarrow> unit worker_op" where
  "check_params_ensure_error_cleanup max_nodes skip_ddl now remote =
     sbind (slift remote) (\<lambda>ri.
     if max_nodes \<noteq> rp_max_nodes ri
     then sseq (smodify (\<lambda>s. s\<lparr>ctl := pgactive_set_worker_last_error_info now (pgactive_worker_slot (self s))
                   PGACTIVE_ERROR_CODE_MAX_NODES_PARAM_MISMATCH (ctl s)\<rparr>))
            (sfail (Error ''pgactive.max_nodes parameter value doesn't match with remote node''))
     else if skip_ddl \<noteq> rp_skip_ddl_replication ri
     then sfail (Error ''pgactive.skip_ddl_replication parameter value doesn't match with remote node'')
     else sret ())"

text \<open>
  \<open>connect\<close> is the attempt to reach a node: \<open>None\<close> when the connection is not there, else what
  the query of its parameters gives.  The count is the number of nodes that were not reached.
\<close>

fun check_params_loop ::
  "(string option \<times> string option \<Rightarrow> remote_params result option) \<Rightarrow> int \<Rightarrow> bool \<Rightarrow> int \<Rightarrow>
   (string option \<times> string option) list \<Rightarrow> nat \<Rightarrow> nat worker_op" where
  "check_params_loop connect max_nodes skip_ddl now [] unreached = sret unreached"
| "check_params_loop connect max_nodes skip_ddl now (d # ds) unreached =
     (case connect d of
        None \<Rightarrow> check_params_loop connect max_nodes skip_ddl now ds (Suc unreached)
      | Some remote \<Rightarrow>
          sseq (check_params_ensure_error_cleanup max_nodes skip_ddl now remote)
            (check_params_loop connect max_nodes skip_ddl now ds unreached))"

definition check_params_are_same ::
  "(string option \<times> string option \<Rightarrow> remote_params result option) \<Rightarrow> int \<Rightarrow> bool \<Rightarrow> int \<Rightarrow>
   (string option \<times> string option) list result \<Rightarrow> unit worker_op" where
  "check_params_are_same connect max_nodes skip_ddl now node_dsns =
     sbind (slift node_dsns) (\<lambda>dsns.
     if dsns = [] then sret ()
     else sbind (check_params_loop connect max_nodes skip_ddl now dsns 0) (\<lambda>unreached.
       if unreached = length dsns
       then sfail (Fatal ''local node is not able to connect to any remote node to compare its parameters with'')
       else sret ()))"

text \<open>
  The connection attempts of \<open>check_local_node_connectability\<close>, one answer for each.  \<open>Inr True\<close>:
  connected; \<open>Inr False\<close>: the answers ended while the loop still retries.
\<close>

fun connect_loop :: "int \<Rightarrow> int \<Rightarrow> bool list \<Rightarrow> bool result" where
  "connect_loop remainingtime waittime [] = Inr False"
| "connect_loop remainingtime waittime (ok # oks) =
     (let waittime = (if remainingtime < waittime then remainingtime else waittime) in
      if ok then Inr True
      else if remainingtime > waittime then connect_loop (remainingtime - waittime) waittime oks
      else Inl (Error ''per-db worker failed during the connectability check''))"

definition check_local_node_connectability ::
  "int \<Rightarrow> bool list \<Rightarrow> bool \<Rightarrow> bool running worker_op" where
  "check_local_node_connectability duration oks is_ourself =
     sbind (slift (connect_loop (duration * 1000) 1000 oks)) (\<lambda>connected.
     if \<not> connected then sret (Continue False)
     else if is_ourself then sret (Continue True)
     else unregister_and_stop)"

section \<open>The main function\<close>

text \<open>Entering the database into the slot.\<close>

definition perdb_worker_attach :: "unit worker_op" where
  "perdb_worker_attach = smodify (\<lambda>s. case pgactive_worker_slot (self s) of None \<Rightarrow> s
     | Some i \<Rightarrow> s\<lparr>ctl := upd_slot i (upd_perdb (\<lambda>p. p\<lparr>perdb_nnodes := - 1, perdb_proclatch := Some (MyProcNumber (self s)),
           p_dboid := MyDatabaseId (self s)\<rparr>)) (ctl s)\<rparr>)"

record perdb_start_env =
  pe_bgw :: bgworker_env
  pe_arg :: u32
  pe_lock :: lock_env
  pe_nodecache :: nodecache
  pe_duration :: int
  pe_connects :: "bool list"
  pe_is_ourself :: bool
  pe_remote :: "string option \<times> string option \<Rightarrow> remote_params result option"
  pe_max_nodes :: int
  pe_skip_ddl :: bool
  pe_now :: int

text \<open>Up to the decision whether the node must be initialised from a peer.\<close>

definition perdb_worker_start :: "perdb_start_env \<Rightarrow> bool running perdb_op" where
  "perdb_worker_start env =
     sbind (on_workers (pgactive_bgworker_init (pe_bgw env) (pe_arg env) pgactive_WORKER_PERDB (pe_nodecache env))) (\<lambda>r.
     case r of ProcExit n \<Rightarrow> sret (ProcExit n)
     | Continue sess \<Rightarrow>
       sseq (smodify (\<lambda>s. s\<lparr>ps_nodecache := ws_nodecache sess\<rparr>))
       (sseq (on_workers perdb_worker_attach)
       (sseq (on_locks (pgactive_locks_startup (pe_lock env)))
       (sbind (slift (pgactive_nodes_get_local_info (bi_nodes (pe_bgw env)) (my_nodeid (pe_lock env)))) (\<lambda>info.
        case info of None \<Rightarrow> sfail (Error ''local node record not found'')
        | Some local_node \<Rightarrow>
          sbind (on_workers (check_local_node_connectability (pe_duration env) (pe_connects env) (pe_is_ourself env))) (\<lambda>r.
          case r of ProcExit n \<Rightarrow> sret (ProcExit n)
          | Continue _ \<Rightarrow>
            sseq (on_workers (check_params_are_same (pe_remote env) (pe_max_nodes env) (pe_skip_ddl env) (pe_now env)
                    (pgactive_get_node_dsns (bi_spi (pe_bgw env)) (my_nodeid (pe_lock env)) False (bi_nodes (pe_bgw env)))))
            (sret (Continue (ni_status local_node \<noteq> node_status_code pgactive_NODE_STATUS_READY \<and>
                             ni_status local_node \<noteq> node_status_code pgactive_NODE_STATUS_KILLED)))))))))"

text \<open>One pass of the main loop after the wait returned.\<close>

definition perdb_worker_iteration :: "maintain_env \<Rightarrow> bool \<Rightarrow> bool \<Rightarrow> unit running perdb_op" where
  "perdb_worker_iteration env got_SIGUSR2 latch_set =
     (if got_SIGUSR2 then on_workers unregister_and_stop
      else if latch_set then sseq (pgactive_maintain_db_workers env) (sret (Continue ()))
      else sret (Continue ()))"

text \<open>The end of the main function.\<close>

definition perdb_worker_leave :: "unit running worker_op" where
  "perdb_worker_leave =
     sseq (smodify (\<lambda>s. case pgactive_worker_slot (self s) of None \<Rightarrow> s
       | Some i \<Rightarrow> s\<lparr>ctl := upd_slot i (upd_perdb (\<lambda>p. p\<lparr>p_dboid := InvalidOid\<rparr>)) (ctl s)\<rparr>)) (proc_exit 0)"

section \<open>Lemmas\<close>

lemma nth_upd: "xs[i := x] ! j = (if i = j \<and> i < length xs then x else xs ! j)"
  by (cases "i < length xs") (auto simp: list_update_beyond)

definition apply_for :: "u32 \<Rightarrow> pgactiveNodeId \<Rightarrow> pgactiveWorker \<Rightarrow> bool" where
  "apply_for mydb node w \<longleftrightarrow>
     worker_type w = pgactive_WORKER_APPLY \<and> apply_dboid (data_apply w) = mydb \<and> apply_remote_node (data_apply w) = node"

definition apply_unique :: "pgactiveWorkerControl \<Rightarrow> bool" where
  "apply_unique c \<longleftrightarrow>
     (\<forall>i j mydb node. i < length (slots c) \<longrightarrow> j < length (slots c) \<longrightarrow>
        apply_for mydb node (slots c ! i) \<longrightarrow> apply_for mydb node (slots c ! j) \<longrightarrow> i = j)"

text \<open>Slots in use stay as they are.\<close>

definition slots_kept :: "pgactiveWorkerControl \<Rightarrow> pgactiveWorkerControl \<Rightarrow> bool" where
  "slots_kept c c' \<longleftrightarrow> length (slots c') = length (slots c) \<and>
     (\<forall>i < length (slots c). worker_type (slots c ! i) \<noteq> pgactive_WORKER_EMPTY_SLOT \<longrightarrow> slots c' ! i = slots c ! i)"

lemma slots_kept_refl [simp]: "slots_kept c c"
  by (simp add: slots_kept_def)

lemma slots_kept_trans: "slots_kept c d \<Longrightarrow> slots_kept d e \<Longrightarrow> slots_kept c e"
  by (auto simp: slots_kept_def)

lemma apply_for_kept:
  "slots_kept c c' \<Longrightarrow> i < length (slots c) \<Longrightarrow> apply_for m n (slots c ! i) \<Longrightarrow> slots c' ! i = slots c ! i"
  by (auto simp: slots_kept_def apply_for_def)

lemma find_apply_None:
  "find_apply_worker_slot mydb node c = None \<longleftrightarrow> (\<forall>i < length (slots c). \<not> apply_for mydb node (slots c ! i))"
  by (simp add: find_apply_worker_slot_def find_slot_None apply_for_def all_set_conv_all_nth)

lemma find_apply_Some:
  "find_apply_worker_slot mydb node c = Some i \<Longrightarrow> i < length (slots c) \<and> apply_for mydb node (slots c ! i)"
  by (auto simp: find_apply_worker_slot_def apply_for_def dest!: find_slot_0)

lemma start_apply_worker_ok:
  assumes "start_apply_worker register mydb target w = (Inr (), w')"
    and none: "\<forall>i < length (slots (ctl w)). \<not> apply_for mydb target (slots (ctl w) ! i)"
    and uniq: "apply_unique (ctl w)"
  shows "slots_kept (ctl w) (ctl w')" "apply_unique (ctl w')"
    "\<exists>i < length (slots (ctl w')). apply_for mydb target (slots (ctl w') ! i)"
    "self w' = self w"
    "\<And>j m n. j < length (slots (ctl w)) \<Longrightarrow> apply_for m n (slots (ctl w') ! j) \<Longrightarrow>
       apply_for m n (slots (ctl w) ! j) \<or> m = mydb \<and> n = target"
proof -
  from assms(1) obtain i c where a: "pgactive_worker_shmem_alloc pgactive_WORKER_APPLY (ctl w) = (Inr i, c)"
    by (auto simp: start_apply_worker_def split: prod.splits sum.splits)
  note al = shmem_alloc_Inr [OF a]
  define v where "v = upd_apply (\<lambda>x. x\<lparr>apply_dboid := mydb, apply_remote_node := target, replay_stop_lsn := 0,
      forward_changesets := False, apply_perdb := pgactive_worker_slot (self w)\<rparr>)
      (zero_worker\<lparr>worker_type := pgactive_WORKER_APPLY\<rparr>)"
  have sl: "slots (ctl w') = (slots (ctl w))[i := v]" and self: "self w' = self w"
    using assms(1) a al by (auto simp: start_apply_worker_def Let_def v_def split: if_splits)
  have v: "apply_for m n v \<longleftrightarrow> m = mydb \<and> n = target" for m n by (auto simp: apply_for_def v_def)
  have old: "\<not> apply_for m n (slots (ctl w) ! i)" for m n using al(2) by (simp add: apply_for_def)
  show "slots_kept (ctl w) (ctl w')" using sl al by (auto simp: slots_kept_def nth_list_update)
  show "\<exists>i < length (slots (ctl w')). apply_for mydb target (slots (ctl w') ! i)"
    using sl al v by (intro exI [of _ i]) simp
  show "self w' = self w" by (fact self)
  show "\<And>j m n. j < length (slots (ctl w)) \<Longrightarrow> apply_for m n (slots (ctl w') ! j) \<Longrightarrow>
       apply_for m n (slots (ctl w) ! j) \<or> m = mydb \<and> n = target"
    using al(1) by (auto simp: sl nth_list_update v split: if_splits)
  show "apply_unique (ctl w')"
    using uniq none al(1) unfolding apply_unique_def sl
    by (auto simp: nth_list_update v split: if_splits)
qed

definition row_target :: "conn_row \<Rightarrow> pgactiveNodeId \<Rightarrow> bool" where
  "row_target c node \<longleftrightarrow>
     (\<exists>n. sscanf [ConvU 64] (conn_sysid c) = [VU n] \<and> node = \<lparr>sysid = of_nat n, timeline = conn_timeline c, dboid = conn_dboid c\<rparr>)"

abbreviation ready_row :: "node_row \<Rightarrow> bool" where
  "ready_row n \<equiv> node_status n = Some (node_status_code pgactive_NODE_STATUS_READY)"

text \<open>What one row of the query leads to when no error is raised.\<close>

definition launched ::
  "maintain_env \<Rightarrow> char \<Rightarrow> conn_row \<times> node_row \<Rightarrow> perdb_state \<Rightarrow> bool" where
  "launched env our_status r s \<longleftrightarrow>
     (\<forall>target. row_target (fst r) target \<longrightarrow> \<not> is_killed (snd r) \<longrightarrow>
        (pgactiveSearchNamedReplicationSlot (pgactive_slot_name target (e_mydb (me_lock env))) (repl_slots s) \<noteq> None \<or>
         \<not> (our_status = node_status_code pgactive_NODE_STATUS_READY \<and> ready_row (snd r))) \<longrightarrow>
        (\<exists>i < length (slots (ctl (pw s))). apply_for (e_mydb (me_lock env)) target (slots (ctl (pw s)) ! i)))"

text \<open>The ways through the loop body that raise no error.\<close>

definition row_outcome ::
  "maintain_env \<Rightarrow> char \<Rightarrow> node_row \<Rightarrow> pgactiveNodeId \<Rightarrow> perdb_state \<Rightarrow> perdb_state \<Rightarrow> bool" where
  "row_outcome env our_status n target s s' \<longleftrightarrow>
     repl_slots s' = repl_slots s \<and> pl s' = pl s \<and>
     (pw s' = pw s \<and>
        (is_killed n \<or> find_apply_worker_slot (e_mydb (me_lock env)) target (ctl (pw s)) \<noteq> None \<or>
         pgactiveSearchNamedReplicationSlot (pgactive_slot_name target (e_mydb (me_lock env))) (repl_slots s) = None \<and>
         our_status = node_status_code pgactive_NODE_STATUS_READY \<and> ready_row n) \<or>
      \<not> is_killed n \<and> find_apply_worker_slot (e_mydb (me_lock env)) target (ctl (pw s)) = None \<and>
      start_apply_worker (me_register env) (e_mydb (me_lock env)) target (pw s) = (Inr (), pw s'))"

lemma launch_row_cases:
  assumes "launch_row env our_status r s = (Inr k, s')"
  shows "\<exists>target. row_target (fst r) = (\<lambda>t. t = target) \<and> k = (if ready_row (snd r) then 1 else 0) \<and>
    row_outcome env our_status (snd r) target s s'"
proof -
  obtain c n where r: "r = (c, n)" by (cases r)
  from assms obtain sys where sys: "sscanf [ConvU 64] (conn_sysid c) = [VU sys]"
    by (auto simp: launch_row_def r split: list.splits conv_val.splits)
  define target where "target = \<lparr>sysid = of_nat sys :: u64, timeline = conn_timeline c, dboid = conn_dboid c\<rparr>"
  have tgt: "row_target (fst r) = (\<lambda>t. t = target)"
    by (auto simp: row_target_def r sys target_def simp del: sscanf.simps)
  note L = assms [unfolded r launch_row_def prod.case sys list.case conv_val.case Let_def, folded target_def]
  have "k = (if ready_row n then 1 else 0) \<and> row_outcome env our_status n target s s'"
  proof (cases "is_killed n")
    case True
    with L show ?thesis by (auto simp: is_killed_def row_outcome_def)
  next
    case False
    then have nk: "(case node_status n of None \<Rightarrow> CHR 0x00 | Some ch \<Rightarrow> ch) \<noteq> node_status_code pgactive_NODE_STATUS_KILLED"
      and rd: "(case node_status n of None \<Rightarrow> CHR 0x00 | Some ch \<Rightarrow> ch) = node_status_code pgactive_NODE_STATUS_READY \<longleftrightarrow> ready_row n"
      by (auto simp: is_killed_def split: option.splits)
    from L nk show ?thesis
      by (auto simp: row_outcome_def False rd on_workers_def sseq_def sbind_def
          split: option.splits if_splits prod.splits sum.splits)
  qed
  with tgt show ?thesis by (intro exI [of _ target]) (simp add: r)
qed

lemma launch_row_ok:
  assumes "launch_row env our_status r s = (Inr k, s')" "apply_unique (ctl (pw s))"
  shows "k = (if ready_row (snd r) then 1 else 0)" "\<exists>target. row_target (fst r) target"
    "apply_unique (ctl (pw s'))" "slots_kept (ctl (pw s)) (ctl (pw s'))"
    "repl_slots s' = repl_slots s" "pl s' = pl s" "self (pw s') = self (pw s)" "launched env our_status r s'"
    "\<And>j m n. j < length (slots (ctl (pw s))) \<Longrightarrow> apply_for m n (slots (ctl (pw s')) ! j) \<Longrightarrow>
       apply_for m n (slots (ctl (pw s)) ! j) \<or> (m = e_mydb (me_lock env) \<and> row_target (fst r) n \<and> \<not> is_killed (snd r))"
proof -
  from launch_row_cases [OF assms(1)] obtain target where t: "row_target (fst r) = (\<lambda>t. t = target)"
    and k: "k = (if ready_row (snd r) then 1 else 0)" and o: "row_outcome env our_status (snd r) target s s'"
    by blast
  from o have f: "repl_slots s' = repl_slots s" "pl s' = pl s" by (simp_all add: row_outcome_def)
  from o [unfolded row_outcome_def, THEN conjunct2, THEN conjunct2] have c: "pw s' = pw s \<and>
           (is_killed (snd r) \<or> find_apply_worker_slot (e_mydb (me_lock env)) target (ctl (pw s)) \<noteq> None \<or>
            pgactiveSearchNamedReplicationSlot (pgactive_slot_name target (e_mydb (me_lock env))) (repl_slots s) = None \<and>
            our_status = node_status_code pgactive_NODE_STATUS_READY \<and> ready_row (snd r)) \<or>
         \<not> is_killed (snd r) \<and> find_apply_worker_slot (e_mydb (me_lock env)) target (ctl (pw s)) = None \<and>
         start_apply_worker (me_register env) (e_mydb (me_lock env)) target (pw s) = (Inr (), pw s')" .
  show "k = (if ready_row (snd r) then 1 else 0)" "repl_slots s' = repl_slots s" "pl s' = pl s" using f k by simp_all
  show "\<exists>target. row_target (fst r) target" using t by simp
  from c have "apply_unique (ctl (pw s')) \<and> slots_kept (ctl (pw s)) (ctl (pw s')) \<and> self (pw s') = self (pw s) \<and>
    launched env our_status r s' \<and> (\<forall>j m n. j < length (slots (ctl (pw s))) \<longrightarrow> apply_for m n (slots (ctl (pw s')) ! j) \<longrightarrow>
       apply_for m n (slots (ctl (pw s)) ! j) \<or> (m = e_mydb (me_lock env) \<and> row_target (fst r) n \<and> \<not> is_killed (snd r)))"
  proof (elim disjE)
    assume n: "\<not> is_killed (snd r) \<and> find_apply_worker_slot (e_mydb (me_lock env)) target (ctl (pw s)) = None \<and>
         start_apply_worker (me_register env) (e_mydb (me_lock env)) target (pw s) = (Inr (), pw s')"
    then have none: "\<forall>i < length (slots (ctl (pw s))). \<not> apply_for (e_mydb (me_lock env)) target (slots (ctl (pw s)) ! i)"
      by (simp add: find_apply_None)
    note st = start_apply_worker_ok [OF conjunct2 [OF conjunct2 [OF n]] none assms(2)]
    have "launched env our_status r s'" using st(3) t by (simp add: launched_def)
    moreover have "apply_for m n (slots (ctl (pw s)) ! j) \<or> m = e_mydb (me_lock env) \<and> row_target (fst r) n \<and> \<not> is_killed (snd r)"
      if "j < length (slots (ctl (pw s)))" "apply_for m n (slots (ctl (pw s')) ! j)" for j m n
      using st(5) [OF that] n t by simp
    ultimately show ?thesis using st(1,2,4) by blast
  next
    assume n: "pw s' = pw s \<and>
           (is_killed (snd r) \<or> find_apply_worker_slot (e_mydb (me_lock env)) target (ctl (pw s)) \<noteq> None \<or>
            pgactiveSearchNamedReplicationSlot (pgactive_slot_name target (e_mydb (me_lock env))) (repl_slots s) = None \<and>
            our_status = node_status_code pgactive_NODE_STATUS_READY \<and> ready_row (snd r))"
    then have "launched env our_status r s'"
      by (auto simp: launched_def f t find_apply_None)
    with n assms(2) show ?thesis by simp
  qed
  then show "apply_unique (ctl (pw s'))" "slots_kept (ctl (pw s)) (ctl (pw s'))" "self (pw s') = self (pw s)"
    "launched env our_status r s'"
    "\<And>j m n. j < length (slots (ctl (pw s))) \<Longrightarrow> apply_for m n (slots (ctl (pw s')) ! j) \<Longrightarrow>
       apply_for m n (slots (ctl (pw s)) ! j) \<or> (m = e_mydb (me_lock env) \<and> row_target (fst r) n \<and> \<not> is_killed (snd r))"
    by blast+
qed

lemma launched_kept:
  assumes "launched env our_status r s" "slots_kept (ctl (pw s)) (ctl (pw s'))" "repl_slots s' = repl_slots s"
  shows "launched env our_status r s'"
  unfolding launched_def assms(3)
proof (intro allI impI)
  fix target
  assume t: "row_target (fst r) target" "\<not> is_killed (snd r)"
    "pgactiveSearchNamedReplicationSlot (pgactive_slot_name target (e_mydb (me_lock env))) (repl_slots s) \<noteq> None \<or>
     \<not> (our_status = node_status_code pgactive_NODE_STATUS_READY \<and> ready_row (snd r))"
  with assms(1) obtain i where i: "i < length (slots (ctl (pw s)))"
      "apply_for (e_mydb (me_lock env)) target (slots (ctl (pw s)) ! i)"
    unfolding launched_def by blast
  with apply_for_kept [OF assms(2) i] assms(2)
  show "\<exists>i < length (slots (ctl (pw s'))). apply_for (e_mydb (me_lock env)) target (slots (ctl (pw s')) ! i)"
    by (intro exI [of _ i]) (simp add: slots_kept_def)
qed

lemma launch_loop_ok:
  assumes "launch_loop env our_status rs n s = (Inr k, s')" "apply_unique (ctl (pw s))"
  shows "k = n + int (length (filter (\<lambda>r. ready_row (snd r)) rs)) \<and>
    apply_unique (ctl (pw s')) \<and> slots_kept (ctl (pw s)) (ctl (pw s')) \<and>
    repl_slots s' = repl_slots s \<and> pl s' = pl s \<and> self (pw s') = self (pw s) \<and>
    (\<forall>r \<in> set rs. launched env our_status r s' \<and> (\<exists>target. row_target (fst r) target)) \<and>
    (\<forall>j m node. j < length (slots (ctl (pw s))) \<longrightarrow> apply_for m node (slots (ctl (pw s')) ! j) \<longrightarrow>
       apply_for m node (slots (ctl (pw s)) ! j) \<or>
       m = e_mydb (me_lock env) \<and> (\<exists>r \<in> set rs. row_target (fst r) node \<and> \<not> is_killed (snd r)))"
  using assms
proof (induction rs arbitrary: n s)
  case (Cons r rs)
  from Cons.prems(1) obtain k1 s1 where r1: "launch_row env our_status r s = (Inr k1, s1)"
    and rest: "launch_loop env our_status rs (n + k1) s1 = (Inr k, s')"
    by (auto simp: sbind_def split: prod.splits sum.splits)
  note o = launch_row_ok [OF r1 Cons.prems(2)]
  note ih = Cons.IH [OF rest o(3)]
  have kept: "slots_kept (ctl (pw s)) (ctl (pw s'))" using slots_kept_trans [OF o(4)] ih by blast
  have launched: "launched env our_status r s'"
    using launched_kept [OF o(8)] ih by blast
  have new: "apply_for m node (slots (ctl (pw s)) ! j) \<or>
       m = e_mydb (me_lock env) \<and> (\<exists>r \<in> set (r # rs). row_target (fst r) node \<and> \<not> is_killed (snd r))"
    if j: "j < length (slots (ctl (pw s)))" "apply_for m node (slots (ctl (pw s')) ! j)" for j m node
  proof -
    have "j < length (slots (ctl (pw s1)))" using j(1) o(4) by (simp add: slots_kept_def)
    with ih j(2) have "apply_for m node (slots (ctl (pw s1)) ! j) \<or>
       m = e_mydb (me_lock env) \<and> (\<exists>r \<in> set rs. row_target (fst r) node \<and> \<not> is_killed (snd r))" by blast
    with o(9) [OF j(1)] show ?thesis by auto
  qed
  have "k = n + int (length (filter (\<lambda>r. ready_row (snd r)) (r # rs)))"
    using conjunct1 [OF ih] o(1) by simp
  moreover have "\<forall>x \<in> set (r # rs). launched env our_status x s' \<and> (\<exists>target. row_target (fst x) target)"
    using ih launched o(2) by simp
  moreover have "repl_slots s' = repl_slots s" "pl s' = pl s" "self (pw s') = self (pw s)" "apply_unique (ctl (pw s'))"
    using ih o(5-7) by simp_all
  ultimately show ?case using kept new by blast
qed simp

section \<open>Frames\<close>

lemma drop_slots_ok:
  "drop_slots f ns s = (Inr (), s') \<Longrightarrow>
   pw s' = pw s \<and> pl s' = pl s \<and> sigterms s' = sigterms s \<and>
   repl_slots s' = map (\<lambda>r. if rs_name r \<in> set ns then r\<lparr>rs_in_use := False\<rparr> else r) (repl_slots s)"
proof (induction ns arbitrary: s)
  case (Cons n ns)
  from Cons.prems have f: "f n = Inr ()" and rest: "drop_slots f ns
      (s\<lparr>repl_slots := map (\<lambda>r. if rs_name r = n then r\<lparr>rs_in_use := False\<rparr> else r) (repl_slots s)\<rparr>) = (Inr (), s')"
    by (auto simp: sseq_def sbind_def split: sum.splits)
  from Cons.IH [OF rest] show ?case by (auto simp: o_def)
qed simp

text \<open>Dropping keeps the other slots and leaves none of the named ones in use.\<close>

lemma slot_to_drop_dropped:
  assumes "x \<in> set (map (\<lambda>r. if rs_name r \<in> set ns then r\<lparr>rs_in_use := False\<rparr> else r) rs)" "slot_to_drop myid node x"
  shows "x \<in> set rs" "rs_name x \<notin> set ns"
  using assms by (auto simp: slot_to_drop_def split: if_splits)

lemma detach_node_ok:
  assumes "detach_node env ok node s = (Inr r, s')"
  shows "pw s' = pw s" "pl s' = pl s" "(r = None) = (filter (linked_worker ok node) (slots (ctl (pw s))) \<noteq> [])"
    "r \<noteq> None \<Longrightarrow> \<forall>x \<in> set (repl_slots s'). \<not> slot_to_drop (me_myid env) node x"
    "\<And>x n. x \<in> set (repl_slots s') \<Longrightarrow> slot_to_drop (me_myid env) n x \<Longrightarrow> x \<in> set (repl_slots s)"
    "sigterms s' = sigterms s @ map worker_pid (filter (linked_worker ok node) (slots (ctl (pw s))))"
proof -
  define alive where "alive = filter (linked_worker ok node) (slots (ctl (pw s)))"
  define ns where "ns = map rs_name (filter (slot_to_drop (me_myid env) node) (repl_slots s))"
  have D: "detach_node env ok node s = (if alive \<noteq> [] then (Inr None, s\<lparr>sigterms := sigterms s @ map worker_pid alive\<rparr>)
      else sseq (drop_slots (me_slot_drop env) ns)
        (sret (Some (if pgactive_nodeid_eq (Some node) (Some (me_myid env)) then 0 else length ns))) s)"
    by (simp add: detach_node_def alive_def ns_def)
  have F: "pw s' = pw s \<and> pl s' = pl s \<and> (r = None) = (alive \<noteq> []) \<and> sigterms s' = sigterms s @ map worker_pid alive \<and>
    (if r = None then repl_slots s' = repl_slots s
     else repl_slots s' = map (\<lambda>r. if rs_name r \<in> set ns then r\<lparr>rs_in_use := False\<rparr> else r) (repl_slots s))"
    using assms unfolding D by (auto simp: sseq_def sbind_def split: if_splits prod.splits sum.splits dest!: drop_slots_ok)
  then show "pw s' = pw s" "pl s' = pl s" "(r = None) = (filter (linked_worker ok node) (slots (ctl (pw s))) \<noteq> [])"
    "sigterms s' = sigterms s @ map worker_pid (filter (linked_worker ok node) (slots (ctl (pw s))))"
    by (simp_all add: alive_def)
  show "x \<in> set (repl_slots s)" if "x \<in> set (repl_slots s')" "slot_to_drop (me_myid env) n x" for x n
    using F that slot_to_drop_dropped(1) [of x ns "repl_slots s" "me_myid env" n] by (simp split: if_splits)
  show "\<forall>x \<in> set (repl_slots s'). \<not> slot_to_drop (me_myid env) node x" if "r \<noteq> None"
  proof
    fix x assume x: "x \<in> set (repl_slots s')"
    show "\<not> slot_to_drop (me_myid env) node x"
    proof
      assume d: "slot_to_drop (me_myid env) node x"
      from F that have "repl_slots s' = map (\<lambda>r. if rs_name r \<in> set ns then r\<lparr>rs_in_use := False\<rparr> else r) (repl_slots s)"
        by simp
      from slot_to_drop_dropped [OF x [unfolded this] d] have "x \<in> set (repl_slots s)" "rs_name x \<notin> set ns" .
      with d show False by (simp add: ns_def)
    qed
  qed
qed

definition has_linked :: "bool \<Rightarrow> pgactiveWorkerControl \<Rightarrow> pgactiveNodeId \<Rightarrow> bool" where
  "has_linked ok c node \<longleftrightarrow> (\<exists>w \<in> set (slots c). linked_worker ok node w)"

lemma detach_loop_ok:
  assumes "detach_loop env ok nodes acc s = (Inr d, s')"
  shows "pw s' = pw s \<and> pl s' = pl s \<and>
    d_nnodes d = d_nnodes acc + int (length (filter (has_linked ok (ctl (pw s))) nodes)) \<and>
    d_forget d = d_forget acc @ filter (\<lambda>n. \<not> has_linked ok (ctl (pw s)) n) nodes \<and>
    (\<forall>node \<in> set nodes. \<not> has_linked ok (ctl (pw s)) node \<longrightarrow>
       (\<forall>x \<in> set (repl_slots s'). \<not> slot_to_drop (me_myid env) node x)) \<and>
    (\<forall>x n. x \<in> set (repl_slots s') \<longrightarrow> slot_to_drop (me_myid env) n x \<longrightarrow> x \<in> set (repl_slots s))"
  using assms
proof (induction nodes arbitrary: acc s)
  case (Cons node nodes)
  from Cons.prems obtain r s1 where r: "detach_node env ok node s = (Inr r, s1)"
    and rest: "detach_loop env ok nodes (case r of None \<Rightarrow> acc\<lparr>d_nnodes := d_nnodes acc + 1\<rparr>
          | Some k \<Rightarrow> acc\<lparr>d_forget := d_forget acc @ [node], d_origins := d_origins acc + k\<rparr>) s1 = (Inr d, s')"
    by (auto simp: sbind_def split: prod.splits sum.splits)
  note o = detach_node_ok [OF r]
  note ih = Cons.IH [OF rest, unfolded o(1,2)]
  have linked: "has_linked ok (ctl (pw s)) node \<longleftrightarrow> r = None"
    using o(3) by (auto simp: has_linked_def filter_empty_conv)
  have "\<not> slot_to_drop (me_myid env) node x" if "r \<noteq> None" "x \<in> set (repl_slots s')" for x
    using o(4) [OF that(1)] ih that(2) by blast
  moreover have "x \<in> set (repl_slots s)" if "x \<in> set (repl_slots s')" "slot_to_drop (me_myid env) n x" for x n
    using ih that o(5) by blast
  ultimately show ?case using ih linked by (cases r) auto
qed simp

lemma forget_loop_frame:
  "forget_loop env nodes s = (r, s') \<Longrightarrow> pw s' = pw s \<and> repl_slots s' = repl_slots s"
  by (induction nodes arbitrary: s)
     (auto simp: on_locks_def sseq_def sbind_def split: prod.splits sum.splits)

lemma drop_origins_frame:
  "drop_origins f ns s = (r, s') \<Longrightarrow> pw s' = pw s \<and> repl_slots s' = repl_slots s \<and> pl s' = pl s"
  by (induction ns arbitrary: s) (fastforce simp: sseq_def sbind_def split: prod.splits sum.splits)+

lemma invalidate_nodecache_frame:
  "invalidate_nodecache env s = (r, s') \<Longrightarrow> pw s' = pw s \<and> repl_slots s' = repl_slots s \<and> pl s' = pl s"
  by (auto simp: invalidate_nodecache_def sbind_def split: sum.splits)

lemma apply_for_upd_perdb [simp]: "apply_for m n (upd_perdb f w) = apply_for m n w"
  by (simp add: apply_for_def upd_perdb_def)

lemma set_own_nnodes_ok:
  assumes "set_own_nnodes n s = (r, s')"
  shows "r = Inr () \<and> repl_slots s' = repl_slots s \<and> pl s' = pl s \<and>
    length (slots (ctl (pw s'))) = length (slots (ctl (pw s))) \<and>
    (\<forall>i < length (slots (ctl (pw s))). \<forall>m node. apply_for m node (slots (ctl (pw s')) ! i) = apply_for m node (slots (ctl (pw s)) ! i))"
  using assms
  by (auto simp: set_own_nnodes_def on_workers_def nth_upd split: option.splits if_splits)

lemma apply_unique_cong:
  assumes "length (slots c') = length (slots c)"
    "\<forall>i < length (slots c). \<forall>m node. apply_for m node (slots c' ! i) = apply_for m node (slots c ! i)"
    "apply_unique c"
  shows "apply_unique c'"
  unfolding apply_unique_def assms(1)
proof (intro allI impI)
  fix i j m node
  assume i: "i < length (slots c)" "j < length (slots c)" "apply_for m node (slots c' ! i)" "apply_for m node (slots c' ! j)"
  with assms(2) have "apply_for m node (slots c ! i)" "apply_for m node (slots c ! j)" by simp_all
  with assms(3) i(1,2) show "i = j" unfolding apply_unique_def by blast
qed

lemma distinct_on_distinct: "distinct (map key (distinct_on key xs))"
proof (induction key xs rule: distinct_on.induct)
  case (2 key x xs)
  have "key x \<notin> set (map key (distinct_on key (filter (\<lambda>y. key y \<noteq> key x) xs)))"
    using distinct_on_set [of key "filter (\<lambda>y. key y \<noteq> key x) xs"] by auto
  with 2 show ?case by simp
qed simp

text \<open>The rows by themselves: a peer's rows agree, since a node has one row in the catalogue.\<close>

abbreviation node_key :: "node_row \<Rightarrow> string \<times> u32 \<times> u32" where
  "node_key n \<equiv> (node_sysid n, node_timeline n, node_dboid n)"

lemma maintain_rows_key:
  "(c, n) \<in> set (maintain_rows myid conns rows) \<Longrightarrow> n \<in> set rows \<and> conn_key (c, n) = node_key n"
  by (auto simp: maintain_rows_def conn_key_def)

lemma distinct_rows:
  assumes "\<And>xs. set (order_by xs) = set xs" "distinct (map node_key rows)"
  shows "set (map snd (distinct_on conn_key (order_by (maintain_rows myid conns rows)))) = snd ` set (maintain_rows myid conns rows)"
    and "distinct (map snd (distinct_on conn_key (order_by (maintain_rows myid conns rows))))"
proof -
  let ?d = "distinct_on conn_key (order_by (maintain_rows myid conns rows))"
  have sub: "set ?d \<subseteq> set (maintain_rows myid conns rows)" using distinct_on_set [of conn_key] assms(1) by blast
  have inj: "snd x = snd y" if "x \<in> set (maintain_rows myid conns rows)" "y \<in> set (maintain_rows myid conns rows)"
      "conn_key x = conn_key y" for x y
    using that maintain_rows_key [of "fst x" "snd x" myid conns rows] maintain_rows_key [of "fst y" "snd y" myid conns rows]
      assms(2) by (simp add: distinct_map inj_on_def)
  show "set (map snd ?d) = snd ` set (maintain_rows myid conns rows)"
  proof
    show "set (map snd ?d) \<subseteq> snd ` set (maintain_rows myid conns rows)" using sub by auto
    show "snd ` set (maintain_rows myid conns rows) \<subseteq> set (map snd ?d)"
    proof
      fix n assume "n \<in> snd ` set (maintain_rows myid conns rows)"
      then obtain x where x: "x \<in> set (maintain_rows myid conns rows)" "n = snd x" by blast
      then have "x \<in> set (order_by (maintain_rows myid conns rows))" by (simp add: assms(1))
      from distinct_on_key [OF this, of conn_key] obtain y where y: "y \<in> set ?d" "conn_key y = conn_key x" by blast
      with inj [of y x] x sub have "snd y = n" by blast
      with y(1) show "n \<in> set (map snd ?d)" by auto
    qed
  qed
  have "conn_key x = node_key (snd x)" if "x \<in> set ?d" for x
    using sub that maintain_rows_key [of "fst x" "snd x" myid conns rows] by auto
  then have "map conn_key ?d = map node_key (map snd ?d)" by simp
  with distinct_on_distinct [of conn_key "order_by (maintain_rows myid conns rows)"]
  have "distinct (map node_key (map snd ?d))" by simp
  then show "distinct (map snd ?d)" by (rule iffD1 [OF distinct_map, THEN conjunct1])
qed

lemma ready_count:
  assumes "\<And>xs. set (order_by xs) = set xs" "distinct (map node_key rows)"
  shows "length (filter (\<lambda>r. ready_row (snd r)) (distinct_on conn_key (order_by (maintain_rows myid conns rows))))
    = card {n \<in> snd ` set (maintain_rows myid conns rows). ready_row n}"
proof -
  let ?d = "distinct_on conn_key (order_by (maintain_rows myid conns rows))"
  have "length (filter (\<lambda>r. ready_row (snd r)) ?d) = length (filter ready_row (map snd ?d))"
    by (simp add: filter_map o_def)
  also have "\<dots> = card (set (filter ready_row (map snd ?d)))"
    by (rule distinct_card [symmetric]) (rule distinct_filter, rule distinct_rows(2) [OF assms])
  also have "set (filter ready_row (map snd ?d)) = {n \<in> snd ` set (maintain_rows myid conns rows). ready_row n}"
    using distinct_rows(1) [OF assms] by auto
  finally show ?thesis .
qed

text \<open>A peer of the query keeps its node row when only one of its connections is looked at.\<close>

lemma distinct_row_of:
  assumes "\<And>xs. set (order_by xs) = set xs" "distinct (map node_key rows)" "r \<in> set (maintain_rows myid conns rows)"
  shows "\<exists>y \<in> set (distinct_on conn_key (order_by (maintain_rows myid conns rows))). conn_key y = conn_key r \<and> snd y = snd r"
proof -
  from assms(3) have "r \<in> set (order_by (maintain_rows myid conns rows))" by (simp add: assms(1))
  from distinct_on_key [OF this, of conn_key] obtain y
    where y: "y \<in> set (distinct_on conn_key (order_by (maintain_rows myid conns rows)))" "conn_key y = conn_key r" by blast
  with distinct_on_set [of conn_key "order_by (maintain_rows myid conns rows)"] assms(1)
  have "y \<in> set (maintain_rows myid conns rows)" by blast
  with y assms(2,3) maintain_rows_key [of "fst y" "snd y" myid conns rows] maintain_rows_key [of "fst r" "snd r" myid conns rows]
  have "snd y = snd r" by (auto simp: distinct_map inj_on_def)
  with y show ?thesis by blast
qed

section \<open>Properties\<close>

lemma row_target_key:
  "conn_key x = conn_key y \<Longrightarrow> row_target (fst x) t = row_target (fst y) t"
  by (simp add: conn_key_def row_target_def)

text \<open>The phases of a run that ends without an error, on a node that is not killed itself.\<close>

lemma maintain_phases:
  assumes "pgactive_maintain_db_workers env s = (Inr (), s')" "\<not> worker_management_paused (ctl (pw s))"
    and "pgactive_nodes_get_local_status (me_spi env) (me_nodes env) (me_myid env) False = Inr our_status"
    and "our_status \<noteq> node_status_code pgactive_NODE_STATUS_KILLED" "killed_nodes (me_nodes env) = Inr killed"
  obtains d s1 s2 n s3 s4 s5 where
    "detach_loop env False killed \<lparr>d_nnodes = 0, d_forget = [], d_origins = 0\<rparr> s = (Inr d, s1)"
    "pw s2 = pw s1" "repl_slots s2 = repl_slots s1"
    "launch_loop env our_status
       (distinct_on conn_key (me_order_by env (maintain_rows (me_myid env) (me_conns env) (me_nodes env)))) (d_nnodes d) s2 = (Inr n, s3)"
    "pw s4 = pw s3" "set_own_nnodes n s4 = (Inr (), s5)" "pw s' = pw s5" "repl_slots s' = repl_slots s3" "nnodes (db (pl s')) = n"
proof -
  have run: "pgactive_maintain_db_workers env s = (Inr (), s')" by (fact assms(1))
  obtain d s1 where d: "detach_loop env False killed \<lparr>d_nnodes = 0, d_forget = [], d_origins = 0\<rparr> s = (Inr d, s1)"
    using run assms(2-5)
    by (auto simp: pgactive_maintain_db_workers_def Let_def sbind_def sseq_def split: prod.splits sum.splits if_splits)
  define s1' where "s1' = (if d_nnodes d > 0 then s1\<lparr>latches := latches s1 @ [MyProcNumber (self (pw s1))]\<rparr> else s1)"
  have s1': "pw s1' = pw s1" "repl_slots s1' = repl_slots s1" by (simp_all add: s1'_def)
  have run1: "sseq (invalidate_nodecache env)
     (sseq (forget_loop (me_lock env) (d_forget d))
     (sseq (drop_origins (me_origin_drop env) (replicate (d_origins d) (me_stale_name env)))
     (sbind (sbind (launch_loop env our_status
                     (distinct_on conn_key (me_order_by env (maintain_rows (me_myid env) (me_conns env) (me_nodes env)))) (d_nnodes d))
                  (\<lambda>n. sseq (invalidate_nodecache env) (sret n))) (\<lambda>n.
      sseq (set_own_nnodes n) (on_locks (pgactive_locks_set_nnodes n)))))) s1' = (Inr (), s')"
    using run assms(2-5) d
    by (cases "d_nnodes d > 0"; cases "spi_ok (me_spi env)")
       (simp_all add: pgactive_maintain_db_workers_def Let_def s1'_def swhen_def)
  from run1 obtain s5 s6 s2 where f: "invalidate_nodecache env s1' = (Inr (), s5)"
      "forget_loop (me_lock env) (d_forget d) s5 = (Inr (), s6)"
      "drop_origins (me_origin_drop env) (replicate (d_origins d) (me_stale_name env)) s6 = (Inr (), s2)"
      and run2: "sbind (sbind (launch_loop env our_status
                     (distinct_on conn_key (me_order_by env (maintain_rows (me_myid env) (me_conns env) (me_nodes env)))) (d_nnodes d))
                  (\<lambda>n. sseq (invalidate_nodecache env) (sret n))) (\<lambda>n.
      sseq (set_own_nnodes n) (on_locks (pgactive_locks_set_nnodes n))) s2 = (Inr (), s')"
    unfolding sseq_def by (auto simp: sbind_def [of _ "\<lambda>_. _"] split: prod.splits sum.splits)
  have s2: "pw s2 = pw s1" "repl_slots s2 = repl_slots s1"
    using invalidate_nodecache_frame [OF f(1)] forget_loop_frame [OF f(2)] drop_origins_frame [OF f(3)] s1' by simp_all
  from run2 obtain n s3 s7 s4 where l: "launch_loop env our_status
       (distinct_on conn_key (me_order_by env (maintain_rows (me_myid env) (me_conns env) (me_nodes env)))) (d_nnodes d) s2 = (Inr n, s3)"
      and i: "invalidate_nodecache env s3 = (Inr (), s7)" and o: "set_own_nnodes n s7 = (Inr (), s4)"
      and e: "on_locks (pgactive_locks_set_nnodes n) s4 = (Inr (), s')"
    by (auto simp: sbind_def sseq_def split: prod.splits sum.splits)
  from e have e': "pw s' = pw s4" "repl_slots s' = repl_slots s4" "nnodes (db (pl s')) = n"
    by (auto simp: on_locks_def pgactive_locks_set_nnodes_def upd_db_def)
  have i': "pw s7 = pw s3" "repl_slots s7 = repl_slots s3" using invalidate_nodecache_frame [OF i] by simp_all
  from set_own_nnodes_ok [OF o] i' e' have "repl_slots s' = repl_slots s3" by simp
  from that [OF d s2 l i'(1) o e'(1) this e'(3)] show thesis .
qed


definition example_row :: "nat \<Rightarrow> u32 \<Rightarrow> char \<Rightarrow> node_row" where
  "example_row sys d st = \<lparr>node_sysid = dec_string sys, node_timeline = 0, node_dboid = d, node_status = Some st,
     node_name = Some ''n'', node_dsn = Some ''d'', node_init_from_dsn = None, node_read_only = Some False, node_seq_id = Some 1\<rparr>"

definition example_lock_env :: lock_env where
  "example_lock_env = \<lparr>e_pq = pq_network, e_nid = 1, e_mydb = 5, e_pid = 100, e_proc = 1, e_session_origin = 0,
     e_by_oid = (\<lambda>_. None), e_by_name = (\<lambda>_. None), e_now = 0, e_insert_lsn = 0, e_skip_ddl_replication = False,
     e_max_ddl_lock_delay = - 1, e_max_standby_streaming_delay = 30, e_ddl_lock_timeout = - 1, e_LockTimeout = 0,
     e_nconflicts = 0, e_conflict_obs = []\<rparr>"

definition example_maintain_env :: maintain_env where
  "example_maintain_env = \<lparr>me_lock = example_lock_env, me_spi = \<lparr>schema_present = True, spi_ok = True\<rparr>,
     me_nodes = [example_row 1 5 CHR ''r'', example_row 2 6 CHR ''r'', example_row 3 7 CHR ''k''],
     me_conns = [\<lparr>conn_sysid = dec_string 2, conn_timeline = 0, conn_dboid = 6, conn_dsn = ''d'', conn_apply_delay = None,
                  conn_replication_sets = Some [''default'']\<rparr>],
     me_order_by = (\<lambda>xs. xs), me_nodes_relid = Inr 99, me_slot_drop = (\<lambda>_. Inr ()), me_origin_drop = (\<lambda>_. Inr ()),
     me_register = (\<lambda>_. True), me_stale_name = ''''\<rparr>"

definition example_perdb_state :: perdb_state where
  "example_perdb_state = \<lparr>pw = \<lparr>ctl = fresh_segment 2 [example_perdb 5 100, zero_worker], self = idle_process\<lparr>pgactive_worker_slot := Some 0\<rparr>\<rparr>,
     pl = \<lparr>db = zero_dbstate 5, global_locks = [], wal = [], latches_set = [], pending = (\<lambda>_. None), this_xact_acquired_lock = (\<lambda>_. False)\<rparr>,
     repl_slots = [\<lparr>rs_in_use = True, rs_plugin = ''pgactive'', rs_name = pgactive_slot_name \<lparr>sysid = 2, timeline = 0, dboid = 6\<rparr> 5, rs_database = 5\<rparr>],
     ps_nodecache = fresh_nodecache, sigterms = [], latches = [], origins_dropped = []\<rparr>"

lemma example_fields: 
  "me_lock example_maintain_env = example_lock_env" "me_spi example_maintain_env = \<lparr>schema_present = True, spi_ok = True\<rparr>"
  "me_nodes example_maintain_env = [example_row 1 5 CHR ''r'', example_row 2 6 CHR ''r'', example_row 3 7 CHR ''k'']"
  "me_order_by example_maintain_env = (\<lambda>xs. xs)" "me_nodes_relid example_maintain_env = Inr 99"
  "pgactive_make_my_nodeid (e_nid example_lock_env) 5 = \<lparr>sysid = 1, timeline = 0, dboid = 5\<rparr>" "e_mydb example_lock_env = 5"
  "me_slot_drop example_maintain_env = (\<lambda>_. Inr ())" "me_origin_drop example_maintain_env = (\<lambda>_. Inr ())" "me_register example_maintain_env = (\<lambda>_. True)"
  by (simp_all add: example_maintain_env_def example_lock_env_def pgactive_make_my_nodeid_def pgactiveThisTimeLineID_def)

lemma example_db: "e_mydb (me_lock example_maintain_env) = 5"
  by (simp add: example_fields)

lemma example_conns:
  "me_conns example_maintain_env = [\<lparr>conn_sysid = dec_string 2, conn_timeline = 0, conn_dboid = 6, conn_dsn = ''d'', conn_apply_delay = None,
                  conn_replication_sets = Some [''default'']\<rparr>]"
  by (simp_all add: example_maintain_env_def example_lock_env_def pgactive_make_my_nodeid_def pgactiveThisTimeLineID_def)

lemma example_scan: "sscanf [ConvU 64] (dec_string 2) = [VU 2]" "sscanf [ConvU 64] (dec_string 3) = [VU 3]"
  using sscanf_sysid [of 2] sscanf_sysid [of 3] by (simp_all del: sscanf.simps)

lemma example_status: "pgactive_nodes_get_local_status (me_spi example_maintain_env) (me_nodes example_maintain_env) (me_myid example_maintain_env) False = Inr CHR ''r''"
  by (simp add: example_fields pgactive_nodes_get_local_status_def row_of_def example_row_def)

lemma example_killed: "killed_nodes (me_nodes example_maintain_env) = Inr [\<lparr>sysid = 3, timeline = 0, dboid = 7\<rparr>]"
  by (simp add: example_fields killed_nodes_def example_row_def is_killed_def example_scan del: sscanf.simps)

lemma example_distinct: "distinct (map node_key (me_nodes example_maintain_env))" 
  by (simp add: example_fields example_row_def)

lemma example_rows: "maintain_rows (me_myid example_maintain_env) (me_conns example_maintain_env) (me_nodes example_maintain_env)
       = [(hd (me_conns example_maintain_env), example_row 2 6 CHR ''r'')]"
  by (simp add: example_fields example_conns maintain_rows_def example_row_def)

lemma example_linked: "\<not> has_linked False (ctl (pw example_perdb_state)) \<lparr>sysid = 3, timeline = 0, dboid = 7\<rparr>"
  by (simp add: has_linked_def example_perdb_state_def fresh_segment_def example_perdb_def linked_worker_def)

lemma example_slot_names: "pgactive_slot_name \<lparr>sysid = 3, timeline = 0, dboid = 7\<rparr> 5 \<noteq> pgactive_slot_name \<lparr>sysid = 2, timeline = 0, dboid = 6\<rparr> 5"
  by code_simp

lemma example_alive: "filter (linked_worker False \<lparr>sysid = 3, timeline = 0, dboid = 7\<rparr>) (slots (ctl (pw example_perdb_state))) = []"
  by (simp add: example_perdb_state_def fresh_segment_def example_perdb_def linked_worker_def)

lemma example_drop: "filter (slot_to_drop \<lparr>sysid = 1, timeline = 0, dboid = 5\<rparr> \<lparr>sysid = 3, timeline = 0, dboid = 7\<rparr>) (repl_slots example_perdb_state) = []"
  using example_slot_names by (simp add: example_perdb_state_def slot_to_drop_def)

lemma example_detach: "detach_node example_maintain_env False \<lparr>sysid = 3, timeline = 0, dboid = 7\<rparr> example_perdb_state = (Inr (Some 0), example_perdb_state)"
  by (simp add: detach_node_def example_alive example_drop example_fields)

lemma example_locks: "pgactive_locks_node_detached example_lock_env \<lparr>sysid = 3, timeline = 0, dboid = 7\<rparr> (pl example_perdb_state) = (Inr (), pl example_perdb_state)"
  by (simp add: pgactive_locks_node_detached_def pgactive_locks_find_my_database_def example_perdb_state_def zero_dbstate_def example_fields)

lemma example_launch: "\<exists>s'. launch_row example_maintain_env CHR ''r'' (hd (me_conns example_maintain_env), example_row 2 6 CHR ''r'') (example_perdb_state\<lparr>ps_nodecache := nc\<rparr>) = (Inr 1, s') \<and> repl_slots s' = repl_slots example_perdb_state"
  apply (simp add: launch_row_def example_fields example_conns example_scan example_row_def Let_def del: sscanf.simps)
  apply (simp add: example_perdb_state_def find_apply_worker_slot_def pgactiveSearchNamedReplicationSlot_def fresh_segment_def example_perdb_def on_workers_def start_apply_worker_def pgactive_worker_shmem_alloc_def example_fields Let_def sseq_def sbind_def)
  done


lemma example_run: "\<exists>s'. pgactive_maintain_db_workers example_maintain_env example_perdb_state = (Inr (), s') \<and> repl_slots s' = repl_slots example_perdb_state"
proof -
  obtain s1 where s1: "launch_row example_maintain_env CHR ''r'' (hd (me_conns example_maintain_env), example_row 2 6 CHR ''r'')
    (example_perdb_state\<lparr>ps_nodecache := pgactive_nodecache_invalidate_callback 99 (ps_nodecache example_perdb_state)\<rparr>) = (Inr 1, s1)"
    "repl_slots s1 = repl_slots example_perdb_state" using example_launch by blast
  show ?thesis
    apply (simp add: pgactive_maintain_db_workers_def example_status example_killed Let_def)
    apply (simp add: example_detach invalidate_nodecache_def example_rows)
    apply (simp add: example_fields on_locks_def example_locks s1 set_own_nnodes_def on_workers_def pgactive_locks_set_nnodes_def upd_db_def)
    done
qed


lemma connect_loop_spec:
  "connect_loop (int (Suc d) * 1000) 1000 oks =
     (if True \<in> set (take (Suc d) oks) then Inr True
      else if length oks \<le> d then Inr False
      else Inl (Error ''per-db worker failed during the connectability check''))"
proof (induction oks arbitrary: d)
  case (Cons ok oks)
  show ?case
  proof (cases d)
    case 0
    then show ?thesis by simp
  next
    case (Suc e)
    have "int (Suc (Suc e)) * 1000 - 1000 = int (Suc e) * 1000" by simp
    with Suc Cons.IH [of e] show ?thesis by (simp add: Let_def)
  qed
qed simp



end
