(* ===== verification/Worker_System.thy ===== *)
theory Worker_System
  imports Supervisor Perdb_Worker
begin

text \<open>
  All background workers of one server together: the supervisor, the postmaster that starts and
  restarts registered workers, the workers themselves and crash restarts.  A step runs an
  operation of the other theories on the shared segment with the variables of one process.
  A worker that unregisters itself exits in the same step.  The supervisor process ends only
  together with the server.
\<close>

section \<open>The system\<close>

record bgw_reg =
  reg_arg :: u32
  reg_type :: pgactiveWorkerType
  reg_proc :: "worker_process option"

text \<open>Where the supervisor is: idle, at the databases still to scan, or waiting for the worker of a slot.\<close>

datatype sup_state = SupIdle | SupScan "u32 list" | SupWait u32 nat "u32 list"

record bgw_system =
  bs_ctl :: pgactiveWorkerControl
  bs_gen :: u16
  regs :: "nat \<Rightarrow> bgw_reg option"
  sup :: sup_state

abbreviation with_self :: "bgw_system \<Rightarrow> worker_process \<Rightarrow> worker_sys" where
  "with_self s p \<equiv> \<lparr>ctl = bs_ctl s, self = p\<rparr>"

definition fresh_process :: "worker_process \<Rightarrow> bool" where
  "fresh_process p \<longleftrightarrow> pgactive_worker_slot p = None \<and> pgactive_worker_type p = pgactive_WORKER_EMPTY_SLOT"

text \<open>What the start of the output plugin does with the slots.\<close>

definition walsender_attach :: "nat option \<Rightarrow> string option \<Rightarrow> pgactiveNodeId \<Rightarrow> nat worker_op" where
  "walsender_attach walsnd slot remote =
     sbind (sget (\<lambda>s. worker_management_paused (ctl s))) (\<lambda>paused.
     if paused then sfail (Error ''pgactive worker management is currently paused, walsender exiting; retry later.'')
     else sbind (on_ctl (pgactive_worker_shmem_alloc pgactive_WORKER_WALSENDER)) (\<lambda>i.
     sseq (pgactive_worker_shmem_acquire pgactive_WORKER_WALSENDER i True)
     (sseq (smodify (\<lambda>s. s\<lparr>ctl := upd_slot i (\<lambda>w. w\<lparr>worker_pid := MyProcPid (self s),
         worker_proc := Some \<lparr>proc_pid = MyProcPid (self s), proc_databaseId = MyDatabaseId (self s)\<rparr>,
         data_walsnd := \<lparr>walsnd_walsender = walsnd, walsnd_slot = slot, walsnd_remote_node = remote,
           last_sent_xact_id = 0, last_sent_xact_committs = 0, last_sent_xact_at = 0\<rparr>\<rparr>) (ctl s)\<rparr>))
     (sret i))))"

text \<open>What the invariants depend on: type, both database oids and the flag of a slot.\<close>

definition wview :: "pgactiveWorker \<Rightarrow> pgactiveWorkerType \<times> u32 \<times> u32 \<times> bool" where
  "wview w = (worker_type w, c_dboid (data_perdb w), p_dboid (data_perdb w), unregistered (data_perdb w))"

inductive wstep :: "bgw_system \<Rightarrow> bgw_system \<Rightarrow> bool" where
  scan_begin: "sup s = SupIdle \<Longrightarrow> InvalidOid \<notin> set dbs \<Longrightarrow> wstep s (s\<lparr>sup := SupScan dbs\<rparr>)"
| scan_skip: "sup s = SupScan (dbid # dbs) \<Longrightarrow>
    find_perdb_worker_slot dbid (bs_ctl s) \<noteq> pgactive_PER_DB_WORKER_SLOT_NOT_FOUND \<Longrightarrow> wstep s (s\<lparr>sup := SupScan dbs\<rparr>)"
| scan_fail: "sup s = SupScan (dbid # dbs) \<Longrightarrow>
    find_perdb_worker_slot dbid (bs_ctl s) = pgactive_PER_DB_WORKER_SLOT_NOT_FOUND \<Longrightarrow> fresh_process p \<Longrightarrow>
    register_perdb_begin registered started dbid (with_self s p) = (Inr None, w) \<Longrightarrow>
    wstep s (s\<lparr>bs_ctl := ctl w, sup := SupScan dbs\<rparr>)"
| scan_error: "sup s = SupScan (dbid # dbs) \<Longrightarrow> fresh_process p \<Longrightarrow>
    register_perdb_begin registered started dbid (with_self s p) = (Inl e, w) \<Longrightarrow>
    wstep s (s\<lparr>bs_ctl := ctl w, sup := SupIdle\<rparr>)"
| scan_start: "sup s = SupScan (dbid # dbs) \<Longrightarrow>
    find_perdb_worker_slot dbid (bs_ctl s) = pgactive_PER_DB_WORKER_SLOT_NOT_FOUND \<Longrightarrow> fresh_process p \<Longrightarrow>
    register_perdb_begin registered started dbid (with_self s p) = (Inr (Some i), w) \<Longrightarrow> regs s k = None \<Longrightarrow>
    wstep s (s\<lparr>bs_ctl := ctl w, sup := SupWait dbid i dbs,
      regs := (regs s)(k \<mapsto> \<lparr>reg_arg = worker_main_arg (worker_generation (bs_ctl s)) i, reg_type = pgactive_WORKER_PERDB, reg_proc = None\<rparr>)\<rparr>)"
| scan_poll: "sup s = SupWait dbid i dbs \<Longrightarrow> register_perdb_poll dbid i (bs_ctl s) \<Longrightarrow> wstep s (s\<lparr>sup := SupScan dbs\<rparr>)"
| scan_end: "sup s = SupScan [] \<Longrightarrow> fresh_process p \<Longrightarrow> free_unregistered_perdb_workers label (with_self s p) = (r, w) \<Longrightarrow>
    wstep s (s\<lparr>bs_ctl := ctl w, sup := SupIdle\<rparr>)"
| worker_runs: "regs s k = Some r \<Longrightarrow> reg_proc r = None \<Longrightarrow> reg_type r \<noteq> pgactive_WORKER_WALSENDER \<Longrightarrow> fresh_process p \<Longrightarrow>
    pgactive_bgworker_init env (reg_arg r) (reg_type r) nc (with_self s p) = (Inr (Continue sess), w) \<Longrightarrow>
    wstep s (s\<lparr>bs_ctl := ctl w, regs := (regs s)(k \<mapsto> r\<lparr>reg_proc := Some (self w)\<rparr>)\<rparr>)"
| worker_stops: "regs s k = Some r \<Longrightarrow> reg_proc r = None \<Longrightarrow> reg_type r \<noteq> pgactive_WORKER_WALSENDER \<Longrightarrow> fresh_process p \<Longrightarrow>
    pgactive_bgworker_init env (reg_arg r) (reg_type r) nc (with_self s p) = (Inr (ProcExit n), w) \<Longrightarrow>
    wstep s (s\<lparr>bs_ctl := ctl w, regs := (regs s)(k := if n = 0 then None else Some r)\<rparr>)"
| worker_fails: "regs s k = Some r \<Longrightarrow> reg_proc r = None \<Longrightarrow> reg_type r \<noteq> pgactive_WORKER_WALSENDER \<Longrightarrow> fresh_process p \<Longrightarrow>
    pgactive_bgworker_init env (reg_arg r) (reg_type r) nc (with_self s p) = (Inl e, w) \<Longrightarrow>
    pgactive_worker_exit w = (res, w') \<Longrightarrow> wstep s (s\<lparr>bs_ctl := ctl w'\<rparr>)"
| attach: "regs s k = Some r \<Longrightarrow> reg_proc r = Some p \<Longrightarrow> reg_type r = pgactive_WORKER_PERDB \<Longrightarrow>
    perdb_worker_attach (with_self s p) = (res, w) \<Longrightarrow> wstep s (s\<lparr>bs_ctl := ctl w\<rparr>)"
| crash: "regs s k = Some r \<Longrightarrow> reg_proc r = Some p \<Longrightarrow> pgactive_worker_exit (with_self s p) = (res, w) \<Longrightarrow>
    wstep s (s\<lparr>bs_ctl := ctl w,
      regs := (regs s)(k := if reg_type r = pgactive_WORKER_WALSENDER then None else Some (r\<lparr>reg_proc := None\<rparr>))\<rparr>)"
| quit: "regs s k = Some r \<Longrightarrow> reg_proc r = Some p \<Longrightarrow> pgactive_worker_exit (with_self s p) = (res, w) \<Longrightarrow>
    wstep s (s\<lparr>bs_ctl := ctl w, regs := (regs s)(k := None)\<rparr>)"
| leave: "regs s k = Some r \<Longrightarrow> reg_proc r = Some p \<Longrightarrow> reg_type r = pgactive_WORKER_PERDB \<Longrightarrow>
    perdb_worker_leave (with_self s p) = (Inr (ProcExit 0), w) \<Longrightarrow>
    wstep s (s\<lparr>bs_ctl := ctl w, regs := (regs s)(k := None)\<rparr>)"
| unregister: "regs s k = Some r \<Longrightarrow> reg_proc r = Some p \<Longrightarrow> reg_type r \<noteq> pgactive_WORKER_WALSENDER \<Longrightarrow>
    pgactive_worker_unregister (with_self s p) = (Inr (ProcExit 0), w) \<Longrightarrow>
    wstep s (s\<lparr>bs_ctl := ctl w, regs := (regs s)(k := None)\<rparr>)"
| launch: "regs s k = Some r \<Longrightarrow> reg_proc r = Some p \<Longrightarrow> regs s k' = None \<Longrightarrow>
    start_apply_worker (\<lambda>x. x = arg) mydb target (with_self s p) = (Inr (), w) \<Longrightarrow>
    wstep s (s\<lparr>bs_ctl := ctl w, regs := (regs s)(k' \<mapsto> \<lparr>reg_arg = arg, reg_type = pgactive_WORKER_APPLY, reg_proc = None\<rparr>)\<rparr>)"
| launch_fails: "regs s k = Some r \<Longrightarrow> reg_proc r = Some p \<Longrightarrow>
    start_apply_worker (\<lambda>_. False) mydb target (with_self s p) = (Inl e, w) \<Longrightarrow> wstep s (s\<lparr>bs_ctl := ctl w\<rparr>)"
| walsender: "fresh_process p \<Longrightarrow> regs s k = None \<Longrightarrow> walsender_attach ws slot remote (with_self s p) = (Inr i, w) \<Longrightarrow>
    wstep s (s\<lparr>bs_ctl := ctl w, regs := (regs s)(k \<mapsto> \<lparr>reg_arg = worker_main_arg (worker_generation (bs_ctl s)) i,
      reg_type = pgactive_WORKER_WALSENDER, reg_proc = Some (self w)\<rparr>)\<rparr>)"
| touch: "regs s k = Some r \<Longrightarrow> reg_proc r = Some p \<Longrightarrow> pgactive_worker_slot p = Some i \<Longrightarrow> (\<And>v. wview (f v) = wview v) \<Longrightarrow>
    wstep s (s\<lparr>bs_ctl := upd_slot i f (bs_ctl s)\<rparr>)"
| reap: "i < length (slots (bs_ctl s)) \<Longrightarrow> worker_type (slots (bs_ctl s) ! i) = pgactive_WORKER_APPLY \<Longrightarrow>
    (\<forall>k r. regs s k = Some r \<longrightarrow> reg_arg r \<noteq> worker_main_arg (worker_generation (bs_ctl s)) i) \<Longrightarrow> fresh_process p \<Longrightarrow>
    pgactive_worker_shmem_free i (Some False) (with_self s p) = (Inr (), w) \<Longrightarrow> wstep s (s\<lparr>bs_ctl := ctl w\<rparr>)"
| restart: "pgactive_worker_shmem_startup n None (bs_gen s) = Inr (c, g) \<Longrightarrow> n = length (slots (bs_ctl s)) \<Longrightarrow>
    wstep s \<lparr>bs_ctl = c, bs_gen = g, regs = (\<lambda>k. case regs s k of None \<Rightarrow> None
      | Some r \<Rightarrow> if reg_type r = pgactive_WORKER_WALSENDER then None else Some (r\<lparr>reg_proc := None\<rparr>)), sup = SupIdle\<rparr>"

text \<open>A server that was just started, with at most \<open>2 ^ 16\<close> worker slots.\<close>

definition winit :: "bgw_system \<Rightarrow> bool" where
  "winit s \<longleftrightarrow> (\<exists>n \<le> 65536. pgactive_worker_shmem_startup n None pgactive_worker_shmem_init = Inr (bs_ctl s, bs_gen s)) \<and>
     regs s = (\<lambda>_. None) \<and> sup s = SupIdle"

section \<open>What the operations do to the views\<close>

abbreviation views :: "pgactiveWorkerControl \<Rightarrow> (pgactiveWorkerType \<times> u32 \<times> u32 \<times> bool) list" where
  "views c \<equiv> map wview (slots c)"

abbreviation zero_view :: "pgactiveWorkerType \<times> u32 \<times> u32 \<times> bool" where
  "zero_view \<equiv> (pgactive_WORKER_EMPTY_SLOT, 0, 0, False)"

lemma wview_simps [simp]:
  "wview zero_worker = zero_view" "wview (zero_worker\<lparr>worker_type := t\<rparr>) = (t, 0, 0, False)"
  "wview (w\<lparr>worker_pid := a\<rparr>) = wview w" "wview (w\<lparr>worker_proc := b\<rparr>) = wview w" "wview (upd_apply f w) = wview w"
  by (simp_all add: wview_def)

lemma views_upd: "views (upd_slot i f c) = (views c)[i := wview (f (slots c ! i))]"
  by (simp add: map_update)

lemma views_same: "(\<And>w. wview (f w) = wview w) \<Longrightarrow> views (upd_slot i f c) = views c"
  by (cases "i < length (slots c)") (auto simp: views_upd list_update_beyond intro!: nth_equalityI simp: nth_upd)

lemma views_id [simp]: "(map wview xs)[i := wview (xs ! i)] = map wview xs"
  by (metis list_update_id map_update)

lemma wview_sel [simp]:
  "fst (wview w) = worker_type w" "fst (snd (wview w)) = c_dboid (data_perdb w)"
  "fst (snd (snd (wview w))) = p_dboid (data_perdb w)" "snd (snd (snd (wview w))) = unregistered (data_perdb w)"
  by (simp_all add: wview_def)

text \<open>A live process with its slot; \<open>t\<close> is the type it acquired the slot with.\<close>

definition live :: "worker_sys \<Rightarrow> nat \<Rightarrow> pgactiveWorkerType \<Rightarrow> bool" where
  "live w i t \<longleftrightarrow> pgactive_worker_slot (self w) = Some i \<and> pgactive_worker_type (self w) = t \<and>
     i < length (slots (ctl w)) \<and> fst (views (ctl w) ! i) = t"

lemma worker_exit_views:
  assumes "live w i t" "t \<noteq> pgactive_WORKER_EMPTY_SLOT" "pgactive_worker_exit w = (res, w')"
  shows "res = Inr () \<and> worker_generation (ctl w') = worker_generation (ctl w) \<and>
    views (ctl w') = (if t = pgactive_WORKER_PERDB \<and> snd (snd (snd (views (ctl w) ! i))) then views (ctl w)
      else if worker_slot_free_at_rel (self w) then (views (ctl w))[i := zero_view] else views (ctl w))"
  using assms
  by (auto simp: live_def pgactive_worker_exit_def pgactive_worker_shmem_release_def Let_def
      pgactive_worker_shmem_free_def map_update split: if_splits)

lemma unregister_views:
  assumes "live w i t" "t = pgactive_WORKER_PERDB \<or> t = pgactive_WORKER_APPLY"
  shows "\<exists>w'. pgactive_worker_unregister w = (Inr (ProcExit 0), w') \<and> worker_generation (ctl w') = worker_generation (ctl w) \<and>
    views (ctl w') = (if t = pgactive_WORKER_PERDB
      then (views (ctl w))[i := (t, fst (snd (views (ctl w) ! i)), fst (snd (snd (views (ctl w) ! i))), True)]
      else (views (ctl w))[i := zero_view])"
  using assms
  by (auto simp: live_def pgactive_worker_unregister_def proc_exit_def pgactive_worker_exit_def Let_def map_update
      pgactive_worker_shmem_release_def pgactive_worker_shmem_free_def wview_def)

lemma unregister_and_stop_views:
  assumes "live w i t" "t = pgactive_WORKER_PERDB \<or> t = pgactive_WORKER_APPLY"
  shows "\<exists>w'. unregister_and_stop w = (Inr (ProcExit 0), w') \<and> worker_generation (ctl w') = worker_generation (ctl w) \<and>
    views (ctl w') = (if t = pgactive_WORKER_PERDB
      then (views (ctl w))[i := (t, fst (snd (views (ctl w) ! i)), fst (snd (snd (views (ctl w) ! i))), True)]
      else (views (ctl w))[i := zero_view])"
  using unregister_views [OF assms] by (auto simp: unregister_and_stop_def)

text \<open>At most an empty slot was overwritten.\<close>

definition cleared :: "(pgactiveWorkerType \<times> u32 \<times> u32 \<times> bool) list \<Rightarrow> (pgactiveWorkerType \<times> u32 \<times> u32 \<times> bool) list \<Rightarrow> bool" where
  "cleared vs vs' \<longleftrightarrow> vs' = vs \<or> (\<exists>j < length vs. fst (vs ! j) = pgactive_WORKER_EMPTY_SLOT \<and> vs' = vs[j := zero_view])"

lemma clearedI: "j < length vs \<Longrightarrow> fst (vs ! j) = pgactive_WORKER_EMPTY_SLOT \<Longrightarrow> cleared vs (vs[j := zero_view])"
  by (auto simp: cleared_def)

lemma cleared_refl [simp]: "cleared vs vs"
  by (simp add: cleared_def)

lemma register_begin_views:
  assumes "register_perdb_begin registered started dbid w = (res, w')"
  shows "worker_generation (ctl w') = worker_generation (ctl w) \<and>
    (case res of Inr (Some i) \<Rightarrow> i < length (slots (ctl w)) \<and> fst (views (ctl w) ! i) = pgactive_WORKER_EMPTY_SLOT \<and>
       views (ctl w') = (views (ctl w))[i := (pgactive_WORKER_PERDB, dbid, 0, False)]
     | _ \<Rightarrow> cleared (views (ctl w)) (views (ctl w')))"
proof (cases "pgactive_worker_shmem_alloc pgactive_WORKER_PERDB (ctl w)")
  case (Pair r c)
  show ?thesis
  proof (cases r)
    case (Inl e)
    with Pair shmem_alloc_Inl [of pgactive_WORKER_PERDB "ctl w" e c] assms show ?thesis
      by (auto simp: register_perdb_begin_def on_ctl_def)
  next
    case (Inr j)
    note al = shmem_alloc_Inr [OF Pair [unfolded Inr]]
    have m: "on_ctl (pgactive_worker_shmem_alloc pgactive_WORKER_PERDB) w = (Inr j, w\<lparr>ctl := c\<rparr>)"
      by (simp add: on_ctl_def Pair Inr)
    have "cleared (views (ctl w)) ((views (ctl w))[j := zero_view])" using al by (intro clearedI) simp_all
    then show ?thesis
      using assms m al
      by (auto simp: register_perdb_begin_def pgactive_worker_shmem_free_def Let_def map_update wview_def split: if_splits)
  qed
qed

lemma start_apply_views:
  assumes "start_apply_worker register mydb target w = (res, w')"
  shows "worker_generation (ctl w') = worker_generation (ctl w) \<and>
    (case res of Inr _ \<Rightarrow> (\<exists>i < length (slots (ctl w)). fst (views (ctl w) ! i) = pgactive_WORKER_EMPTY_SLOT \<and>
        register (worker_main_arg (worker_generation (ctl w)) i) \<and>
        views (ctl w') = (views (ctl w))[i := (pgactive_WORKER_APPLY, 0, 0, False)])
     | Inl _ \<Rightarrow> cleared (views (ctl w)) (views (ctl w')))"
proof (cases "pgactive_worker_shmem_alloc pgactive_WORKER_APPLY (ctl w)")
  case (Pair r c)
  show ?thesis
  proof (cases r)
    case (Inl e)
    with Pair shmem_alloc_Inl [of pgactive_WORKER_APPLY "ctl w" e c] assms show ?thesis
      by (auto simp: start_apply_worker_def)
  next
    case (Inr j)
    note al = shmem_alloc_Inr [OF Pair [unfolded Inr]]
    have cl: "cleared (views (ctl w)) ((views (ctl w))[j := zero_view])" using al by (intro clearedI) simp_all
    show ?thesis
    proof (cases "register (worker_main_arg (worker_generation (ctl w)) j)")
      case True
      with assms Pair Inr al show ?thesis
        by (auto simp: start_apply_worker_def Let_def map_update wview_def intro!: exI [of _ j])
    next
      case False
      with assms Pair Inr al cl show ?thesis
        by (auto simp: start_apply_worker_def Let_def map_update wview_def)
    qed
  qed
qed

lemma walsender_attach_views:
  assumes "walsender_attach ws slot remote w = (Inr i, w')"
  shows "worker_generation (ctl w') = worker_generation (ctl w) \<and> i < length (slots (ctl w)) \<and>
    fst (views (ctl w) ! i) = pgactive_WORKER_EMPTY_SLOT \<and>
    views (ctl w') = (views (ctl w))[i := (pgactive_WORKER_WALSENDER, 0, 0, False)] \<and>
    pgactive_worker_slot (self w') = Some i \<and> pgactive_worker_type (self w') = pgactive_WORKER_WALSENDER"
proof (cases "pgactive_worker_shmem_alloc pgactive_WORKER_WALSENDER (ctl w)")
  case (Pair r c)
  with assms obtain j where r: "r = Inr j" and np: "\<not> worker_management_paused (ctl w)"
    by (cases r) (auto simp: walsender_attach_def on_ctl_def sbind_def split: if_splits)
  note al = shmem_alloc_Inr [OF Pair [unfolded r]]
  have m: "on_ctl (pgactive_worker_shmem_alloc pgactive_WORKER_WALSENDER) w = (Inr j, w\<lparr>ctl := c\<rparr>)"
    by (simp add: on_ctl_def Pair r)
  with assms al np show ?thesis
    by (auto simp: walsender_attach_def pgactive_worker_shmem_acquire_def map_update wview_def)
qed

text \<open>Only slots of unregistered per-database workers were freed.\<close>

definition freed :: "(pgactiveWorkerType \<times> u32 \<times> u32 \<times> bool) list \<Rightarrow> (pgactiveWorkerType \<times> u32 \<times> u32 \<times> bool) list \<Rightarrow> bool" where
  "freed vs vs' \<longleftrightarrow> length vs' = length vs \<and>
     (\<forall>j < length vs. vs' ! j = vs ! j \<or> fst (vs ! j) = pgactive_WORKER_PERDB \<and> snd (snd (snd (vs ! j))) \<and> vs' ! j = zero_view)"

lemma freed_trans: "freed a b \<Longrightarrow> freed b c \<Longrightarrow> freed a c"
proof -
  assume a: "freed a b" "freed b c"
  have "c ! j = a ! j \<or> fst (a ! j) = pgactive_WORKER_PERDB \<and> snd (snd (snd (a ! j))) \<and> c ! j = zero_view" if "j < length a" for j
  proof -
    from a that have "b ! j = a ! j \<or> fst (a ! j) = pgactive_WORKER_PERDB \<and> snd (snd (snd (a ! j))) \<and> b ! j = zero_view"
      and "c ! j = b ! j \<or> fst (b ! j) = pgactive_WORKER_PERDB \<and> snd (snd (snd (b ! j))) \<and> c ! j = zero_view"
      by (simp_all add: freed_def)
    then show ?thesis by (elim disjE conjE) simp_all
  qed
  with a show "freed a c" by (simp add: freed_def)
qed

lemma free_unregistered_views:
  assumes "free_unregistered_loop label ixs w = (res, w')" "pgactive_worker_slot (self w) = None"
    "\<forall>i \<in> set ixs. i < length (slots (ctl w))"
  shows "res = Inr () \<and> worker_generation (ctl w') = worker_generation (ctl w) \<and> freed (views (ctl w)) (views (ctl w'))"
  using assms
proof (induction ixs arbitrary: w)
  case (Cons i ixs)
  let ?v = "slots (ctl w) ! i"
  define w1 where "w1 = (if worker_type ?v = pgactive_WORKER_PERDB \<and> unregistered (data_perdb ?v) \<and> label (p_dboid (data_perdb ?v)) = None
     then w\<lparr>ctl := upd_slot i (\<lambda>_. zero_worker) (upd_slot i (upd_perdb (\<lambda>p. p\<lparr>unregistered := False\<rparr>)) (ctl w))\<rparr> else w)"
  have i: "i < length (slots (ctl w))" using Cons.prems(3) by simp
  have run: "free_unregistered_loop label ixs w1 = (res, w')"
    using Cons.prems(1,2) i
    by (auto simp: w1_def pgactive_worker_shmem_free_def Let_def split: if_splits)
  have w1: "pgactive_worker_slot (self w1) = None" "length (slots (ctl w1)) = length (slots (ctl w))"
      "worker_generation (ctl w1) = worker_generation (ctl w)" "freed (views (ctl w)) (views (ctl w1))"
    using Cons.prems(2) i by (auto simp: w1_def freed_def nth_upd)
  have "\<forall>i \<in> set ixs. i < length (slots (ctl w1))" using Cons.prems(3) w1(2) by simp
  from Cons.IH [OF run w1(1) this] w1(3) freed_trans [OF w1(4)] show ?case by simp
qed (simp add: freed_def)

lemma bgworker_finish_views:
  assumes "bgworker_finish env t dbid i nc w = (res, w')" "live w i t" "t = pgactive_WORKER_PERDB \<or> t = pgactive_WORKER_APPLY"
  shows "worker_generation (ctl w') = worker_generation (ctl w) \<and>
    (case res of Inr (ProcExit n) \<Rightarrow> n = 0 \<and> views (ctl w') = (if t = pgactive_WORKER_PERDB
        then (views (ctl w))[i := (t, fst (snd (views (ctl w) ! i)), fst (snd (snd (views (ctl w) ! i))), True)]
        else (views (ctl w))[i := zero_view])
     | _ \<Rightarrow> w' = w)"
proof -
  obtain u where u: "unregister_and_stop w = (Inr (ProcExit 0) :: worker_session running result, u)"
      "worker_generation (ctl u) = worker_generation (ctl w)"
      "views (ctl u) = (if t = pgactive_WORKER_PERDB
      then (views (ctl w))[i := (t, fst (snd (views (ctl w) ! i)), fst (snd (snd (views (ctl w) ! i))), True)]
      else (views (ctl w))[i := zero_view])"
    using unregister_and_stop_views [OF assms(2,3)] by blast
  show ?thesis
    using assms(1) u
    by (cases "pgactive_nodes_get_local_status (bi_spi env) (bi_nodes env) (pgactive_make_my_nodeid (bi_nid env) dbid) True";
        cases "bi_maintain_schema env")
       (auto simp: bgworker_finish_def sseq_def sbind_def split: if_splits prod.splits sum.splits simp del: node_status_code.simps)
qed

lemma bgworker_init_views:
  assumes run: "pgactive_bgworker_init env arg t nc w = (res, w')"
    and g: "arg_generation arg = worker_generation (ctl w)" and i: "unat (arg_slot arg) = i"
      "i < length (slots (ctl w))" "fst (views (ctl w) ! i) = t"
    and t: "t = pgactive_WORKER_PERDB \<or> t = pgactive_WORKER_APPLY"
    and u: "t = pgactive_WORKER_PERDB \<Longrightarrow> \<not> snd (snd (snd (views (ctl w) ! i)))"
  shows "worker_generation (ctl w') = worker_generation (ctl w) \<and>
    (case res of Inr (ProcExit n) \<Rightarrow> n = 0 \<and> views (ctl w') = (if t = pgactive_WORKER_PERDB
        then (views (ctl w))[i := (t, fst (snd (views (ctl w) ! i)), fst (snd (snd (views (ctl w) ! i))), True)]
        else (views (ctl w))[i := zero_view])
     | Inl _ \<Rightarrow> views (ctl w') = views (ctl w) \<and> live w' i t \<and> \<not> worker_slot_free_at_rel (self w')
     | Inr (Continue _) \<Rightarrow> views (ctl w') = views (ctl w) \<and> live w' i t \<and> \<not> worker_slot_free_at_rel (self w') \<and>
         (t = pgactive_WORKER_PERDB \<longrightarrow> MyDatabaseId (self w') = fst (snd (views (ctl w) ! i))))"
proof -
  define F where "F = (if t = pgactive_WORKER_PERDB then upd_perdb (\<lambda>p. p\<lparr>unregistered := False\<rparr>)
    else upd_apply (\<lambda>a. a\<lparr>last_applied_xact_id := 0, last_applied_xact_committs := 0, last_applied_xact_at := 0\<rparr>))"
  define w2 where "w2 = w\<lparr>self := (self w)\<lparr>pgactive_worker_slot := Some i, pgactive_worker_type := t, worker_slot_free_at_rel := False\<rparr>,
     ctl := upd_slot i F (ctl w)\<rparr>"
  define dbid where "dbid = (if t = pgactive_WORKER_PERDB then c_dboid (data_perdb (slots (ctl w2) ! i))
     else apply_dboid (data_apply (slots (ctl w2) ! i)))"
  define w3 where "w3 = w2\<lparr>self := (self w2)\<lparr>MyDatabaseId := dbid\<rparr>, ctl := upd_slot i (\<lambda>v. v\<lparr>worker_pid := MyProcPid (self w2),
     worker_proc := Some \<lparr>proc_pid = MyProcPid (self w2), proc_databaseId = dbid\<rparr>\<rparr>) (ctl w2)\<rparr>"
  have F: "wview (F (slots (ctl w) ! i)) = wview (slots (ctl w) ! i)"
    using t u i by (auto simp: F_def wview_def)
  have v2: "views (ctl w2) = views (ctl w)" by (simp add: w2_def map_update F)
  have v3: "views (ctl w3) = views (ctl w)" using v2 views_same [of "\<lambda>v. v\<lparr>worker_pid := MyProcPid (self w2),
     worker_proc := Some \<lparr>proc_pid = MyProcPid (self w2), proc_databaseId = dbid\<rparr>\<rparr>"] by (simp add: w3_def)
  have l: "live w2 i t" "live w3 i t" "\<not> worker_slot_free_at_rel (self w2)" "\<not> worker_slot_free_at_rel (self w3)"
    "worker_generation (ctl w2) = worker_generation (ctl w)" "worker_generation (ctl w3) = worker_generation (ctl w)"
    using i v2 v3 by (simp_all add: live_def w2_def w3_def)
  have my: "t = pgactive_WORKER_PERDB \<Longrightarrow> MyDatabaseId (self w3) = fst (snd (views (ctl w) ! i))"
    using i v2 by (simp add: w3_def dbid_def w2_def F_def)
  have eval: "pgactive_bgworker_init env arg t nc w = (case bi_connect env of Inl e \<Rightarrow> (Inl e, w2)
     | Inr _ \<Rightarrow> (if bi_schema_oid env \<noteq> InvalidOid \<and> bi_extension_oid env = InvalidOid \<or> bi_nid_getter env = InvalidOid
               then unregister_and_stop w3 else bgworker_finish env t dbid i nc w3))"
    using t g i
    by (auto simp: pgactive_bgworker_init_def Let_def pgactive_worker_shmem_acquire_def w2_def w3_def dbid_def F_def
        sseq_def sbind_def split: sum.split)
  show ?thesis
  proof (cases "bi_connect env")
    case (Inl e)
    with run eval v2 l show ?thesis by auto
  next
    case (Inr x)
    show ?thesis
    proof (cases "bi_schema_oid env \<noteq> InvalidOid \<and> bi_extension_oid env = InvalidOid \<or> bi_nid_getter env = InvalidOid")
      case True
      with run eval Inr have "unregister_and_stop w3 = (res, w')" by simp
      moreover obtain u where "unregister_and_stop w3 = (Inr (ProcExit 0) :: worker_session running result, u)"
          "worker_generation (ctl u) = worker_generation (ctl w3)" "views (ctl u) = (if t = pgactive_WORKER_PERDB
            then (views (ctl w3))[i := (t, fst (snd (views (ctl w3) ! i)), fst (snd (snd (views (ctl w3) ! i))), True)]
            else (views (ctl w3))[i := zero_view])"
        using unregister_and_stop_views [OF l(2) t] by blast
      ultimately show ?thesis using l v3 by auto
    next
      case False
      with run eval Inr have fin: "bgworker_finish env t dbid i nc w3 = (res, w')" by simp
      from bgworker_finish_views [OF fin l(2) t] v3 l my show ?thesis
        by (auto split: sum.splits running.splits)
    qed
  qed
qed

lemma bgworker_init_stale:
  assumes "arg_generation arg \<noteq> worker_generation (ctl w)" "unat (arg_generation arg) \<le> unat (worker_generation (ctl w))"
    "fresh_process (self w)"
  shows "pgactive_bgworker_init env arg t nc w = (Inr (ProcExit 0), w)"
  using assms by (auto simp: pgactive_bgworker_init_def Let_def fresh_process_def proc_exit_def pgactive_worker_exit_def
      pgactive_worker_shmem_release_def)

section \<open>The invariant\<close>

type_synonym view = "pgactiveWorkerType \<times> u32 \<times> u32 \<times> bool"

abbreviation cur :: "u16 \<Rightarrow> bgw_reg \<Rightarrow> bool" where
  "cur g r \<equiv> arg_generation (reg_arg r) = g"

abbreviation rslot :: "bgw_reg \<Rightarrow> nat" where
  "rslot r \<equiv> unat (arg_slot (reg_arg r))"

definition proc_ok :: "view list \<Rightarrow> bgw_reg \<Rightarrow> worker_process \<Rightarrow> bool" where
  "proc_ok vs r p \<longleftrightarrow> pgactive_worker_slot p = Some (rslot r) \<and> pgactive_worker_type p = reg_type r \<and>
     (reg_type r \<noteq> pgactive_WORKER_WALSENDER \<longrightarrow> \<not> worker_slot_free_at_rel p) \<and>
     (reg_type r = pgactive_WORKER_PERDB \<longrightarrow> MyDatabaseId p = fst (snd (vs ! rslot r)))"

text \<open>The slot of a registration of the running generation.\<close>

definition slot_ok :: "view list \<Rightarrow> sup_state \<Rightarrow> bgw_reg \<Rightarrow> bool" where
  "slot_ok vs u r \<longleftrightarrow> rslot r < length vs \<and>
     (case vs ! rslot r of (t, c, p, d) \<Rightarrow> t = reg_type r \<and>
        (t = pgactive_WORKER_PERDB \<longrightarrow> \<not> d \<and> c \<noteq> 0 \<and> (p = c \<or> p = 0 \<and> (\<exists>dbs. u = SupWait c (rslot r) dbs))))"

definition reg_ok :: "view list \<Rightarrow> u16 \<Rightarrow> sup_state \<Rightarrow> bgw_reg \<Rightarrow> bool" where
  "reg_ok vs g u r \<longleftrightarrow> reg_type r \<noteq> pgactive_WORKER_EMPTY_SLOT \<and> unat (arg_generation (reg_arg r)) \<le> unat g \<and>
     (cur g r \<longrightarrow> slot_ok vs u r) \<and> (\<forall>p. reg_proc r = Some p \<longrightarrow> cur g r \<and> proc_ok vs r p)"

definition own_dbs :: "view list \<Rightarrow> bool" where
  "own_dbs vs \<longleftrightarrow> (\<forall>i < length vs. \<forall>j < length vs. fst (vs ! i) = pgactive_WORKER_PERDB \<and> fst (vs ! j) = pgactive_WORKER_PERDB \<and>
     fst (snd (snd (vs ! i))) = fst (snd (snd (vs ! j))) \<and> fst (snd (snd (vs ! i))) \<noteq> 0 \<longrightarrow> i = j)"

fun wait_ok :: "view list \<Rightarrow> sup_state \<Rightarrow> bool" where
  "wait_ok vs SupIdle = True"
| "wait_ok vs (SupScan dbs) = (0 \<notin> set dbs)"
| "wait_ok vs (SupWait dbid i dbs) = (0 \<notin> set dbs \<and> dbid \<noteq> 0 \<and> i < length vs \<and> fst (vs ! i) = pgactive_WORKER_PERDB \<and>
     fst (snd (vs ! i)) = dbid \<and> (\<forall>j < length vs. j \<noteq> i \<and> fst (vs ! j) = pgactive_WORKER_PERDB \<longrightarrow> fst (snd (snd (vs ! j))) \<noteq> dbid))"

definition apart :: "u16 \<Rightarrow> (nat \<Rightarrow> bgw_reg option) \<Rightarrow> bool" where
  "apart g R \<longleftrightarrow> (\<forall>k l r q. R k = Some r \<and> R l = Some q \<and> cur g r \<and> cur g q \<and> rslot r = rslot q \<longrightarrow> k = l)"

definition vinv :: "view list \<Rightarrow> u16 \<Rightarrow> (nat \<Rightarrow> bgw_reg option) \<Rightarrow> sup_state \<Rightarrow> bool" where
  "vinv vs g R u \<longleftrightarrow> length vs \<le> 65536 \<and> (\<forall>k r. R k = Some r \<longrightarrow> reg_ok vs g u r) \<and> apart g R \<and> own_dbs vs \<and> wait_ok vs u"

lemma vinv_drop: "vinv vs g R u \<Longrightarrow> vinv vs g (R(k := None)) u"
  by (auto simp: vinv_def apart_def)

lemma vinv_reg: "vinv vs g R u \<Longrightarrow> R k = Some r \<Longrightarrow> reg_ok vs g u r"
  by (simp add: vinv_def)

lemma vinv_add:
  assumes "vinv vs g R u" "reg_ok vs g u r" "\<And>l q. R l = Some q \<Longrightarrow> l \<noteq> k \<Longrightarrow> cur g q \<Longrightarrow> cur g r \<Longrightarrow> rslot q \<noteq> rslot r"
  shows "vinv vs g (R(k \<mapsto> r)) u"
proof -
  have "apart g (R(k \<mapsto> r))"
    unfolding apart_def
  proof (intro allI impI)
    fix a b x y
    assume h: "(R(k \<mapsto> r)) a = Some x \<and> (R(k \<mapsto> r)) b = Some y \<and> cur g x \<and> cur g y \<and> rslot x = rslot y"
    show "a = b"
    proof (cases "a = k"; cases "b = k")
      assume "a = k" "b \<noteq> k"
      with h assms(3) [of b y] show ?thesis by simp
    next
      assume "a \<noteq> k" "b = k"
      with h assms(3) [of a x] show ?thesis by simp
    next
      assume "a \<noteq> k" "b \<noteq> k"
      with h assms(1) show ?thesis by (simp add: vinv_def apart_def)
    qed simp
  qed
  with assms(1,2) show ?thesis by (simp add: vinv_def)
qed

lemma vinv_proc:
  assumes "vinv vs g R u" "R k = Some r" "\<And>p. x = Some p \<Longrightarrow> cur g r \<and> proc_ok vs (r\<lparr>reg_proc := x\<rparr>) p"
  shows "vinv vs g (R(k \<mapsto> r\<lparr>reg_proc := x\<rparr>)) u"
proof (rule vinv_add [OF assms(1)])
  show "reg_ok vs g u (r\<lparr>reg_proc := x\<rparr>)"
    using vinv_reg [OF assms(1,2)] assms(3) by (auto simp: reg_ok_def slot_ok_def)
  show "rslot q \<noteq> rslot (r\<lparr>reg_proc := x\<rparr>)"
    if "R l = Some q" "l \<noteq> k" "cur g q" "cur g (r\<lparr>reg_proc := x\<rparr>)" for l q
    using that assms(1,2) by (auto simp: vinv_def apart_def)
qed

lemma reg_ok_other:
  assumes "reg_ok vs g u r" "cur g r \<Longrightarrow> rslot r \<noteq> j"
  shows "reg_ok (vs[j := v]) g u r"
  using assms by (auto simp: reg_ok_def slot_ok_def proc_ok_def)

lemma vinv_upd:
  assumes "vinv vs g R u" "\<And>k r. R k = Some r \<Longrightarrow> cur g r \<Longrightarrow> rslot r = j \<Longrightarrow> reg_ok (vs[j := v]) g u r"
    "own_dbs (vs[j := v])" "wait_ok (vs[j := v]) u"
  shows "vinv (vs[j := v]) g R u"
proof -
  have "reg_ok (vs[j := v]) g u r" if "R k = Some r" for k r
    using vinv_reg [OF assms(1) that] assms(2) [OF that] reg_ok_other by (cases "cur g r \<and> rslot r = j") blast+
  with assms show ?thesis by (simp add: vinv_def)
qed

lemma own_dbs_upd:
  assumes "own_dbs vs" "fst v = pgactive_WORKER_PERDB \<Longrightarrow> fst (snd (snd v)) \<noteq> 0 \<Longrightarrow>
    \<forall>i < length vs. i \<noteq> j \<and> fst (vs ! i) = pgactive_WORKER_PERDB \<longrightarrow> fst (snd (snd (vs ! i))) \<noteq> fst (snd (snd v))"
  shows "own_dbs (vs[j := v])"
  unfolding own_dbs_def
proof (intro allI impI)
  fix a b
  assume a: "a < length (vs[j := v])" and b: "b < length (vs[j := v])"
    and h: "fst (vs[j := v] ! a) = pgactive_WORKER_PERDB \<and> fst (vs[j := v] ! b) = pgactive_WORKER_PERDB \<and>
       fst (snd (snd (vs[j := v] ! a))) = fst (snd (snd (vs[j := v] ! b))) \<and> fst (snd (snd (vs[j := v] ! a))) \<noteq> 0"
  show "a = b"
  proof (cases "a = j"; cases "b = j")
    assume "a = j" "b \<noteq> j"
    with a b h assms(2) show ?thesis by auto
  next
    assume "a \<noteq> j" "b = j"
    with a b h assms(2) show ?thesis by auto
  next
    assume "a \<noteq> j" "b \<noteq> j"
    with a b h assms(1) show ?thesis by (auto simp: own_dbs_def)
  qed simp
qed

lemma wait_ok_upd:
  assumes "wait_ok vs u" "\<And>dbid dbs. u = SupWait dbid j dbs \<Longrightarrow> fst v = pgactive_WORKER_PERDB \<and> fst (snd v) = dbid"
    "\<And>dbid i dbs. u = SupWait dbid i dbs \<Longrightarrow> i \<noteq> j \<Longrightarrow> fst v = pgactive_WORKER_PERDB \<Longrightarrow> fst (snd (snd v)) \<noteq> dbid"
  shows "wait_ok (vs[j := v]) u"
proof (cases u)
  case (SupWait dbid i dbs)
  show ?thesis
  proof (cases "i = j")
    case True
    with SupWait assms(1,2) show ?thesis by auto
  next
    case False
    with SupWait assms(1,3) show ?thesis by (auto simp: nth_upd)
  qed
qed (use assms(1) in auto)

text \<open>A slot no running registration uses can be rewritten.\<close>

lemma vinv_unused:
  assumes "vinv vs g R u" "\<And>k r. R k = Some r \<Longrightarrow> cur g r \<Longrightarrow> rslot r \<noteq> j" "fst (snd (snd v)) = 0 \<or> fst v \<noteq> pgactive_WORKER_PERDB"
    "\<And>dbid dbs. u = SupWait dbid j dbs \<Longrightarrow> fst v = pgactive_WORKER_PERDB \<and> fst (snd v) = dbid"
  shows "vinv (vs[j := v]) g R u"
proof (rule vinv_upd [OF assms(1)])
  show "own_dbs (vs[j := v])" using assms(1,3) by (intro own_dbs_upd) (auto simp: vinv_def)
  have "wait_ok vs u" using assms(1) by (simp add: vinv_def)
  then show "wait_ok (vs[j := v]) u" using assms(3,4) by (intro wait_ok_upd) (auto simp: vinv_def)
qed (use assms(2) in blast)

lemma reg_slot:
  assumes "vinv vs g R u" "R k = Some r" "cur g r"
  shows "rslot r < length vs" "fst (vs ! rslot r) = reg_type r" "reg_type r \<noteq> pgactive_WORKER_EMPTY_SLOT"
    "reg_type r = pgactive_WORKER_PERDB \<Longrightarrow> \<not> snd (snd (snd (vs ! rslot r))) \<and> fst (snd (vs ! rslot r)) \<noteq> 0 \<and>
      (fst (snd (snd (vs ! rslot r))) = fst (snd (vs ! rslot r)) \<or>
       fst (snd (snd (vs ! rslot r))) = 0 \<and> (\<exists>dbs. u = SupWait (fst (snd (vs ! rslot r))) (rslot r) dbs))"
  using vinv_reg [OF assms(1,2)] assms(3) by (auto simp: reg_ok_def slot_ok_def)

lemma empty_unused:
  assumes "vinv vs g R u" "fst (vs ! j) = pgactive_WORKER_EMPTY_SLOT"
  shows "R k = Some r \<Longrightarrow> cur g r \<Longrightarrow> rslot r \<noteq> j" "u \<noteq> SupWait dbid j dbs"
proof -
  show "rslot r \<noteq> j" if "R k = Some r" "cur g r" using reg_slot [OF assms(1) that] assms(2) by auto
  show "u \<noteq> SupWait dbid j dbs" using assms by (auto simp: vinv_def)
qed

lemma dropped_unused:
  assumes "vinv vs g R u" "R k = Some r" "cur g r" "(R(k := None)) l = Some q" "cur g q"
  shows "rslot q \<noteq> rslot r"
  using assms by (auto simp: vinv_def apart_def split: if_splits)

lemma vinv_cleared:
  assumes "vinv vs g R u" "cleared vs vs'"
  shows "vinv vs' g R u"
proof (cases "vs' = vs")
  case False
  with assms(2) obtain j where j: "fst (vs ! j) = pgactive_WORKER_EMPTY_SLOT" "vs' = vs[j := zero_view]"
    by (auto simp: cleared_def)
  note e = empty_unused [OF assms(1) j(1)]
  show ?thesis unfolding j(2) by (rule vinv_unused [OF assms(1)]) (use e in auto)
qed (use assms in simp)

text \<open>The supervisor may move on when no registration depends on its waiting.\<close>

lemma vinv_sup:
  assumes "vinv vs g R u" "wait_ok vs u'"
    "\<And>dbid i dbs. u = SupWait dbid i dbs \<Longrightarrow> fst (snd (snd (vs ! i))) \<noteq> 0"
  shows "vinv vs g R u'"
proof -
  have "reg_ok vs g u' r" if "R k = Some r" for k r
    using vinv_reg [OF assms(1) that] assms(3) by (auto simp: reg_ok_def slot_ok_def)
  with assms(1,2) show ?thesis by (simp add: vinv_def)
qed

lemma vinv_retire:
  assumes I: "vinv vs g R u" and r: "R k = Some r" "cur g r" "reg_type r = pgactive_WORKER_PERDB"
    and v: "fst v = pgactive_WORKER_PERDB" "fst (snd v) = fst (snd (vs ! rslot r))"
      "fst (snd (snd v)) = 0 \<or> fst (snd (snd v)) = fst (snd (snd (vs ! rslot r)))"
  shows "vinv (vs[rslot r := v]) g (R(k := None)) u"
proof (rule vinv_upd [OF vinv_drop [OF I]])
  note s = reg_slot [OF I r(1,2)]
  show "own_dbs (vs[rslot r := v])"
    using I s(1,2) r(3) v by (intro own_dbs_upd) (auto simp: vinv_def own_dbs_def)
  have w: "wait_ok vs u" using I by (simp add: vinv_def)
  show "wait_ok (vs[rslot r := v]) u"
    using w s(1,2) r(3) v by (intro wait_ok_upd) auto
qed (use dropped_unused [OF I r(1,2)] in blast)

lemma vinv_attach:
  assumes I: "vinv vs g R u" and r: "R k = Some r" "cur g r" "reg_type r = pgactive_WORKER_PERDB"
  shows "vinv (vs[rslot r := (pgactive_WORKER_PERDB, fst (snd (vs ! rslot r)), fst (snd (vs ! rslot r)), False)]) g R u"
    (is "vinv (vs[?j := ?v]) g R u")
proof (rule vinv_upd [OF I])
  note s = reg_slot [OF I r(1,2)]
  have w: "wait_ok vs u" and o: "own_dbs vs" using I by (simp_all add: vinv_def)
  have other: "\<forall>i < length vs. i \<noteq> ?j \<and> fst (vs ! i) = pgactive_WORKER_PERDB \<longrightarrow> fst (snd (snd (vs ! i))) \<noteq> fst (snd (vs ! ?j))"
    using s(4) [OF r(3)]
  proof (elim conjE disjE)
    assume "fst (snd (snd (vs ! ?j))) = fst (snd (vs ! ?j))" "fst (snd (vs ! ?j)) \<noteq> 0"
    with o s(1,2) r(3) show ?thesis unfolding own_dbs_def by metis
  next
    assume "\<exists>dbs. u = SupWait (fst (snd (vs ! ?j))) ?j dbs"
    with w show ?thesis by auto
  qed
  then show "own_dbs (vs[?j := ?v])" using o by (intro own_dbs_upd) auto
  show "wait_ok (vs[?j := ?v]) u"
  proof (rule wait_ok_upd [OF w])
    fix dbid i dbs
    assume u: "u = SupWait dbid i dbs" "i \<noteq> ?j"
    with w s(1,2) r(3) have "fst (snd (snd (vs ! ?j))) \<noteq> dbid" by auto
    moreover have "fst (snd (snd (vs ! ?j))) = fst (snd (vs ! ?j))" using s(4) [OF r(3)] u by auto
    ultimately show "fst (snd (snd ?v)) \<noteq> dbid" by simp
  qed (use w s in auto)
  fix l q
  assume q: "R l = Some q" "cur g q" "rslot q = ?j"
  with I r(1,2) have "l = k" unfolding vinv_def apart_def by metis
  with q r have "q = r" by simp
  with vinv_reg [OF I r(1)] s r show "reg_ok (vs[?j := ?v]) g u q"
    by (auto simp: reg_ok_def slot_ok_def proc_ok_def)
qed

lemma vinv_freed:
  assumes I: "vinv vs g R (SupScan dbs)" and f: "freed vs vs'"
  shows "vinv vs' g R SupIdle"
proof -
  have at: "vs' ! i = vs ! i \<or> fst (vs ! i) = pgactive_WORKER_PERDB \<and> snd (snd (snd (vs ! i))) \<and> vs' ! i = zero_view"
    if "i < length vs" for i using f that by (simp add: freed_def)
  have len: "length vs' = length vs" using f by (simp add: freed_def)
  have "reg_ok vs' g SupIdle r" if r: "R k = Some r" for k r
  proof (cases "cur g r")
    case True
    note s = reg_slot [OF I r True]
    have "vs' ! rslot r = vs ! rslot r" using at [OF s(1)] s(2,4) by auto
    with vinv_reg [OF I r] len True show ?thesis by (auto simp: reg_ok_def slot_ok_def proc_ok_def)
  next
    case False
    with vinv_reg [OF I r] show ?thesis by (auto simp: reg_ok_def)
  qed
  moreover have "own_dbs vs'"
    unfolding own_dbs_def
  proof (intro allI impI)
    fix i j
    assume ij: "i < length vs'" "j < length vs'" and h: "fst (vs' ! i) = pgactive_WORKER_PERDB \<and> fst (vs' ! j) = pgactive_WORKER_PERDB \<and>
      fst (snd (snd (vs' ! i))) = fst (snd (snd (vs' ! j))) \<and> fst (snd (snd (vs' ! i))) \<noteq> 0"
    with at [of i] at [of j] len have "vs' ! i = vs ! i" "vs' ! j = vs ! j" by auto
    with h ij len I show "i = j" by (auto simp: vinv_def own_dbs_def)
  qed
  ultimately show ?thesis using I len by (simp add: vinv_def)
qed

lemma vinv_alloc:
  assumes I: "vinv vs g R u" and j: "j < length vs" "fst (vs ! j) = pgactive_WORKER_EMPTY_SLOT"
    and r: "reg_arg r = worker_main_arg g j" "reg_type r = t" "\<And>p. reg_proc r = Some p \<Longrightarrow> proc_ok (vs[j := (t, 0, 0, False)]) r p"
    and t: "t \<noteq> pgactive_WORKER_EMPTY_SLOT" "t \<noteq> pgactive_WORKER_PERDB"
  shows "vinv (vs[j := (t, 0, 0, False)]) g (R(k \<mapsto> r)) u"
proof (rule vinv_add)
  note e = empty_unused [OF I j(2)]
  show "vinv (vs[j := (t, 0, 0, False)]) g R u"
    by (rule vinv_unused [OF I]) (use e t in auto)
  have "j < 65536" using I j(1) by (simp add: vinv_def)
  then have a: "arg_generation (reg_arg r) = g" "rslot r = j"
    by (simp_all add: r arg_generation_main_arg arg_slot_main_arg)
  with r j t show "reg_ok (vs[j := (t, 0, 0, False)]) g u r"
    by (auto simp: reg_ok_def slot_ok_def)
  show "rslot q \<noteq> rslot r" if "R l = Some q" "cur g q" for l q
    using e(1) [OF that] a(2) by simp
qed

lemma vinv_alloc_perdb:
  assumes I: "vinv vs g R (SupScan (dbid # dbs))" and j: "j < length vs" "fst (vs ! j) = pgactive_WORKER_EMPTY_SLOT"
    and r: "reg_arg r = worker_main_arg g j" "reg_type r = pgactive_WORKER_PERDB" "reg_proc r = None"
    and new: "\<forall>i < length vs. fst (vs ! i) = pgactive_WORKER_PERDB \<longrightarrow> fst (snd (snd (vs ! i))) \<noteq> dbid"
  shows "vinv (vs[j := (pgactive_WORKER_PERDB, dbid, 0, False)]) g (R(k \<mapsto> r)) (SupWait dbid j dbs)"
    (is "vinv ?vs' g _ ?u")
proof (rule vinv_add)
  note e = empty_unused [OF I j(2)]
  have d: "dbid \<noteq> 0" "0 \<notin> set dbs" using I by (auto simp: vinv_def)
  have 1: "vinv ?vs' g R (SupScan (dbid # dbs))"
    by (rule vinv_unused [OF I]) (use e in auto)
  have w: "wait_ok ?vs' ?u" using d j new by (auto simp: nth_upd)
  show "vinv ?vs' g R ?u"
    by (rule vinv_sup [OF 1 w]) simp
  have "j < 65536" using I j(1) by (simp add: vinv_def)
  then have a: "arg_generation (reg_arg r) = g" "rslot r = j"
    by (simp_all add: r arg_generation_main_arg arg_slot_main_arg)
  with r j d show "reg_ok ?vs' g ?u r"
    by (auto simp: reg_ok_def slot_ok_def)
  show "rslot q \<noteq> rslot r" if "R l = Some q" "cur g q" for l q
    using e(1) [OF that] a(2) by simp
qed

lemma vinv_restart:
  assumes "vinv vs g R u" "g \<noteq> - 1" "n \<le> 65536"
  shows "vinv (replicate n zero_view) (g + 1) (\<lambda>k. case R k of None \<Rightarrow> None
      | Some r \<Rightarrow> if reg_type r = pgactive_WORKER_WALSENDER then None else Some (r\<lparr>reg_proc := None\<rparr>)) SupIdle"
    (is "vinv _ _ ?R _")
proof -
  have g: "unat (g + 1) = Suc (unat g)" using unatSuc [of g] assms(2) by (simp add: add.commute eq_neg_iff_add_eq_0)
  have old: "unat (arg_generation (reg_arg r)) < unat (g + 1) \<and> reg_type r \<noteq> pgactive_WORKER_EMPTY_SLOT \<and> reg_proc r = None"
    if "?R k = Some r" for k r
    using that assms(1) g by (auto simp: vinv_def reg_ok_def less_Suc_eq_le split: option.splits if_splits)
  then have "\<forall>k r. ?R k = Some r \<longrightarrow> \<not> cur (g + 1) r" by force
  with old show ?thesis using assms(3) by (auto simp: vinv_def reg_ok_def apart_def own_dbs_def less_imp_le)
qed

definition winv :: "bgw_system \<Rightarrow> bool" where
  "winv s \<longleftrightarrow> worker_generation (bs_ctl s) = bs_gen s \<and> vinv (views (bs_ctl s)) (bs_gen s) (regs s) (sup s)"

lemma winv_init: "winit s \<Longrightarrow> winv s"
proof -
  assume i: "winit s"
  then obtain n where "n \<le> 65536" "bs_ctl s = \<lparr>worker_generation = bs_gen s, pause_apply = False, is_supervisor_restart = False,
       worker_management_paused = False, supervisor_latch = None, slots = replicate n zero_worker\<rparr>"
    by (auto simp: winit_def pgactive_worker_shmem_startup_def split: if_splits)
  with i show ?thesis by (simp add: winit_def winv_def vinv_def own_dbs_def apart_def)
qed

lemma winv_live:
  assumes "winv s" "regs s k = Some r" "reg_proc r = Some p"
  shows "cur (bs_gen s) r" "live (with_self s p) (rslot r) (reg_type r)" "proc_ok (views (bs_ctl s)) r p"
proof -
  have I: "vinv (views (bs_ctl s)) (bs_gen s) (regs s) (sup s)" using assms(1) by (simp add: winv_def)
  from vinv_reg [OF I assms(2)] assms(3) show c: "cur (bs_gen s) r" and p: "proc_ok (views (bs_ctl s)) r p"
    by (simp_all add: reg_ok_def)
  from reg_slot [OF I assms(2) c] p show "live (with_self s p) (rslot r) (reg_type r)"
    by (auto simp: live_def proc_ok_def)
qed

section \<open>The protocol of the slots\<close>

text \<open>
  What a step may do to the views, the generation, the registrations and the supervisor.  Every
  step of the system is one of these, and each of these keeps the invariant.
\<close>

inductive vstep :: "view list \<times> u16 \<times> (nat \<Rightarrow> bgw_reg option) \<times> sup_state \<Rightarrow>
    view list \<times> u16 \<times> (nat \<Rightarrow> bgw_reg option) \<times> sup_state \<Rightarrow> bool" where
  v_clear: "cleared vs vs' \<Longrightarrow> vstep (vs, g, R, u) (vs', g, R, u)"
| v_scan: "cleared vs vs' \<Longrightarrow> (\<And>dbid i dbs. u \<noteq> SupWait dbid i dbs) \<Longrightarrow> u' = SupIdle \<or> (\<exists>dbs. u' = SupScan dbs \<and> 0 \<notin> set dbs) \<Longrightarrow>
    vstep (vs, g, R, u) (vs', g, R, u')"
| v_poll: "fst (snd (snd (vs ! i))) = dbid \<Longrightarrow> vstep (vs, g, R, SupWait dbid i dbs) (vs, g, R, SupScan dbs)"
| v_freed: "freed vs vs' \<Longrightarrow> vstep (vs, g, R, SupScan []) (vs', g, R, SupIdle)"
| v_perdb: "j < length vs \<Longrightarrow> fst (vs ! j) = pgactive_WORKER_EMPTY_SLOT \<Longrightarrow> reg_arg r = worker_main_arg g j \<Longrightarrow>
    reg_type r = pgactive_WORKER_PERDB \<Longrightarrow> reg_proc r = None \<Longrightarrow>
    \<forall>i < length vs. fst (vs ! i) = pgactive_WORKER_PERDB \<longrightarrow> fst (snd (snd (vs ! i))) \<noteq> dbid \<Longrightarrow>
    vstep (vs, g, R, SupScan (dbid # dbs)) (vs[j := (pgactive_WORKER_PERDB, dbid, 0, False)], g, R(k \<mapsto> r), SupWait dbid j dbs)"
| v_alloc: "j < length vs \<Longrightarrow> fst (vs ! j) = pgactive_WORKER_EMPTY_SLOT \<Longrightarrow> reg_arg r = worker_main_arg g j \<Longrightarrow> reg_type r = t \<Longrightarrow>
    (\<And>p. reg_proc r = Some p \<Longrightarrow> proc_ok (vs[j := (t, 0, 0, False)]) r p) \<Longrightarrow>
    t \<noteq> pgactive_WORKER_EMPTY_SLOT \<Longrightarrow> t \<noteq> pgactive_WORKER_PERDB \<Longrightarrow>
    vstep (vs, g, R, u) (vs[j := (t, 0, 0, False)], g, R(k \<mapsto> r), u)"
| v_proc: "R k = Some r \<Longrightarrow> (\<And>p. x = Some p \<Longrightarrow> cur g r \<and> proc_ok vs (r\<lparr>reg_proc := x\<rparr>) p) \<Longrightarrow>
    vstep (vs, g, R, u) (vs, g, R(k \<mapsto> r\<lparr>reg_proc := x\<rparr>), u)"
| v_drop: "vstep (vs, g, R, u) (vs, g, R(k := None), u)"
| v_zero: "R k = Some r \<Longrightarrow> cur g r \<Longrightarrow> reg_type r \<noteq> pgactive_WORKER_PERDB \<Longrightarrow>
    vstep (vs, g, R, u) (vs[rslot r := zero_view], g, R(k := None), u)"
| v_retire: "R k = Some r \<Longrightarrow> cur g r \<Longrightarrow> reg_type r = pgactive_WORKER_PERDB \<Longrightarrow>
    fst v = pgactive_WORKER_PERDB \<Longrightarrow> fst (snd v) = fst (snd (vs ! rslot r)) \<Longrightarrow>
    fst (snd (snd v)) = 0 \<or> fst (snd (snd v)) = fst (snd (snd (vs ! rslot r))) \<Longrightarrow>
    vstep (vs, g, R, u) (vs[rslot r := v], g, R(k := None), u)"
| v_attach: "R k = Some r \<Longrightarrow> cur g r \<Longrightarrow> reg_type r = pgactive_WORKER_PERDB \<Longrightarrow>
    vstep (vs, g, R, u) (vs[rslot r := (pgactive_WORKER_PERDB, fst (snd (vs ! rslot r)), fst (snd (vs ! rslot r)), False)], g, R, u)"
| v_reap: "fst (vs ! j) = pgactive_WORKER_APPLY \<Longrightarrow> (\<And>k r. R k = Some r \<Longrightarrow> cur g r \<Longrightarrow> rslot r \<noteq> j) \<Longrightarrow>
    vstep (vs, g, R, u) (vs[j := zero_view], g, R, u)"
| v_restart: "g \<noteq> - 1 \<Longrightarrow> n = length vs \<Longrightarrow> vstep (vs, g, R, u) (replicate n zero_view, g + 1, (\<lambda>k. case R k of None \<Rightarrow> None
      | Some r \<Rightarrow> if reg_type r = pgactive_WORKER_WALSENDER then None else Some (r\<lparr>reg_proc := None\<rparr>)), SupIdle)"

definition protocol_state :: "bgw_system \<Rightarrow> view list \<times> u16 \<times> (nat \<Rightarrow> bgw_reg option) \<times> sup_state" where
  "protocol_state s = (views (bs_ctl s), bs_gen s, regs s, sup s)"

lemma wait_not_apply:
  assumes "vinv vs g R u" "fst (vs ! j) \<noteq> pgactive_WORKER_PERDB"
  shows "u \<noteq> SupWait dbid j dbs"
  using assms by (auto simp: vinv_def)

lemma vinv_vstep:
  assumes "vstep a b" "case a of (vs, g, R, u) \<Rightarrow> vinv vs g R u"
  shows "case b of (vs, g, R, u) \<Rightarrow> vinv vs g R u"
  using assms
proof (induction rule: vstep.induct)
  case (v_scan vs vs' u u' g R)
  have "vinv vs g R u" using v_scan.prems by simp
  from vinv_cleared [OF this v_scan.hyps(1)] have "vinv vs' g R u" .
  then have "vinv vs' g R u'" by (rule vinv_sup) (use v_scan.hyps in auto)
  then show ?case by simp
next
  case (v_poll vs i dbid g R dbs)
  then have I: "vinv vs g R (SupWait dbid i dbs)" by simp
  have "vinv vs g R (SupScan dbs)"
    by (rule vinv_sup [OF I]) (use I v_poll.hyps in \<open>auto simp: vinv_def\<close>)
  then show ?case by simp
next
  case (v_zero R k r g vs u)
  then have I: "vinv vs g R u" by simp
  note s = reg_slot [OF I v_zero.hyps(1,2)]
  have "vinv (vs[rslot r := zero_view]) g (R(k := None)) u"
    by (rule vinv_unused [OF vinv_drop [OF I] dropped_unused [OF I v_zero.hyps(1,2)]])
       (use wait_not_apply [OF I] s v_zero.hyps(3) in auto)
  then show ?case by simp
next
  case (v_reap vs j R g u)
  then have I: "vinv vs g R u" by simp
  have "vinv (vs[j := zero_view]) g R u"
    by (rule vinv_unused [OF I v_reap.hyps(2)]) (use wait_not_apply [OF I] v_reap.hyps(1) in auto)
  then show ?case by simp
next
  case (v_restart g n vs R u)
  then have I: "vinv vs g R u" by simp
  then have "n \<le> 65536" using v_restart.hyps by (simp add: vinv_def)
  from vinv_restart [OF I v_restart.hyps(1) this] show ?case by simp
qed (auto intro: vinv_cleared vinv_freed vinv_alloc_perdb vinv_alloc vinv_proc vinv_drop vinv_retire vinv_attach)

lemma exit_vstep:
  assumes I: "winv s" and r: "regs s k = Some r" "reg_proc r = Some p" and x: "pgactive_worker_exit (with_self s p) = (res, w)"
  shows "worker_generation (ctl w) = bs_gen s" "vstep (protocol_state s) (views (ctl w), bs_gen s, (regs s)(k := None), sup s)"
    "reg_type r \<noteq> pgactive_WORKER_WALSENDER \<Longrightarrow> views (ctl w) = views (bs_ctl s)"
proof -
  have V: "vinv (views (bs_ctl s)) (bs_gen s) (regs s) (sup s)" using I by (simp add: winv_def)
  note l = winv_live [OF I r]
  note s = reg_slot [OF V r(1) l(1)]
  note e = worker_exit_views [OF l(2) s(3) x]
  show "worker_generation (ctl w) = bs_gen s" using e I by (simp add: winv_def)
  show same: "views (ctl w) = views (bs_ctl s)" if "reg_type r \<noteq> pgactive_WORKER_WALSENDER"
    using e that l(3) by (simp add: proc_ok_def)
  show "vstep (protocol_state s) (views (ctl w), bs_gen s, (regs s)(k := None), sup s)"
  proof (cases "views (ctl w) = views (bs_ctl s)")
    case False
    with e have z: "views (ctl w) = (views (bs_ctl s))[rslot r := zero_view]" by (auto split: if_splits)
    have "reg_type r \<noteq> pgactive_WORKER_PERDB" using False same by auto
    then show ?thesis unfolding z protocol_state_def by (rule v_zero [where R = "regs s", OF r(1) l(1)])
  qed (simp add: protocol_state_def v_drop)
qed

text \<open>What is left of a registration whose worker unregistered itself.\<close>

lemma v_gone:
  assumes r: "R k = Some r" "cur g r" "reg_type r = pgactive_WORKER_PERDB \<or> reg_type r = pgactive_WORKER_APPLY"
    and vs': "vs' = (if reg_type r = pgactive_WORKER_PERDB
      then vs[rslot r := (reg_type r, fst (snd (vs ! rslot r)), fst (snd (snd (vs ! rslot r))), True)] else vs[rslot r := zero_view])"
  shows "vstep (vs, g, R, u) (vs', g, R(k := None), u)"
proof (cases "reg_type r = pgactive_WORKER_PERDB")
  case True
  show ?thesis unfolding vs' if_P [OF True] by (rule v_retire [where R = R, OF r(1,2) True]) (use True in auto)
next
  case False
  show ?thesis unfolding vs' if_not_P [OF False] by (rule v_zero [where R = R, OF r(1,2) False])
qed

lemma reg_kinds: "t \<noteq> pgactive_WORKER_EMPTY_SLOT \<Longrightarrow> t \<noteq> pgactive_WORKER_WALSENDER \<Longrightarrow>
    t = pgactive_WORKER_PERDB \<or> t = pgactive_WORKER_APPLY"
  by (cases t) simp_all

lemma bgworker_init_vstep:
  assumes I: "winv s" and r: "regs s k = Some r" "reg_type r \<noteq> pgactive_WORKER_WALSENDER" and p: "fresh_process p"
    and run: "pgactive_bgworker_init env (reg_arg r) (reg_type r) nc (with_self s p) = (res, w)"
  shows "worker_generation (ctl w) = bs_gen s \<and> (case res of
      Inr (ProcExit n) \<Rightarrow> n = 0 \<and> vstep (protocol_state s) (views (ctl w), bs_gen s, (regs s)(k := None), sup s)
    | Inl _ \<Rightarrow> views (ctl w) = views (bs_ctl s) \<and> live w (rslot r) (reg_type r) \<and> \<not> worker_slot_free_at_rel (self w)
    | Inr (Continue _) \<Rightarrow> views (ctl w) = views (bs_ctl s) \<and> cur (bs_gen s) r \<and> proc_ok (views (bs_ctl s)) r (self w))"
proof (cases "cur (bs_gen s) r")
  case False
  have V: "vinv (views (bs_ctl s)) (bs_gen s) (regs s) (sup s)" and g: "worker_generation (bs_ctl s) = bs_gen s"
    using I by (simp_all add: winv_def)
  have "unat (arg_generation (reg_arg r)) \<le> unat (bs_gen s)" using vinv_reg [OF V r(1)] by (simp add: reg_ok_def)
  with False g p bgworker_init_stale [of "reg_arg r" "with_self s p" env "reg_type r" nc] run v_drop
  show ?thesis by (auto simp: protocol_state_def)
next
  case True
  have V: "vinv (views (bs_ctl s)) (bs_gen s) (regs s) (sup s)" and g: "worker_generation (bs_ctl s) = bs_gen s"
    using I by (simp_all add: winv_def)
  note s = reg_slot [OF V r(1) True]
  note t = reg_kinds [OF s(3) r(2)]
  have q: "arg_generation (reg_arg r) = worker_generation (ctl (with_self s p))" "rslot r < length (slots (ctl (with_self s p)))"
      "fst (views (ctl (with_self s p)) ! rslot r) = reg_type r"
      "reg_type r = pgactive_WORKER_PERDB \<Longrightarrow> \<not> snd (snd (snd (views (ctl (with_self s p)) ! rslot r)))"
    using True g s by simp_all
  note b = bgworker_init_views [OF run q(1) refl q(2,3) t q(4), unfolded worker_sys.select_convs g]
  show ?thesis
  proof (cases res)
    case (Inr a)
    show ?thesis
    proof (cases a)
      case (ProcExit n)
      with b Inr have n: "n = 0" and v: "views (ctl w) = (if reg_type r = pgactive_WORKER_PERDB
        then (views (bs_ctl s))[rslot r := (reg_type r, fst (snd (views (bs_ctl s) ! rslot r)), fst (snd (snd (views (bs_ctl s) ! rslot r))), True)]
        else (views (bs_ctl s))[rslot r := zero_view])" by simp_all
      from v_gone [where R = "regs s", OF r(1) True t v] b n Inr ProcExit show ?thesis by (simp add: protocol_state_def)
    qed (use b Inr True in \<open>auto simp: live_def proc_ok_def\<close>)
  qed (use b in simp)
qed

lemma find_perdb_not_found:
  assumes "find_perdb_worker_slot dbid c = pgactive_PER_DB_WORKER_SLOT_NOT_FOUND"
  shows "\<forall>i < length (views c). fst (views c ! i) = pgactive_WORKER_PERDB \<longrightarrow> fst (snd (snd (views c ! i))) \<noteq> dbid"
  using assms find_slot_None [of "perdb_worker_of dbid" 0 "slots c"]
  by (auto simp: find_perdb_worker_slot_def perdb_worker_of_def split: option.splits if_splits)

lemma v_refl: "vstep (vs, g, R, u) (vs, g, R, u)"
  by (rule v_clear) simp

text \<open>The steps of the system follow the protocol.\<close>

lemma scan_vstep:
  assumes I: "winv s" and u: "sup s = SupScan (dbid # dbs)"
    and run: "register_perdb_begin registered started dbid (with_self s p) = (res, w)"
  shows "worker_generation (ctl w) = bs_gen s \<and> (case res of
      Inl _ \<Rightarrow> vstep (protocol_state s) (views (ctl w), bs_gen s, regs s, SupIdle)
    | Inr None \<Rightarrow> vstep (protocol_state s) (views (ctl w), bs_gen s, regs s, SupScan dbs)
    | Inr (Some i) \<Rightarrow> find_perdb_worker_slot dbid (bs_ctl s) = pgactive_PER_DB_WORKER_SLOT_NOT_FOUND \<longrightarrow>
        vstep (protocol_state s) (views (ctl w), bs_gen s, (regs s)(k \<mapsto> \<lparr>reg_arg = worker_main_arg (worker_generation (bs_ctl s)) i,
          reg_type = pgactive_WORKER_PERDB, reg_proc = None\<rparr>), SupWait dbid i dbs))"
proof -
  have V: "vinv (views (bs_ctl s)) (bs_gen s) (regs s) (sup s)" and g: "worker_generation (bs_ctl s) = bs_gen s"
    using I by (simp_all add: winv_def)
  have d: "0 \<notin> set dbs" using V u by (simp add: vinv_def)
  note b = register_begin_views [OF run, unfolded worker_sys.select_convs g]
  show ?thesis
  proof (cases res)
    case (Inl e)
    with b u show ?thesis by (auto simp: protocol_state_def intro: v_scan)
  next
    case (Inr x)
    show ?thesis
    proof (cases x)
      case None
      with b u Inr d show ?thesis by (auto simp: protocol_state_def intro!: v_scan)
    next
      case (Some i)
      with b Inr have v: "i < length (views (bs_ctl s))" "fst (views (bs_ctl s) ! i) = pgactive_WORKER_EMPTY_SLOT"
        "views (ctl w) = (views (bs_ctl s))[i := (pgactive_WORKER_PERDB, dbid, 0, False)]" by auto
      show ?thesis
        unfolding Inr Some sum.case option.case
      proof (intro conjI impI)
        assume nf: "find_perdb_worker_slot dbid (bs_ctl s) = pgactive_PER_DB_WORKER_SLOT_NOT_FOUND"
        show "vstep (protocol_state s) (views (ctl w), bs_gen s, (regs s)(k \<mapsto> \<lparr>reg_arg = worker_main_arg (worker_generation (bs_ctl s)) i,
          reg_type = pgactive_WORKER_PERDB, reg_proc = None\<rparr>), SupWait dbid i dbs)"
          unfolding protocol_state_def u v(3)
          by (rule v_perdb [OF v(1,2) _ _ _ find_perdb_not_found [OF nf]]) (simp_all add: g)
      qed (use b in simp)
    qed
  qed
qed

lemma launch_vstep:
  assumes I: "winv s" and run: "start_apply_worker (\<lambda>x. x = arg) mydb target (with_self s p) = (Inr (), w)"
  shows "worker_generation (ctl w) = bs_gen s" "vstep (protocol_state s) (views (ctl w), bs_gen s,
    (regs s)(k \<mapsto> \<lparr>reg_arg = arg, reg_type = pgactive_WORKER_APPLY, reg_proc = None\<rparr>), sup s)"
proof -
  have g: "worker_generation (bs_ctl s) = bs_gen s" using I by (simp add: winv_def)
  note b = start_apply_views [OF run, unfolded worker_sys.select_convs g sum.case]
  then obtain i where v: "i < length (views (bs_ctl s))" "fst (views (bs_ctl s) ! i) = pgactive_WORKER_EMPTY_SLOT"
      "worker_main_arg (bs_gen s) i = arg" "views (ctl w) = (views (bs_ctl s))[i := (pgactive_WORKER_APPLY, 0, 0, False)]"
    by auto
  show "worker_generation (ctl w) = bs_gen s" using b by simp
  show "vstep (protocol_state s) (views (ctl w), bs_gen s,
    (regs s)(k \<mapsto> \<lparr>reg_arg = arg, reg_type = pgactive_WORKER_APPLY, reg_proc = None\<rparr>), sup s)"
    unfolding protocol_state_def v(4) by (rule v_alloc [OF v(1,2)]) (simp_all add: v(3))
qed

lemma walsender_vstep:
  assumes I: "winv s" and run: "walsender_attach ws slot remote (with_self s p) = (Inr i, w)"
  shows "worker_generation (ctl w) = bs_gen s" "vstep (protocol_state s) (views (ctl w), bs_gen s,
    (regs s)(k \<mapsto> \<lparr>reg_arg = worker_main_arg (worker_generation (bs_ctl s)) i, reg_type = pgactive_WORKER_WALSENDER,
      reg_proc = Some (self w)\<rparr>), sup s)"
proof -
  have V: "vinv (views (bs_ctl s)) (bs_gen s) (regs s) (sup s)" and g: "worker_generation (bs_ctl s) = bs_gen s"
    using I by (simp_all add: winv_def)
  note b = walsender_attach_views [OF run, unfolded worker_sys.select_convs g]
  then have v: "i < length (views (bs_ctl s))" "fst (views (bs_ctl s) ! i) = pgactive_WORKER_EMPTY_SLOT"
      "views (ctl w) = (views (bs_ctl s))[i := (pgactive_WORKER_WALSENDER, 0, 0, False)]" by auto
  have "i < 65536" using V v(1) by (simp add: vinv_def)
  then have a: "unat (arg_slot (worker_main_arg (bs_gen s) i)) = i" by (rule arg_slot_main_arg)
  show "worker_generation (ctl w) = bs_gen s" using b by simp
  show "vstep (protocol_state s) (views (ctl w), bs_gen s,
    (regs s)(k \<mapsto> \<lparr>reg_arg = worker_main_arg (worker_generation (bs_ctl s)) i, reg_type = pgactive_WORKER_WALSENDER,
      reg_proc = Some (self w)\<rparr>), sup s)"
    unfolding protocol_state_def v(3) by (rule v_alloc [OF v(1,2)]) (use b a g in \<open>simp_all add: proc_ok_def\<close>)
qed

lemma attach_vstep:
  assumes I: "winv s" and r: "regs s k = Some r" "reg_proc r = Some p" "reg_type r = pgactive_WORKER_PERDB"
    and run: "perdb_worker_attach (with_self s p) = (res, w)"
  shows "worker_generation (ctl w) = bs_gen s" "vstep (protocol_state s) (views (ctl w), bs_gen s, regs s, sup s)"
proof -
  have V: "vinv (views (bs_ctl s)) (bs_gen s) (regs s) (sup s)" and g: "worker_generation (bs_ctl s) = bs_gen s"
    using I by (simp_all add: winv_def)
  note l = winv_live [OF I r(1,2)]
  note s = reg_slot [OF V r(1) l(1)]
  have v: "views (ctl w) = (views (bs_ctl s))[rslot r := (pgactive_WORKER_PERDB, fst (snd (views (bs_ctl s) ! rslot r)),
      fst (snd (views (bs_ctl s) ! rslot r)), False)]" and "worker_generation (ctl w) = worker_generation (bs_ctl s)"
    using run l s r(3) by (auto simp: perdb_worker_attach_def proc_ok_def map_update wview_def)
  then show "worker_generation (ctl w) = bs_gen s" using g by simp
  show "vstep (protocol_state s) (views (ctl w), bs_gen s, regs s, sup s)"
    unfolding protocol_state_def v by (rule v_attach [where R = "regs s", OF r(1) l(1) r(3)])
qed

lemma leave_vstep:
  assumes I: "winv s" and r: "regs s k = Some r" "reg_proc r = Some p" "reg_type r = pgactive_WORKER_PERDB"
    and run: "perdb_worker_leave (with_self s p) = (res, w)"
  shows "worker_generation (ctl w) = bs_gen s" "vstep (protocol_state s) (views (ctl w), bs_gen s, (regs s)(k := None), sup s)"
proof -
  have V: "vinv (views (bs_ctl s)) (bs_gen s) (regs s) (sup s)" and g: "worker_generation (bs_ctl s) = bs_gen s"
    using I by (simp_all add: winv_def)
  note l = winv_live [OF I r(1,2)]
  note s = reg_slot [OF V r(1) l(1)]
  have v: "views (ctl w) = (views (bs_ctl s))[rslot r := (pgactive_WORKER_PERDB, fst (snd (views (bs_ctl s) ! rslot r)), 0, False)]"
      and "worker_generation (ctl w) = worker_generation (bs_ctl s)"
    using run l s r(3)
    by (auto simp: perdb_worker_leave_def proc_ok_def proc_exit_def pgactive_worker_exit_def pgactive_worker_shmem_release_def Let_def map_update wview_def InvalidOid_def)
  then show "worker_generation (ctl w) = bs_gen s" using g by simp
  show "vstep (protocol_state s) (views (ctl w), bs_gen s, (regs s)(k := None), sup s)"
    unfolding protocol_state_def v by (rule v_retire [where R = "regs s", OF r(1) l(1) r(3)]) simp_all
qed

lemma unregister_vstep:
  assumes I: "winv s" and r: "regs s k = Some r" "reg_proc r = Some p" "reg_type r \<noteq> pgactive_WORKER_WALSENDER"
    and run: "pgactive_worker_unregister (with_self s p) = (res, w)"
  shows "worker_generation (ctl w) = bs_gen s" "vstep (protocol_state s) (views (ctl w), bs_gen s, (regs s)(k := None), sup s)"
proof -
  have V: "vinv (views (bs_ctl s)) (bs_gen s) (regs s) (sup s)" and g: "worker_generation (bs_ctl s) = bs_gen s"
    using I by (simp_all add: winv_def)
  note l = winv_live [OF I r(1,2)]
  note t = reg_kinds [OF reg_slot(3) [OF V r(1) l(1)] r(3)]
  from unregister_views [OF l(2) t] run
  have v: "views (ctl w) = (if reg_type r = pgactive_WORKER_PERDB
      then (views (bs_ctl s))[rslot r := (reg_type r, fst (snd (views (bs_ctl s) ! rslot r)), fst (snd (snd (views (bs_ctl s) ! rslot r))), True)]
      else (views (bs_ctl s))[rslot r := zero_view])" and "worker_generation (ctl w) = worker_generation (bs_ctl s)" by auto
  then show "worker_generation (ctl w) = bs_gen s" using g by simp
  show "vstep (protocol_state s) (views (ctl w), bs_gen s, (regs s)(k := None), sup s)"
    unfolding protocol_state_def by (rule v_gone [where R = "regs s", OF r(1) l(1) t v])
qed

lemma main_arg_unique: "worker_main_arg (arg_generation a) (unat (arg_slot a)) = a"
proof -
  have m: "(0xFFFF :: u32) = mask 16" by (simp add: mask_eq_exp_minus_1)
  have "of_nat (unat (arg_slot a)) = (ucast (arg_slot a) :: u32)" by simp
  then show ?thesis
    unfolding worker_main_arg_def arg_generation_def arg_slot_def m
    by (intro bit_eqI) (auto simp: bit_simps)
qed

lemma reap_vstep:
  assumes I: "winv s" and j: "j < length (slots (bs_ctl s))" "worker_type (slots (bs_ctl s) ! j) = pgactive_WORKER_APPLY"
    and un: "\<forall>k r. regs s k = Some r \<longrightarrow> reg_arg r \<noteq> worker_main_arg (worker_generation (bs_ctl s)) j"
    and run: "fresh_process p" "pgactive_worker_shmem_free j (Some False) (with_self s p) = (res, w)"
  shows "worker_generation (ctl w) = bs_gen s" "vstep (protocol_state s) (views (ctl w), bs_gen s, regs s, sup s)"
proof -
  have V: "vinv (views (bs_ctl s)) (bs_gen s) (regs s) (sup s)" and g: "worker_generation (bs_ctl s) = bs_gen s"
    using I by (simp_all add: winv_def)
  have v: "views (ctl w) = (views (bs_ctl s))[j := zero_view]" and "worker_generation (ctl w) = worker_generation (bs_ctl s)"
    using run j by (auto simp: pgactive_worker_shmem_free_def Let_def fresh_process_def map_update)
  then show "worker_generation (ctl w) = bs_gen s" using g by simp
  show "vstep (protocol_state s) (views (ctl w), bs_gen s, regs s, sup s)"
    unfolding protocol_state_def v
  proof (rule v_reap)
    show "fst (views (bs_ctl s) ! j) = pgactive_WORKER_APPLY" using j by simp
    show "rslot r \<noteq> j" if "regs s k = Some r" "cur (bs_gen s) r" for k r
      using un [rule_format, OF that(1)] that g main_arg_unique [of "reg_arg r"] by auto
  qed
qed

lemma wstep_vstep:
  assumes "wstep s s'" "winv s"
  shows "worker_generation (bs_ctl s') = bs_gen s' \<and> vstep (protocol_state s) (protocol_state s')"
  using assms
proof (induction rule: wstep.induct)
  case (scan_begin s dbs)
  then show ?case by (auto simp: protocol_state_def winv_def InvalidOid_def intro!: v_scan)
next
  case (scan_skip s dbid dbs)
  then show ?case by (auto simp: protocol_state_def winv_def vinv_def intro!: v_scan)
next
  case (scan_fail s dbid dbs p registered started w)
  from scan_vstep [OF scan_fail.prems scan_fail.hyps(1,4)] show ?case by (simp add: protocol_state_def)
next
  case (scan_error s dbid dbs p registered started e w)
  from scan_vstep [OF scan_error.prems scan_error.hyps(1,3)] show ?case by (simp add: protocol_state_def)
next
  case (scan_start s dbid dbs p registered started i w k)
  from scan_vstep [OF scan_start.prems scan_start.hyps(1,4)] scan_start.hyps(2) show ?case
    by (simp add: protocol_state_def)
next
  case (scan_poll s dbid i dbs)
  then have "i < length (slots (bs_ctl s))" by (simp add: winv_def vinv_def)
  with scan_poll show ?case
    by (auto simp: protocol_state_def winv_def register_perdb_poll_def intro!: v_poll)
next
  case (scan_end s p label r w)
  then have "freed (views (bs_ctl s)) (views (ctl w))" "worker_generation (ctl w) = worker_generation (bs_ctl s)"
    using free_unregistered_views [of label "[0..<length (slots (bs_ctl s))]" "with_self s p" r w]
    by (simp_all add: free_unregistered_perdb_workers_def fresh_process_def)
  with scan_end show ?case by (auto simp: protocol_state_def winv_def intro!: v_freed)
next
  case (worker_runs s k r p env nc sess w)
  from bgworker_init_vstep [OF worker_runs.prems worker_runs.hyps(1,3,4,5)] worker_runs.hyps(1) show ?case
    by (auto simp: protocol_state_def proc_ok_def intro!: v_proc)
next
  case (worker_stops s k r p env nc n w)
  from bgworker_init_vstep [OF worker_stops.prems worker_stops.hyps(1,3,4,5)] show ?case
    by (auto simp: protocol_state_def)
next
  case (worker_fails s k r p env nc e w res w')
  from bgworker_init_vstep [OF worker_fails.prems worker_fails.hyps(1,3,4,5)]
  have w: "worker_generation (ctl w) = bs_gen s" "views (ctl w) = views (bs_ctl s)" "live w (rslot r) (reg_type r)"
    "\<not> worker_slot_free_at_rel (self w)" by simp_all
  have "reg_type r \<noteq> pgactive_WORKER_EMPTY_SLOT"
    using worker_fails.prems worker_fails.hyps(1) by (simp add: winv_def vinv_def reg_ok_def)
  from worker_exit_views [OF w(3) this worker_fails.hyps(6)] w show ?case by (auto simp: protocol_state_def v_refl)
next
  case (attach s k r p res w)
  from attach_vstep [OF attach.prems attach.hyps] show ?case by (simp add: protocol_state_def)
next
  case (crash s k r p res w)
  note e = exit_vstep [OF crash.prems crash.hyps]
  show ?case
  proof (cases "reg_type r = pgactive_WORKER_WALSENDER")
    case True
    with e show ?thesis by (simp add: protocol_state_def)
  next
    case False
    with e crash.hyps(1) show ?thesis by (auto simp: protocol_state_def intro!: v_proc)
  qed
next
  case (quit s k r p res w)
  from exit_vstep [OF quit.prems quit.hyps] show ?case by (simp add: protocol_state_def)
next
  case (leave s k r p w)
  from leave_vstep [OF leave.prems leave.hyps] show ?case by (simp add: protocol_state_def)
next
  case (unregister s k r p w)
  from unregister_vstep [OF unregister.prems unregister.hyps] show ?case by (simp add: protocol_state_def)
next
  case (launch s k r p k' arg mydb target w)
  from launch_vstep [OF launch.prems launch.hyps(4)] show ?case by (simp add: protocol_state_def)
next
  case (launch_fails s k r p mydb target e w)
  from start_apply_views [OF launch_fails.hyps(3)] launch_fails.prems show ?case
    by (auto simp: protocol_state_def winv_def intro!: v_clear)
next
  case (walsender p s k i w)
  from walsender_vstep [OF walsender.prems walsender.hyps(3)] show ?case by (simp add: protocol_state_def)
next
  case (touch s k r p i f)
  then show ?case using views_same [of f i "bs_ctl s"] by (simp add: protocol_state_def winv_def v_refl)
next
  case (reap i s p w)
  from reap_vstep [OF reap.prems reap.hyps] show ?case by (simp add: protocol_state_def)
next
  case (restart n s c g)
  then show ?case
    by (auto simp: pgactive_worker_shmem_startup_def protocol_state_def split: if_splits intro!: v_restart)
qed

lemma winv_step: "winv s \<Longrightarrow> wstep s s' \<Longrightarrow> winv s'"
  using wstep_vstep [of s s'] vinv_vstep [of "protocol_state s" "protocol_state s'"]
  by (auto simp: winv_def protocol_state_def)

interpretation worker_steps: step_system wstep winv
  by unfold_locales (rule winv_step)

lemmas winv_reachable = worker_steps.reachable_keeps

lemma no_multiple:
  assumes "own_dbs (map wview ws)"
    "\<forall>w \<in> set ws. worker_type w = pgactive_WORKER_PERDB \<and> p_dboid (data_perdb w) \<noteq> 0 \<longrightarrow> p_dboid (data_perdb w) \<notin> set seen"
  shows "\<not> multiple_perdb_loop ws seen"
  using assms
proof (induction ws arbitrary: seen)
  case (Cons w ws)
  have tl: "own_dbs (map wview ws)"
    unfolding own_dbs_def
  proof (intro allI impI)
    fix i j
    assume "i < length (map wview ws)" "j < length (map wview ws)"
      "fst (map wview ws ! i) = pgactive_WORKER_PERDB \<and> fst (map wview ws ! j) = pgactive_WORKER_PERDB \<and>
       fst (snd (snd (map wview ws ! i))) = fst (snd (snd (map wview ws ! j))) \<and> fst (snd (snd (map wview ws ! i))) \<noteq> 0"
    then show "i = j" using Cons.prems(1) [unfolded own_dbs_def, rule_format, of "Suc i" "Suc j"] by auto
  qed
  show ?case
  proof (cases "worker_type w = pgactive_WORKER_PERDB \<and> p_dboid (data_perdb w) \<noteq> 0")
    case True
    have "p_dboid (data_perdb x) \<noteq> p_dboid (data_perdb w)" if x: "x \<in> set ws" "worker_type x = pgactive_WORKER_PERDB" for x
    proof
      assume e: "p_dboid (data_perdb x) = p_dboid (data_perdb w)"
      from x obtain j where j: "j < length ws" "ws ! j = x" by (auto simp: in_set_conv_nth)
      have "0 = Suc j"
        using Cons.prems(1) [unfolded own_dbs_def, rule_format, of 0 "Suc j"] j True x(2) e by simp
      then show False by simp
    qed
    then have "\<not> multiple_perdb_loop ws (seen @ [p_dboid (data_perdb w)])"
      by (intro Cons.IH [OF tl]) (use Cons.prems(2) in auto)
    moreover have "\<not> multiple_perdb_loop ws seen" by (rule Cons.IH [OF tl]) (use Cons.prems(2) in auto)
    moreover have "p_dboid (data_perdb w) \<notin> set seen" using Cons.prems(2) True by simp
    ultimately show ?thesis by simp
  next
    case False
    moreover have "\<not> multiple_perdb_loop ws seen" by (rule Cons.IH [OF tl]) (use Cons.prems(2) in auto)
    ultimately show ?thesis by (auto simp: InvalidOid_def)
  qed
qed simp

lemma winv_own_database:
  assumes I: "winv s" and r: "regs s k = Some r" "reg_proc r = Some p" "reg_type r = pgactive_WORKER_PERDB"
    and q: "regs s l = Some q" "reg_proc q = Some p'" "reg_type q = pgactive_WORKER_PERDB"
    and db: "MyDatabaseId p = MyDatabaseId p'"
  shows "k = l"
proof -
  let ?vs = "views (bs_ctl s)"
  have V: "vinv ?vs (bs_gen s) (regs s) (sup s)" using I by (simp add: winv_def)
  then have o: "own_dbs ?vs" and w: "wait_ok ?vs (sup s)" and a: "apart (bs_gen s) (regs s)" by (simp_all add: vinv_def)
  note lr = winv_live [OF I r(1,2)] and lq = winv_live [OF I q(1,2)]
  note sr = reg_slot [OF V r(1) lr(1)] and sq = reg_slot [OF V q(1) lq(1)]
  have c: "fst (snd (?vs ! rslot r)) = fst (snd (?vs ! rslot q))" using lr(3) lq(3) r(3) q(3) db by (simp add: proc_ok_def)
  have one: "rslot x = rslot y"
    if u: "sup s = SupWait (fst (snd (?vs ! rslot x))) (rslot x) dbs" and y: "rslot y < length ?vs" "fst (?vs ! rslot y) = pgactive_WORKER_PERDB"
      and d: "fst (snd (snd (?vs ! rslot y))) = fst (snd (?vs ! rslot y)) \<or> (\<exists>dbs. sup s = SupWait (fst (snd (?vs ! rslot y))) (rslot y) dbs)"
      and e: "fst (snd (?vs ! rslot x)) = fst (snd (?vs ! rslot y))" for x y dbs
    using d
  proof
    assume "fst (snd (snd (?vs ! rslot y))) = fst (snd (?vs ! rslot y))"
    with w [unfolded u] y e show ?thesis by auto
  next
    assume "\<exists>dbs. sup s = SupWait (fst (snd (?vs ! rslot y))) (rslot y) dbs"
    with u show ?thesis by auto
  qed
  have "rslot r = rslot q"
  proof (cases "(\<exists>dbs. sup s = SupWait (fst (snd (?vs ! rslot r))) (rslot r) dbs) \<or> (\<exists>dbs. sup s = SupWait (fst (snd (?vs ! rslot q))) (rslot q) dbs)")
    case True
    then show ?thesis
    proof (elim disjE exE)
      fix dbs
      assume "sup s = SupWait (fst (snd (?vs ! rslot r))) (rslot r) dbs"
      from one [OF this sq(1) sq(2) [unfolded q(3)] _ c] sq(4) [OF q(3)] show ?thesis by blast
    next
      fix dbs
      assume "sup s = SupWait (fst (snd (?vs ! rslot q))) (rslot q) dbs"
      from one [OF this sr(1) sr(2) [unfolded r(3)] _ c [symmetric]] sr(4) [OF r(3)] have "rslot q = rslot r" by blast
      then show ?thesis by simp
    qed
  next
    case False
    with sr(4) [OF r(3)] sq(4) [OF q(3)] have "fst (snd (snd (?vs ! rslot r))) = fst (snd (?vs ! rslot r))"
      "fst (snd (snd (?vs ! rslot q))) = fst (snd (?vs ! rslot q))" "fst (snd (?vs ! rslot r)) \<noteq> 0" by blast+
    with c have "fst (snd (snd (?vs ! rslot r))) = fst (snd (snd (?vs ! rslot q)))" "fst (snd (snd (?vs ! rslot r))) \<noteq> 0" by simp_all
    with o [unfolded own_dbs_def, rule_format, OF sr(1) sq(1)] sr(2) sq(2) r(3) q(3) show ?thesis by metis
  qed
  with a r(1) q(1) lr(1) lq(1) show ?thesis unfolding apart_def by blast
qed

text \<open>The supervisor waits for a worker that no longer exists.\<close>

definition stuck :: "u32 \<Rightarrow> nat \<Rightarrow> u32 list \<Rightarrow> view list \<times> u16 \<times> (nat \<Rightarrow> bgw_reg option) \<times> sup_state \<Rightarrow> bool" where
  "stuck dbid i dbs = (\<lambda>(vs, g, R, u). u = SupWait dbid i dbs \<and> fst (snd (snd (vs ! i))) \<noteq> dbid \<and>
     (\<forall>k r. R k = Some r \<and> cur g r \<longrightarrow> rslot r \<noteq> i))"

lemma stuck_slot:
  assumes "vinv vs g R u" "stuck dbid i dbs (vs, g, R, u)" "fst (vs ! j) \<noteq> pgactive_WORKER_PERDB"
  shows "j \<noteq> i"
  using assms by (auto simp: stuck_def vinv_def)

lemma stuck_upd:
  assumes "stuck dbid i dbs (vs, g, R, u)" "j \<noteq> i"
  shows "stuck dbid i dbs (vs[j := v], g, R, u)" "stuck dbid i dbs (vs[j := v], g, R(k := None), u)"
  using assms by (auto simp: stuck_def)

lemma stuck_step:
  assumes "vstep a b" "case a of (vs, g, R, u) \<Rightarrow> vinv vs g R u" "stuck dbid i dbs a"
  shows "fst (snd b) = fst (snd a) \<and> stuck dbid i dbs b \<or> unat (fst (snd a)) < unat (fst (snd b))"
  using assms
proof (induction rule: vstep.induct)
  case (v_clear vs vs' g R u)
  then have V: "vinv vs g R u" by simp
  show ?case
  proof (cases "vs' = vs")
    case False
    with v_clear.hyps obtain j where "fst (vs ! j) = pgactive_WORKER_EMPTY_SLOT" "vs' = vs[j := zero_view]"
      by (auto simp: cleared_def)
    with stuck_upd(1) [OF v_clear.prems(2), of j] stuck_slot [OF V v_clear.prems(2), of j] show ?thesis by simp
  qed (use v_clear.prems in simp)
next
  case (v_alloc j vs r g t R u k)
  then have V: "vinv vs g R u" by simp
  have j: "j \<noteq> i" using stuck_slot [OF V v_alloc.prems(2)] v_alloc.hyps(2) by simp
  have "j < 65536" using V v_alloc.hyps(1) by (simp add: vinv_def)
  then have "rslot r = j" using v_alloc.hyps(3) by (simp add: arg_slot_main_arg)
  with stuck_upd(1) [OF v_alloc.prems(2) j] j show ?case by (auto simp: stuck_def)
next
  case (v_reap vs j R g u)
  then have V: "vinv vs g R u" by simp
  from stuck_slot [OF V v_reap.prems(2)] v_reap.hyps(1) have "j \<noteq> i" by simp
  from stuck_upd(1) [OF v_reap.prems(2) this] show ?case by simp
next
  case (v_proc R k r x g vs u)
  then show ?case by (auto simp: stuck_def)
next
  case (v_zero R k r g vs u)
  then have "rslot r \<noteq> i" by (auto simp: stuck_def)
  from stuck_upd(2) [OF v_zero.prems(2) this] show ?case by simp
next
  case (v_retire R k r g v vs u)
  then have "rslot r \<noteq> i" by (auto simp: stuck_def)
  from stuck_upd(2) [OF v_retire.prems(2) this] show ?case by simp
next
  case (v_attach R k r g vs u)
  then have "rslot r \<noteq> i" by (auto simp: stuck_def)
  from stuck_upd(1) [OF v_attach.prems(2) this] show ?case by simp
next
  case (v_restart g n vs R u)
  then show ?case using unatSuc [of g] by (simp add: add.commute eq_neg_iff_add_eq_0)
qed (auto simp: stuck_def)

lemma vstep_generation: "vstep a b \<Longrightarrow> unat (fst (snd a)) \<le> unat (fst (snd b))"
proof (induction rule: vstep.induct)
  case (v_restart g n vs R u)
  then show ?case using unatSuc [of g] by (simp add: add.commute eq_neg_iff_add_eq_0)
qed simp_all

section \<open>Theorems about the system\<close>


definition server_start :: "nat \<Rightarrow> bgw_system" where
  "server_start n = \<lparr>bs_ctl = fresh_segment 2 (replicate n zero_worker), bs_gen = 2, regs = (\<lambda>_. None), sup = SupIdle\<rparr>"

definition no_extension_env :: bgworker_env where
  "no_extension_env = \<lparr>bi_connect = Inr (), bi_schema_oid = 7, bi_extension_oid = 0, bi_nid_getter = 0,
     bi_spi = \<lparr>schema_present = True, spi_ok = True\<rparr>, bi_nodes = [], bi_nid = 1, bi_maintain_schema = Inr (), bi_nodes_relid = Inr 9,
     bi_synchronous_commit = False, bi_log_min_messages = LOG\<rparr>"

definition worker_waiting :: bgw_system where
  "worker_waiting = (server_start 1)\<lparr>bs_ctl := upd_slot 0 (upd_perdb (\<lambda>p. p\<lparr>c_dboid := 5, perdb_nnodes := - 1\<rparr>))
       (fresh_segment 2 [zero_worker\<lparr>worker_type := pgactive_WORKER_PERDB\<rparr>]),
     regs := [0 \<mapsto> \<lparr>reg_arg = worker_main_arg 2 0, reg_type = pgactive_WORKER_PERDB, reg_proc = None\<rparr>], sup := SupWait 5 0 [6]\<rparr>"

lemma server_start_winit: "winit (server_start 1)"
  by (auto simp: winit_def server_start_def pgactive_worker_shmem_startup_def pgactive_worker_shmem_init_def fresh_segment_def
      intro!: exI [of _ 1])

lemma worker_waiting_reached: "wstep\<^sup>*\<^sup>* (server_start 1) worker_waiting"
proof -
  let ?s = "(server_start 1)\<lparr>sup := SupScan [5, 6]\<rparr>"
  have 1: "wstep (server_start 1) ?s" by (rule scan_begin) (simp_all add: server_start_def InvalidOid_def)
  have reg: "register_perdb_begin True True 5 (with_self ?s idle_process)
      = (Inr (Some 0), \<lparr>ctl = bs_ctl worker_waiting, self = idle_process\<rparr>)"
    by (simp add: register_perdb_begin_def on_ctl_def pgactive_worker_shmem_alloc_def server_start_def fresh_segment_def worker_waiting_def)
  have nf: "find_perdb_worker_slot 5 (bs_ctl ?s) = pgactive_PER_DB_WORKER_SLOT_NOT_FOUND"
    by (simp add: find_perdb_worker_slot_def server_start_def fresh_segment_def perdb_worker_of_def)
  have "wstep ?s (?s\<lparr>bs_ctl := bs_ctl worker_waiting, sup := SupWait 5 0 [6],
      regs := (regs ?s)(0 \<mapsto> \<lparr>reg_arg = worker_main_arg (worker_generation (bs_ctl ?s)) 0, reg_type = pgactive_WORKER_PERDB, reg_proc = None\<rparr>)\<rparr>)"
    using scan_start [where s = ?s, OF _ nf _ reg] by (simp add: fresh_process_def idle_process_def server_start_def)
  then have 2: "wstep ?s worker_waiting" by (simp add: worker_waiting_def server_start_def fresh_segment_def)
  from 1 2 show ?thesis by (meson converse_rtranclp_into_rtranclp r_into_rtranclp)
qed


text \<open>
  C30: The supervisor waits for the worker it started to enter its database.  When that worker
  unregisters itself before (no extension, a killed node), nobody starts it again and the
  supervisor stays in this wait, for this and all other databases, until the server (or the
  supervisor itself, which the steps do not include) is restarted.
\<close>

theorem supervisor_waits_forever:
  assumes "winit s0" "wstep\<^sup>*\<^sup>* s0 s" "sup s = SupWait dbid i dbs"
    and "p_dboid (data_perdb (slots (bs_ctl s) ! i)) \<noteq> dbid"
    and "\<forall>k r. regs s k = Some r \<longrightarrow> reg_arg r \<noteq> worker_main_arg (bs_gen s) i"
    and "wstep\<^sup>*\<^sup>* s t"
  shows "bs_gen t = bs_gen s \<and> sup t = SupWait dbid i dbs \<and> \<not> register_perdb_poll dbid i (bs_ctl t) \<or>
    unat (bs_gen s) < unat (bs_gen t)"
proof -
  have I: "winv s" using winv_reachable [OF assms(2)] winv_init [OF assms(1)] by simp
  have ix: "i < length (slots (bs_ctl s))" using I assms(3) by (simp add: winv_def vinv_def)
  have start: "stuck dbid i dbs (protocol_state s)"
  proof -
    have "rslot r \<noteq> i" if "regs s k = Some r" "cur (bs_gen s) r" for k r
      using main_arg_unique [of "reg_arg r"] assms(5) [rule_format, OF that(1)] that(2) by auto
    then have "\<forall>k r. regs s k = Some r \<and> cur (bs_gen s) r \<longrightarrow> rslot r \<noteq> i" by blast
    with ix assms(3,4) show ?thesis by (simp add: stuck_def protocol_state_def)
  qed
  have "winv t \<and> (bs_gen t = bs_gen s \<and> stuck dbid i dbs (protocol_state t) \<or> unat (bs_gen s) < unat (bs_gen t))"
    using assms(6)
  proof (induction rule: rtranclp_induct)
    case base
    with I start show ?case by simp
  next
    case (step a b)
    then have Ia: "winv a" by simp
    then have Va: "case protocol_state a of (vs, g, R, u) \<Rightarrow> vinv vs g R u" by (simp add: winv_def protocol_state_def)
    have v: "vstep (protocol_state a) (protocol_state b)" using wstep_vstep [OF step.hyps(2) Ia] by simp
    have m: "unat (bs_gen a) \<le> unat (bs_gen b)" using vstep_generation [OF v] by (simp add: protocol_state_def)
    have Ib: "winv b" by (rule winv_step [OF Ia step.hyps(2)])
    from step.IH have "bs_gen a = bs_gen s \<and> stuck dbid i dbs (protocol_state a) \<or> unat (bs_gen s) < unat (bs_gen a)" by simp
    then show ?case
    proof
      assume st: "bs_gen a = bs_gen s \<and> stuck dbid i dbs (protocol_state a)"
      then have "fst (snd (protocol_state b)) = fst (snd (protocol_state a)) \<and> stuck dbid i dbs (protocol_state b) \<or>
          unat (fst (snd (protocol_state a))) < unat (fst (snd (protocol_state b)))"
        by (intro stuck_step [OF v Va]) simp
      with st Ib show ?thesis by (simp add: protocol_state_def)
    next
      assume "unat (bs_gen s) < unat (bs_gen a)"
      with m Ib show ?thesis by linarith
    qed
  qed
  moreover have "sup t = SupWait dbid i dbs \<and> \<not> register_perdb_poll dbid i (bs_ctl t)"
    if It: "winv t" and st: "stuck dbid i dbs (protocol_state t)"
  proof -
    have u: "sup t = SupWait dbid i dbs" "fst (snd (snd (views (bs_ctl t) ! i))) \<noteq> dbid"
      using st by (simp_all add: stuck_def protocol_state_def)
    moreover have "i < length (slots (bs_ctl t))" using It u(1) by (simp add: winv_def vinv_def)
    ultimately show ?thesis by (simp add: register_perdb_poll_def)
  qed
  ultimately show ?thesis by blast
qed

definition worker_orphaned :: bgw_system where
  "worker_orphaned = worker_waiting\<lparr>bs_ctl := ctl (snd (pgactive_bgworker_init no_extension_env (worker_main_arg 2 0) pgactive_WORKER_PERDB
     fresh_nodecache (with_self worker_waiting idle_process))), regs := (\<lambda>_. None)\<rparr>"

lemma worker_orphaned_init:
  "fst (pgactive_bgworker_init no_extension_env (worker_main_arg 2 0) pgactive_WORKER_PERDB fresh_nodecache
     (with_self worker_waiting idle_process)) = Inr (ProcExit 0)"
  "p_dboid (data_perdb (slots (bs_ctl worker_orphaned) ! 0)) = 0"
  by (simp_all add: worker_orphaned_def pgactive_bgworker_init_def arg_generation_main_arg arg_slot_main_arg worker_waiting_def
      server_start_def fresh_segment_def pgactive_worker_shmem_acquire_def no_extension_env_def unregister_and_stop_def
      pgactive_worker_unregister_def InvalidOid_def proc_exit_def pgactive_worker_exit_def pgactive_worker_shmem_release_def
      Let_def idle_process_def zero_worker_def)

lemma worker_orphaned_reached: "wstep\<^sup>*\<^sup>* (server_start 1) worker_orphaned"
proof -
  let ?r = "\<lparr>reg_arg = worker_main_arg 2 0, reg_type = pgactive_WORKER_PERDB, reg_proc = None\<rparr>"
  have r: "regs worker_waiting 0 = Some ?r" by (simp add: worker_waiting_def)
  define w where "w = \<lparr>ctl = bs_ctl worker_orphaned, self = self (snd (pgactive_bgworker_init no_extension_env (worker_main_arg 2 0)
      pgactive_WORKER_PERDB fresh_nodecache (with_self worker_waiting idle_process)))\<rparr>"
  have run: "pgactive_bgworker_init no_extension_env (reg_arg ?r) (reg_type ?r) fresh_nodecache (with_self worker_waiting idle_process)
      = (Inr (ProcExit 0), w)"
    using worker_orphaned_init(1) by (simp add: worker_orphaned_def prod_eq_iff w_def)
  have "wstep worker_waiting (worker_waiting\<lparr>bs_ctl := ctl w, regs := (regs worker_waiting)(0 := if (0::int) = 0 then None else Some ?r)\<rparr>)"
    by (rule worker_stops [where s = worker_waiting and k = 0, OF r _ _ _ run]) (simp_all add: fresh_process_def idle_process_def)
  moreover have "worker_waiting\<lparr>bs_ctl := bs_ctl worker_orphaned, regs := (regs worker_waiting)(0 := None)\<rparr> = worker_orphaned"
    by (simp add: worker_orphaned_def worker_waiting_def fun_eq_iff)
  ultimately have "wstep worker_waiting worker_orphaned" by (simp add: w_def)
  with worker_waiting_reached show ?thesis by simp
qed

theorem supervisor_waits_forever_witness:
  "sup worker_orphaned = SupWait 5 0 [6] \<and> \<not> register_perdb_poll 5 0 (bs_ctl worker_orphaned)"
proof -
  have s: "sup worker_orphaned = SupWait 5 0 [6]" "bs_gen worker_orphaned = 2" "regs worker_orphaned = (\<lambda>_. None)"
    by (simp_all add: worker_orphaned_def worker_waiting_def server_start_def)
  have p: "p_dboid (data_perdb (slots (bs_ctl worker_orphaned) ! 0)) \<noteq> 5" by (simp add: worker_orphaned_init(2))
  have n: "\<forall>k r. regs worker_orphaned k = Some r \<longrightarrow> reg_arg r \<noteq> worker_main_arg (bs_gen worker_orphaned) 0" by (simp add: s(3))
  from supervisor_waits_forever [OF server_start_winit worker_orphaned_reached s(1) p n rtranclp.rtrancl_refl]
  show ?thesis by simp
qed

end
