(* ===== verification/Tuple_Codec.thy ===== *)
theory Tuple_Codec
  imports Wire_Format Relation_Cache
begin

text \<open>
  Relations and tuples on the wire: \<^verbatim>\<open>write_rel\<close>, \<^verbatim>\<open>decide_datum_transfer\<close> and \<^verbatim>\<open>write_tuple\<close> of
  \<^verbatim>\<open>src/pgactive_output.c\<close>, and their readers \<^verbatim>\<open>read_rel\<close> and \<^verbatim>\<open>read_tuple_parts\<close> of
  \<^verbatim>\<open>src/pgactive_apply.c\<close>.  The server's representation of values, its type catalogue and the
  input and output functions of the types are the parameter \<open>datum_api\<close>.
\<close>

section \<open>Values, attributes and relations\<close>

text \<open>
  A value: a word passed by value, a pointer to the bytes of an object (of a variable-length
  object with its header), a pointer to such a pointer, or a reference to an object stored out
  of line on disk.
\<close>

datatype datum = DatumByVal u64 | DatumRef bytes | DatumIndirect bytes | DatumOnDisk bytes

record pg_attribute =
  atttypid :: u32
  attlen :: int
  attbyval :: bool
  attnotnull :: bool
  attisdropped :: bool
  atttypmod :: int

record pg_type =
  typtype :: char
  typelem :: u32
  typreceive :: u32
  typsend :: u32
  typoutput :: u32

text \<open>A receive function tells how many bytes it consumed.\<close>

record datum_api =
  store_att_byval :: "u64 \<Rightarrow> int \<Rightarrow> bytes result"
  fetch_att :: "bytes \<Rightarrow> u64 result"
  VARSIZE_ANY :: "bytes \<Rightarrow> nat"
  search_type :: "u32 \<Rightarrow> pg_type option"
  OidSendFunctionCall :: "u32 \<Rightarrow> datum \<Rightarrow> bytes result"
  OidOutputFunctionCall :: "u32 \<Rightarrow> datum \<Rightarrow> string result"
  getTypeBinaryInputInfo :: "u32 \<Rightarrow> (u32 \<times> u32) result"
  OidReceiveFunctionCall :: "u32 \<Rightarrow> bytes \<Rightarrow> u32 \<Rightarrow> int \<Rightarrow> (datum \<times> nat) result"
  getTypeInputInfo :: "u32 \<Rightarrow> (u32 \<times> u32) result"
  OidInputFunctionCall :: "u32 \<Rightarrow> string \<Rightarrow> u32 \<Rightarrow> int \<Rightarrow> datum result"

text \<open>Object identifiers of the server.\<close>

definition TIMEOID :: u32 where "TIMEOID = 1083"
definition TIMESTAMPOID :: u32 where "TIMESTAMPOID = 1114"
definition TIMESTAMPTZOID :: u32 where "TIMESTAMPTZOID = 1184"
definition FirstNormalObjectId :: u32 where "FirstNormalObjectId = 16384"

record relation =
  rd_id :: u32
  relnamespace :: u32
  relname :: string
  rd_att :: "pg_attribute list"

text \<open>The private data of the output plugin.  \<open>replication_sets\<close> is \<open>None\<close> for \<open>num_replication_sets == -1\<close>.\<close>

record pgactiveOutputData =
  remote_node :: pgactiveNodeId
  allow_binary_protocol :: bool
  allow_sendrecv_protocol :: bool
  int_datetime_mismatch :: bool
  od_forward_changesets :: bool
  client_pg_version :: u32
  client_pg_catversion :: u32
  client_pgactive_version :: u32
  client_pgactive_variant :: "string option"
  client_min_pgactive_version :: u32
  client_sizeof_int :: u64
  client_sizeof_long :: u64
  client_sizeof_datum :: u64
  client_maxalign :: u64
  client_bigendian :: bool
  client_float4_byval :: bool
  client_float8_byval :: bool
  client_int_datetime :: bool
  client_db_encoding :: "string option"
  pgactive_schema_oid :: u32
  pgactive_conflict_handlers_reloid :: u32
  pgactive_locks_reloid :: u32
  pgactive_conflict_history_reloid :: u32
  od_replication_sets :: "string list option"

section \<open>C strings in a buffer\<close>

definition cstr :: "string \<Rightarrow> bytes" where
  "cstr s = map of_char s @ [0]"

text \<open>The string a pointer into a buffer denotes; the buffer itself ends with a terminator.\<close>

definition cstring_at :: "bytes \<Rightarrow> string" where
  "cstring_at bs = map (\<lambda>b. char_of (unat b)) (takeWhile (\<lambda>b. b \<noteq> 0) bs)"

text \<open>\<open>appendBinaryStringInfo\<close> from an object that must have that many bytes.\<close>

definition append_mem :: "bytes \<Rightarrow> bytes \<Rightarrow> nat \<Rightarrow> bytes result" where
  "append_mem out mem n =
     (if length mem < n then Inl (Panic ''read beyond the end of an object'') else Inr (out @ take n mem))"

definition by_value :: "datum \<Rightarrow> u64 result" where
  "by_value d = (case d of DatumByVal w \<Rightarrow> Inr w | _ \<Rightarrow> Inl (Panic ''a pointer used as a value''))"

text \<open>The bytes behind a value passed by reference; an indirect pointer is followed for variable-length types.\<close>

definition by_reference :: "bool \<Rightarrow> datum \<Rightarrow> bytes result" where
  "by_reference varlena d =
     (case d of
        DatumRef bs \<Rightarrow> Inr bs
      | DatumIndirect bs \<Rightarrow> if varlena then Inr bs else Inl (Panic ''not a plain object'')
      | _ \<Rightarrow> Inl (Panic ''not a plain object''))"

section \<open>The writer\<close>

definition write_rel :: "pq_api \<Rightarrow> (u32 \<Rightarrow> string option) \<Rightarrow> bytes \<Rightarrow> relation \<Rightarrow> bytes result" where
  "write_rel pq get_namespace_name out rel =
     (case get_namespace_name (relnamespace rel) of
        None \<Rightarrow> Inl (Error ''cache lookup failed for namespace'')
      | Some nspname \<Rightarrow>
          let out = pq_sendint pq out (of_nat (length nspname + 1)) 2;
              out = out @ cstr nspname;
              out = pq_sendint pq out (of_nat (length (relname rel) + 1)) 2
          in Inr (out @ cstr (relname rel)))"

definition decide_datum_transfer :: "pgactiveOutputData \<Rightarrow> pg_attribute \<Rightarrow> pg_type \<Rightarrow> bool \<times> bool" where
  "decide_datum_transfer data att typclass =
     (if int_datetime_mismatch data \<and>
         (atttypid att = TIMESTAMPOID \<or> atttypid att = TIMESTAMPTZOID \<or> atttypid att = TIMEOID)
      then (False, False)
      else if allow_binary_protocol data \<and> typtype typclass = CHR ''b'' \<and>
         atttypid att < FirstNormalObjectId \<and> typelem typclass = InvalidOid
      then (True, False)
      else if allow_sendrecv_protocol data \<and> typreceive typclass \<noteq> InvalidOid \<and>
         (atttypid att < FirstNormalObjectId \<or> typtype typclass \<noteq> CHR ''c'') \<and>
         (atttypid att < FirstNormalObjectId \<or> typelem typclass = InvalidOid)
      then (False, True)
      else (False, False))"

definition write_binary :: "pq_api \<Rightarrow> datum_api \<Rightarrow> pg_attribute \<Rightarrow> datum \<Rightarrow> bytes \<Rightarrow> bytes result" where
  "write_binary pq api att d out =
     (let out = pq_sendbyte pq out (of_char CHR ''b'') in
      if attbyval att then
        bind_result (by_value d) (\<lambda>w.
        bind_result (store_att_byval api w (attlen att)) (\<lambda>bs.
        Inr (pq_sendint pq out (of_int (attlen att)) 4 @ bs)))
      else if attlen att > 0 then
        bind_result (by_reference False d) (\<lambda>bs.
        append_mem (pq_sendint pq out (of_int (attlen att)) 4) bs (nat (attlen att)))
      else if attlen att = - 1 then
        bind_result (by_reference True d) (\<lambda>bs.
        append_mem (pq_sendint pq out (of_nat (VARSIZE_ANY api bs)) 4) bs (VARSIZE_ANY api bs))
      else Inl (Error ''unsupported tuple type''))"

definition write_attr ::
  "pq_api \<Rightarrow> datum_api \<Rightarrow> pgactiveOutputData \<Rightarrow> pg_attribute \<Rightarrow> datum option \<Rightarrow> bytes \<Rightarrow> bytes result" where
  "write_attr pq api data att v out =
     (case v of
        None \<Rightarrow> Inr (pq_sendbyte pq out (of_char CHR ''n''))
      | Some d \<Rightarrow>
          if attisdropped att then Inr (pq_sendbyte pq out (of_char CHR ''n''))
          else if attlen att = - 1 \<and> (case d of DatumOnDisk _ \<Rightarrow> True | _ \<Rightarrow> False)
          then Inr (pq_sendbyte pq out (of_char CHR ''u''))
          else case search_type api (atttypid att) of
            None \<Rightarrow> Inl (Error ''cache lookup failed for type'')
          | Some typclass \<Rightarrow>
              (case decide_datum_transfer data att typclass of
                 (True, _) \<Rightarrow> write_binary pq api att d out
               | (False, True) \<Rightarrow>
                   bind_result (OidSendFunctionCall api (typsend typclass) d) (\<lambda>outputbytes.
                   Inr (pq_sendbytes pq (pq_sendint pq (pq_sendbyte pq out (of_char CHR ''s''))
                     (of_nat (length outputbytes)) 4) outputbytes))
               | (False, False) \<Rightarrow>
                   bind_result (OidOutputFunctionCall api (typoutput typclass) d) (\<lambda>outputstr.
                   Inr (pq_sendint pq (pq_sendbyte pq out (of_char CHR ''t''))
                     (of_nat (length outputstr + 1)) 4 @ cstr outputstr))))"

fun write_atts ::
  "pq_api \<Rightarrow> datum_api \<Rightarrow> pgactiveOutputData \<Rightarrow> pg_attribute list \<Rightarrow> datum option list \<Rightarrow> bytes \<Rightarrow> bytes result" where
  "write_atts pq api data (att # atts) (v # vs) out =
     bind_result (write_attr pq api data att v out) (write_atts pq api data atts vs)"
| "write_atts pq api data _ _ out = Inr out"

text \<open>\<open>tuple\<close> is what \<open>heap_deform_tuple\<close> yields: a value or null for every attribute.\<close>

definition write_tuple ::
  "pq_api \<Rightarrow> datum_api \<Rightarrow> pgactiveOutputData \<Rightarrow> bytes \<Rightarrow> relation \<Rightarrow> datum option list \<Rightarrow> bytes result" where
  "write_tuple pq api data out rel tuple =
     write_atts pq api data (rd_att rel) tuple
       (pq_sendint pq (pq_sendbyte pq out (of_char CHR ''T'')) (of_nat (length (rd_att rel))) 4)"

section \<open>The reader\<close>

text \<open>The three arrays of a received tuple, up to the number of local attributes.\<close>

record pgactiveTupleData =
  td_values :: "datum list"
  td_isnull :: "bool list"
  td_changed :: "bool list"

type_synonym tuple_col = "datum \<times> bool \<times> bool"

abbreviation bad_datum :: datum where
  "bad_datum \<equiv> DatumByVal 0xdeadbeef"

definition read_attr :: "pq_api \<Rightarrow> datum_api \<Rightarrow> pg_attribute \<Rightarrow> bytes \<Rightarrow> (tuple_col \<times> bytes) result" where
  "read_attr pq api att s =
     bind_result (pq_getmsgbyte pq s) (\<lambda>(kind, s).
     bind_result
       (if kind = of_char CHR ''n'' then Inr ((bad_datum, True, True), s)
        else if kind = of_char CHR ''u'' then Inr ((bad_datum, True, False), s)
        else if kind = of_char CHR ''b'' then
          bind_result (pq_getmsgint pq s 4) (\<lambda>(len, s).
          bind_result (pq_getmsgbytes pq s (sint len)) (\<lambda>(data, s).
          if attbyval att then bind_result (fetch_att api data) (\<lambda>w. Inr ((DatumByVal w, False, True), s))
          else Inr ((DatumRef data, False, True), s)))
        else if kind = of_char CHR ''s'' then
          bind_result (pq_getmsgint pq s 4) (\<lambda>(len, s).
          bind_result (getTypeBinaryInputInfo api (atttypid att)) (\<lambda>(typrecv, typioparam).
          bind_result (pq_getmsgbytes pq s (sint len)) (\<lambda>(buf, s).
          bind_result (OidReceiveFunctionCall api typrecv buf typioparam (atttypmod att)) (\<lambda>(d, cursor).
          if length buf \<noteq> cursor then Inl (Error ''incorrect binary data format'')
          else Inr ((d, False, True), s)))))
        else if kind = of_char CHR ''t'' then
          bind_result (pq_getmsgint pq s 4) (\<lambda>(len, s).
          bind_result (getTypeInputInfo api (atttypid att)) (\<lambda>(typinput, typioparam).
          bind_result (pq_getmsgbytes pq s (sint len)) (\<lambda>(data, s).
          bind_result (OidInputFunctionCall api typinput (cstring_at (data @ s)) typioparam (atttypmod att)) (\<lambda>d.
          Inr ((d, False, True), s)))))
        else Inl (Error ''unknown column type''))
       (\<lambda>(c, s). if attisdropped att \<and> \<not> fst (snd c) then Inl (Error ''data for dropped column'') else Inr (c, s)))"

fun read_atts :: "pq_api \<Rightarrow> datum_api \<Rightarrow> pg_attribute list \<Rightarrow> bytes \<Rightarrow> (tuple_col list \<times> bytes) result" where
  "read_atts pq api [] s = Inr ([], s)"
| "read_atts pq api (att # atts) s =
     bind_result (read_attr pq api att s) (\<lambda>(c, s).
     bind_result (read_atts pq api atts s) (\<lambda>(cs, s). Inr (c # cs, s)))"

text \<open>Local attributes that the remote tuple does not have.\<close>

fun pad_atts :: "pg_attribute list \<Rightarrow> tuple_col list result" where
  "pad_atts [] = Inr []"
| "pad_atts (att # atts) =
     (if \<not> attisdropped att \<and> attnotnull att
      then Inl (Error ''remote tuple has different column count to local table and mismatched columns were not null/dropped'')
      else bind_result (pad_atts atts) (\<lambda>cs. Inr ((bad_datum, True, True) # cs)))"

text \<open>Remote attributes that the local table does not have.\<close>

fun skip_atts :: "pq_api \<Rightarrow> bool \<Rightarrow> nat \<Rightarrow> bytes \<Rightarrow> bytes result" where
  "skip_atts pq discard 0 s = Inr s"
| "skip_atts pq discard (Suc k) s =
     bind_result (pq_getmsgbyte pq s) (\<lambda>(kind, s).
     if kind \<noteq> of_char CHR ''n'' \<and> \<not> discard
     then Inl (Error ''remote tuple has different column count to local table and mismatched columns were not null/dropped'')
     else skip_atts pq discard k s)"

definition mk_tuple :: "tuple_col list \<Rightarrow> pgactiveTupleData" where
  "mk_tuple cols = \<lparr>td_values = map fst cols, td_isnull = map (fst \<circ> snd) cols, td_changed = map (snd \<circ> snd) cols\<rparr>"

definition read_tuple_parts ::
  "pq_api \<Rightarrow> datum_api \<Rightarrow> bool \<Rightarrow> pg_attribute list \<Rightarrow> bytes \<Rightarrow> (pgactiveTupleData \<times> bytes) result" where
  "read_tuple_parts pq api discard_mismatched atts s =
     bind_result (pq_getmsgbyte pq s) (\<lambda>(action, s).
     if action \<noteq> of_char CHR ''T'' then Inl (Error ''expected TUPLE'')
     else bind_result (pq_getmsgint pq s 4) (\<lambda>(r, s).
       if sint r < 0 then Inl (Panic ''attribute number below zero'')
       else let rnatts = nat (sint r) in
         bind_result (read_atts pq api (take rnatts atts) s) (\<lambda>(cs, s).
         bind_result (pad_atts (drop rnatts atts)) (\<lambda>ps.
         bind_result (skip_atts pq discard_mismatched (rnatts - length atts) s) (\<lambda>s.
         Inr (mk_tuple (cs @ ps), s))))))"

text \<open>The names of a relation; the caller opens what \<open>RangeVarGetRelidExtended\<close> finds.\<close>

definition read_rel_names :: "pq_api \<Rightarrow> bytes \<Rightarrow> ((string \<times> string) \<times> bytes) result" where
  "read_rel_names pq s =
     bind_result (pq_getmsgint pq s 2) (\<lambda>(nspnamelen, s).
     bind_result (pq_getmsgbytes pq s (sint nspnamelen)) (\<lambda>(nsp, s).
     let schemaname = cstring_at (nsp @ s) in
     bind_result (pq_getmsgint pq s 2) (\<lambda>(relnamelen, s).
     bind_result (pq_getmsgbytes pq s (sint relnamelen)) (\<lambda>(rel, s).
     Inr ((schemaname, cstring_at (rel @ s)), s)))))"

definition read_rel ::
  "pq_api \<Rightarrow> (string \<Rightarrow> string \<Rightarrow> u32 result) \<Rightarrow> relcache_env \<Rightarrow> bytes \<Rightarrow> (relcache, pgactiveRelation \<times> bytes) op" where
  "read_rel pq RangeVarGetRelidExtended env s =
     sbind (slift (read_rel_names pq s)) (\<lambda>((schemaname, rname), s).
     sbind (slift (RangeVarGetRelidExtended schemaname rname)) (\<lambda>relid.
     sbind (pgactive_table_open env relid) (\<lambda>rel. sret (rel, s))))"

section \<open>Round trips\<close>

lemma kind_code [simp]:
  "(of_char CHR ''n'' :: u8) = 110" "(of_char CHR ''u'' :: u8) = 117" "(of_char CHR ''b'' :: u8) = 98"
  "(of_char CHR ''s'' :: u8) = 115" "(of_char CHR ''t'' :: u8) = 116" "(of_char CHR ''T'' :: u8) = 84"
  by simp_all

lemma u8_of_char_inverse [simp]: "char_of (unat (of_char c :: u8)) = c"
proof -
  have "(of_char c :: u8) = of_nat (of_char c)" by (metis of_nat_of_char)
  then have "unat (of_char c :: u8) = of_char c mod 256" by (simp add: unat_of_nat)
  also have "\<dots> = of_char c" by simp
  finally show ?thesis by simp
qed

lemma u8_of_char_eq_0: "(of_char c :: u8) = 0 \<longleftrightarrow> c = CHR 0x00"
proof
  assume "(of_char c :: u8) = 0"
  then have "c = char_of (0::nat)" using u8_of_char_inverse [of c] by simp
  also have "\<dots> = CHR 0x00" by (simp add: char_of_def)
  finally show "c = CHR 0x00" .
qed simp

text \<open>A string without terminator inside is read back from its C representation.\<close>

lemma cstring_at_cstr:
  assumes "CHR 0x00 \<notin> set s"
  shows "cstring_at (cstr s @ rest) = s"
proof -
  have "\<forall>b \<in> set (map of_char s :: bytes). b \<noteq> 0" using assms by (auto simp: u8_of_char_eq_0)
  then have "takeWhile (\<lambda>b. b \<noteq> 0) (map of_char s @ 0 # rest :: bytes) = map of_char s"
    by (subst takeWhile_append2) auto
  then show ?thesis by (simp add: cstring_at_def cstr_def map_idI)
qed

lemma length_cstr [simp]: "length (cstr s) = Suc (length s)"
  by (simp add: cstr_def)

text \<open>The value that arrives: indirect pointers have been followed.\<close>

definition plain :: "datum \<Rightarrow> datum" where
  "plain d = (case d of DatumIndirect bs \<Rightarrow> DatumRef bs | _ \<Rightarrow> d)"

definition unsent :: "pg_attribute \<Rightarrow> datum option \<Rightarrow> bool" where
  "unsent att v \<longleftrightarrow> v = None \<or> attisdropped att"

definition on_disk :: "pg_attribute \<Rightarrow> datum option \<Rightarrow> bool" where
  "on_disk att v \<longleftrightarrow> attlen att = - 1 \<and> (case v of Some (DatumOnDisk _) \<Rightarrow> True | _ \<Rightarrow> False)"

definition sent_col :: "pg_attribute \<Rightarrow> datum option \<Rightarrow> tuple_col" where
  "sent_col att v = (if unsent att v then (bad_datum, True, True)
     else if on_disk att v then (bad_datum, True, False) else (plain (the v), False, True))"

text \<open>
  What the server promises of a type: storing and fetching a word of the type's length, the
  send and receive functions and the output and input functions are inverse to each other.
\<close>

definition binary_ok :: "datum_api \<Rightarrow> pg_attribute \<Rightarrow> datum \<Rightarrow> bool" where
  "binary_ok api att d \<longleftrightarrow>
     (if attbyval att
      then (\<exists>w bs. d = DatumByVal w \<and> store_att_byval api w (attlen att) = Inr bs \<and>
              attlen att = int (length bs) \<and> length bs < 2 ^ 31 \<and> fetch_att api bs = Inr w)
      else if attlen att > 0 then (\<exists>bs. d = DatumRef bs \<and> attlen att = int (length bs) \<and> length bs < 2 ^ 31)
      else attlen att = - 1 \<and> (\<exists>bs. plain d = DatumRef bs \<and> VARSIZE_ANY api bs = length bs \<and> length bs < 2 ^ 31))"

definition sendrecv_ok :: "datum_api \<Rightarrow> pg_attribute \<Rightarrow> pg_type \<Rightarrow> datum \<Rightarrow> bool" where
  "sendrecv_ok api att ty d \<longleftrightarrow>
     (\<exists>bs f ioparam. OidSendFunctionCall api (typsend ty) d = Inr bs \<and> length bs < 2 ^ 31 \<and>
        getTypeBinaryInputInfo api (atttypid att) = Inr (f, ioparam) \<and>
        OidReceiveFunctionCall api f bs ioparam (atttypmod att) = Inr (plain d, length bs))"

definition text_ok :: "datum_api \<Rightarrow> pg_attribute \<Rightarrow> pg_type \<Rightarrow> datum \<Rightarrow> bool" where
  "text_ok api att ty d \<longleftrightarrow>
     (\<exists>str f ioparam. OidOutputFunctionCall api (typoutput ty) d = Inr str \<and> CHR 0x00 \<notin> set str \<and>
        Suc (length str) < 2 ^ 31 \<and> getTypeInputInfo api (atttypid att) = Inr (f, ioparam) \<and>
        OidInputFunctionCall api f str ioparam (atttypmod att) = Inr (plain d))"

definition transferable :: "datum_api \<Rightarrow> pgactiveOutputData \<Rightarrow> pg_attribute \<Rightarrow> datum option \<Rightarrow> bool" where
  "transferable api data att v \<longleftrightarrow> unsent att v \<or> on_disk att v \<or>
     (\<exists>ty. search_type api (atttypid att) = Some ty \<and>
        (case decide_datum_transfer data att ty of
           (True, _) \<Rightarrow> binary_ok api att (the v)
         | (False, True) \<Rightarrow> sendrecv_ok api att ty (the v)
         | (False, False) \<Rightarrow> text_ok api att ty (the v)))"

text \<open>The same attribute on two nodes; it may be dropped on one of them.\<close>

definition same_attr :: "pg_attribute \<Rightarrow> pg_attribute \<Rightarrow> bool" where
  "same_attr a b \<longleftrightarrow> atttypid a = atttypid b \<and> attlen a = attlen b \<and> attbyval a = attbyval b \<and> atttypmod a = atttypmod b"

context pq_format
begin

lemma getmsgint_len: "n < 2 ^ 31 \<Longrightarrow> pq_getmsgint pq (int_bytes (of_nat n) 4 @ rest) 4 = Inr (of_nat n, rest)"
  by (simp add: get_simps)

lemma getmsgbytes_len:
  assumes "length bs < 2 ^ 31"
  shows "pq_getmsgbytes pq (bs @ rest) (sint (of_nat (length bs) :: u32)) = Inr (bs, rest)"
  using getmsgbytes_send [of bs rest] by (simp add: sint_of_nat_u32 [OF assms])

text \<open>What an attribute's bytes are, and that they are read back.\<close>

definition carries :: "datum_api \<Rightarrow> pgactiveOutputData \<Rightarrow> pg_attribute \<Rightarrow> pg_attribute \<Rightarrow> datum option \<Rightarrow> bytes \<Rightarrow> bool" where
  "carries api data ra la v bs \<longleftrightarrow>
     (\<forall>out. write_attr pq api data ra v out = Inr (out @ bs)) \<and>
     (\<forall>rest. read_attr pq api la (bs @ rest) = Inr (sent_col ra v, rest))"

lemma carries_unsent: "unsent ra v \<Longrightarrow> carries api data ra la v (byte_bytes (of_char CHR ''n''))"
  by (auto simp: carries_def unsent_def write_attr_def read_attr_def sent_col_def send_simps get_simps split: option.split)

lemma carries_on_disk: "\<not> unsent ra v \<Longrightarrow> on_disk ra v \<Longrightarrow> carries api data ra la v (byte_bytes (of_char CHR ''u''))"
  by (auto simp: carries_def unsent_def on_disk_def write_attr_def read_attr_def sent_col_def send_simps get_simps
      split: option.splits datum.splits)

lemma carries_binary:
  assumes "search_type api (atttypid ra) = Some ty" "decide_datum_transfer data ra ty = (True, x)"
    and v: "v = Some d" "\<not> attisdropped ra" "\<not> on_disk ra v" "\<not> attisdropped la" "attbyval la = attbyval ra"
    and ok: "binary_ok api ra d"
  shows "\<exists>bs. carries api data ra la v bs"
proof -
  have w: "write_attr pq api data ra v out = write_binary pq api ra d out" for out
    using assms(1-5) by (auto simp: write_attr_def on_disk_def)
  obtain bs where bs: "length bs < 2 ^ 31" "\<And>out. write_binary pq api ra d out = Inr (out @ byte_bytes (of_char CHR ''b'') @ int_bytes (of_nat (length bs)) 4 @ bs)"
      "if attbyval ra then fetch_att api bs = Inr (case d of DatumByVal w \<Rightarrow> w) \<and> (\<exists>w. d = DatumByVal w) else plain d = DatumRef bs"
    using ok
    by (auto simp: binary_ok_def write_binary_def by_value_def by_reference_def append_mem_def send_simps plain_def Let_def
        split: if_splits datum.splits)
  have "read_attr pq api la (byte_bytes (of_char CHR ''b'') @ int_bytes (of_nat (length bs)) 4 @ bs @ rest) = Inr (sent_col ra v, rest)" for rest
    using bs(3) v
    by (auto simp: read_attr_def get_simps getmsgbytes_len [OF bs(1)] sent_col_def unsent_def plain_def split: if_splits datum.splits)
  with w bs(2) show ?thesis
    by (intro exI [of _ "byte_bytes (of_char CHR ''b'') @ int_bytes (of_nat (length bs)) 4 @ bs"]) (simp add: carries_def)
qed

end

context pq_format
begin

lemma carries_sendrecv:
  assumes "search_type api (atttypid ra) = Some ty" "decide_datum_transfer data ra ty = (False, True)"
    and v: "v = Some d" "\<not> attisdropped ra" "\<not> on_disk ra v" "\<not> attisdropped la" "same_attr ra la"
    and ok: "sendrecv_ok api ra ty d"
  shows "\<exists>bs. carries api data ra la v bs"
proof -
  from ok obtain bs f ioparam where bs: "OidSendFunctionCall api (typsend ty) d = Inr bs" "length bs < 2 ^ 31"
      "getTypeBinaryInputInfo api (atttypid ra) = Inr (f, ioparam)"
      "OidReceiveFunctionCall api f bs ioparam (atttypmod ra) = Inr (plain d, length bs)"
    by (auto simp: sendrecv_ok_def)
  let ?bs = "byte_bytes (of_char CHR ''s'') @ int_bytes (of_nat (length bs)) 4 @ bs"
  have "write_attr pq api data ra v out = Inr (out @ ?bs)" for out
    using assms(1-5) bs(1) by (auto simp: write_attr_def on_disk_def send_simps)
  moreover have "read_attr pq api la (?bs @ rest) = Inr (sent_col ra v, rest)" for rest
    using v bs(3,4) by (auto simp: read_attr_def get_simps getmsgbytes_len [OF bs(2)] sent_col_def unsent_def same_attr_def)
  ultimately show ?thesis unfolding carries_def by blast
qed

lemma carries_text:
  assumes "search_type api (atttypid ra) = Some ty" "decide_datum_transfer data ra ty = (False, False)"
    and v: "v = Some d" "\<not> attisdropped ra" "\<not> on_disk ra v" "\<not> attisdropped la" "same_attr ra la"
    and ok: "text_ok api ra ty d"
  shows "\<exists>bs. carries api data ra la v bs"
proof -
  from ok obtain str f ioparam where str: "OidOutputFunctionCall api (typoutput ty) d = Inr str" "CHR 0x00 \<notin> set str"
      "length (cstr str) < 2 ^ 31" "getTypeInputInfo api (atttypid ra) = Inr (f, ioparam)"
      "OidInputFunctionCall api f str ioparam (atttypmod ra) = Inr (plain d)"
    by (auto simp: text_ok_def)
  let ?bs = "byte_bytes (of_char CHR ''t'') @ int_bytes (of_nat (length (cstr str))) 4 @ cstr str"
  have "write_attr pq api data ra v out = Inr (out @ ?bs)" for out
    using assms(1-5) str(1) by (auto simp: write_attr_def on_disk_def send_simps)
  moreover have "read_attr pq api la (?bs @ rest) = Inr (sent_col ra v, rest)" for rest
  proof -
    have "pq_getmsgbytes pq (cstr str @ rest) (sint (1 + word_of_nat (length str) :: u32)) = Inr (cstr str, rest)"
      using getmsgbytes_len [OF str(3)] by simp
    with v str(4,5) show ?thesis
      by (auto simp: read_attr_def get_simps cstring_at_cstr [OF str(2)] sent_col_def unsent_def same_attr_def)
  qed
  ultimately show ?thesis unfolding carries_def by blast
qed

lemma carries_ex:
  assumes t: "transferable api data ra v" and s: "same_attr ra la" and d: "attisdropped la \<Longrightarrow> unsent ra v \<or> on_disk ra v"
  shows "\<exists>bs. carries api data ra la v bs"
proof (cases "unsent ra v \<or> on_disk ra v")
  case True
  then show ?thesis using carries_unsent carries_on_disk by blast
next
  case False
  then obtain x where x: "v = Some x" "\<not> attisdropped ra" "\<not> on_disk ra v" by (auto simp: unsent_def)
  from t False obtain ty where ty: "search_type api (atttypid ra) = Some ty"
      "case decide_datum_transfer data ra ty of (True, _) \<Rightarrow> binary_ok api ra (the v)
         | (False, True) \<Rightarrow> sendrecv_ok api ra ty (the v) | (False, False) \<Rightarrow> text_ok api ra ty (the v)"
    by (auto simp: transferable_def)
  have la: "\<not> attisdropped la" "attbyval la = attbyval ra" using d False s by (auto simp: same_attr_def)
  show ?thesis
  proof (cases "decide_datum_transfer data ra ty")
    case (Pair b r)
    then show ?thesis
      using ty x la s carries_binary [OF ty(1) _ x(1,2,3) la] carries_sendrecv [OF ty(1) _ x(1,2,3) la(1) s]
        carries_text [OF ty(1) _ x(1,2,3) la(1) s]
      by (cases b; cases r) simp_all
  qed
qed

text \<open>A sequence of attributes: \<open>bss\<close> are the bytes of each.\<close>

lemma write_atts_concat:
  assumes "list_all2 (\<lambda>(ra, la, v) bs. carries api data ra la v bs) cols bss"
  shows "write_atts pq api data (map fst cols @ ras) (map (snd \<circ> snd) cols @ vs) out
    = write_atts pq api data ras vs (out @ concat bss)"
  using assms by (induction cols bss arbitrary: out rule: list_all2_induct) (auto simp: carries_def)

lemma read_atts_concat:
  assumes "list_all2 (\<lambda>(ra, la, v) bs. carries api data ra la v bs) cols bss"
  shows "read_atts pq api (map (fst \<circ> snd) cols) (concat bss @ rest) = Inr (map (\<lambda>(ra, la, v). sent_col ra v) cols, rest)"
  using assms by (induction cols bss rule: list_all2_induct) (auto simp: carries_def)

lemma write_nulls:
  assumes "list_all2 unsent ras vs"
  shows "write_atts pq api data ras vs out = Inr (out @ concat (replicate (length ras) (byte_bytes (of_char CHR ''n''))))"
  using assms
proof (induction ras vs arbitrary: out rule: list_all2_induct)
  case (Cons ra ras v vs)
  from carries_unsent [OF Cons.hyps(1)] Cons.IH show ?case by (simp add: carries_def)
qed simp

lemma skip_nulls: "skip_atts pq discard n (concat (replicate n (byte_bytes (of_char CHR ''n''))) @ rest) = Inr rest"
  by (induction n) (simp_all add: get_simps)

end

lemma pad_nullable: "list_all (\<lambda>a. attisdropped a \<or> \<not> attnotnull a) atts \<Longrightarrow> pad_atts atts = Inr (replicate (length atts) (bad_datum, True, True))"
  by (induction atts) auto

lemma list_all2_choice: "list_all (\<lambda>x. \<exists>y. P x y) xs \<Longrightarrow> \<exists>ys. list_all2 P xs ys"
  by (induction xs) (auto intro: list_all2_Cons1 [THEN iffD2])

text \<open>
  When a row written with the attributes \<open>ras\<close> can be stored with the attributes \<open>las\<close>: common
  attributes agree and their values can be transferred, further local attributes accept null and
  further remote ones carry nothing.
\<close>

definition fits :: "datum_api \<Rightarrow> pgactiveOutputData \<Rightarrow> pg_attribute list \<Rightarrow> pg_attribute list \<Rightarrow> datum option list \<Rightarrow> bool" where
  "fits api data ras las vs \<longleftrightarrow> length vs = length ras \<and> length ras < 2 ^ 31 \<and>
     (\<forall>i < min (length ras) (length las). transferable api data (ras ! i) (vs ! i) \<and> same_attr (ras ! i) (las ! i) \<and>
        (attisdropped (las ! i) \<longrightarrow> unsent (ras ! i) (vs ! i) \<or> on_disk (ras ! i) (vs ! i))) \<and>
     (\<forall>a \<in> set (drop (length ras) las). attisdropped a \<or> \<not> attnotnull a) \<and>
     list_all2 unsent (drop (length las) ras) (drop (length las) vs)"

definition received :: "pg_attribute list \<Rightarrow> pg_attribute list \<Rightarrow> datum option list \<Rightarrow> pgactiveTupleData" where
  "received ras las vs = mk_tuple (take (length las) (map2 sent_col ras vs)
     @ replicate (length las - length ras) (bad_datum, True, True))"

context pq_format
begin

lemma tuple_carried:
  assumes "fits api data (rd_att rel) las tuple"
  shows "\<exists>bs. (\<forall>out. write_tuple pq api data out rel tuple = Inr (out @ bs)) \<and>
    (\<forall>discard rest. read_tuple_parts pq api discard las (bs @ rest) = Inr (received (rd_att rel) las tuple, rest))"
proof -
  let ?ras = "rd_att rel"
  define n where "n = min (length ?ras) (length las)"
  define cols where "cols = zip (take n ?ras) (zip (take n las) (take n tuple))"
  have len: "length tuple = length ?ras" "length ?ras < 2 ^ 31" using assms by (simp_all add: fits_def)
  have cl: "length cols = n" using len by (simp add: cols_def n_def)
  have nth: "cols ! i = (?ras ! i, las ! i, tuple ! i)" if "i < n" for i
    using that len by (simp add: cols_def n_def)
  have "list_all (\<lambda>(ra, la, v). \<exists>bs. carries api data ra la v bs) cols"
    unfolding list_all_length
  proof (intro allI impI)
    fix i assume "i < length cols"
    then have "i < n" by (simp add: cl)
    with assms nth show "case cols ! i of (ra, la, v) \<Rightarrow> \<exists>bs. carries api data ra la v bs"
      by (auto simp: fits_def n_def intro!: carries_ex)
  qed
  then have "list_all (\<lambda>c. \<exists>bs. (\<lambda>(ra, la, v) bs. carries api data ra la v bs) c bs) cols"
    by (simp add: list_all_iff case_prod_beta)
  from list_all2_choice [OF this] obtain bss where bss: "list_all2 (\<lambda>(ra, la, v) bs. carries api data ra la v bs) cols bss" by blast
  have parts: "map fst cols = take n ?ras" "map (fst \<circ> snd) cols = take n las" "map (snd \<circ> snd) cols = take n tuple"
    using len by (auto simp: cols_def n_def intro!: nth_equalityI)
  have sent: "map (\<lambda>(ra, la, v). sent_col ra v) cols = take (length las) (map2 sent_col ?ras tuple)"
    using len nth cl by (intro nth_equalityI) (auto simp: n_def)
  let ?k = "length ?ras - n"
  have split: "?ras = take n ?ras @ drop n ?ras" "tuple = take n tuple @ drop n tuple" by simp_all
  have un: "list_all2 unsent (drop n ?ras) (drop n tuple)"
    using assms len by (cases "length las \<le> length ?ras") (simp_all add: fits_def n_def min_def)
  let ?bs = "byte_bytes (of_char CHR ''T'') @ int_bytes (of_nat (length ?ras)) 4 @ concat bss
    @ concat (replicate ?k (byte_bytes (of_char CHR ''n'')))"
  have "write_tuple pq api data out rel tuple = Inr (out @ ?bs)" for out
    using write_atts_concat [OF bss, of "drop n ?ras" "drop n tuple"] write_nulls [OF un]
    by (simp add: write_tuple_def parts send_simps)
  moreover have "read_tuple_parts pq api discard las (?bs @ rest) = Inr (received ?ras las tuple, rest)" for discard rest
  proof -
    have a: "take (length ?ras) las = take n las" by (simp add: n_def min_def)
    have p: "pad_atts (drop (length ?ras) las) = Inr (replicate (length las - length ?ras) (bad_datum, True, True))"
      using pad_nullable [of "drop (length ?ras) las"] assms by (simp add: fits_def list_all_iff)
    have k: "length ?ras - length las = ?k" by (simp add: n_def min_def)
    show ?thesis
      using read_atts_concat [OF bss, unfolded parts(2), of "concat (replicate ?k (byte_bytes (of_char CHR ''n''))) @ rest"]
        skip_nulls [of discard ?k rest]
      by (simp add: read_tuple_parts_def get_simps sint_of_nat_u32 [OF len(2)] a p k sent received_def)
  qed
  ultimately show ?thesis by blast
qed

end

section \<open>Properties\<close>

text \<open>
  C14: a row written by the output plugin is read back by the apply worker: every value that was
  sent arrives, null and dropped columns arrive as null, values left out of line on disk arrive
  as unchanged, columns the sender does not have are filled with null and further null columns
  of the sender are discarded.  The bytes after the row are left for the next reader.  This rests
  on the types' input and output functions being inverse to each other.
\<close>

theorem tuple_roundtrip:
  assumes "pq_format pq" "fits api data (rd_att rel) las tuple"
  shows "\<exists>bs. (\<forall>out. write_tuple pq api data out rel tuple = Inr (out @ bs)) \<and>
    (\<forall>discard rest. read_tuple_parts pq api discard las (bs @ rest) = Inr (received (rd_att rel) las tuple, rest))"
  by (rule pq_format.tuple_carried [OF assms])

section \<open>Typing of received rows\<close>

definition repr_ok :: "pg_attribute \<Rightarrow> datum \<Rightarrow> bool" where
  "repr_ok att d \<longleftrightarrow> (if attbyval att then (\<exists>w. d = DatumByVal w) else (\<exists>bs. d = DatumRef bs))"

text \<open>The input functions of an attribute's type yield values in the representation of the attribute.\<close>

definition typed_input :: "datum_api \<Rightarrow> pg_attribute \<Rightarrow> bool" where
  "typed_input api att \<longleftrightarrow>
     (\<forall>f p s d. getTypeInputInfo api (atttypid att) = Inr (f, p) \<and> OidInputFunctionCall api f s p (atttypmod att) = Inr d \<longrightarrow> repr_ok att d) \<and>
     (\<forall>f p bs d k. getTypeBinaryInputInfo api (atttypid att) = Inr (f, p) \<and> OidReceiveFunctionCall api f bs p (atttypmod att) = Inr (d, k) \<longrightarrow>
        repr_ok att d)"

fun col_typed :: "pg_attribute \<Rightarrow> tuple_col \<Rightarrow> bool" where
  "col_typed att (d, null, changed) \<longleftrightarrow>
     (attisdropped att \<longrightarrow> null) \<and> (\<not> null \<longrightarrow> repr_ok att d) \<and> (\<not> changed \<longrightarrow> null)"

definition tuple_typed :: "pg_attribute list \<Rightarrow> pgactiveTupleData \<Rightarrow> bool" where
  "tuple_typed atts t \<longleftrightarrow> length (td_values t) = length atts \<and> length (td_isnull t) = length atts \<and> length (td_changed t) = length atts \<and>
     (\<forall>i < length atts. col_typed (atts ! i) (td_values t ! i, td_isnull t ! i, td_changed t ! i))"

lemma typed_inputD:
  assumes "typed_input api att"
  shows "getTypeInputInfo api (atttypid att) = Inr (f, p) \<Longrightarrow> OidInputFunctionCall api f str p (atttypmod att) = Inr d \<Longrightarrow> repr_ok att d"
    and "getTypeBinaryInputInfo api (atttypid att) = Inr (f, p) \<Longrightarrow> OidReceiveFunctionCall api f bs p (atttypmod att) = Inr (d, k) \<Longrightarrow>
      repr_ok att d"
  using assms unfolding typed_input_def by blast+

lemma repr_ok_simps [simp]:
  "repr_ok att (DatumByVal w) = attbyval att" "repr_ok att (DatumRef bs) = (\<not> attbyval att)"
  by (simp_all add: repr_ok_def)

lemma read_attr_typed:
  assumes "typed_input api att" "read_attr pq api att s = Inr (c, rest)"
  shows "col_typed att c"
  using assms(2)
  by (cases c) (auto simp: read_attr_def bind_result_eq_Inr intro: typed_inputD [OF assms(1)] split: if_splits)

lemma read_atts_typed:
  assumes "list_all (typed_input api) atts" "read_atts pq api atts s = Inr (cs, rest)"
  shows "list_all2 col_typed atts cs"
  using assms
  by (induction atts arbitrary: s cs) (auto simp: bind_result_eq_Inr dest: read_attr_typed)

lemma pad_atts_typed: "pad_atts atts = Inr cs \<Longrightarrow> list_all2 col_typed atts cs"
  by (induction atts arbitrary: cs) (auto simp: bind_result_eq_Inr split: if_splits)

lemma mk_tuple_typed: "list_all2 col_typed atts cols \<Longrightarrow> tuple_typed atts (mk_tuple cols)"
  by (auto simp: tuple_typed_def mk_tuple_def list_all2_conv_all_nth)

text \<open>
  C15: whatever bytes arrive, a row that \<open>read_tuple_parts\<close> accepts is well typed for the local
  table: it has a column for every attribute, dropped columns are null, a value that is not null has
  the representation of its attribute, and a column marked as unchanged carries no value.
\<close>

theorem received_tuple_typed:
  assumes "list_all (typed_input api) atts" "read_tuple_parts pq api discard atts s = Inr (tup, rest)"
  shows "tuple_typed atts tup"
proof -
  from assms(2) obtain n s' cs rest' ps where
    r: "read_atts pq api (take n atts) s' = Inr (cs, rest')" "pad_atts (drop n atts) = Inr ps" "tup = mk_tuple (cs @ ps)"
    by (auto simp: read_tuple_parts_def bind_result_eq_Inr Let_def split: if_splits)
  have "list_all (typed_input api) (take n atts)"
    using assms(1) by (meson list_all_iff in_set_takeD)
  from read_atts_typed [OF this r(1)] pad_atts_typed [OF r(2)]
  have "list_all2 col_typed (take n atts @ drop n atts) (cs @ ps)" by (rule list_all2_appendI)
  then show ?thesis unfolding r(3) by (intro mk_tuple_typed) simp
qed

section \<open>A concrete row\<close>

text \<open>
  A table with an \<open>int4\<close> column, a dropped column, a column of a user-defined type and a
  \<open>text\<close> column whose value stays out of line; the receiver has one more column.
\<close>

definition le_store :: "u64 \<Rightarrow> int \<Rightarrow> bytes result" where
  "le_store w n = (if n \<in> {1, 2, 4, 8} then Inr (rev (be_encode (nat n) (unat w))) else Inl (Error ''unsupported byval length''))"

definition example_api :: datum_api where
  "example_api = \<lparr>store_att_byval = le_store, fetch_att = (\<lambda>bs. Inr (of_nat (be_decode (rev bs)))),
     VARSIZE_ANY = length,
     search_type = (\<lambda>t. Some \<lparr>typtype = CHR ''b'', typelem = 0, typreceive = 0, typsend = 0, typoutput = 7\<rparr>),
     OidSendFunctionCall = (\<lambda>f d. Inl (Error ''no send function'')),
     OidOutputFunctionCall = (\<lambda>f d. case d of DatumRef bs \<Rightarrow> Inr (cstring_at bs) | _ \<Rightarrow> Inl (Error ''bad value'')),
     getTypeBinaryInputInfo = (\<lambda>t. Inl (Error ''no receive function'')),
     OidReceiveFunctionCall = (\<lambda>f bs p m. Inl (Error ''no receive function'')),
     getTypeInputInfo = (\<lambda>t. Inr (8, t)),
     OidInputFunctionCall = (\<lambda>f s p m. if p = 23 then Inr (DatumByVal 0) else Inr (DatumRef (cstr s)))\<rparr>"

definition example_att :: "u32 \<Rightarrow> int \<Rightarrow> bool \<Rightarrow> bool \<Rightarrow> pg_attribute" where
  "example_att t len byval dropped =
     \<lparr>atttypid = t, attlen = len, attbyval = byval, attnotnull = False, attisdropped = dropped, atttypmod = - 1\<rparr>"

definition example_relation :: relation where
  "example_relation = \<lparr>rd_id = 20001, relnamespace = 2200, relname = ''t'',
     rd_att = [example_att 23 4 True False, example_att 23 4 True True, example_att 20000 (- 1) False False, example_att 25 (- 1) False False]\<rparr>"

definition example_data :: pgactiveOutputData where
  "example_data = \<lparr>remote_node = zero_nodeid, allow_binary_protocol = True, allow_sendrecv_protocol = False,
     int_datetime_mismatch = False, od_forward_changesets = False, client_pg_version = 170000, client_pg_catversion = 1,
     client_pgactive_version = 20100, client_pgactive_variant = None, client_min_pgactive_version = 20100,
     client_sizeof_int = 4, client_sizeof_long = 8, client_sizeof_datum = 8, client_maxalign = 8, client_bigendian = False,
     client_float4_byval = True, client_float8_byval = True, client_int_datetime = True, client_db_encoding = Some ''UTF8'',
     pgactive_schema_oid = 100, pgactive_conflict_handlers_reloid = 101, pgactive_locks_reloid = 102,
     pgactive_conflict_history_reloid = 103, od_replication_sets = None\<rparr>"

definition sample_row :: "datum option list" where
  "sample_row = [Some (DatumByVal 7), None, Some (DatumRef (cstr ''ab'')), Some (DatumOnDisk [])]"

definition example_local :: "pg_attribute list" where
  "example_local = rd_att example_relation @ [example_att 23 4 True False]"

lemma le_store_7: "le_store 7 4 = Inr [7, 0, 0, 0]"
proof -
  have "be_encode (Suc (Suc (Suc (Suc 0)))) 7 = [0, 0, 0, 7]" by simp
  moreover have "Suc (Suc (Suc (Suc 0))) = 4" by simp
  ultimately have "be_encode 4 7 = [0, 0, 0, 7]" by metis
  then show ?thesis by (simp add: le_store_def)
qed

lemma example_att_sel [simp]: "attisdropped (example_att t n v d) = d"
  by (simp add: example_att_def)

lemma example_binary: "binary_ok example_api (example_att 23 4 True False) (DatumByVal 7)"
  by (simp add: binary_ok_def example_att_def example_api_def le_store_7 be_decode_def)

lemma example_text:
  "text_ok example_api (example_att 20000 (- 1) False False) \<lparr>typtype = CHR ''b'', typelem = 0, typreceive = 0, typsend = 0, typoutput = 7\<rparr>
     (DatumRef (cstr ''ab''))"
  using cstring_at_cstr [of "''ab''" "[]"] by (simp add: text_ok_def example_att_def example_api_def plain_def)

lemma example_transferable:
  "transferable example_api example_data (example_att 23 4 True False) (Some (DatumByVal 7))"
  "transferable example_api example_data (example_att 23 4 True True) None"
  "transferable example_api example_data (example_att 20000 (- 1) False False) (Some (DatumRef (cstr ''ab'')))"
  "transferable example_api example_data (example_att 25 (- 1) False False) (Some (DatumOnDisk []))"
proof -
  let ?ty = "\<lparr>typtype = CHR ''b'', typelem = 0, typreceive = 0, typsend = 0, typoutput = 7\<rparr>"
  have ty: "search_type example_api t = Some ?ty" for t by (simp add: example_api_def)
  have d: "decide_datum_transfer example_data (example_att 23 4 True False) ?ty = (True, False)"
      "decide_datum_transfer example_data (example_att 20000 (- 1) False False) ?ty = (False, False)"
    by (simp_all add: decide_datum_transfer_def example_data_def example_att_def FirstNormalObjectId_def InvalidOid_def)
  show "transferable example_api example_data (example_att 23 4 True False) (Some (DatumByVal 7))"
    using example_binary by (simp add: transferable_def ty d)
  show "transferable example_api example_data (example_att 20000 (- 1) False False) (Some (DatumRef (cstr ''ab'')))"
    using example_text by (simp add: transferable_def ty d)
qed (simp_all add: transferable_def unsent_def on_disk_def example_att_def)

lemma example_fits: "fits example_api example_data (rd_att example_relation) example_local sample_row"
proof -
  let ?ras = "rd_att example_relation"
  have "transferable example_api example_data (?ras ! i) (sample_row ! i) \<and> same_attr (?ras ! i) (example_local ! i) \<and>
      (attisdropped (example_local ! i) \<longrightarrow> unsent (?ras ! i) (sample_row ! i))" if "i < 4" for i
  proof -
    from that have "i = 0 \<or> i = 1 \<or> i = 2 \<or> i = 3" by auto
    then show ?thesis
      by (elim disjE) (simp_all add: example_relation_def sample_row_def example_transferable example_local_def same_attr_def unsent_def)
  qed
  then show ?thesis
    by (simp add: fits_def example_local_def example_relation_def sample_row_def example_att_def)
qed

theorem tuple_roundtrip_witness:
  "\<exists>bs. write_tuple pq_network example_api example_data [] example_relation sample_row = Inr bs \<and>
     read_tuple_parts pq_network example_api False example_local (bs @ [1]) = Inr (received (rd_att example_relation) example_local sample_row, [1])"
proof -
  from tuple_roundtrip [OF net.pq_format_axioms example_fits] obtain bs where
    "\<forall>out. write_tuple pq_network example_api example_data out example_relation sample_row = Inr (out @ bs)"
    "\<forall>discard rest. read_tuple_parts pq_network example_api discard example_local (bs @ rest) =
       Inr (received (rd_att example_relation) example_local sample_row, rest)" by blast
  then show ?thesis by (intro exI [of _ bs]) simp
qed

theorem received_tuple_typed_witness:
  "tuple_typed [example_att 23 4 True False] (mk_tuple [(DatumByVal 7, False, True)])"
proof -
  have "read_tuple_parts pq_network example_api False [example_att 23 4 True False] ([84, 0, 0, 0, 1, 98, 0, 0, 0, 4, 7, 0, 0, 0] :: bytes)
      = Inr (mk_tuple [(DatumByVal 7, False, True)], [])"
    by (simp add: read_tuple_parts_def pq_network_def split_msg_def read_attr_def example_att_def example_api_def be_decode_def mk_tuple_def)
  moreover have "list_all (typed_input example_api) [example_att 23 4 True False]"
    by (simp add: typed_input_def example_api_def example_att_def)
  ultimately show ?thesis using received_tuple_typed by blast
qed

end
