(* ===== verification/Conflict_Handlers.thy ===== *)
theory Conflict_Handlers
  imports Tuple_Codec
begin

text \<open>
  User-defined conflict handlers, \<^verbatim>\<open>src/pgactive_conflict_handlers.c\<close>: the object identifiers the
  module looks up, the cached list of handlers of a relation and the resolution of a conflict by
  them.  The catalogues are data, the handler functions are a parameter that may change the
  database, whose type \<open>'db\<close> is left open.
\<close>

section \<open>Catalogues\<close>

text \<open>A row of a table: its columns, \<open>None\<close> for null.\<close>

type_synonym row = "datum option list"

text \<open>A stored version of a row: where it is, the transaction that wrote it, and its columns.\<close>

record heap_tuple =
  t_self :: nat
  t_xmin :: u32
  t_values :: row

record pg_enum_row =
  enum_oid :: u32
  enum_typid :: u32
  enum_label :: string

datatype enum_column = Anum_pg_enum_oid | Anum_pg_enum_enumtypid

text \<open>\<open>cat_namespace\<close> is \<open>get_namespace_oid ("pgactive", false)\<close>; relations and types are those of that schema.\<close>

record catalog =
  cat_namespace :: "u32 result"
  cat_relid :: "string \<Rightarrow> u32"
  cat_type :: "string \<Rightarrow> u32"
  cat_enum :: "pg_enum_row list"

definition enum_oid2 :: "catalog \<Rightarrow> enum_column \<Rightarrow> u32 \<Rightarrow> string \<Rightarrow> u32" where
  "enum_oid2 cat col typ label =
     (case find (\<lambda>r. enum_typid r = typ \<and> enum_label r = label) (cat_enum cat) of
        None \<Rightarrow> InvalidOid
      | Some r \<Rightarrow> (case col of Anum_pg_enum_oid \<Rightarrow> enum_oid r | Anum_pg_enum_enumtypid \<Rightarrow> enum_typid r))"

definition GetSysCacheOid2Error :: "u32 \<Rightarrow> u32 result" where
  "GetSysCacheOid2Error oid = (if oid = InvalidOid then Inl (Error ''cache lookup failure in cache'') else Inr oid)"

record conflict_oids =
  ch_table_oid :: u32
  ch_type_oid :: u32
  ch_action_oid :: u32
  ch_ignore_oid :: u32
  ch_row_oid :: u32
  ch_skip_oid :: u32

definition pgactive_conflict_handlers_init :: "catalog \<Rightarrow> (conflict_oids, unit) op" where
  "pgactive_conflict_handlers_init cat =
     sbind (slift (cat_namespace cat)) (\<lambda>schema_oid.
     sseq (smodify (\<lambda>g. g\<lparr>ch_table_oid := cat_relid cat ''pgactive_conflict_handlers''\<rparr>))
     (if cat_relid cat ''pgactive_conflict_handlers'' = InvalidOid
      then sfail (Error ''cache lookup failed for relation pgactive.pgactive_conflict_handlers'')
      else
      sbind (slift (GetSysCacheOid2Error (cat_type cat ''pgactive_conflict_type''))) (\<lambda>t.
      sseq (smodify (\<lambda>g. g\<lparr>ch_type_oid := t\<rparr>))
      (sbind (slift (GetSysCacheOid2Error (cat_type cat ''pgactive_conflict_handler_action''))) (\<lambda>a.
      sseq (smodify (\<lambda>g. g\<lparr>ch_action_oid := a\<rparr>))
      (sbind (slift (GetSysCacheOid2Error (enum_oid2 cat Anum_pg_enum_oid a ''IGNORE''))) (\<lambda>i.
      sseq (smodify (\<lambda>g. g\<lparr>ch_ignore_oid := i\<rparr>))
      (sbind (slift (GetSysCacheOid2Error (enum_oid2 cat Anum_pg_enum_oid a ''ROW''))) (\<lambda>r.
      sseq (smodify (\<lambda>g. g\<lparr>ch_row_oid := r\<rparr>))
      (sbind (slift (GetSysCacheOid2Error (enum_oid2 cat Anum_pg_enum_oid a ''SKIP''))) (\<lambda>k.
      smodify (\<lambda>g. g\<lparr>ch_skip_oid := k\<rparr>))))))))))))"

section \<open>Administration of handlers\<close>

record class_row =
  cls_namespace :: u32
  cls_owned :: bool
  cls_system :: bool

definition pgactive_conflict_handlers_check_access :: "(u32 \<Rightarrow> class_row option) \<Rightarrow> (u32 \<Rightarrow> bool) \<Rightarrow> u32 \<Rightarrow> unit result" where
  "pgactive_conflict_handlers_check_access classes owns_namespace reloid =
     (case classes reloid of
        None \<Rightarrow> Inl (Error ''cache lookup failed for relation'')
      | Some c \<Rightarrow>
          if \<not> cls_owned c \<and> \<not> owns_namespace (cls_namespace c) then Inl (Error ''permission denied to relation'')
          else if cls_system c then Inl (Error ''permission denied: is a system catalog'')
          else Inr ())"

text \<open>Both functions report an error before they do anything.\<close>

definition pgactive_create_conflict_handler :: "('s, unit) op" where
  "pgactive_create_conflict_handler = sfail (Error ''feature is not implemented yet'')"

definition pgactive_drop_conflict_handler :: "('s, unit) op" where
  "pgactive_drop_conflict_handler = sfail (Error ''feature is not implemented yet'')"

definition TEXTOID :: u32 where "TEXTOID = 25"
definition REGCLASSOID :: u32 where "REGCLASSOID = 2205"
definition RECORDOID :: u32 where "RECORDOID = 2249"

record proc_row =
  prorettype :: u32
  pro_argtypes :: "u32 list"
  pro_argmodes :: "char list"
  pro_retdesc :: "u32 list option"

definition pgactive_conflict_handlers_check_handler_fun ::
  "(u32 \<Rightarrow> proc_row option) \<Rightarrow> (u32 \<Rightarrow> char) \<Rightarrow> conflict_oids \<Rightarrow> u32 \<Rightarrow> u32 \<Rightarrow> unit result" where
  "pgactive_conflict_handlers_check_handler_fun procs get_typtype g reltype proc_oid =
     (case procs proc_oid of
        None \<Rightarrow> Inl (Error ''cache lookup failed for function'')
      | Some p \<Rightarrow>
          let bad = Inl (Error ''conflict handler function signature must be'') in
          if get_typtype (prorettype p) \<noteq> CHR ''p'' \<or> prorettype p \<noteq> RECORDOID then bad
          else if length (pro_argtypes p) \<noteq> 7 then bad
          else case pro_retdesc p of
            None \<Rightarrow> bad
          | Some d \<Rightarrow>
              if length d \<noteq> 2 then bad
              else if d ! 0 \<noteq> reltype \<or> d ! 1 \<noteq> ch_action_oid g then bad
              else if pro_argtypes p ! 2 \<noteq> TEXTOID \<or> pro_argtypes p ! 3 \<noteq> REGCLASSOID \<or> pro_argtypes p ! 4 \<noteq> ch_type_oid g then bad
              else if take 7 (pro_argmodes p) \<noteq> replicate 5 (CHR ''i'') @ replicate 2 (CHR ''o'') then bad
              else if get_typtype (pro_argtypes p ! 0) \<noteq> CHR ''c'' \<or> pro_argtypes p ! 0 \<noteq> reltype then bad
              else if get_typtype (pro_argtypes p ! 1) \<noteq> CHR ''c'' \<or> pro_argtypes p ! 1 \<noteq> reltype then bad
              else Inr ())"

section \<open>The handlers of a relation\<close>

text \<open>\<open>hr_timeframe\<close>: months, days and microseconds of the interval.\<close>

record handler_row =
  hr_fun :: "u32 option"
  hr_type :: "string option"
  hr_timeframe :: "(int \<times> int \<times> int) option"

definition DAYS_PER_MONTH :: int where "DAYS_PER_MONTH = 30"
definition USECS_PER_DAY :: int where "USECS_PER_DAY = 86400000000"

text \<open>\<open>month * DAYS_PER_MONTH\<close> is an \<open>int\<close>, the sum an \<open>int64\<close> stored in a \<open>uint64\<close>.\<close>

definition interval_usecs :: "int \<times> int \<times> int \<Rightarrow> u64" where
  "interval_usecs i = (case i of (month, day, usecs) \<Rightarrow>
     of_int (signed_take_bit 31 (month * DAYS_PER_MONTH) * USECS_PER_DAY + day * USECS_PER_DAY + usecs))"

definition handler_type_of :: "string \<Rightarrow> pgactiveConflictType result" where
  "handler_type_of htype =
     (if strcmp htype ''update_update'' = 0 then Inr pgactiveConflictType_UpdateUpdate
      else if strcmp htype ''update_delete'' = 0 then Inr pgactiveConflictType_UpdateDelete
      else if strcmp htype ''delete_delete'' = 0 then Inr pgactiveConflictType_DeleteDelete
      else if strcmp htype ''insert_insert'' = 0 then Inr pgactiveConflictType_InsertInsert
      else if strcmp htype ''insert_update'' = 0 then Inr pgactiveConflictType_InsertUpdate
      else Inl (Error ''unknown handler type''))"

definition load_handler :: "handler_row \<Rightarrow> pgactiveConflictHandler result" where
  "load_handler h =
     (case hr_fun h of
        None \<Rightarrow> Inl (Error ''handler OID is null'')
      | Some f \<Rightarrow>
          (case hr_type h of
             None \<Rightarrow> Inl (Error ''handler type is null'')
           | Some htype \<Rightarrow>
               bind_result (handler_type_of htype) (\<lambda>t.
               Inr \<lparr>handler_oid = f, handler_type = t,
                 handler_timeframe = (case hr_timeframe h of None \<Rightarrow> 0 | Some i \<Rightarrow> interval_usecs i)\<rparr>)))"

text \<open>The elements of the array are written one by one; those not reached keep what the memory held.\<close>

fun load_handlers :: "pgactiveConflictHandler \<Rightarrow> handler_row list \<Rightarrow> unit result \<times> pgactiveConflictHandler list" where
  "load_handlers garbage [] = (Inr (), [])"
| "load_handlers garbage (h # hs) =
     (case load_handler h of
        Inl e \<Rightarrow> (Inl e, garbage # replicate (length hs) garbage)
      | Inr c \<Rightarrow> (case load_handlers garbage hs of (r, cs) \<Rightarrow> (r, c # cs)))"

text \<open>
  A handler returns a row with its type, and an action.  \<open>he_rows\<close>: the handlers the query yields,
  ordered by type and name.  \<open>he_proc_known\<close>: the function is found in the catalogue after the call.
\<close>

record handler_return =
  ret_row :: "(u32 \<times> row) option"
  ret_action :: "u32 option"

record 'db handler_env =
  he_cat :: catalog
  he_oids :: conflict_oids
  he_spi_connect :: bool
  he_spi_finish :: bool
  he_rows :: "u32 \<Rightarrow> handler_row list result"
  he_garbage :: pgactiveConflictHandler
  he_invoke :: "u32 \<Rightarrow> row option \<Rightarrow> row option \<Rightarrow> string \<Rightarrow> u32 \<Rightarrow> u32 \<Rightarrow> ('db, handler_return option) op"
  he_proc_known :: "u32 \<Rightarrow> bool"
  he_reltype :: "u32 \<Rightarrow> u32"

definition pgactive_get_conflict_handlers :: "'db handler_env \<Rightarrow> u32 \<Rightarrow> (pgactiveRelation, unit) op" where
  "pgactive_get_conflict_handlers env relid r =
     (if rel_handlers r \<noteq> None then (Inr (), r)
      else if \<not> he_spi_connect env then (Inl (Error ''SPI_connect failed''), r)
      else case he_rows env relid of
        Inl e \<Rightarrow> (Inl e, r)
      | Inr rows \<Rightarrow>
          (case load_handlers (he_garbage env) rows of
             (res, hs) \<Rightarrow>
               let r' = r\<lparr>rel_handlers := Some hs\<rparr>
               in case res of
                    Inl e \<Rightarrow> (Inl e, r')
                  | Inr _ \<Rightarrow> if \<not> he_spi_finish env then (Inl (Error ''SPI_finish failed''), r') else (Inr (), r')))"

fun pgactive_conflict_handlers_event_type_name :: "pgactiveConflictType \<Rightarrow> string" where
  "pgactive_conflict_handlers_event_type_name pgactiveConflictType_InsertInsert = ''insert_insert''"
| "pgactive_conflict_handlers_event_type_name pgactiveConflictType_InsertUpdate = ''insert_update''"
| "pgactive_conflict_handlers_event_type_name pgactiveConflictType_UpdateUpdate = ''update_update''"
| "pgactive_conflict_handlers_event_type_name pgactiveConflictType_UpdateDelete = ''update_delete''"
| "pgactive_conflict_handlers_event_type_name pgactiveConflictType_DeleteDelete = ''delete_delete''"
| "pgactive_conflict_handlers_event_type_name pgactiveConflictType_UnhandledTxAbort = ''unhandled_tx_abort''"

section \<open>Resolution\<close>

text \<open>The first component is the row a handler returned, the second the flag \<open>skip\<close>.\<close>

definition call_handler ::
  "'db handler_env \<Rightarrow> relation \<Rightarrow> row option \<Rightarrow> row option \<Rightarrow> string \<Rightarrow> u32 \<Rightarrow> pgactiveConflictHandler \<Rightarrow>
   ('db, (row option \<times> bool) option) op" where
  "call_handler env rel local remote command_tag event_oid h =
     sbind (he_invoke env (handler_oid h) local remote command_tag (rd_id rel) event_oid) (\<lambda>ret.
     case ret of
       None \<Rightarrow> sfail (Error ''handler return value is NULL'')
     | Some v \<Rightarrow>
         if \<not> he_proc_known env (handler_oid h) then sfail (Error ''cache lookup failed for function'')
         else case ret_action v of
           None \<Rightarrow> sfail (Error ''handler action cannot be NULL'')
         | Some a \<Rightarrow>
             if a = ch_row_oid (he_oids env)
             then (case ret_row v of
                     None \<Rightarrow> sfail (Error ''handler action is ROW but returned row is NULL'')
                   | Some (t, new) \<Rightarrow>
                       if t \<noteq> he_reltype env (rd_id rel) then sfail (Error ''handler returned unexpected tuple type'')
                       else sret (Some (Some new, False)))
             else if a = ch_skip_oid (he_oids env) then sret (Some (None, True))
             else sret None)"

definition usable :: "pgactiveConflictType \<Rightarrow> u64 \<Rightarrow> pgactiveConflictHandler \<Rightarrow> bool" where
  "usable event timeframe h \<longleftrightarrow>
     \<not> (handler_type h \<noteq> event \<or> (handler_timeframe h \<noteq> 0 \<and> handler_timeframe h < timeframe))"

fun resolve_loop ::
  "'db handler_env \<Rightarrow> relation \<Rightarrow> row option \<Rightarrow> row option \<Rightarrow> string \<Rightarrow> pgactiveConflictType \<Rightarrow> u32 \<Rightarrow> u64 \<Rightarrow>
   pgactiveConflictHandler list \<Rightarrow> ('db, row option \<times> bool) op" where
  "resolve_loop env rel local remote command_tag event event_oid timeframe [] = sret (None, False)"
| "resolve_loop env rel local remote command_tag event event_oid timeframe (h # hs) =
     (if \<not> usable event timeframe h then resolve_loop env rel local remote command_tag event event_oid timeframe hs
      else sbind (call_handler env rel local remote command_tag event_oid h) (\<lambda>r.
           case r of Some res \<Rightarrow> sret res
           | None \<Rightarrow> resolve_loop env rel local remote command_tag event event_oid timeframe hs))"

definition pgactive_conflict_handlers_resolve ::
  "'db handler_env \<Rightarrow> relation \<Rightarrow> row option \<Rightarrow> row option \<Rightarrow> string \<Rightarrow> pgactiveConflictType \<Rightarrow> u64 \<Rightarrow>
   (pgactiveRelation \<times> 'db, row option \<times> bool) op" where
  "pgactive_conflict_handlers_resolve env rel local remote command_tag event timeframe s =
     (case pgactive_get_conflict_handlers env (rd_id rel) (fst s) of
        (Inl e, r) \<Rightarrow> (Inl e, (r, snd s))
      | (Inr _, r) \<Rightarrow>
          (case GetSysCacheOid2Error (enum_oid2 (he_cat env) Anum_pg_enum_enumtypid (ch_type_oid (he_oids env))
                  (pgactive_conflict_handlers_event_type_name event)) of
             Inl e \<Rightarrow> (Inl e, (r, snd s))
           | Inr event_oid \<Rightarrow>
               (case resolve_loop env rel local remote command_tag event event_oid timeframe (the (rel_handlers r)) (snd s) of
                  (res, d) \<Rightarrow> (res, (r, d)))))"

section \<open>What the resolution does\<close>

lemma enum_typid_lookup:
  assumes "x \<in> set (cat_enum cat)" "enum_typid x = typ" "enum_label x = label"
  shows "enum_oid2 cat Anum_pg_enum_enumtypid typ label = typ"
proof -
  from assms have "find (\<lambda>r. enum_typid r = typ \<and> enum_label r = label) (cat_enum cat) \<noteq> None"
    by (auto simp: find_None_iff)
  then obtain y where y: "find (\<lambda>r. enum_typid r = typ \<and> enum_label r = label) (cat_enum cat) = Some y" by blast
  then have "enum_typid y = typ" by (auto simp: find_Some_iff)
  with y show ?thesis by (simp add: enum_oid2_def)
qed

text \<open>The value of the event exists in the enumeration.\<close>

definition event_known :: "'db handler_env \<Rightarrow> pgactiveConflictType \<Rightarrow> bool" where
  "event_known env event \<longleftrightarrow> ch_type_oid (he_oids env) \<noteq> InvalidOid \<and>
     list_ex (\<lambda>r. enum_typid r = ch_type_oid (he_oids env) \<and> enum_label r = pgactive_conflict_handlers_event_type_name event)
       (cat_enum (he_cat env))"

lemma event_oid_known:
  assumes "event_known env event"
  shows "GetSysCacheOid2Error (enum_oid2 (he_cat env) Anum_pg_enum_enumtypid (ch_type_oid (he_oids env))
     (pgactive_conflict_handlers_event_type_name event)) = Inr (ch_type_oid (he_oids env))"
proof -
  from assms obtain x where "x \<in> set (cat_enum (he_cat env))" "enum_typid x = ch_type_oid (he_oids env)"
      "enum_label x = pgactive_conflict_handlers_event_type_name event"
    by (auto simp: event_known_def list_ex_iff)
  from enum_typid_lookup [OF this] assms show ?thesis by (simp add: GetSysCacheOid2Error_def event_known_def)
qed

text \<open>The handlers in \<open>hs\<close> do not decide anything: not usable, or they ignore the conflict.\<close>

definition undecided ::
  "'db handler_env \<Rightarrow> relation \<Rightarrow> row option \<Rightarrow> row option \<Rightarrow> string \<Rightarrow> pgactiveConflictType \<Rightarrow> u32 \<Rightarrow> u64 \<Rightarrow>
   'db \<Rightarrow> pgactiveConflictHandler \<Rightarrow> bool" where
  "undecided env rel local remote tag event event_oid timeframe d h \<longleftrightarrow>
     \<not> usable event timeframe h \<or> call_handler env rel local remote tag event_oid h d = (Inr None, d)"

lemma resolve_loop_undecided:
  "\<forall>h \<in> set pre. undecided env rel local remote tag event eo tf d h \<Longrightarrow>
   resolve_loop env rel local remote tag event eo tf (pre @ hs) d = resolve_loop env rel local remote tag event eo tf hs d"
  by (induction pre) (auto simp: undecided_def)

lemma resolve_loaded:
  assumes "event_known env event" "rel_handlers r = Some hs"
  shows "pgactive_conflict_handlers_resolve env rel local remote tag event tf (r, d) =
    (case resolve_loop env rel local remote tag event (ch_type_oid (he_oids env)) tf hs d of (res, d') \<Rightarrow> (res, (r, d')))"
  using assms by (simp add: pgactive_conflict_handlers_resolve_def pgactive_get_conflict_handlers_def event_oid_known)

text \<open>Without a deciding handler the conflict falls through to the default.\<close>

lemma resolve_falls_through:
  assumes "event_known env event" "rel_handlers r = Some hs"
    "\<forall>h \<in> set hs. undecided env rel local remote tag event (ch_type_oid (he_oids env)) tf d h"
  shows "pgactive_conflict_handlers_resolve env rel local remote tag event tf (r, d) = (Inr (None, False), (r, d))"
  using resolve_loop_undecided [of hs env rel local remote tag event _ tf d "[]"] assms
  by (simp add: resolve_loaded)


text \<open>
  A handler cannot tell which conflict it is called for.  Its last argument should be the value
  of the enumeration for the event, but the look-up returns the column \<open>enumtypid\<close>, so every handler
  gets the identifier of the enumeration type, whatever the event is.
\<close>

lemma handler_sees_type_oid:
  assumes "event_known env event" "rel_handlers r = Some [h]" "usable event tf h"
  shows "pgactive_conflict_handlers_resolve env rel local remote tag event tf (r, d) =
    (case call_handler env rel local remote tag (ch_type_oid (he_oids env)) h d of
       (Inl e, d') \<Rightarrow> (Inl e, (r, d')) | (Inr None, d') \<Rightarrow> (Inr (None, False), (r, d')) | (Inr (Some res), d') \<Rightarrow> (Inr res, (r, d')))"
  using assms by (simp add: resolve_loaded sbind_def split: prod.split sum.split option.split)

section \<open>Example\<close>

definition example_catalog :: catalog where
  "example_catalog = \<lparr>cat_namespace = Inr 100, cat_relid = (\<lambda>_. 101), cat_type = (\<lambda>n. if n = ''pgactive_conflict_type'' then 110 else 120),
     cat_enum = [\<lparr>enum_oid = 111, enum_typid = 110, enum_label = ''insert_insert''\<rparr>,
       \<lparr>enum_oid = 112, enum_typid = 110, enum_label = ''update_update''\<rparr>,
       \<lparr>enum_oid = 113, enum_typid = 110, enum_label = ''update_delete''\<rparr>,
       \<lparr>enum_oid = 114, enum_typid = 110, enum_label = ''delete_delete''\<rparr>,
       \<lparr>enum_oid = 121, enum_typid = 120, enum_label = ''IGNORE''\<rparr>, \<lparr>enum_oid = 122, enum_typid = 120, enum_label = ''ROW''\<rparr>,
       \<lparr>enum_oid = 123, enum_typid = 120, enum_label = ''SKIP''\<rparr>]\<rparr>"

definition example_oids :: conflict_oids where
  "example_oids = \<lparr>ch_table_oid = 101, ch_type_oid = 110, ch_action_oid = 120, ch_ignore_oid = 121, ch_row_oid = 122, ch_skip_oid = 123\<rparr>"

lemma handlers_init_example:
  "pgactive_conflict_handlers_init example_catalog \<lparr>ch_table_oid = 0, ch_type_oid = 0, ch_action_oid = 0, ch_ignore_oid = 0, ch_row_oid = 0, ch_skip_oid = 0\<rparr>
     = (Inr (), example_oids)"
  by (simp add: pgactive_conflict_handlers_init_def example_catalog_def example_oids_def enum_oid2_def GetSysCacheOid2Error_def InvalidOid_def)

text \<open>Handler 1 ignores every conflict, handler 2 skips it.\<close>

definition example_handler_env :: "unit handler_env" where
  "example_handler_env = \<lparr>he_cat = example_catalog, he_oids = example_oids, he_spi_connect = True, he_spi_finish = True,
     he_rows = (\<lambda>_. Inr []), he_garbage = \<lparr>handler_oid = 0, handler_type = pgactiveConflictType_InsertInsert, handler_timeframe = 0\<rparr>,
     he_invoke = (\<lambda>f local remote tag relid ev. sret (Some \<lparr>ret_row = None, ret_action = Some (if f = 1 then 121 else 123)\<rparr>)),
     he_proc_known = (\<lambda>_. True), he_reltype = (\<lambda>r. r + 1)\<rparr>"

definition example_handler :: "u32 \<Rightarrow> pgactiveConflictHandler" where
  "example_handler f = \<lparr>handler_oid = f, handler_type = pgactiveConflictType_UpdateUpdate, handler_timeframe = 0\<rparr>"


end
