(* ===== verification/Executor.thy ===== *)
theory Executor
  imports Conflict_Handlers Database_Cache Lock_State Perdb_Worker
begin

text \<open>
  \<^verbatim>\<open>src/pgactive_executor.c\<close>: the scan keys and the search for a row by key that the apply process
  uses, the read-only flag of a node, and the hook at the start of every statement that keeps
  local writes out while a peer holds the write lock, on read-only nodes, and on tables whose rows
  peers could not identify.  Index and relation descriptors, and what a search meets, are parameters.
\<close>

section \<open>Scan keys\<close>

text \<open>
  An index: \<open>ix_key\<close> are the table columns of all its attributes, included ones too, counted from 1
  (0 for an expression); \<open>ix_opclass\<close> the operator classes of its key attributes; \<open>ix_collation\<close> their
  collations.
\<close>

record index_desc =
  ix_oid :: u32
  ix_unique :: bool
  ix_expressions :: bool
  ix_key :: "int list"
  ix_opclass :: "u32 list"
  ix_collation :: "u32 list"

record ScanKeyData =
  sk_attno :: nat
  sk_func :: u32
  sk_argument :: datum
  sk_collation :: u32
  sk_isnull :: bool

text \<open>\<open>eq_proc opclass\<close>: the procedure of the equality operator of the class, if there is one.\<close>

definition nth_or_panic :: "'a list \<Rightarrow> int \<Rightarrow> 'a result" where
  "nth_or_panic xs i = (if 0 \<le> i \<and> nat i < length xs then Inr (xs ! nat i) else Inl (Panic ''array index out of range''))"

definition build_scan_key_att ::
  "(u32 \<Rightarrow> u32 option) \<Rightarrow> index_desc \<Rightarrow> pgactiveTupleData \<Rightarrow> nat \<Rightarrow> ScanKeyData result" where
  "build_scan_key_att eq_proc ix tup attoff =
     (let mainattno = ix_key ix ! attoff in
      if mainattno = 0 then Inl (Error ''invalid system attribute number'') else
      bind_result (nth_or_panic (ix_opclass ix) (int attoff)) (\<lambda>opclass.
      case eq_proc opclass of
        None \<Rightarrow> Inl (Error ''could not lookup equality operator'')
      | Some regop \<Rightarrow>
          bind_result (nth_or_panic (td_values tup) (mainattno - 1)) (\<lambda>v.
          bind_result (nth_or_panic (ix_collation ix) (int attoff)) (\<lambda>coll.
          bind_result (nth_or_panic (td_isnull tup) (mainattno - 1)) (\<lambda>isnull.
          Inr \<lparr>sk_attno = attoff + 1, sk_func = regop, sk_argument = v, sk_collation = coll, sk_isnull = isnull\<rparr>)))))"

fun build_scan_key_atts :: "(nat \<Rightarrow> ScanKeyData result) \<Rightarrow> nat list \<Rightarrow> ScanKeyData list result" where
  "build_scan_key_atts f [] = Inr []"
| "build_scan_key_atts f (i # is) = bind_result (f i) (\<lambda>k. bind_result (build_scan_key_atts f is) (\<lambda>ks. Inr (k # ks)))"

text \<open>The keys, and whether any of them is null.\<close>

definition build_index_scan_key ::
  "(u32 \<Rightarrow> u32 option) \<Rightarrow> index_desc \<Rightarrow> pgactiveTupleData \<Rightarrow> (ScanKeyData list \<times> bool) result" where
  "build_index_scan_key eq_proc ix tup =
     bind_result (build_scan_key_atts (build_scan_key_att eq_proc ix tup) [0 ..< length (ix_key ix)]) (\<lambda>ks.
     Inr (ks, list_ex sk_isnull ks))"

definition usable_index :: "index_desc \<Rightarrow> bool" where
  "usable_index ix \<longleftrightarrow> \<not> (\<not> ix_unique ix \<or> ix_expressions ix)"

fun build_index_scan_keys ::
  "(u32 \<Rightarrow> u32 option) \<Rightarrow> index_desc list \<Rightarrow> pgactiveTupleData \<Rightarrow> ScanKeyData list option list result" where
  "build_index_scan_keys eq_proc [] tup = Inr []"
| "build_index_scan_keys eq_proc (ix # ixs) tup =
     bind_result (if \<not> usable_index ix then Inr None
                  else bind_result (build_index_scan_key eq_proc ix tup) (\<lambda>(ks, hasnulls).
                       Inr (if hasnulls then None else Some ks))) (\<lambda>k.
     bind_result (build_index_scan_keys eq_proc ixs tup) (\<lambda>kss. Inr (k # kss)))"

section \<open>Finding a row\<close>

datatype TM_Result = TM_Ok | TM_Updated | TM_Other

text \<open>
  One pass of the search: the row the index scan with a dirty snapshot meets, the transactions the
  snapshot reports as still running on it, and the outcome of locking the row.
\<close>

record scan_attempt =
  sa_tuple :: "heap_tuple option"
  sa_xmin :: u32
  sa_xmax :: u32
  sa_lock :: TM_Result

text \<open>The list holds the passes until the process is told to stop while it waits.\<close>

fun find_pkey_tuple :: "bool \<Rightarrow> scan_attempt list \<Rightarrow> heap_tuple option result" where
  "find_pkey_tuple lock [] = Inl (Fatal ''terminating background worker due to administrator command'')"
| "find_pkey_tuple lock (a # as) =
     (case sa_tuple a of
        None \<Rightarrow> Inr None
      | Some t \<Rightarrow>
          if (if sa_xmin a \<noteq> 0 then sa_xmin a else sa_xmax a) \<noteq> 0 then find_pkey_tuple lock as
          else if \<not> lock then Inr (Some t)
          else case sa_lock a of
            TM_Ok \<Rightarrow> Inr (Some t)
          | TM_Updated \<Rightarrow> find_pkey_tuple lock as
          | TM_Other \<Rightarrow> Inl (Error ''unexpected HTSU_Result after locking''))"

section \<open>Indexes after a write\<close>

text \<open>\<open>insert_indexes\<close> is \<open>ExecInsertIndexTuples\<close>; it yields the indexes that need a recheck.\<close>

definition UserTableUpdateOpenIndexes :: "bool \<Rightarrow> nat \<Rightarrow> ('db, u32 list) op \<Rightarrow> ('db, unit) op" where
  "UserTableUpdateOpenIndexes heap_only num_indices insert_indexes =
     (if heap_only then sret ()
      else if num_indices > 0
      then sbind insert_indexes (\<lambda>recheck.
           if recheck \<noteq> [] then sfail (Error ''pgactive doesn't support index rechecks'') else sret ())
      else sret ())"

definition UserTableUpdateIndexes :: "bool \<Rightarrow> nat \<Rightarrow> ('db, u32 list) op \<Rightarrow> ('db, unit) op" where
  "UserTableUpdateIndexes heap_only num_indices insert_indexes =
     (if heap_only then sret () else UserTableUpdateOpenIndexes heap_only num_indices insert_indexes)"

section \<open>The read-only flag\<close>

text \<open>\<open>None\<close> stands for a null; the flag of a row that holds null stays null, for only the value is replaced.\<close>

fun set_read_only_row :: "string \<Rightarrow> bool \<Rightarrow> node_row list \<Rightarrow> node_row list option" where
  "set_read_only_row name ro [] = None"
| "set_read_only_row name ro (r # rs) =
     (if node_name r = Some name then Some (r\<lparr>node_read_only := map_option (\<lambda>_. ro) (node_read_only r)\<rparr> # rs)
      else map_option ((#) r) (set_read_only_row name ro rs))"

definition pgactive_set_node_read_only_guts ::
  "u32 result \<Rightarrow> u64 \<Rightarrow> u32 \<Rightarrow> string \<Rightarrow> bool \<Rightarrow> bool \<Rightarrow> (nodecache \<times> node_row list \<times> xact_hook, unit) op" where
  "pgactive_set_node_read_only_guts nodes_relid nid mydb name read_only force s =
     (case s of (nc, rows, hook) \<Rightarrow>
        case pgactive_local_node_status nodes_relid rows nid mydb nc of
          (Inl e, nc) \<Rightarrow> (Inl e, (nc, rows, hook))
        | (Inr status, nc) \<Rightarrow>
            if (status \<noteq> node_status_code pgactive_NODE_STATUS_READY \<and> status \<noteq> node_status_code pgactive_NODE_STATUS_KILLED) \<and> \<not> force
            then (Inl (Error ''local node is still starting up, cannot change read-only status''), (nc, rows, hook))
            else case set_read_only_row name read_only rows of
              None \<Rightarrow> (Inl (Error ''node not found.''), (nc, rows, hook))
            | Some rows' \<Rightarrow> (Inr (), (nc, rows', pgactive_connections_changed hook)))"

definition pgactive_set_node_read_only ::
  "u32 result \<Rightarrow> u64 \<Rightarrow> u32 \<Rightarrow> string \<Rightarrow> bool \<Rightarrow> (nodecache \<times> node_row list \<times> xact_hook, unit) op" where
  "pgactive_set_node_read_only nodes_relid nid mydb name read_only =
     pgactive_set_node_read_only_guts nodes_relid nid mydb name read_only False"


section \<open>The start of a statement\<close>

datatype CmdType = CMD_SELECT | CMD_INSERT | CMD_UPDATE | CMD_DELETE | CMD_MERGE | CMD_UTILITY

record PlannedStmt =
  hasModifyingCTE :: bool
  has_rowMarks :: bool
  result_relids :: "u32 list"

record QueryDesc =
  qd_operation :: CmdType
  qd_plannedstmt :: "PlannedStmt option"

record rel_facts =
  rf_needs_wal :: bool
  rf_namespace :: u32
  rf_replica_index :: u32
  rf_pkey_index :: u32

definition PG_CATALOG_NAMESPACE :: u32 where "PG_CATALOG_NAMESPACE = 11"

text \<open>
  The session: its settings and what the catalogues hold.  \<open>xe_obs\<close> is what it sees while it waits
  for a lock.
\<close>

record executor_env =
  xe_always_allow_writes :: bool
  xe_session_origin :: u16
  xe_jsonb_in :: "string \<Rightarrow> (bool \<times> jb_token list) result"
  xe_databases :: db_catalog
  xe_nodes_relid :: "u32 result"
  xe_nodes :: "node_row list"
  xe_lock :: lock_env
  xe_obs :: "(int \<times> pgactiveLocksDBState) list"
  xe_in_replicate_ddl :: bool
  xe_in_extension :: bool
  xe_rel :: "u32 \<Rightarrow> rel_facts"

record executor_state =
  xs_dbcache :: dbcache
  xs_nodecache :: nodecache
  xs_locks :: lock_sys

type_synonym 'a executor_op = "(executor_state, 'a) op"

definition on_dbcache :: "(dbcache, 'a) op \<Rightarrow> 'a executor_op" where
  "on_dbcache f s = (case f (xs_dbcache s) of (r, c) \<Rightarrow> (r, s\<lparr>xs_dbcache := c\<rparr>))"

definition on_xs_nodecache :: "(nodecache, 'a) op \<Rightarrow> 'a executor_op" where
  "on_xs_nodecache f s = (case f (xs_nodecache s) of (r, c) \<Rightarrow> (r, s\<lparr>xs_nodecache := c\<rparr>))"

definition on_locks :: "(lock_sys, 'a) op \<Rightarrow> 'a executor_op" where
  "on_locks f s = (case f (xs_locks s) of (r, c) \<Rightarrow> (r, s\<lparr>xs_locks := c\<rparr>))"

text \<open>A table whose changes are not replicated.\<close>

definition local_only :: "rel_facts \<Rightarrow> bool" where
  "local_only rf \<longleftrightarrow> \<not> rf_needs_wal rf \<or> rf_namespace rf = PG_CATALOG_NAMESPACE"

fun check_targets :: "(u32 \<Rightarrow> rel_facts) \<Rightarrow> bool \<Rightarrow> u32 list \<Rightarrow> unit result" where
  "check_targets rels read_only_node [] = Inr ()"
| "check_targets rels read_only_node (r # rs) =
     (if \<not> rf_needs_wal (rels r) then check_targets rels read_only_node rs
      else if rf_namespace (rels r) = PG_CATALOG_NAMESPACE then check_targets rels read_only_node rs
      else if read_only_node then Inl (Error ''may only affect UNLOGGED or TEMPORARY tables on read-only pgactive node'')
      else
        let idxoid = (if rf_replica_index (rels r) \<noteq> InvalidOid then rf_replica_index (rels r) else rf_pkey_index (rels r))
        in if idxoid \<noteq> InvalidOid then check_targets rels read_only_node rs
           else Inl (Error ''cannot run UPDATE or DELETE on table because it does not have a PRIMARY KEY''))"

definition performs_writes :: "QueryDesc \<Rightarrow> bool" where
  "performs_writes q \<longleftrightarrow>
     (case qd_plannedstmt q of Some p \<Rightarrow> hasModifyingCTE p \<or> has_rowMarks p | None \<Rightarrow> False) \<or> qd_operation q \<noteq> CMD_SELECT"

text \<open>\<open>Inr True\<close>: the statement starts.  \<open>Inr False\<close>: it still waits for a lock.\<close>

definition pgactiveExecutorStart :: "executor_env \<Rightarrow> QueryDesc \<Rightarrow> bool executor_op" where
  "pgactiveExecutorStart env q =
     (if xe_always_allow_writes env then sret True
      else if xe_session_origin env \<noteq> InvalidRepOriginId then sret True
      else if \<not> performs_writes q then sret True
      else
      sbind (on_dbcache (pgactive_is_pgactive_activated_db (xe_jsonb_in env) (xe_databases env) (e_mydb (xe_lock env)))) (\<lambda>activated.
      if \<not> activated then sret True
      else
      sbind (on_xs_nodecache (pgactive_local_node_read_only (xe_nodes_relid env) (xe_nodes env) (e_nid (xe_lock env)) (e_mydb (xe_lock env)))) (\<lambda>ro.
      let read_only_node = (ro \<and> \<not> e_skip_ddl_replication (xe_lock env)) in
      sbind (on_locks (pgactive_locks_check_dml (xe_lock env) (xe_obs env))) (\<lambda>go.
      if \<not> go then sret False
      else if (xe_in_replicate_ddl env \<and> \<not> xe_in_extension env) \<and> qd_operation q \<in> {CMD_INSERT, CMD_UPDATE, CMD_DELETE}
      then sfail (Error ''row-data-modifying statements INSERT, UPDATE and DELETE are not permitted inside pgactive.replicate_ddl_command'')
      else case qd_plannedstmt q of
        None \<Rightarrow> sfail (Panic ''null pointer'')
      | Some p \<Rightarrow>
          if qd_operation q = CMD_INSERT \<and> \<not> hasModifyingCTE p \<and> \<not> read_only_node then sret True
          else sseq (slift (check_targets (xe_rel env) read_only_node (result_relids p))) (sret True)))))"


section \<open>Which statements start\<close>

definition has_identity :: "rel_facts \<Rightarrow> bool" where
  "has_identity rf \<longleftrightarrow> rf_replica_index rf \<noteq> InvalidOid \<or> rf_pkey_index rf \<noteq> InvalidOid"

lemma check_targets_iff:
  "check_targets rels ro rs = Inr () \<longleftrightarrow> (\<forall>r \<in> set rs. local_only (rels r) \<or> \<not> ro \<and> has_identity (rels r))"
  by (induction rs) (auto simp: local_only_def has_identity_def Let_def)

text \<open>
  C16: a local write on an activated database starts exactly when (once no peer holds the write lock)
  it is not DML inside a replicated DDL command, and it is a plain INSERT on a writable node or every
  table it changes is unlogged, temporary or a catalogue or, on a writable node, has a key by which
  peers can find its rows.
\<close>

theorem executor_start_iff:
  assumes "\<not> xe_always_allow_writes env" "xe_session_origin env = InvalidRepOriginId" "performs_writes q" "qd_plannedstmt q = Some p"
    "on_dbcache (pgactive_is_pgactive_activated_db (xe_jsonb_in env) (xe_databases env) (e_mydb (xe_lock env))) s = (Inr True, s1)"
    "on_xs_nodecache (pgactive_local_node_read_only (xe_nodes_relid env) (xe_nodes env) (e_nid (xe_lock env)) (e_mydb (xe_lock env))) s1 = (Inr ro, s2)"
    "on_locks (pgactive_locks_check_dml (xe_lock env) (xe_obs env)) s2 = (Inr True, s3)"
  shows "fst (pgactiveExecutorStart env q s) = Inr True \<longleftrightarrow>
    \<not> (xe_in_replicate_ddl env \<and> \<not> xe_in_extension env \<and> qd_operation q \<in> {CMD_INSERT, CMD_UPDATE, CMD_DELETE}) \<and>
    (let writable = (\<not> ro \<or> e_skip_ddl_replication (xe_lock env)) in
     qd_operation q = CMD_INSERT \<and> \<not> hasModifyingCTE p \<and> writable \<or>
     (\<forall>r \<in> set (result_relids p). local_only (xe_rel env r) \<or> writable \<and> has_identity (xe_rel env r)))"
proof -
  let ?w = "\<not> (ro \<and> \<not> e_skip_ddl_replication (xe_lock env))"
  have c: "check_targets (xe_rel env) (\<not> ?w) (result_relids p) = Inr () \<longleftrightarrow>
      (\<forall>r \<in> set (result_relids p). local_only (xe_rel env r) \<or> ?w \<and> has_identity (xe_rel env r))"
    using check_targets_iff [of "xe_rel env" "\<not> ?w" "result_relids p"] by simp
  have "fst (pgactiveExecutorStart env q s) = Inr True \<longleftrightarrow>
      \<not> (xe_in_replicate_ddl env \<and> \<not> xe_in_extension env \<and> qd_operation q \<in> {CMD_INSERT, CMD_UPDATE, CMD_DELETE}) \<and>
      (qd_operation q = CMD_INSERT \<and> \<not> hasModifyingCTE p \<and> ?w \<or> check_targets (xe_rel env) (\<not> ?w) (result_relids p) = Inr ())"
    using assms
    by (cases "check_targets (xe_rel env) (\<not> ?w) (result_relids p)") (simp_all add: pgactiveExecutorStart_def sbind_def sseq_def slift_def sfail_def sret_def Let_def)
  with c show ?thesis by (simp add: Let_def)
qed

section \<open>Scan keys and searches\<close>

lemma build_scan_key_atts_Inr:
  "\<forall>i \<in> set is. f i = Inr (g i) \<Longrightarrow> build_scan_key_atts f is = Inr (map g is)"
  by (induction "is") auto

text \<open>Columns the index is about exist in the table, and every attribute has its class and collation.\<close>

definition plain_index :: "(u32 \<Rightarrow> u32 option) \<Rightarrow> nat \<Rightarrow> index_desc \<Rightarrow> bool" where
  "plain_index eq_proc natts ix \<longleftrightarrow> length (ix_opclass ix) = length (ix_key ix) \<and> length (ix_collation ix) = length (ix_key ix) \<and>
     (\<forall>i < length (ix_key ix). 1 \<le> ix_key ix ! i \<and> ix_key ix ! i \<le> int natts \<and> eq_proc (ix_opclass ix ! i) \<noteq> None)"

definition key_of :: "(u32 \<Rightarrow> u32 option) \<Rightarrow> index_desc \<Rightarrow> pgactiveTupleData \<Rightarrow> nat \<Rightarrow> ScanKeyData" where
  "key_of eq_proc ix tup i =
     \<lparr>sk_attno = i + 1, sk_func = the (eq_proc (ix_opclass ix ! i)), sk_argument = td_values tup ! nat (ix_key ix ! i - 1),
      sk_collation = ix_collation ix ! i, sk_isnull = td_isnull tup ! nat (ix_key ix ! i - 1)\<rparr>"

lemma build_scan_key_plain:
  assumes "plain_index eq_proc n ix" "length (td_values tup) = n" "length (td_isnull tup) = n"
  shows "build_index_scan_key eq_proc ix tup =
    Inr (map (key_of eq_proc ix tup) [0 ..< length (ix_key ix)], \<exists>i < length (ix_key ix). td_isnull tup ! nat (ix_key ix ! i - 1))"
proof -
  have "build_scan_key_att eq_proc ix tup i = Inr (key_of eq_proc ix tup i)" if "i < length (ix_key ix)" for i
  proof -
    from assms(1) that obtain p where "eq_proc (ix_opclass ix ! i) = Some p" "1 \<le> ix_key ix ! i" "ix_key ix ! i \<le> int n"
      "length (ix_opclass ix) = length (ix_key ix)" "length (ix_collation ix) = length (ix_key ix)"
      by (auto simp: plain_index_def)
    with assms(2,3) that show ?thesis
      by (auto simp: build_scan_key_att_def nth_or_panic_def key_of_def Let_def)
  qed
  then have "build_scan_key_atts (build_scan_key_att eq_proc ix tup) [0 ..< length (ix_key ix)] =
      Inr (map (key_of eq_proc ix tup) [0 ..< length (ix_key ix)])"
    by (intro build_scan_key_atts_Inr) simp
  then show ?thesis by (auto simp: build_index_scan_key_def list_ex_iff key_of_def)
qed

text \<open>
  A unique index with included columns has more attributes than operator classes.  The loop runs
  over all attributes, so it reads past the end of the array of classes.
\<close>

lemma covering_index_out_of_range:
  assumes "length (ix_opclass ix) < length (ix_key ix)"
    "\<forall>i < length (ix_opclass ix). \<exists>k. build_scan_key_att eq_proc ix tup i = Inr k" "ix_key ix ! length (ix_opclass ix) \<noteq> 0"
  shows "build_index_scan_key eq_proc ix tup = Inl (Panic ''array index out of range'')"
proof -
  let ?n = "length (ix_opclass ix)" and ?f = "build_scan_key_att eq_proc ix tup"
  have bad: "?f ?n = Inl (Panic ''array index out of range'')" using assms(3) by (simp add: build_scan_key_att_def nth_or_panic_def Let_def)
  have "build_scan_key_atts ?f (is @ ?n # rest) = Inl (Panic ''array index out of range'')" if "\<forall>i \<in> set is. i < ?n" for "is" rest
    using that assms(2) bad by (induction "is") auto
  moreover have "[0 ..< length (ix_key ix)] = [0 ..< ?n] @ ?n # [Suc ?n ..< length (ix_key ix)]"
    using assms(1) by (metis less_or_eq_imp_le upt_add_eq_append upt_conv_Cons le_add_diff_inverse zero_le)
  ultimately show ?thesis by (simp add: build_index_scan_key_def)
qed

text \<open>A row that is found was not being changed by anyone when it was met, and is locked.\<close>

lemma find_pkey_tuple_Some:
  assumes "find_pkey_tuple lock as = Inr (Some t)"
  shows "\<exists>a \<in> set as. sa_tuple a = Some t \<and> sa_xmin a = 0 \<and> sa_xmax a = 0 \<and> (lock \<longrightarrow> sa_lock a = TM_Ok)"
  using assms by (induction lock as rule: find_pkey_tuple.induct) (auto split: option.splits if_splits TM_Result.splits)

lemma find_pkey_tuple_None: "find_pkey_tuple lock as = Inr None \<Longrightarrow> \<exists>a \<in> set as. sa_tuple a = None"
  by (induction lock as rule: find_pkey_tuple.induct) (auto split: option.splits if_splits TM_Result.splits)


section \<open>Example\<close>

definition example_executor_env :: executor_env where
  "example_executor_env = \<lparr>xe_always_allow_writes = False, xe_session_origin = 0, xe_jsonb_in = example_jsonb,
     xe_databases = \<lparr>datname = (\<lambda>_. Some ''app''), db_label = (\<lambda>_. Some ''on'')\<rparr>, xe_nodes_relid = Inr 99,
     xe_nodes = [example_row 1 5 CHR ''r''], xe_lock = example_lock_env, xe_obs = [], xe_in_replicate_ddl = False, xe_in_extension = False,
     xe_rel = (\<lambda>r. \<lparr>rf_needs_wal = True, rf_namespace = 2200, rf_replica_index = 0, rf_pkey_index = (if r = 20001 then 20002 else 0)\<rparr>)\<rparr>"

definition example_executor :: executor_state where
  "example_executor = \<lparr>xs_dbcache = None, xs_nodecache = fresh_nodecache,
     xs_locks = (pl example_perdb_state)\<lparr>db := (zero_dbstate 5)\<lparr>locked_and_loaded := True\<rparr>\<rparr>\<rparr>"

definition example_update :: "u32 \<Rightarrow> QueryDesc" where
  "example_update r = \<lparr>qd_operation = CMD_UPDATE, qd_plannedstmt = Some \<lparr>hasModifyingCTE = False, has_rowMarks = False, result_relids = [r]\<rparr>\<rparr>"

theorem executor_start_iff_witness:
  "fst (pgactiveExecutorStart example_executor_env (example_update 20001) example_executor) = Inr True \<and>
   fst (pgactiveExecutorStart example_executor_env (example_update 20003) example_executor) \<noteq> Inr True"
proof -
  let ?e = example_executor_env
  have "\<exists>c. pgactive_is_pgactive_activated_db example_jsonb \<lparr>datname = (\<lambda>_. Some ''app''), db_label = (\<lambda>_. Some ''on'')\<rparr> 5 None = (Inr True, c)"
    by (simp add: pgactive_is_pgactive_activated_db_def pgactive_dbcache_lookup_def pgactive_dbcache_initialize_def example_jsonb_def
        pgactive_parse_database_options_def parse_db_token_def Let_def)
  then obtain s1 where 1: "on_dbcache (pgactive_is_pgactive_activated_db (xe_jsonb_in ?e) (xe_databases ?e) (e_mydb (xe_lock ?e))) example_executor = (Inr True, s1)"
      "xs_nodecache s1 = fresh_nodecache" "xs_locks s1 = xs_locks example_executor"
    by (auto simp: on_dbcache_def example_executor_def example_executor_env_def example_lock_env_def)
  obtain s2 where 2: "on_xs_nodecache (pgactive_local_node_read_only (xe_nodes_relid ?e) (xe_nodes ?e) (e_nid (xe_lock ?e)) (e_mydb (xe_lock ?e))) s1 = (Inr False, s2)"
      "xs_locks s2 = xs_locks example_executor"
    using 1 by (auto simp: on_xs_nodecache_def pgactive_local_node_read_only_def example_executor_env_def example_lock_env_def
      pgactive_nodecache_lookup_def pgactive_nodecache_initialize_def fresh_nodecache_def nodecache_load_def zero_entry_def
      pgactive_nodes_get_local_info_def row_of_def example_row_def pgactive_make_my_nodeid_def pgactiveThisTimeLineID_def Let_def)
  obtain s3 where 3: "on_locks (pgactive_locks_check_dml (xe_lock ?e) (xe_obs ?e)) s2 = (Inr True, s3)"
    using 2 by (auto simp: on_locks_def pgactive_locks_check_dml_def example_executor_env_def example_lock_env_def example_executor_def
      pgactive_locks_find_my_database_def zero_dbstate_def pgactive_locks_peer_has_lock_def upd_db_def)
  have r: "xe_rel ?e 20001 = \<lparr>rf_needs_wal = True, rf_namespace = 2200, rf_replica_index = 0, rf_pkey_index = 20002\<rparr>"
    "xe_rel ?e 20003 = \<lparr>rf_needs_wal = True, rf_namespace = 2200, rf_replica_index = 0, rf_pkey_index = 0\<rparr>"
    "\<not> xe_always_allow_writes ?e" "xe_session_origin ?e = InvalidRepOriginId" "\<not> xe_in_replicate_ddl ?e"
    by (simp_all add: example_executor_env_def InvalidRepOriginId_def)
  have q: "performs_writes (example_update t)" "qd_operation (example_update t) = CMD_UPDATE"
      "qd_plannedstmt (example_update t) = Some \<lparr>hasModifyingCTE = False, has_rowMarks = False, result_relids = [t]\<rparr>" for t
    by (simp_all add: performs_writes_def example_update_def)
  show ?thesis
    using executor_start_iff [OF r(3,4) q(1,3) 1(1) 2(1) 3, of 20001] executor_start_iff [OF r(3,4) q(1,3) 1(1) 2(1) 3, of 20003]
    by (simp add: r q local_only_def has_identity_def InvalidOid_def PG_CATALOG_NAMESPACE_def)
qed

end
