(* ===== verification/Conflict_Logging.thy ===== *)
theory Conflict_Logging
  imports Conflict_Handlers Node_Catalog
begin

text \<open>
  The log of conflicts, \<^verbatim>\<open>src/pgactive_conflict_logging.c\<close>: the description of a conflict, the row of
  \<^verbatim>\<open>pgactive.pgactive_conflict_history\<close> made from it, and the message for the server log.  The
  state of the server at the time of the conflict, the conversion to JSON and the insertion into the
  table are parameters.
\<close>

section \<open>Conflicts\<close>

datatype pgactiveConflictResolution =
    pgactiveConflictResolution_ConflictTriggerSkipChange
  | pgactiveConflictResolution_ConflictTriggerReturnedTuple
  | pgactiveConflictResolution_LastUpdateWins_KeepLocal
  | pgactiveConflictResolution_LastUpdateWins_KeepRemote
  | pgactiveConflictResolution_DefaultApplyChange
  | pgactiveConflictResolution_DefaultSkipChange
  | pgactiveConflictResolution_UnhandledTxAbort

record error_data =
  ed_message :: "string option"
  ed_sqlstate :: string
  ed_cursorpos :: int
  ed_detail :: "string option"
  ed_hint :: "string option"
  ed_context :: "string option"
  ed_column_name :: "string option"
  ed_datatype_name :: "string option"
  ed_constraint_name :: "string option"
  ed_filename :: "string option"
  ed_lineno :: int
  ed_funcname :: "string option"
  ed_schema_name :: "string option"
  ed_table_name :: "string option"

text \<open>The two tuples are composite values; \<open>None\<close> is the null pointer a zeroed structure holds.\<close>

record pgactiveApplyConflict =
  local_conflict_txid :: u32
  local_conflict_lsn :: u64
  local_conflict_time :: int
  object_schema :: "string option"
  object_name :: "string option"
  ac_remote_node :: pgactiveNodeId
  remote_txid :: u32
  remote_commit_time :: int
  remote_commit_lsn :: u64
  ac_conflict_type :: pgactiveConflictType
  ac_conflict_resolution :: pgactiveConflictResolution
  local_tuple_null :: bool
  local_tuple :: "row option"
  local_tuple_xmin :: u32
  local_tuple_origin_node :: pgactiveNodeId
  local_commit_time :: int
  remote_tuple_null :: bool
  remote_tuple :: "row option"
  apply_error :: "error_data option"

definition zero_conflict :: pgactiveApplyConflict where
  "zero_conflict = \<lparr>local_conflict_txid = 0, local_conflict_lsn = 0, local_conflict_time = 0, object_schema = None,
     object_name = None, ac_remote_node = zero_nodeid, remote_txid = 0, remote_commit_time = 0, remote_commit_lsn = 0,
     ac_conflict_type = pgactiveConflictType_InsertInsert,
     ac_conflict_resolution = pgactiveConflictResolution_ConflictTriggerSkipChange, local_tuple_null = False, local_tuple = None,
     local_tuple_xmin = 0, local_tuple_origin_node = zero_nodeid, local_commit_time = 0, remote_tuple_null = False,
     remote_tuple = None, apply_error = None\<rparr>"

text \<open>
  The server at the time of a conflict: transaction, position, clock, the state of the session's
  replication origin, the names of the origins and the identity of this node; and the settings.
\<close>

record log_env =
  lg_txid :: u32
  lg_insert_lsn :: u64
  lg_now :: int
  lg_session_origin :: u16
  lg_session_ts :: int
  lg_session_lsn :: u64
  lg_origins :: "u16 \<Rightarrow> string option"
  lg_nid :: u64
  lg_mydb :: u32
  lg_namespace_name :: "u32 \<Rightarrow> string option"
  lg_include_tuples :: bool
  lg_to_table :: bool
  lg_to_logfile :: bool
  lg_aborted :: bool
  lg_in_xact :: bool
  lg_type_oid :: u32
  lg_resolution_oid :: u32
  lg_cat :: catalog
  lg_nextval :: "nat result"
  lg_row_to_json :: "row \<Rightarrow> string result"

definition pgactive_make_apply_conflict ::
  "log_env \<Rightarrow> pgactiveConflictType \<Rightarrow> pgactiveConflictResolution \<Rightarrow> u32 \<Rightarrow> relation option \<Rightarrow> heap_tuple option \<Rightarrow> u16 \<Rightarrow>
   row option \<Rightarrow> int \<Rightarrow> error_data option \<Rightarrow> pgactiveApplyConflict result" where
  "pgactive_make_apply_conflict env ctype resolution rtxid rel local local_origin remote local_ts err =
     (let c = zero_conflict\<lparr>ac_conflict_type := ctype, ac_conflict_resolution := resolution,
            local_conflict_txid := lg_txid env, local_conflict_lsn := lg_insert_lsn env, local_conflict_time := lg_now env,
            remote_txid := rtxid\<rparr>;
          c = (case rel of None \<Rightarrow> c
               | Some r \<Rightarrow> c\<lparr>object_name := Some (relname r), object_schema := lg_namespace_name env (relnamespace r)\<rparr>)
      in bind_result (pgactive_fetch_sysid_via_node_id (lg_origins env) (lg_nid env) (lg_mydb env) (lg_session_origin env) zero_nodeid) (\<lambda>rnode.
      let c = c\<lparr>ac_remote_node := rnode, remote_commit_time := lg_session_ts env, remote_commit_lsn := lg_session_lsn env\<rparr>;
          c = (case local of
                 Some t \<Rightarrow>
                   let c = c\<lparr>local_tuple_xmin := t_xmin t\<rparr>
                   in if lg_include_tuples env then c\<lparr>local_tuple := Some (t_values t), local_tuple_null := False\<rparr> else c
               | None \<Rightarrow> c\<lparr>local_tuple_null := True, local_tuple := None, local_tuple_xmin := 0\<rparr>)
      in bind_result (if local_origin \<noteq> InvalidRepOriginId
                      then pgactive_fetch_sysid_via_node_id (lg_origins env) (lg_nid env) (lg_mydb env) local_origin zero_nodeid
                      else Inr (pgactive_make_my_nodeid (lg_nid env) (lg_mydb env))) (\<lambda>onode.
      let c = c\<lparr>local_tuple_origin_node := onode, local_commit_time := local_ts\<rparr>;
          c = (if remote \<noteq> None \<and> lg_include_tuples env then c\<lparr>remote_tuple := remote, remote_tuple_null := False\<rparr>
               else c\<lparr>remote_tuple_null := True, remote_tuple := None\<rparr>)
      in Inr (c\<lparr>apply_error := err\<rparr>))))"

section \<open>The history table\<close>

definition pgactive_conflict_type_get_datum :: "log_env \<Rightarrow> pgactiveConflictType \<Rightarrow> u32 result" where
  "pgactive_conflict_type_get_datum env ctype =
     (let oid = enum_oid2 (lg_cat env) Anum_pg_enum_oid (lg_type_oid env) (pgactive_conflict_handlers_event_type_name ctype)
      in if oid = InvalidOid then Inl (Error ''syscache lookup for enum of type pgactive.pgactive_conflict_type failed'') else Inr oid)"

fun pgactive_conflict_resolution_get_name :: "pgactiveConflictResolution \<Rightarrow> string" where
  "pgactive_conflict_resolution_get_name pgactiveConflictResolution_ConflictTriggerSkipChange = ''conflict_trigger_skip_change''"
| "pgactive_conflict_resolution_get_name pgactiveConflictResolution_ConflictTriggerReturnedTuple = ''conflict_trigger_returned_tuple''"
| "pgactive_conflict_resolution_get_name pgactiveConflictResolution_LastUpdateWins_KeepLocal = ''last_update_wins_keep_local''"
| "pgactive_conflict_resolution_get_name pgactiveConflictResolution_LastUpdateWins_KeepRemote = ''last_update_wins_keep_remote''"
| "pgactive_conflict_resolution_get_name pgactiveConflictResolution_DefaultApplyChange = ''apply_change''"
| "pgactive_conflict_resolution_get_name pgactiveConflictResolution_DefaultSkipChange = ''skip_change''"
| "pgactive_conflict_resolution_get_name pgactiveConflictResolution_UnhandledTxAbort = ''unhandled_tx_abort''"

definition pgactive_conflict_resolution_get_datum :: "log_env \<Rightarrow> pgactiveConflictResolution \<Rightarrow> u32 result" where
  "pgactive_conflict_resolution_get_datum env res =
     (let oid = enum_oid2 (lg_cat env) Anum_pg_enum_oid (lg_resolution_oid env) (pgactive_conflict_resolution_get_name res)
      in if oid = InvalidOid then Inl (Error ''syscache lookup for enum of type pgactive.pgactive_conflict_resolution failed'') else Inr oid)"

text \<open>A cell of the history table.  \<open>HZero\<close> is a cell that was never written: not null, all bits zero.\<close>

datatype history_value =
    HNull | HZero | HSeq nat | HText string | HXid u32 | HLsn u64 | HTime int | HOid u32 | HJson string | HInt int

definition pgactive_conflict_row_to_json :: "log_env \<Rightarrow> row option \<Rightarrow> bool \<Rightarrow> history_value result" where
  "pgactive_conflict_row_to_json env tup row_isnull =
     (if row_isnull then Inr HNull
      else case tup of None \<Rightarrow> Inl (Panic ''null pointer'')
           | Some t \<Rightarrow> bind_result (lg_row_to_json env t) (\<lambda>j. Inr (HJson j)))"

definition pgactive_conflict_strtodatum :: "string option \<Rightarrow> history_value" where
  "pgactive_conflict_strtodatum in_str = (case in_str of None \<Rightarrow> HNull | Some s \<Rightarrow> HText s)"

definition or_null :: "bool \<Rightarrow> history_value \<Rightarrow> history_value" where
  "or_null present v = (if present then v else HNull)"

definition pgactive_CONFLICT_HISTORY_COLS :: nat where "pgactive_CONFLICT_HISTORY_COLS = 35"

text \<open>The cells for an error.  The cell of the SQLSTATE is overwritten by the null for the statement.\<close>

definition error_columns :: "error_data option \<Rightarrow> history_value list" where
  "error_columns err =
     (case err of
        None \<Rightarrow> replicate 13 HNull
      | Some e \<Rightarrow>
          [pgactive_conflict_strtodatum (ed_message e), HNull, or_null (ed_cursorpos e \<noteq> 0) (HInt (ed_cursorpos e)),
           pgactive_conflict_strtodatum (ed_detail e), pgactive_conflict_strtodatum (ed_hint e),
           pgactive_conflict_strtodatum (ed_context e), pgactive_conflict_strtodatum (ed_column_name e),
           pgactive_conflict_strtodatum (ed_datatype_name e), pgactive_conflict_strtodatum (ed_constraint_name e),
           pgactive_conflict_strtodatum (ed_filename e), HInt (ed_lineno e), pgactive_conflict_strtodatum (ed_funcname e)])"

definition conflict_columns :: "log_env \<Rightarrow> pgactiveApplyConflict \<Rightarrow> history_value list result" where
  "conflict_columns env c =
     bind_result (lg_nextval env) (\<lambda>n.
     bind_result (pgactive_conflict_type_get_datum env (ac_conflict_type c)) (\<lambda>ctype.
     bind_result (pgactive_conflict_resolution_get_datum env (ac_conflict_resolution c)) (\<lambda>cres.
     bind_result (pgactive_conflict_row_to_json env (local_tuple c) (local_tuple_null c)) (\<lambda>ltup.
     bind_result (pgactive_conflict_row_to_json env (remote_tuple c) (remote_tuple_null c)) (\<lambda>rtup.
     let (schema, name) = (case apply_error c of None \<Rightarrow> (object_schema c, object_name c)
                           | Some e \<Rightarrow> (ed_schema_name e, ed_table_name e));
         rknown = sysid (ac_remote_node c) \<noteq> 0;
         oknown = sysid (local_tuple_origin_node c) \<noteq> 0
     in Inr ([HSeq n, HText (dec_string (unat (lg_nid env))), HXid (local_conflict_txid c), HLsn (local_conflict_lsn c),
          HTime (local_conflict_time c), pgactive_conflict_strtodatum schema, pgactive_conflict_strtodatum name,
          HText (dec_string (unat (sysid (ac_remote_node c)))), or_null (remote_txid c \<noteq> 0) (HXid (remote_txid c)),
          HTime (remote_commit_time c), HLsn (remote_commit_lsn c), HOid ctype, HOid cres, ltup, rtup,
          or_null (local_tuple_xmin c \<noteq> 0) (HXid (local_tuple_xmin c)),
          or_null oknown (HText (dec_string (unat (sysid (local_tuple_origin_node c)))))]
        @ error_columns (apply_error c) @
        [or_null rknown (HOid (timeline (ac_remote_node c))), or_null rknown (HOid (dboid (ac_remote_node c))),
         or_null oknown (HOid (timeline (local_tuple_origin_node c))), or_null oknown (HOid (dboid (local_tuple_origin_node c))),
         or_null (local_commit_time c \<noteq> 0) (HTime (local_commit_time c))]))))))"

text \<open>\<open>ins\<close> opens the table, inserts the row and updates the indexes.\<close>

definition pgactive_conflict_log_table ::
  "log_env \<Rightarrow> (history_value list \<Rightarrow> ('db, unit) op) \<Rightarrow> pgactiveApplyConflict \<Rightarrow> ('db, unit) op" where
  "pgactive_conflict_log_table env ins c =
     (if lg_aborted env then sfail (Error ''attempt to log conflict in aborted transaction'')
      else if \<not> lg_in_xact env then sfail (Error ''attempt to log conflict without surrounding transaction'')
      else if \<not> lg_to_table env then sret ()
      else sbind (slift (conflict_columns env c)) (\<lambda>cells.
           ins (cells @ replicate (pgactive_CONFLICT_HISTORY_COLS - length cells) HZero)))"

text \<open>The oids the module looks up when an apply worker starts: of the two types and of the sequence.\<close>

definition pgactive_conflict_logging_startup :: "catalog \<Rightarrow> (u32 \<times> u32 \<times> u32) result" where
  "pgactive_conflict_logging_startup cat =
     bind_result (cat_namespace cat) (\<lambda>_.
     bind_result (GetSysCacheOid2Error (cat_type cat ''pgactive_conflict_type'')) (\<lambda>t.
     bind_result (GetSysCacheOid2Error (cat_type cat ''pgactive_conflict_resolution'')) (\<lambda>r.
     bind_result (GetSysCacheOid2Error (cat_relid cat ''pgactive_conflict_history_id_seq'')) (\<lambda>s.
     Inr (t, r, s)))))"

section \<open>The server log\<close>

text \<open>
  Names of columns and types, the output function of a type and whether it is of variable length,
  and the expansion of compressed values.
\<close>

record print_env =
  pe_attname :: "nat \<Rightarrow> string"
  pe_typname :: "u32 \<Rightarrow> string option"
  pe_output :: "u32 \<Rightarrow> u32 \<times> bool"
  pe_detoast :: "datum \<Rightarrow> datum result"
  pe_node :: "pgactiveNodeId \<Rightarrow> string"

definition print_column :: "datum_api \<Rightarrow> print_env \<Rightarrow> pg_attribute \<Rightarrow> datum option \<Rightarrow> string result" where
  "print_column api pe att v =
     (case pe_output pe (atttypid att) of (outfun, typisvarlena) \<Rightarrow>
        case v of
          None \<Rightarrow> Inr ''(null)''
        | Some d \<Rightarrow>
            if typisvarlena \<and> (case d of DatumOnDisk _ \<Rightarrow> True | _ \<Rightarrow> False) then Inr ''(unchanged-toast-datum)''
            else bind_result (if typisvarlena then pe_detoast pe d else Inr d) (OidOutputFunctionCall api outfun))"

fun tuple_to_stringinfo_cols :: "datum_api \<Rightarrow> print_env \<Rightarrow> nat \<Rightarrow> pg_attribute list \<Rightarrow> row \<Rightarrow> string \<Rightarrow> string result" where
  "tuple_to_stringinfo_cols api pe natt [] vs s = Inr s"
| "tuple_to_stringinfo_cols api pe natt (att # atts) vs s =
     (if attisdropped att then tuple_to_stringinfo_cols api pe (natt + 1) atts (tl vs) s
      else case pe_typname pe (atttypid att) of
        None \<Rightarrow> Inl (Error ''cache lookup failed for type'')
      | Some tn \<Rightarrow>
          bind_result (print_column api pe att (case vs of [] \<Rightarrow> None | v # _ \<Rightarrow> v)) (\<lambda>outputstr.
          tuple_to_stringinfo_cols api pe (natt + 1) atts (tl vs)
            (s @ '' '' @ pe_attname pe natt @ ''['' @ tn @ '']'' @ '':'' @ outputstr)))"

definition tuple_to_stringinfo :: "datum_api \<Rightarrow> print_env \<Rightarrow> u32 \<Rightarrow> pg_attribute list \<Rightarrow> row \<Rightarrow> string \<Rightarrow> string result" where
  "tuple_to_stringinfo api pe oid atts vs s =
     tuple_to_stringinfo_cols api pe 0 atts vs (if oid \<noteq> InvalidOid then s @ '' oid[oid]:'' @ dec_string (unat oid) else s)"

text \<open>A composite value carries its row type, which gives \<open>atts\<close>; rows of current servers have no oid.\<close>

definition row_to_stringinfo :: "datum_api \<Rightarrow> print_env \<Rightarrow> pg_attribute list \<Rightarrow> row option \<Rightarrow> string result" where
  "row_to_stringinfo api pe atts composite =
     (case composite of None \<Rightarrow> Inl (Panic ''null pointer'') | Some vs \<Rightarrow> tuple_to_stringinfo api pe InvalidOid atts vs [])"

definition pgactive_conflict_log_serverlog ::
  "datum_api \<Rightarrow> print_env \<Rightarrow> log_env \<Rightarrow> pg_attribute list \<Rightarrow> pgactiveApplyConflict \<Rightarrow> string option result" where
  "pgactive_conflict_log_serverlog api pe env atts c =
     (if \<not> lg_to_logfile env then Inr None
      else bind_result (if local_tuple_null c then Inr [] else row_to_stringinfo api pe atts (local_tuple c)) (\<lambda>s_key.
        let resolution = pgactive_conflict_resolution_get_name (ac_conflict_resolution c);
            t = ac_conflict_type c
        in Inr (case t of
             pgactiveConflictType_UpdateDelete \<Rightarrow>
               Some (''CONFLICT: remote UPDATE: could not find existing row. Resolution: '' @ resolution @ ''; PKEY:'' @ s_key)
           | pgactiveConflictType_DeleteDelete \<Rightarrow>
               Some (''CONFLICT: remote DELETE: could not find existing row. Resolution: '' @ resolution @ ''; PKEY:'' @ s_key)
           | pgactiveConflictType_UnhandledTxAbort \<Rightarrow> None
           | _ \<Rightarrow>
               Some (''CONFLICT: remote '' @ (if t = pgactiveConflictType_UpdateUpdate then ''UPDATE'' else ''INSERT'') @
                 '': row was previously '' @ (if t = pgactiveConflictType_InsertInsert then ''INSERTed'' else ''UPDATEd'') @
                 '' at node '' @ pe_node pe (local_tuple_origin_node c) @ ''. Resolution: '' @ resolution @ ''; PKEY:'' @ s_key))))"

section \<open>Properties\<close>

text \<open>
  A history row of a conflict without an apply error has exactly the columns of the table, and
  for an apply error it has one too few: the SQLSTATE shares its cell with the statement, so every
  later value lands one column early and the last column keeps a zero instead of the commit time.
\<close>

theorem conflict_history_width:
  assumes "conflict_columns env c = Inr cells"
  shows "length cells = (if apply_error c = None then pgactive_CONFLICT_HISTORY_COLS else pgactive_CONFLICT_HISTORY_COLS - 1)"
  using assms
  by (auto simp: conflict_columns_def bind_result_eq_Inr error_columns_def pgactive_CONFLICT_HISTORY_COLS_def Let_def
      split: prod.splits option.splits)

lemma make_conflict_local:
  assumes "pgactive_make_apply_conflict env ctype res rtxid rel (Some t) org remote ts err = Inr c" "\<not> lg_include_tuples env"
  shows "local_tuple c = None" "\<not> local_tuple_null c" "ac_conflict_type c = ctype" "ac_conflict_resolution c = res"
  using assms
  by (auto simp: pgactive_make_apply_conflict_def bind_result_eq_Inr zero_conflict_def Let_def split: option.splits if_splits)

text \<open>
  With \<open>pgactive.conflict_logging_include_tuples\<close> off, logging a conflict that has a local row
  dereferences a null pointer: the flag \<open>local_tuple_null\<close> is left unset while the row is not filled
  in, so the conversion to JSON gets address zero.
\<close>

theorem conflict_log_crashes_without_tuples:
  assumes "pgactive_make_apply_conflict env ctype res rtxid rel (Some t) org remote ts err = Inr c" "\<not> lg_include_tuples env"
    "lg_to_table env" "lg_in_xact env" "\<not> lg_aborted env" "lg_nextval env = Inr n"
    "pgactive_conflict_type_get_datum env ctype = Inr x" "pgactive_conflict_resolution_get_datum env res = Inr y"
  shows "pgactive_conflict_log_table env ins c d = (Inl (Panic ''null pointer''), d)"
  using assms(3-) make_conflict_local [OF assms(1,2)]
  by (simp add: pgactive_conflict_log_table_def conflict_columns_def pgactive_conflict_row_to_json_def)

section \<open>Examples\<close>

definition example_log_catalog :: catalog where
  "example_log_catalog = example_catalog\<lparr>cat_enum := cat_enum example_catalog @
     [\<lparr>enum_oid = 131, enum_typid = 130, enum_label = ''last_update_wins_keep_local''\<rparr>, \<lparr>enum_oid = 132, enum_typid = 130, enum_label = ''skip_change''\<rparr>]\<rparr>"

text \<open>This node is (1, 0, 5); origin 3 is its peer (2, 0, 6).\<close>

definition example_log_env :: "bool \<Rightarrow> log_env" where
  "example_log_env include_tuples = \<lparr>lg_txid = 700, lg_insert_lsn = 50, lg_now = 2000, lg_session_origin = 3, lg_session_ts = 1000,
     lg_session_lsn = 90,
     lg_origins = (\<lambda>i. if i = 3 then Some (pgactive_replident_name \<lparr>sysid = 2, timeline = 0, dboid = 6\<rparr> 5) else None),
     lg_nid = 1, lg_mydb = 5, lg_namespace_name = (\<lambda>_. Some ''public''), lg_include_tuples = include_tuples, lg_to_table = True,
     lg_to_logfile = False, lg_aborted = False, lg_in_xact = True, lg_type_oid = 110, lg_resolution_oid = 130,
     lg_cat = example_log_catalog, lg_nextval = Inr 1, lg_row_to_json = (\<lambda>_. Inr ''{}'')\<rparr>"

lemma example_peer:
  "pgactive_fetch_sysid_via_node_id (lg_origins (example_log_env b)) 1 5 3 zero_nodeid = Inr \<lparr>sysid = 2, timeline = 0, dboid = 6\<rparr>"
  by (simp add: example_log_env_def pgactive_fetch_sysid_via_node_id_def pgactive_fetch_sysid_via_node_id_ifexists_def
      parse_replident_name InvalidRepOriginId_def DoNotReplicateId_def)

lemma example_conflict:
  "\<exists>c. pgactive_make_apply_conflict (example_log_env b) pgactiveConflictType_UpdateUpdate
     pgactiveConflictResolution_LastUpdateWins_KeepLocal 600 (Some example_relation) (Some \<lparr>t_self = 0, t_xmin = 650, t_values = []\<rparr>) 0
     (Some []) 1500 None = Inr c"
  using example_peer [of b]
  by (simp add: pgactive_make_apply_conflict_def Let_def InvalidRepOriginId_def example_log_env_def)

lemma example_conflict_oids:
  "pgactive_conflict_type_get_datum (example_log_env b) pgactiveConflictType_UpdateUpdate = Inr 112"
  "pgactive_conflict_resolution_get_datum (example_log_env b) pgactiveConflictResolution_LastUpdateWins_KeepLocal = Inr 131"
  by (simp_all add: pgactive_conflict_type_get_datum_def pgactive_conflict_resolution_get_datum_def example_log_env_def
      example_log_catalog_def example_catalog_def enum_oid2_def InvalidOid_def)

theorem conflict_log_crashes_without_tuples_witness:
  "\<exists>c. pgactive_make_apply_conflict (example_log_env False) pgactiveConflictType_UpdateUpdate
     pgactiveConflictResolution_LastUpdateWins_KeepLocal 600 (Some example_relation) (Some \<lparr>t_self = 0, t_xmin = 650, t_values = []\<rparr>) 0
     (Some []) 1500 None = Inr c \<and>
   pgactive_conflict_log_table (example_log_env False) (\<lambda>cells. sret ()) c () = (Inl (Panic ''null pointer''), ())"
proof -
  from example_conflict [of False] obtain c where c: "pgactive_make_apply_conflict (example_log_env False) pgactiveConflictType_UpdateUpdate
     pgactiveConflictResolution_LastUpdateWins_KeepLocal 600 (Some example_relation) (Some \<lparr>t_self = 0, t_xmin = 650, t_values = []\<rparr>) 0
     (Some []) 1500 None = Inr c" by blast
  have "pgactive_conflict_log_table (example_log_env False) (\<lambda>cells. sret ()) c () = (Inl (Panic ''null pointer''), ())"
    by (rule conflict_log_crashes_without_tuples [OF c]) (simp_all add: example_conflict_oids, simp_all add: example_log_env_def)
  with c show ?thesis by blast
qed

lemma example_columns:
  assumes "pgactive_make_apply_conflict (example_log_env True) pgactiveConflictType_UpdateUpdate
     pgactiveConflictResolution_LastUpdateWins_KeepLocal 600 (Some example_relation) (Some \<lparr>t_self = 0, t_xmin = 650, t_values = []\<rparr>) 0
     (Some []) 1500 None = Inr c"
  shows "\<exists>cells. conflict_columns (example_log_env True) c = Inr cells" "apply_error c = None"
proof -
  have c: "local_tuple c = Some []" "\<not> local_tuple_null c" "remote_tuple c = Some []" "ac_conflict_type c = pgactiveConflictType_UpdateUpdate"
      "ac_conflict_resolution c = pgactiveConflictResolution_LastUpdateWins_KeepLocal" "apply_error c = None"
    using assms example_peer [of True]
    by (auto simp: pgactive_make_apply_conflict_def Let_def InvalidRepOriginId_def example_log_env_def)
  have e: "lg_nextval (example_log_env True) = Inr 1" "lg_row_to_json (example_log_env True) v = Inr ''{}''" for v
    by (simp_all add: example_log_env_def)
  from c show "\<exists>cells. conflict_columns (example_log_env True) c = Inr cells" "apply_error c = None"
    by (simp_all add: conflict_columns_def example_conflict_oids pgactive_conflict_row_to_json_def e Let_def)
qed

theorem conflict_history_width_witness:
  "\<exists>c cells. conflict_columns (example_log_env True) c = Inr cells \<and> length cells = 35"
proof -
  from example_conflict [of True] obtain c where c: "pgactive_make_apply_conflict (example_log_env True) pgactiveConflictType_UpdateUpdate
     pgactiveConflictResolution_LastUpdateWins_KeepLocal 600 (Some example_relation) (Some \<lparr>t_self = 0, t_xmin = 650, t_values = []\<rparr>) 0
     (Some []) 1500 None = Inr c" by blast
  from example_columns [OF c] obtain cells where k: "conflict_columns (example_log_env True) c = Inr cells" "apply_error c = None" by blast
  from conflict_history_width [OF k(1)] k show ?thesis by (auto simp: pgactive_CONFLICT_HISTORY_COLS_def)
qed

end
