(* ===== verification/Count_Stats.thy ===== *)
theory Count_Stats
  imports Node_Catalog
begin

text \<open>
  Statistics of the apply workers, \<^verbatim>\<open>src/pgactive_count.c\<close>: the array of counters in shared memory,
  the slot of a node, the counters of the apply process, and the file in which they survive a
  restart.  The outcome of the file operations is a parameter.
\<close>

section \<open>Counters\<close>

record pgactiveCountSlot =
  cs_node_id :: u16
  nr_commit :: u64
  nr_rollback :: u64
  nr_insert :: u64
  nr_insert_conflict :: u64
  nr_update :: u64
  nr_update_conflict :: u64
  nr_delete :: u64
  nr_delete_conflict :: u64
  nr_disconnect :: u64

text \<open>
  \<open>cc_slots\<close> is the shared array, of \<open>pgactive_count_nnodes\<close> elements, and \<open>cc_offset\<close> the variable
  \<open>MyCountOffsetIdx\<close> of the process.
\<close>

record count_state =
  cc_slots :: "pgactiveCountSlot list"
  cc_offset :: "nat option"

type_synonym 'a count_op = "(count_state, 'a) op"

definition zero_count_slot :: pgactiveCountSlot where
  "zero_count_slot = \<lparr>cs_node_id = InvalidRepOriginId, nr_commit = 0, nr_rollback = 0, nr_insert = 0, nr_insert_conflict = 0,
     nr_update = 0, nr_update_conflict = 0, nr_delete = 0, nr_delete_conflict = 0, nr_disconnect = 0\<rparr>"

fun slot_index :: "u16 \<Rightarrow> pgactiveCountSlot list \<Rightarrow> nat option" where
  "slot_index node [] = None"
| "slot_index node (x # xs) = (if cs_node_id x = node then Some 0 else map_option Suc (slot_index node xs))"

definition pgactive_count_set_current_node :: "u16 \<Rightarrow> unit count_op" where
  "pgactive_count_set_current_node node_id s =
     (let s = s\<lparr>cc_offset := None\<rparr> in
      case slot_index node_id (cc_slots s) of
        Some i \<Rightarrow> (Inr (), s\<lparr>cc_offset := Some i\<rparr>)
      | None \<Rightarrow>
          (case slot_index InvalidRepOriginId (cc_slots s) of
             Some i \<Rightarrow> (Inr (), s\<lparr>cc_offset := Some i, cc_slots := (cc_slots s)[i := (cc_slots s ! i)\<lparr>cs_node_id := node_id\<rparr>]\<rparr>)
           | None \<Rightarrow> (Inl (Panic ''could not find a pgactive count slot''), s)))"

text \<open>\<open>MyCountOffsetIdx\<close> is only asserted to be set; unset it is \<open>-1\<close>, an element before the array.\<close>

definition count_up :: "(pgactiveCountSlot \<Rightarrow> pgactiveCountSlot) \<Rightarrow> unit count_op" where
  "count_up f s = (case cc_offset s of
       None \<Rightarrow> (Inl (Panic ''MyCountOffsetIdx is not set''), s)
     | Some i \<Rightarrow> (Inr (), s\<lparr>cc_slots := (cc_slots s)[i := f (cc_slots s ! i)]\<rparr>))"

definition pgactive_count_commit :: "unit count_op" where
  "pgactive_count_commit = count_up (\<lambda>c. c\<lparr>nr_commit := nr_commit c + 1\<rparr>)"

definition pgactive_count_rollback :: "unit count_op" where
  "pgactive_count_rollback = count_up (\<lambda>c. c\<lparr>nr_rollback := nr_rollback c + 1\<rparr>)"

definition pgactive_count_insert :: "unit count_op" where
  "pgactive_count_insert = count_up (\<lambda>c. c\<lparr>nr_insert := nr_insert c + 1\<rparr>)"

definition pgactive_count_insert_conflict :: "unit count_op" where
  "pgactive_count_insert_conflict = count_up (\<lambda>c. c\<lparr>nr_insert_conflict := nr_insert_conflict c + 1\<rparr>)"

definition pgactive_count_update :: "unit count_op" where
  "pgactive_count_update = count_up (\<lambda>c. c\<lparr>nr_update := nr_update c + 1\<rparr>)"

definition pgactive_count_update_conflict :: "unit count_op" where
  "pgactive_count_update_conflict = count_up (\<lambda>c. c\<lparr>nr_update_conflict := nr_update_conflict c + 1\<rparr>)"

definition pgactive_count_delete :: "unit count_op" where
  "pgactive_count_delete = count_up (\<lambda>c. c\<lparr>nr_delete := nr_delete c + 1\<rparr>)"

definition pgactive_count_delete_conflict :: "unit count_op" where
  "pgactive_count_delete_conflict = count_up (\<lambda>c. c\<lparr>nr_delete_conflict := nr_delete_conflict c + 1\<rparr>)"

definition pgactive_count_disconnect :: "unit count_op" where
  "pgactive_count_disconnect = count_up (\<lambda>c. c\<lparr>nr_disconnect := nr_disconnect c + 1\<rparr>)"

text \<open>A row of the view: the node, the name of its origin, and the counters.  \<open>names\<close> is \<open>replorigin_by_oid\<close>.\<close>

fun pgactive_get_stats :: "(u16 \<Rightarrow> string result) \<Rightarrow> pgactiveCountSlot list \<Rightarrow> (u16 \<times> string \<times> u64 list) list result" where
  "pgactive_get_stats names [] = Inr []"
| "pgactive_get_stats names (c # cs) =
     (if cs_node_id c = InvalidRepOriginId then pgactive_get_stats names cs
      else bind_result (names (cs_node_id c)) (\<lambda>riname.
           bind_result (pgactive_get_stats names cs) (\<lambda>rows.
           Inr ((cs_node_id c, riname, [nr_commit c, nr_rollback c, nr_insert c, nr_insert_conflict c, nr_update c,
                  nr_update_conflict c, nr_delete c, nr_delete_conflict c, nr_disconnect c]) # rows))))"

section \<open>The file\<close>

definition pgactive_count_magic :: u32 where "pgactive_count_magic = 0x5e51A7"

definition pgactive_count_version :: u32 where "pgactive_count_version = 2"

record pgactiveCountSerialize =
  sf_magic :: u32
  sf_version :: u32
  sf_nr_slots :: u32

text \<open>
  The file: \<open>None\<close> when it does not exist, otherwise a header, which may be cut short, and the
  complete slots after it.
\<close>

type_synonym stat_file = "(pgactiveCountSerialize option \<times> pgactiveCountSlot list) option"

record file_ops =
  fo_unlink :: bool
  fo_create :: bool
  fo_write_header :: bool
  fo_write_data :: bool
  fo_rename :: bool
  fo_open :: bool

text \<open>
  The error paths release the lock of the worker array, which is not held, so what they report is
  the failure of that release.
\<close>

definition pgactive_count_serialize :: "file_ops \<Rightarrow> pgactiveCountSlot list \<Rightarrow> (stat_file, unit) op" where
  "pgactive_count_serialize fo slots file =
     (if \<not> fo_unlink fo \<or> \<not> fo_create fo \<or> \<not> fo_write_header fo \<or> \<not> fo_write_data fo \<or> \<not> fo_rename fo
      then (Inl (Error ''lock is not held''), file)
      else (Inr (), Some (Some \<lparr>sf_magic = pgactive_count_magic, sf_version = pgactive_count_version,
             sf_nr_slots = of_nat (length slots)\<rparr>, slots)))"

definition pgactive_count_unserialize :: "file_ops \<Rightarrow> pgactiveCountSlot list \<Rightarrow> (stat_file, pgactiveCountSlot list) op" where
  "pgactive_count_unserialize fo slots file =
     (case file of
        None \<Rightarrow> (Inr slots, file)
      | Some (hdr, body) \<Rightarrow>
          if \<not> fo_open fo then (Inl (Error ''lock is not held''), file)
          else case hdr of
            None \<Rightarrow> (Inl (Panic ''could not read pgactive stat file data''), file)
          | Some h \<Rightarrow>
              if sf_magic h \<noteq> pgactive_count_magic then (Inl (Error ''lock is not held''), file)
              else if sf_version h \<noteq> pgactive_count_version \<or> unat (sf_nr_slots h) > length slots
              then sseq (pgactive_count_serialize fo slots) (sret slots) file
              else if length body < unat (sf_nr_slots h) then (Inl (Error ''lock is not held''), file)
              else (Inr (take (unat (sf_nr_slots h)) body @ drop (unat (sf_nr_slots h)) slots), file))"

definition pgactive_count_shmem_startup :: "file_ops \<Rightarrow> nat \<Rightarrow> pgactiveCountSlot list option \<Rightarrow> (stat_file, pgactiveCountSlot list) op" where
  "pgactive_count_shmem_startup fo nnodes found =
     (case found of Some slots \<Rightarrow> sret slots
      | None \<Rightarrow> pgactive_count_unserialize fo (replicate nnodes zero_count_slot))"

definition pgactive_count_shmem_shutdown :: "file_ops \<Rightarrow> bool \<Rightarrow> pgactiveCountSlot list \<Rightarrow> (stat_file, unit) op" where
  "pgactive_count_shmem_shutdown fo IsUnderPostmaster slots =
     (if IsUnderPostmaster then sret () else pgactive_count_serialize fo slots)"

section \<open>Slots of nodes\<close>

lemma slot_index_Some: "slot_index n xs = Some i \<Longrightarrow> i < length xs \<and> cs_node_id (xs ! i) = n"
  by (induction xs arbitrary: i) (auto split: if_splits)

lemma slot_index_None: "slot_index n xs = None \<longleftrightarrow> n \<notin> cs_node_id ` set xs"
  by (induction xs) auto

lemma slot_index_append:
  "n \<notin> cs_node_id ` set xs \<Longrightarrow> slot_index n (xs @ ys) = map_option (\<lambda>i. length xs + i) (slot_index n ys)"
  by (induction xs; cases "slot_index n ys") auto

text \<open>The slots after the first processes of the nodes \<open>ids\<close> have started, one after the other.\<close>

fun start_nodes :: "u16 list \<Rightarrow> unit count_op" where
  "start_nodes [] = sret ()"
| "start_nodes (n # ns) = sseq (pgactive_count_set_current_node n) (start_nodes ns)"

definition used_slots :: "u16 list \<Rightarrow> pgactiveCountSlot list" where
  "used_slots ids = map (\<lambda>n. zero_count_slot\<lparr>cs_node_id := n\<rparr>) ids"

lemma used_ids [simp]: "cs_node_id ` set (used_slots ids) = set ids" "length (used_slots ids) = length ids"
  by (auto simp: used_slots_def image_image)

lemma set_current_node_fresh:
  assumes "n \<notin> set ids" "n \<noteq> InvalidRepOriginId" "InvalidRepOriginId \<notin> set ids" "0 < k"
  shows "pgactive_count_set_current_node n \<lparr>cc_slots = used_slots ids @ replicate k zero_count_slot, cc_offset = c\<rparr> =
    (Inr (), \<lparr>cc_slots = used_slots (ids @ [n]) @ replicate (k - 1) zero_count_slot, cc_offset = Some (length ids)\<rparr>)"
proof -
  from assms(4) obtain k' where k: "k = Suc k'" by (cases k) auto
  have z: "cs_node_id zero_count_slot = InvalidRepOriginId" by (simp add: zero_count_slot_def)
  have "slot_index n (used_slots ids @ replicate k zero_count_slot) = None"
    using assms z by (auto simp: slot_index_None image_Un)
  moreover have "slot_index InvalidRepOriginId (used_slots ids @ replicate k zero_count_slot) = Some (length ids)"
    using slot_index_append [of InvalidRepOriginId "used_slots ids" "replicate k zero_count_slot"] assms z by (simp add: k)
  ultimately show ?thesis
    by (simp add: pgactive_count_set_current_node_def Let_def k nth_append list_update_append) (simp add: used_slots_def)
qed

lemma start_nodes_distinct:
  assumes "distinct (ids @ ns)" "InvalidRepOriginId \<notin> set (ids @ ns)" "length ns \<le> k"
  shows "\<exists>c'. start_nodes ns \<lparr>cc_slots = used_slots ids @ replicate k zero_count_slot, cc_offset = c\<rparr> =
    (Inr (), \<lparr>cc_slots = used_slots (ids @ ns) @ replicate (k - length ns) zero_count_slot, cc_offset = c'\<rparr>)"
  using assms
proof (induction ns arbitrary: ids k c)
  case (Cons n ns)
  have "pgactive_count_set_current_node n \<lparr>cc_slots = used_slots ids @ replicate k zero_count_slot, cc_offset = c\<rparr> =
    (Inr (), \<lparr>cc_slots = used_slots (ids @ [n]) @ replicate (k - 1) zero_count_slot, cc_offset = Some (length ids)\<rparr>)"
    using Cons.prems by (intro set_current_node_fresh) auto
  with Cons.IH [of "ids @ [n]" "k - 1" "Some (length ids)"] Cons.prems show ?case by (simp add: sseq_def)
qed simp

text \<open>
  A slot is never given back.  Once as many different nodes have been served as the array has
  elements, the start of an apply worker for any other node takes the whole server down.
\<close>

theorem count_slots_exhausted:
  assumes "distinct (n # ids)" "InvalidRepOriginId \<notin> set (n # ids)"
  shows "\<exists>s. start_nodes ids \<lparr>cc_slots = replicate (length ids) zero_count_slot, cc_offset = None\<rparr> = (Inr (), s) \<and>
    fst (pgactive_count_set_current_node n s) = Inl (Panic ''could not find a pgactive count slot'')"
proof -
  from start_nodes_distinct [of "[]" ids "length ids" None] assms obtain c' where
    "start_nodes ids \<lparr>cc_slots = replicate (length ids) zero_count_slot, cc_offset = None\<rparr> =
      (Inr (), \<lparr>cc_slots = used_slots ids, cc_offset = c'\<rparr>)" by (auto simp: used_slots_def)
  moreover have "slot_index n (used_slots ids) = None" "slot_index InvalidRepOriginId (used_slots ids) = None"
    using assms by (simp_all add: slot_index_None)
  ultimately show ?thesis by (simp add: pgactive_count_set_current_node_def)
qed

theorem count_slots_exhausted_witness:
  "\<exists>s. start_nodes [1, 2] \<lparr>cc_slots = [zero_count_slot, zero_count_slot], cc_offset = None\<rparr> = (Inr (), s) \<and>
    fst (pgactive_count_set_current_node 3 s) = Inl (Panic ''could not find a pgactive count slot'')"
  using count_slots_exhausted [of 3 "[1, 2]"] by (simp add: InvalidRepOriginId_def)


definition example_file_ops :: file_ops where
  "example_file_ops = \<lparr>fo_unlink = True, fo_create = True, fo_write_header = True, fo_write_data = True, fo_rename = True, fo_open = True\<rparr>"


end
