(* ===== verification/Output_Plugin.thy ===== *)
theory Output_Plugin
  imports Tuple_Codec Worker_System
begin

text \<open>
  The logical decoding output plugin, \<^verbatim>\<open>src/pgactive_output.c\<close>: the options of a peer, the start of
  decoding, which transactions and changes are sent, and the messages for them.  Constants of the
  build and of the server are the parameter \<open>build\<close>, what the server answers during startup is
  \<open>startup_env\<close>.  A callback yields the message it writes, or nothing.
\<close>

section \<open>Numbers in options\<close>

text \<open>\<open>strtoul (s, NULL, 0)\<close> and \<open>strtoull\<close>: the value and whether \<open>errno\<close> is set.\<close>

definition digit_in :: "nat \<Rightarrow> char \<Rightarrow> nat option" where
  "digit_in base c =
     (let n = (of_char c :: nat);
          d = (if 48 \<le> n \<and> n \<le> 57 then n - 48
               else if 97 \<le> n \<and> n \<le> 122 then n - 87
               else if 65 \<le> n \<and> n \<le> 90 then n - 55 else base)
      in if d < base then Some d else None)"

definition digits_value :: "nat \<Rightarrow> string \<Rightarrow> nat" where
  "digits_value base s = foldl (\<lambda>a c. a * base + the (digit_in base c)) 0 (takeWhile (\<lambda>c. digit_in base c \<noteq> None) s)"

definition strtoul_base0 :: "string \<Rightarrow> nat \<times> bool" where
  "strtoul_base0 s =
     (let (neg, r) = scan_sign (dropWhile is_space s);
          v = (case r of
                 a # b # c # cs \<Rightarrow>
                   if a = CHR ''0'' \<and> (b = CHR ''x'' \<or> b = CHR ''X'') \<and> digit_in 16 c \<noteq> None then digits_value 16 (c # cs)
                   else if a = CHR ''0'' then digits_value 8 r else digits_value 10 r
               | a # cs \<Rightarrow> if a = CHR ''0'' then digits_value 8 r else digits_value 10 r
               | [] \<Rightarrow> 0)
      in (strtoul_value neg v, 2 ^ 64 \<le> v))"

section \<open>Options of the client\<close>

record DefElem =
  defname :: string
  defarg :: "string option"

record build =
  PG_VERSION_NUM :: u32
  CATALOG_VERSION_NO :: u32
  pgactive_VERSION_NUM :: u32
  pgactive_MIN_REMOTE_VERSION_NUM :: u32
  pgactive_VARIANT :: string
  sizeof_int :: u64
  sizeof_long :: u64
  sizeof_Datum :: u64
  MAXIMUM_ALIGNOF :: u64
  WORDS_BIGENDIAN :: bool
  USE_FLOAT4_BYVAL :: bool
  USE_FLOAT8_BYVAL :: bool
  integer_datetimes :: string
  database_encoding :: string

definition pgactive_get_float4byval :: "build \<Rightarrow> bool" where
  "pgactive_get_float4byval b = USE_FLOAT4_BYVAL b"

definition pgactive_get_float8byval :: "build \<Rightarrow> bool" where
  "pgactive_get_float8byval b = USE_FLOAT8_BYVAL b"

definition pgactive_get_integer_timestamps :: "build \<Rightarrow> bool" where
  "pgactive_get_integer_timestamps b \<longleftrightarrow> strcmp (integer_datetimes b) ''on'' = 0"

definition pgactive_get_bigendian :: "build \<Rightarrow> bool" where
  "pgactive_get_bigendian b = WORDS_BIGENDIAN b"

definition pgactive_parse_notnull :: "DefElem \<Rightarrow> string result" where
  "pgactive_parse_notnull elem =
     (case defarg elem of None \<Rightarrow> Inl (Error ''parameter had no value'') | Some s \<Rightarrow> Inr s)"

definition pgactive_parse_uint32 :: "DefElem \<Rightarrow> u32 result" where
  "pgactive_parse_uint32 elem =
     bind_result (pgactive_parse_notnull elem) (\<lambda>s.
     let (v, errno) = strtoul_base0 s
     in if errno then Inl (Error ''could not parse uint32 value'') else Inr (of_nat v))"

definition pgactive_parse_size_t :: "DefElem \<Rightarrow> u64 result" where
  "pgactive_parse_size_t elem =
     bind_result (pgactive_parse_notnull elem) (\<lambda>s.
     let (v, errno) = strtoul_base0 s
     in if errno then Inl (Error ''could not parse size_t value'') else Inr (of_nat v))"

definition pgactive_parse_bool :: "(string \<Rightarrow> bool option) \<Rightarrow> DefElem \<Rightarrow> bool result" where
  "pgactive_parse_bool parse_bool elem =
     bind_result (pgactive_parse_notnull elem) (\<lambda>s.
     case parse_bool s of None \<Rightarrow> Inl (Error ''could not parse boolean value'') | Some b \<Rightarrow> Inr b)"

definition pgactive_parse_identifier_list_arr :: "(string \<Rightarrow> string list option) \<Rightarrow> DefElem \<Rightarrow> string list result" where
  "pgactive_parse_identifier_list_arr SplitIdentifierString elem =
     bind_result (pgactive_parse_notnull elem) (\<lambda>s.
     case SplitIdentifierString s of None \<Rightarrow> Inl (Error ''could not identifier list value'') | Some xs \<Rightarrow> Inr xs)"

definition pgactive_parse_str :: "DefElem \<Rightarrow> string result" where
  "pgactive_parse_str elem = pgactive_parse_notnull elem"

fun validate_names :: "string list \<Rightarrow> unit result" where
  "validate_names [] = Inr ()"
| "validate_names (n # ns) = bind_result (pgactive_validate_replication_set_name n True) (\<lambda>_. validate_names ns)"

text \<open>What the server contributes to the parsing of options.\<close>

record option_env =
  oe_build :: build
  oe_parse_bool :: "string \<Rightarrow> bool option"
  oe_split :: "string \<Rightarrow> string list option"
  oe_qsort :: "string list \<Rightarrow> string list"

definition interactive_defaults :: "build \<Rightarrow> pgactiveOutputData \<Rightarrow> pgactiveOutputData" where
  "interactive_defaults b data = data\<lparr>client_pg_version := PG_VERSION_NUM b, client_pg_catversion := CATALOG_VERSION_NO b,
     client_pgactive_version := pgactive_VERSION_NUM b, client_pgactive_variant := Some (pgactive_VARIANT b),
     client_min_pgactive_version := pgactive_VERSION_NUM b, client_sizeof_int := sizeof_int b, client_sizeof_long := sizeof_long b,
     client_sizeof_datum := sizeof_Datum b, client_maxalign := MAXIMUM_ALIGNOF b, client_bigendian := pgactive_get_bigendian b,
     client_float4_byval := pgactive_get_float4byval b, client_float8_byval := pgactive_get_float8byval b,
     client_int_datetime := pgactive_get_integer_timestamps b, client_db_encoding := Some (database_encoding b)\<rparr>"

definition parse_option :: "option_env \<Rightarrow> DefElem \<Rightarrow> pgactiveOutputData \<Rightarrow> pgactiveOutputData result" where
  "parse_option env elem data =
     (let name = defname elem in
      if strcmp name ''pg_version'' = 0
      then bind_result (pgactive_parse_uint32 elem) (\<lambda>v. Inr (data\<lparr>client_pg_version := v\<rparr>))
      else if strcmp name ''pg_catversion'' = 0
      then bind_result (pgactive_parse_uint32 elem) (\<lambda>v. Inr (data\<lparr>client_pg_catversion := v\<rparr>))
      else if strcmp name ''pgactive_version'' = 0
      then bind_result (pgactive_parse_uint32 elem) (\<lambda>v. Inr (data\<lparr>client_pgactive_version := v\<rparr>))
      else if strcmp name ''pgactive_variant'' = 0
      then bind_result (pgactive_parse_str elem) (\<lambda>v. Inr (data\<lparr>client_pgactive_variant := Some v\<rparr>))
      else if strcmp name ''min_pgactive_version'' = 0
      then bind_result (pgactive_parse_uint32 elem) (\<lambda>v. Inr (data\<lparr>client_min_pgactive_version := v\<rparr>))
      else if strcmp name ''sizeof_int'' = 0
      then bind_result (pgactive_parse_size_t elem) (\<lambda>v. Inr (data\<lparr>client_sizeof_int := v\<rparr>))
      else if strcmp name ''sizeof_long'' = 0
      then bind_result (pgactive_parse_size_t elem) (\<lambda>v. Inr (data\<lparr>client_sizeof_long := v\<rparr>))
      else if strcmp name ''sizeof_datum'' = 0
      then bind_result (pgactive_parse_size_t elem) (\<lambda>v. Inr (data\<lparr>client_sizeof_datum := v\<rparr>))
      else if strcmp name ''maxalign'' = 0
      then bind_result (pgactive_parse_size_t elem) (\<lambda>v. Inr (data\<lparr>client_maxalign := v\<rparr>))
      else if strcmp name ''bigendian'' = 0
      then bind_result (pgactive_parse_bool (oe_parse_bool env) elem) (\<lambda>v. Inr (data\<lparr>client_bigendian := v\<rparr>))
      else if strcmp name ''float4_byval'' = 0
      then bind_result (pgactive_parse_bool (oe_parse_bool env) elem) (\<lambda>v. Inr (data\<lparr>client_float4_byval := v\<rparr>))
      else if strcmp name ''float8_byval'' = 0
      then bind_result (pgactive_parse_bool (oe_parse_bool env) elem) (\<lambda>v. Inr (data\<lparr>client_float8_byval := v\<rparr>))
      else if strcmp name ''integer_datetimes'' = 0
      then bind_result (pgactive_parse_bool (oe_parse_bool env) elem) (\<lambda>v. Inr (data\<lparr>client_int_datetime := v\<rparr>))
      else if strcmp name ''db_encoding'' = 0
      then (case defarg elem of None \<Rightarrow> Inl (Panic ''null pointer'') | Some s \<Rightarrow> Inr (data\<lparr>client_db_encoding := Some s\<rparr>))
      else if strcmp name ''forward_changesets'' = 0
      then bind_result (pgactive_parse_bool (oe_parse_bool env) elem) (\<lambda>v. Inr (data\<lparr>od_forward_changesets := v\<rparr>))
      else if strcmp name ''replication_sets'' = 0
      then bind_result (pgactive_parse_identifier_list_arr (oe_split env) elem) (\<lambda>sets.
           bind_result (validate_names sets) (\<lambda>_. Inr (data\<lparr>od_replication_sets := Some (oe_qsort env sets)\<rparr>)))
      else if strcmp name ''interactive'' = 0 then Inr (interactive_defaults (oe_build env) data)
      else Inl (Error ''option is unknown''))"

fun parse_options :: "option_env \<Rightarrow> DefElem list \<Rightarrow> pgactiveOutputData \<Rightarrow> pgactiveOutputData result" where
  "parse_options env [] data = Inr data"
| "parse_options env (e # es) data = bind_result (parse_option env e data) (parse_options env es)"

section \<open>Startup\<close>

text \<open>What the server and the catalogues answer during startup.\<close>

record startup_env =
  su_options :: option_env
  su_slot_name :: string
  su_walsnd :: "nat option"
  su_namespace_oid :: u32
  su_relname_relid :: "string \<Rightarrow> u32"
  su_maintain_schema :: "unit result"
  su_spi_connects :: bool
  su_nodes_relid :: "u32 result"
  su_nodes :: "node_row list"
  su_nid :: u64
  su_mydb :: u32

text \<open>The process: its worker variables with the shared segment, and its node cache.\<close>

record plugin_state =
  ps_workers :: worker_sys
  ps_nodecache :: nodecache

type_synonym 'a plugin_op = "(plugin_state, 'a) op"

definition on_nodecache :: "(nodecache, 'a) op \<Rightarrow> 'a plugin_op" where
  "on_nodecache f s = (case f (ps_nodecache s) of (r, nc) \<Rightarrow> (r, s\<lparr>ps_nodecache := nc\<rparr>))"

definition on_plugin_workers :: "'a worker_op \<Rightarrow> 'a plugin_op" where
  "on_plugin_workers f s = (case f (ps_workers s) of (r, w) \<Rightarrow> (r, s\<lparr>ps_workers := w\<rparr>))"

definition initial_data :: pgactiveOutputData where
  "initial_data = \<lparr>remote_node = zero_nodeid, allow_binary_protocol = False, allow_sendrecv_protocol = False,
     int_datetime_mismatch = False, od_forward_changesets = False, client_pg_version = 0, client_pg_catversion = 0,
     client_pgactive_version = 0, client_pgactive_variant = None, client_min_pgactive_version = 0, client_sizeof_int = 0,
     client_sizeof_long = 0, client_sizeof_datum = 0, client_maxalign = 0, client_bigendian = False, client_float4_byval = False,
     client_float8_byval = False, client_int_datetime = False, client_db_encoding = None, pgactive_schema_oid = InvalidOid,
     pgactive_conflict_handlers_reloid = InvalidOid, pgactive_locks_reloid = InvalidOid,
     pgactive_conflict_history_reloid = InvalidOid, od_replication_sets = None\<rparr>"

definition pgactive_req_param :: "string \<Rightarrow> 'a result" where
  "pgactive_req_param param = Inl (Error (''missing value for for parameter '' @ param))"

definition pgactive_ensure_node_ready :: "startup_env \<Rightarrow> pgactiveOutputData \<Rightarrow> (nodecache, unit) op" where
  "pgactive_ensure_node_ready env data =
     (if \<not> su_spi_connects env then sfail (Error ''local SPI connect failed; shouldn't happen'')
      else sbind (pgactive_local_node_status (su_nodes_relid env) (su_nodes env) (su_nid env) (su_mydb env)) (\<lambda>our_status.
      sbind (slift (pgactive_nodes_get_local_info (su_nodes env) (remote_node data))) (\<lambda>info.
      let remote_status = (case info of None \<Rightarrow> CHR 0x00 | Some i \<Rightarrow> ni_status i) in
      if remote_status = node_status_code pgactive_NODE_STATUS_KILLED
      then sfail (Error ''pgactive output plugin: slot usage rejected, remote node is killed'')
      else if our_status = node_status_code pgactive_NODE_STATUS_READY \<or>
              our_status = node_status_code pgactive_NODE_STATUS_CREATING_OUTBOUND_SLOTS then sret ()
      else if our_status = node_status_code pgactive_NODE_STATUS_NONE \<or>
              our_status = node_status_code pgactive_NODE_STATUS_BEGINNING_INIT
      then sfail (Error ''pgactive output plugin: slot creation rejected, pgactive.pgactive_nodes entry for local node does not exist'')
      else if our_status = node_status_code pgactive_NODE_STATUS_CATCHUP then sret ()
      else if our_status = node_status_code pgactive_NODE_STATUS_COPYING_INITIAL_DATA then sret ()
      else if our_status = node_status_code pgactive_NODE_STATUS_KILLED then sfail (Error ''node is exiting'')
      else sfail (Error ''unhandled case status''))))"

text \<open>The checks of the client's parameters and the choice of the formats.\<close>

definition check_client :: "build \<Rightarrow> pgactiveOutputData \<Rightarrow> pgactiveOutputData result" where
  "check_client b data =
     (if client_pg_version data = 0 then pgactive_req_param ''pg_version''
      else if client_pg_catversion data = 0 then pgactive_req_param ''pg_catversion''
      else if client_pgactive_version data = 0 then pgactive_req_param ''pgactive_version''
      else if client_min_pgactive_version data = 0 then pgactive_req_param ''min_pgactive_version''
      else if client_sizeof_int data = 0 then pgactive_req_param ''sizeof_int''
      else if client_sizeof_long data = 0 then pgactive_req_param ''sizeof_long''
      else if client_sizeof_datum data = 0 then pgactive_req_param ''sizeof_datum''
      else if client_maxalign data = 0 then pgactive_req_param ''maxalign''
      else case client_db_encoding data of
        None \<Rightarrow> pgactive_req_param ''db_encoding''
      | Some enc \<Rightarrow>
          if strcmp enc (database_encoding b) \<noteq> 0 then Inl (Error ''mismatching encodings are not yet supported'')
          else if client_min_pgactive_version data > pgactive_VERSION_NUM b
          then Inl (Error ''incompatible pgactive client and server versions, server too old'')
          else if client_pgactive_version data < pgactive_MIN_REMOTE_VERSION_NUM b
          then Inl (Error ''incompatible pgactive client and server versions, client too old'')
          else
            let binary = \<not> (client_sizeof_int data \<noteq> sizeof_int b \<or> client_sizeof_long data \<noteq> sizeof_long b \<or>
                            client_sizeof_datum data \<noteq> sizeof_Datum b) \<and>
                         client_bigendian data = pgactive_get_bigendian b \<and>
                         \<not> (client_float4_byval data \<noteq> pgactive_get_float4byval b \<or>
                            client_float8_byval data \<noteq> pgactive_get_float8byval b)
            in Inr (data\<lparr>allow_binary_protocol := binary,
                 int_datetime_mismatch := (client_int_datetime data \<noteq> pgactive_get_integer_timestamps b),
                 allow_sendrecv_protocol := (client_pg_version data div 100 = PG_VERSION_NUM b div 100)\<rparr>))"

definition lookup_relations :: "startup_env \<Rightarrow> pgactiveOutputData \<Rightarrow> pgactiveOutputData result" where
  "lookup_relations env data =
     (let data = data\<lparr>pgactive_schema_oid := su_namespace_oid env\<rparr> in
      if su_namespace_oid env = InvalidOid then Inr data
      else if su_relname_relid env ''pgactive_conflict_handlers'' = InvalidOid
      then Inl (Error ''cache lookup for relation pgactive.pgactive_conflict_handlers failed'')
      else if su_relname_relid env ''pgactive_conflict_history'' = InvalidOid
      then Inl (Error ''cache lookup for relation pgactive.pgactive_conflict_history failed'')
      else if su_relname_relid env ''pgactive_global_locks'' = InvalidOid
      then Inl (Error ''cache lookup for relation pgactive.pgactive_global_locks failed'')
      else Inr (data\<lparr>pgactive_conflict_handlers_reloid := su_relname_relid env ''pgactive_conflict_handlers'',
             pgactive_conflict_history_reloid := su_relname_relid env ''pgactive_conflict_history'',
             pgactive_locks_reloid := su_relname_relid env ''pgactive_global_locks''\<rparr>))"

definition pg_decode_startup :: "startup_env \<Rightarrow> DefElem list \<Rightarrow> bool \<Rightarrow> pgactiveOutputData plugin_op" where
  "pg_decode_startup env options is_init =
     sbind (slift (pgactive_parse_slot_name (su_slot_name env))) (\<lambda>(remote, local_dboid).
     sbind (slift (parse_options (su_options env) options (initial_data\<lparr>remote_node := remote\<rparr>))) (\<lambda>data.
     if su_namespace_oid env = InvalidOid then sfail (Error ''pgactive extension does not exist'')
     else
     sbind (if is_init then sret data
            else sbind (slift (check_client (oe_build (su_options env)) data)) (\<lambda>data.
              sseq (slift (su_maintain_schema env))
              (sbind (slift (lookup_relations env data)) (\<lambda>data.
               sseq (on_nodecache (pgactive_ensure_node_ready env data)) (sret data))))) (\<lambda>data.
     sseq (on_plugin_workers (walsender_attach (su_walsnd env) (Some (su_slot_name env)) (remote_node data)))
     (sret data))))"

definition pg_decode_shutdown :: "unit plugin_op" where
  "pg_decode_shutdown = on_plugin_workers pgactive_worker_shmem_release"

section \<open>What is sent\<close>

definition should_forward_changeset :: "pgactiveOutputData \<Rightarrow> u16 \<Rightarrow> bool" where
  "should_forward_changeset data origin_id =
     (if origin_id = InvalidRepOriginId \<or> od_forward_changesets data then True
      else if origin_id = DoNotReplicateId then False
      else False)"

datatype ReorderBufferChangeType =
    REORDER_BUFFER_CHANGE_INSERT
  | REORDER_BUFFER_CHANGE_UPDATE
  | REORDER_BUFFER_CHANGE_DELETE
  | REORDER_BUFFER_CHANGE_OTHER

text \<open>
  \<open>r\<close> is the entry of the relation in the cache, which the function updates in place.
  \<open>config_relid\<close> is \<open>pgactiveReplicationSetConfigRelid\<close> and \<open>rows\<close> that table's content.
\<close>

definition should_forward_change ::
  "replset_row list \<Rightarrow> u32 \<Rightarrow> pgactiveOutputData \<Rightarrow> relation \<Rightarrow> pgactiveRelation \<Rightarrow> ReorderBufferChangeType \<Rightarrow> (relcache, bool) op" where
  "should_forward_change rows config_relid data rel r change cache =
     (if rd_id rel = pgactive_conflict_handlers_reloid data \<or> rd_id rel = pgactive_locks_reloid data \<or>
         rd_id rel = pgactive_conflict_history_reloid data
      then (Inr False, cache)
      else
        let (r, cache) = (if rd_id rel = config_relid
              then (r\<lparr>rel_valid := False\<rparr>, pgactiveRelcacheHashInvalidateCallback InvalidOid cache) else (r, cache))
        in if relnamespace rel = pgactive_schema_oid data then (Inr True, cache)
        else
          let r' = (if computed_repl_valid r then r
                    else pgactive_heap_compute_replication_settings rows (od_replication_sets data) r);
              cache = map_option (\<lambda>h. h(rd_id rel \<mapsto> r')) cache
          in case change of
               REORDER_BUFFER_CHANGE_INSERT \<Rightarrow> (Inr (computed_repl_insert r'), cache)
             | REORDER_BUFFER_CHANGE_UPDATE \<Rightarrow> (Inr (computed_repl_update r'), cache)
             | REORDER_BUFFER_CHANGE_DELETE \<Rightarrow> (Inr (computed_repl_delete r'), cache)
             | REORDER_BUFFER_CHANGE_OTHER \<Rightarrow> (Inl (Error ''should be unreachable''), cache))"

record ReorderBufferTXN =
  txn_xid :: u32
  txn_origin_id :: u16
  txn_origin_lsn :: u64
  txn_end_lsn :: u64
  txn_commit_time :: u64

definition pgactive_OUTPUT_TRANSACTION_HAS_ORIGIN :: u32 where
  "pgactive_OUTPUT_TRANSACTION_HAS_ORIGIN = 1"

text \<open>\<open>origins\<close>, \<open>nid\<close> and \<open>mydb\<close>: the names of the replication origins and the identity of this node.\<close>

definition pg_decode_begin_txn ::
  "pq_api \<Rightarrow> (u16 \<Rightarrow> string option) \<Rightarrow> u64 \<Rightarrow> u32 \<Rightarrow> pgactiveOutputData \<Rightarrow> ReorderBufferTXN \<Rightarrow> bytes option result" where
  "pg_decode_begin_txn pq origins nid mydb data txn =
     (if \<not> should_forward_changeset data (txn_origin_id txn) then Inr None
      else
        let flags = (if od_forward_changesets data then pgactive_OUTPUT_TRANSACTION_HAS_ORIGIN else 0);
            out = pq_sendbyte pq [] (of_char CHR ''B'');
            out = pq_sendint pq out flags 4;
            out = pq_sendint64 pq out (txn_end_lsn txn);
            out = pq_sendint64 pq out (txn_commit_time txn);
            out = pq_sendint pq out (txn_xid txn) 4
        in if flags AND pgactive_OUTPUT_TRANSACTION_HAS_ORIGIN \<noteq> 0
           then bind_result (pgactive_fetch_sysid_via_node_id origins nid mydb (txn_origin_id txn) zero_nodeid) (\<lambda>origin.
                Inr (Some (pq_sendint64 pq (pgactive_send_nodeid pq out origin False) (txn_origin_lsn txn))))
           else Inr (Some out))"

definition pg_decode_commit_txn :: "pq_api \<Rightarrow> int \<Rightarrow> pgactiveOutputData \<Rightarrow> ReorderBufferTXN \<Rightarrow> u64 \<Rightarrow> bytes option worker_op" where
  "pg_decode_commit_txn pq now data txn commit_lsn s =
     (if \<not> should_forward_changeset data (txn_origin_id txn) then (Inr None, s)
      else
        let out = pq_sendbyte pq [] (of_char CHR ''C'');
            out = pq_sendint pq out 0 4;
            out = pq_sendint64 pq out commit_lsn;
            out = pq_sendint64 pq out (txn_end_lsn txn);
            out = pq_sendint64 pq out (txn_commit_time txn)
        in case pgactive_worker_slot (self s) of
             None \<Rightarrow> (Inl (Panic ''null pointer''), s)
           | Some i \<Rightarrow> (Inr (Some out), s\<lparr>ctl := upd_slot i (\<lambda>w. w\<lparr>data_walsnd := (data_walsnd w)\<lparr>
               last_sent_xact_id := txn_xid txn, last_sent_xact_committs := sint (txn_commit_time txn),
               last_sent_xact_at := now\<rparr>\<rparr>) (ctl s)\<rparr>))"

record ReorderBufferChange =
  chg_action :: ReorderBufferChangeType
  chg_oldtuple :: "datum option list option"
  chg_newtuple :: "datum option list option"

definition write_new :: "pq_api \<Rightarrow> datum_api \<Rightarrow> pgactiveOutputData \<Rightarrow> bytes \<Rightarrow> relation \<Rightarrow> ReorderBufferChange \<Rightarrow> bytes result" where
  "write_new pq api data out rel change =
     (case chg_newtuple change of
        None \<Rightarrow> Inl (Panic ''null pointer'')
      | Some t \<Rightarrow> write_tuple pq api data (pq_sendbyte pq out (of_char CHR ''N'')) rel t)"

definition encode_change ::
  "pq_api \<Rightarrow> datum_api \<Rightarrow> (u32 \<Rightarrow> string option) \<Rightarrow> pgactiveOutputData \<Rightarrow> relation \<Rightarrow> ReorderBufferChange \<Rightarrow> bytes result" where
  "encode_change pq api get_namespace_name data rel change =
     (case chg_action change of
        REORDER_BUFFER_CHANGE_INSERT \<Rightarrow>
          bind_result (write_rel pq get_namespace_name (pq_sendbyte pq [] (of_char CHR ''I'')) rel) (\<lambda>out.
          write_new pq api data out rel change)
      | REORDER_BUFFER_CHANGE_UPDATE \<Rightarrow>
          bind_result (write_rel pq get_namespace_name (pq_sendbyte pq [] (of_char CHR ''U'')) rel) (\<lambda>out.
          bind_result (case chg_oldtuple change of None \<Rightarrow> Inr out
                       | Some t \<Rightarrow> write_tuple pq api data (pq_sendbyte pq out (of_char CHR ''K'')) rel t) (\<lambda>out.
          write_new pq api data out rel change))
      | REORDER_BUFFER_CHANGE_DELETE \<Rightarrow>
          bind_result (write_rel pq get_namespace_name (pq_sendbyte pq [] (of_char CHR ''D'')) rel) (\<lambda>out.
          case chg_oldtuple change of
            Some t \<Rightarrow> write_tuple pq api data (pq_sendbyte pq out (of_char CHR ''K'')) rel t
          | None \<Rightarrow> Inr (pq_sendbyte pq out (of_char CHR ''E'')))
      | REORDER_BUFFER_CHANGE_OTHER \<Rightarrow> Inr [])"

record change_env =
  ce_pq :: pq_api
  ce_api :: datum_api
  ce_namespace_name :: "u32 \<Rightarrow> string option"
  ce_relcache :: relcache_env
  ce_sets :: "replset_row list"
  ce_config_relid :: u32

definition pg_decode_change ::
  "change_env \<Rightarrow> pgactiveOutputData \<Rightarrow> ReorderBufferTXN \<Rightarrow> relation \<Rightarrow> ReorderBufferChange \<Rightarrow> (relcache, bytes option) op" where
  "pg_decode_change env data txn rel change =
     sbind (pgactive_table_open (ce_relcache env) (rd_id rel)) (\<lambda>r.
     if \<not> should_forward_changeset data (txn_origin_id txn) then sret None
     else sbind (should_forward_change (ce_sets env) (ce_config_relid env) data rel r (chg_action change)) (\<lambda>fwd.
     if \<not> fwd then sret None
     else sbind (slift (encode_change (ce_pq env) (ce_api env) (ce_namespace_name env) data rel change)) (\<lambda>out. sret (Some out))))"

section \<open>Which changes reach the peer\<close>

fun action_selector :: "ReorderBufferChangeType \<Rightarrow> replset_row \<Rightarrow> bool" where
  "action_selector REORDER_BUFFER_CHANGE_INSERT = replicate_inserts"
| "action_selector REORDER_BUFFER_CHANGE_UPDATE = replicate_updates"
| "action_selector REORDER_BUFFER_CHANGE_DELETE = replicate_deletes"
| "action_selector REORDER_BUFFER_CHANGE_OTHER = (\<lambda>_. False)"

definition sent_to_peer ::
  "replset_row list \<Rightarrow> (u32 \<Rightarrow> string list option) \<Rightarrow> pgactiveOutputData \<Rightarrow> ReorderBufferTXN \<Rightarrow> relation \<Rightarrow> ReorderBufferChangeType \<Rightarrow> bool" where
  "sent_to_peer rows labs data txn rel action \<longleftrightarrow>
     (txn_origin_id txn = InvalidRepOriginId \<or> od_forward_changesets data) \<and>
     rd_id rel \<notin> {pgactive_conflict_handlers_reloid data, pgactive_locks_reloid data, pgactive_conflict_history_reloid data} \<and>
     (relnamespace rel = pgactive_schema_oid data \<or>
      replicated rows (od_replication_sets data) (labs (rd_id rel)) (action_selector action))"

lemma forward_changeset_iff: "should_forward_changeset data org \<longleftrightarrow> org = InvalidRepOriginId \<or> od_forward_changesets data"
  by (simp add: should_forward_changeset_def)

lemma should_forward_change_spec:
  assumes inv: "relcache_inv rows (od_replication_sets data) labs (Some h)" and r: "h (rd_id rel) = Some r" "rel_valid r"
      "entry_ok rows (od_replication_sets data) (labs (rd_id rel)) (rd_id rel) r" "sane_names (labs (rd_id rel))"
    and act: "action \<noteq> REORDER_BUFFER_CHANGE_OTHER"
  shows "\<exists>h'. should_forward_change rows config_relid data rel r action (Some h) =
      (Inr (rd_id rel \<notin> {pgactive_conflict_handlers_reloid data, pgactive_locks_reloid data, pgactive_conflict_history_reloid data} \<and>
        (relnamespace rel = pgactive_schema_oid data \<or>
         replicated rows (od_replication_sets data) (labs (rd_id rel)) (action_selector action))), Some h') \<and>
     relcache_inv rows (od_replication_sets data) labs (Some h')"
proof -
  let ?oid = "rd_id rel" and ?conf = "od_replication_sets data"
  let ?internal = "?oid \<in> {pgactive_conflict_handlers_reloid data, pgactive_locks_reloid data, pgactive_conflict_history_reloid data}"
  define r1 where "r1 = (if ?oid = config_relid then r\<lparr>rel_valid := False\<rparr> else r)"
  define h1 where "h1 = (if ?oid = config_relid then (\<lambda>k. map_option (\<lambda>e. e\<lparr>rel_valid := False\<rparr>) (h k)) else h)"
  have inv1: "relcache_inv rows ?conf labs (Some h1)"
    using inv by (auto simp: h1_def relcache_inv_def)
  have ok1: "entry_ok rows ?conf (labs ?oid) ?oid r1" using r(3) by (auto simp: r1_def)
  define r2 where "r2 = (if computed_repl_valid r1 then r1 else pgactive_heap_compute_replication_settings rows ?conf r1)"
  have ok2: "entry_ok rows ?conf (labs ?oid) ?oid r2" "settings_computed rows ?conf (labs ?oid) r2"
    using ok1 compute_replication_settings_spec [OF _ r(4), of r1 rows ?conf] by (auto simp: r2_def entry_ok_def)
  have inv2: "relcache_inv rows ?conf labs (Some (h1(?oid \<mapsto> r2)))" using inv1 ok2(1) by (simp add: relcache_inv_def)
  have run: "should_forward_change rows config_relid data rel r action (Some h) =
     (if ?internal then (Inr False, Some h)
      else if relnamespace rel = pgactive_schema_oid data then (Inr True, Some h1)
      else (Inr (case action of REORDER_BUFFER_CHANGE_INSERT \<Rightarrow> computed_repl_insert r2
               | REORDER_BUFFER_CHANGE_UPDATE \<Rightarrow> computed_repl_update r2 | _ \<Rightarrow> computed_repl_delete r2), Some (h1(?oid \<mapsto> r2))))"
    using act
    by (cases action; simp add: should_forward_change_def Let_def r1_def h1_def r2_def pgactiveRelcacheHashInvalidateCallback_def)
  show ?thesis
  proof (cases "?internal")
    case True
    with run inv show ?thesis by auto
  next
    case False
    show ?thesis
    proof (cases "relnamespace rel = pgactive_schema_oid data")
      case True
      with run False inv1 show ?thesis by auto
    next
      case ns: False
      from run False ns inv2 ok2(2) act show ?thesis
        by (intro exI [of _ "h1(?oid \<mapsto> r2)"]) (cases action; auto simp: settings_computed_def)
    qed
  qed
qed


section \<open>What a successful start guarantees\<close>

definition sets_ok :: "pgactiveOutputData \<Rightarrow> bool" where
  "sets_ok data \<longleftrightarrow> (case od_replication_sets data of None \<Rightarrow> True
     | Some xs \<Rightarrow> sorted_strcmp xs \<and> (\<forall>n \<in> set xs. pgactive_validate_replication_set_name n True = Inr ()))"

lemma validate_names_Inr: "validate_names ns = Inr () \<longleftrightarrow> (\<forall>n \<in> set ns. pgactive_validate_replication_set_name n True = Inr ())"
  by (induction ns) (auto simp: bind_result_eq_Inr)

text \<open>Every successful outcome of a chain of checks satisfies a predicate.\<close>

definition all_Inr :: "('a \<Rightarrow> bool) \<Rightarrow> 'a result \<Rightarrow> bool" where
  "all_Inr P r \<longleftrightarrow> (\<forall>x. r = Inr x \<longrightarrow> P x)"

lemma all_Inr_intros:
  "(c \<Longrightarrow> all_Inr P a) \<Longrightarrow> (\<not> c \<Longrightarrow> all_Inr P b) \<Longrightarrow> all_Inr P (if c then a else b)"
  "(\<And>x. r = Inr x \<Longrightarrow> all_Inr P (f x)) \<Longrightarrow> all_Inr P (bind_result r f)"
  "all_Inr P (Inl e)"
  by (auto simp: all_Inr_def bind_result_eq_Inr)

lemma sets_ok_frame [simp]:
  "sets_ok (data\<lparr>client_pg_version := a\<rparr>) = sets_ok data" "sets_ok (data\<lparr>client_pg_catversion := a\<rparr>) = sets_ok data"
  "sets_ok (data\<lparr>client_pgactive_version := a\<rparr>) = sets_ok data" "sets_ok (data\<lparr>client_pgactive_variant := b\<rparr>) = sets_ok data"
  "sets_ok (data\<lparr>client_min_pgactive_version := a\<rparr>) = sets_ok data" "sets_ok (data\<lparr>client_sizeof_int := c\<rparr>) = sets_ok data"
  "sets_ok (data\<lparr>client_sizeof_long := c\<rparr>) = sets_ok data" "sets_ok (data\<lparr>client_sizeof_datum := c\<rparr>) = sets_ok data"
  "sets_ok (data\<lparr>client_maxalign := c\<rparr>) = sets_ok data" "sets_ok (data\<lparr>client_bigendian := d\<rparr>) = sets_ok data"
  "sets_ok (data\<lparr>client_float4_byval := d\<rparr>) = sets_ok data" "sets_ok (data\<lparr>client_float8_byval := d\<rparr>) = sets_ok data"
  "sets_ok (data\<lparr>client_int_datetime := d\<rparr>) = sets_ok data" "sets_ok (data\<lparr>client_db_encoding := b\<rparr>) = sets_ok data"
  "sets_ok (data\<lparr>od_forward_changesets := d\<rparr>) = sets_ok data" "sets_ok (interactive_defaults bd data) = sets_ok data"
  "remote_node (interactive_defaults bd data) = remote_node data"
  by (simp_all add: sets_ok_def interactive_defaults_def)

lemma sets_ok_qsort:
  assumes "strcmp_sort qsort" "validate_names sets = Inr ()"
  shows "sets_ok (data\<lparr>od_replication_sets := Some (qsort sets)\<rparr>)"
  using assms by (simp add: sets_ok_def strcmp_sort.qsort_set strcmp_sort.qsort_sorted validate_names_Inr)

lemma parse_option_sets:
  assumes "strcmp_sort (oe_qsort env)" "parse_option env e data = Inr data'" "sets_ok data"
  shows "sets_ok data' \<and> remote_node data' = remote_node data"
proof -
  note q = sets_ok_qsort [OF assms(1)]
  have "all_Inr (\<lambda>d. sets_ok d \<and> remote_node d = remote_node data) (parse_option env e data)"
    unfolding parse_option_def Let_def
    by (intro all_Inr_intros; simp add: assms(3) q all_Inr_def split: option.split)
  with assms(2) show ?thesis by (simp add: all_Inr_def)
qed

lemma option_list_sets_ok:
  assumes "strcmp_sort (oe_qsort env)" "parse_options env es data = Inr data'" "sets_ok data"
  shows "sets_ok data' \<and> remote_node data' = remote_node data"
  using assms(2,3)
proof (induction es arbitrary: data)
  case (Cons e es)
  then obtain d where d: "parse_option env e data = Inr d" "parse_options env es d = Inr data'" by (auto simp: bind_result_eq_Inr)
  from parse_option_sets [OF assms(1) d(1) Cons.prems(2)] Cons.IH [OF d(2)] show ?case by simp
qed simp

text \<open>The compatibility of the client's build with this one that the formats rely on.\<close>

definition compatible :: "build \<Rightarrow> pgactiveOutputData \<Rightarrow> bool" where
  "compatible b data \<longleftrightarrow>
     client_db_encoding data = Some (database_encoding b) \<and>
     client_min_pgactive_version data \<le> pgactive_VERSION_NUM b \<and> pgactive_MIN_REMOTE_VERSION_NUM b \<le> client_pgactive_version data \<and>
     (allow_binary_protocol data \<longrightarrow> client_sizeof_int data = sizeof_int b \<and> client_sizeof_long data = sizeof_long b \<and>
        client_sizeof_datum data = sizeof_Datum b \<and> client_bigendian data = WORDS_BIGENDIAN b \<and>
        client_float4_byval data = USE_FLOAT4_BYVAL b \<and> client_float8_byval data = USE_FLOAT8_BYVAL b) \<and>
     (allow_sendrecv_protocol data \<longrightarrow> client_pg_version data div 100 = PG_VERSION_NUM b div 100) \<and>
     (int_datetime_mismatch data \<longleftrightarrow> client_int_datetime data \<noteq> (integer_datetimes b = ''on''))"

lemma check_client_compatible:
  assumes "check_client b data = Inr data'"
  shows "compatible b data' \<and> remote_node data' = remote_node data \<and> od_replication_sets data' = od_replication_sets data"
proof -
  have "all_Inr (\<lambda>d. compatible b d \<and> remote_node d = remote_node data \<and> od_replication_sets d = od_replication_sets data) (check_client b data)"
    unfolding check_client_def Let_def pgactive_req_param_def
    by (cases "client_db_encoding data"; simp only: option.case; intro all_Inr_intros)
       (auto simp: all_Inr_def compatible_def pgactive_get_bigendian_def pgactive_get_float4byval_def
        pgactive_get_float8byval_def pgactive_get_integer_timestamps_def not_less)
  with assms show ?thesis by (simp add: all_Inr_def)
qed

lemma lookup_relations_frame:
  assumes "lookup_relations env data = Inr data'"
  shows "compatible b data' = compatible b data \<and> remote_node data' = remote_node data \<and> od_replication_sets data' = od_replication_sets data"
proof -
  have "all_Inr (\<lambda>d. compatible b d = compatible b data \<and> remote_node d = remote_node data \<and> od_replication_sets d = od_replication_sets data)
      (lookup_relations env data)"
    unfolding lookup_relations_def Let_def by (intro all_Inr_intros; simp add: all_Inr_def compatible_def)
  with assms show ?thesis by (simp add: all_Inr_def)
qed

definition may_send :: "char \<Rightarrow> bool" where
  "may_send st \<longleftrightarrow> st \<in> {node_status_code pgactive_NODE_STATUS_READY, node_status_code pgactive_NODE_STATUS_CREATING_OUTBOUND_SLOTS,
     node_status_code pgactive_NODE_STATUS_CATCHUP, node_status_code pgactive_NODE_STATUS_COPYING_INITIAL_DATA}"

lemma ensure_node_ready_spec:
  assumes "pgactive_ensure_node_ready env data nc = (Inr (), nc')"
  shows "\<exists>st. pgactive_local_node_status (su_nodes_relid env) (su_nodes env) (su_nid env) (su_mydb env) nc = (Inr st, nc') \<and> may_send st \<and>
    (\<forall>info. pgactive_nodes_get_local_info (su_nodes env) (remote_node data) = Inr (Some info) \<longrightarrow>
       ni_status info \<noteq> node_status_code pgactive_NODE_STATUS_KILLED)"
proof -
  obtain x nc1 where x: "pgactive_local_node_status (su_nodes_relid env) (su_nodes env) (su_nid env) (su_mydb env) nc = (x, nc1)" by fastforce
  obtain info where i: "pgactive_nodes_get_local_info (su_nodes env) (remote_node data) = Inr info"
    using assms x by (cases "pgactive_nodes_get_local_info (su_nodes env) (remote_node data)"; cases x)
      (auto simp: pgactive_ensure_node_ready_def sbind_def split: if_split_asm)
  obtain st where st: "x = Inr st" using assms x by (cases x) (auto simp: pgactive_ensure_node_ready_def sbind_def split: if_split_asm)
  have "may_send st \<and> (case info of None \<Rightarrow> CHR 0x00 | Some i \<Rightarrow> ni_status i) \<noteq> node_status_code pgactive_NODE_STATUS_KILLED \<and> nc' = nc1"
    using assms x st i
    by (simp add: pgactive_ensure_node_ready_def sbind_def Let_def may_send_def del: node_status_code.simps split: if_split_asm) blast
  with x st i show ?thesis by auto
qed

lemma walsender_attach_slot:
  assumes "walsender_attach ws slot remote w = (Inr i, w')"
  shows "i < length (slots (ctl w')) \<and> pgactive_worker_slot (self w') = Some i \<and> worker_type (slots (ctl w') ! i) = pgactive_WORKER_WALSENDER \<and>
    walsnd_remote_node (data_walsnd (slots (ctl w') ! i)) = remote \<and> worker_pid (slots (ctl w') ! i) = MyProcPid (self w)"
proof (cases "pgactive_worker_shmem_alloc pgactive_WORKER_WALSENDER (ctl w)")
  case (Pair r c)
  with assms obtain j where r: "r = Inr j" and np: "\<not> worker_management_paused (ctl w)"
    by (cases r) (auto simp: walsender_attach_def on_ctl_def sbind_def split: if_splits)
  note al = shmem_alloc_Inr [OF Pair [unfolded r]]
  have m: "on_ctl (pgactive_worker_shmem_alloc pgactive_WORKER_WALSENDER) w = (Inr j, w\<lparr>ctl := c\<rparr>)"
    by (simp add: on_ctl_def Pair r)
  with assms al np show ?thesis
    by (auto simp: walsender_attach_def pgactive_worker_shmem_acquire_def)
qed

text \<open>
  C24: when decoding starts for a peer, the peer's build agrees with this one in everything the chosen
  formats depend on (the binary format only between equal sizes, byte order and passing of floats,
  the send format only within a major version), encodings are equal and versions acceptable, the
  replication sets are validated and sorted, this node may send and the peer is not killed, and the
  process holds a worker slot that names the peer of the replication slot.
\<close>

theorem startup_contract:
  assumes "strcmp_sort (oe_qsort (su_options env))" "pg_decode_startup env options False s = (Inr data, s')"
  shows "compatible (oe_build (su_options env)) data \<and> sets_ok data \<and>
    (\<exists>ldb. pgactive_parse_slot_name (su_slot_name env) = Inr (remote_node data, ldb)) \<and>
    (\<exists>st nc. pgactive_local_node_status (su_nodes_relid env) (su_nodes env) (su_nid env) (su_mydb env) (ps_nodecache s) = (Inr st, nc) \<and> may_send st) \<and>
    (\<forall>info. pgactive_nodes_get_local_info (su_nodes env) (remote_node data) = Inr (Some info) \<longrightarrow>
       ni_status info \<noteq> node_status_code pgactive_NODE_STATUS_KILLED) \<and>
    (\<exists>i < length (slots (ctl (ps_workers s'))). pgactive_worker_slot (self (ps_workers s')) = Some i \<and>
       worker_type (slots (ctl (ps_workers s')) ! i) = pgactive_WORKER_WALSENDER \<and>
       walsnd_remote_node (data_walsnd (slots (ctl (ps_workers s')) ! i)) = remote_node data)"
proof -
  let ?b = "oe_build (su_options env)"
  from assms(2) obtain remote ldb d0 d1 nc w i where
      p: "pgactive_parse_slot_name (su_slot_name env) = Inr (remote, ldb)"
      "parse_options (su_options env) options (initial_data\<lparr>remote_node := remote\<rparr>) = Inr d0"
      "check_client ?b d0 = Inr d1" "lookup_relations env d1 = Inr data"
      "pgactive_ensure_node_ready env data (ps_nodecache s) = (Inr (), nc)"
      "walsender_attach (su_walsnd env) (Some (su_slot_name env)) (remote_node data) (ps_workers s) = (Inr i, w)" "ps_workers s' = w"
    by (auto simp: pg_decode_startup_def sbind_def sseq_def slift_def sret_def sfail_def on_nodecache_def on_plugin_workers_def
        split: sum.splits prod.splits if_splits)
  have "sets_ok (initial_data\<lparr>remote_node := remote\<rparr>)" by (simp add: sets_ok_def initial_data_def)
  from option_list_sets_ok [OF assms(1) p(2) this] have d0: "sets_ok d0" "remote_node d0 = remote" by simp_all
  note d1 = check_client_compatible [OF p(3)] and d2 = lookup_relations_frame [OF p(4), of ?b]
  have "sets_ok data" using d0(1) d1 d2 by (simp add: sets_ok_def)
  moreover have "compatible ?b data" "remote_node data = remote" using d0(2) d1 d2 by auto
  ultimately show ?thesis using p(1) ensure_node_ready_spec [OF p(5)] walsender_attach_slot [OF p(6)]
    unfolding p(7) by (intro conjI) (simp, simp, simp, blast, blast, blast)
qed

section \<open>Examples\<close>

definition example_change_env :: change_env where
  "example_change_env = \<lparr>ce_pq = pq_network, ce_api = example_api, ce_namespace_name = (\<lambda>_. Some ''public''),
     ce_relcache = \<lparr>rc_table_exists = (\<lambda>_. True), rc_seclabel = (\<lambda>_. None), rc_jsonb_in = (\<lambda>_. Inl (Error ''syntax'')),
       rc_qsort = strcmp_isort, rc_garbage = True\<rparr>,
     ce_sets = [], ce_config_relid = 104\<rparr>"

definition example_delete :: ReorderBufferChange where
  "example_delete = \<lparr>chg_action = REORDER_BUFFER_CHANGE_DELETE, chg_oldtuple = None, chg_newtuple = None\<rparr>"

definition example_txn :: "u16 \<Rightarrow> ReorderBufferTXN" where
  "example_txn org = \<lparr>txn_xid = 600, txn_origin_id = org, txn_origin_lsn = 0, txn_end_lsn = 90, txn_commit_time = 1000\<rparr>"



definition example_build :: build where
  "example_build = \<lparr>PG_VERSION_NUM = 170002, CATALOG_VERSION_NO = 202406281, pgactive_VERSION_NUM = 20104,
     pgactive_MIN_REMOTE_VERSION_NUM = 20100, pgactive_VARIANT = ''pgactive'', sizeof_int = 4, sizeof_long = 8, sizeof_Datum = 8,
     MAXIMUM_ALIGNOF = 8, WORDS_BIGENDIAN = False, USE_FLOAT4_BYVAL = True, USE_FLOAT8_BYVAL = True,
     integer_datetimes = ''on'', database_encoding = ''UTF8''\<rparr>"

definition example_startup :: startup_env where
  "example_startup = \<lparr>su_options = \<lparr>oe_build = example_build, oe_parse_bool = (\<lambda>_. Some True), oe_split = (\<lambda>s. Some [s]), oe_qsort = strcmp_isort\<rparr>,
     su_slot_name = pgactive_slot_name \<lparr>sysid = 2, timeline = 0, dboid = 6\<rparr> 5, su_walsnd = Some 0, su_namespace_oid = 100,
     su_relname_relid = (\<lambda>_. 101), su_maintain_schema = Inr (), su_spi_connects = True, su_nodes_relid = Inr 99,
     su_nodes = [example_row 1 5 CHR ''r'', example_row 2 6 CHR ''r''], su_nid = 1, su_mydb = 5\<rparr>"

definition example_plugin :: plugin_state where
  "example_plugin = \<lparr>ps_workers = \<lparr>ctl = fresh_segment 2 [zero_worker], self = idle_process\<rparr>, ps_nodecache = fresh_nodecache\<rparr>"

lemma example_options:
  "parse_options (su_options example_startup) [\<lparr>defname = ''interactive'', defarg = None\<rparr>] d = Inr (interactive_defaults example_build d)"
  by (simp add: example_startup_def parse_option_def)

lemma example_check: "\<exists>d'. check_client example_build (interactive_defaults example_build d) = Inr d' \<and> remote_node d' = remote_node d"
  by (simp add: check_client_def interactive_defaults_def example_build_def Let_def)

lemma example_lookup: "\<exists>d'. lookup_relations example_startup d = Inr d' \<and> remote_node d' = remote_node d"
  by (simp add: lookup_relations_def example_startup_def InvalidOid_def Let_def)

lemma example_ready:
  assumes "remote_node d = \<lparr>sysid = 2, timeline = 0, dboid = 6\<rparr>"
  shows "\<exists>nc. pgactive_ensure_node_ready example_startup d fresh_nodecache = (Inr (), nc)"
  by (simp add: pgactive_ensure_node_ready_def assms example_startup_def pgactive_local_node_status_def pgactive_nodecache_lookup_def
      pgactive_nodecache_initialize_def fresh_nodecache_def nodecache_load_def zero_entry_def pgactive_nodes_get_local_info_def row_of_def
      example_row_def pgactive_make_my_nodeid_def pgactiveThisTimeLineID_def Let_def)


lemma example_attach:
  "\<exists>w. walsender_attach ws slot remote \<lparr>ctl = fresh_segment 2 [zero_worker], self = idle_process\<rparr> = (Inr 0, w)"
  by (simp add: walsender_attach_def fresh_segment_def idle_process_def on_ctl_def pgactive_worker_shmem_alloc_def
      pgactive_worker_shmem_acquire_def zero_worker_def Let_def)

theorem startup_contract_witness:
  "\<exists>data s'. pg_decode_startup example_startup [\<lparr>defname = ''interactive'', defarg = None\<rparr>] False example_plugin = (Inr data, s') \<and>
     compatible example_build data \<and> pgactive_worker_slot (self (ps_workers s')) \<noteq> None"
proof -
  let ?opts = "[\<lparr>defname = ''interactive'', defarg = None\<rparr>]" and ?r = "\<lparr>sysid = 2, timeline = 0, dboid = 6\<rparr> :: pgactiveNodeId"
  obtain u where u: "u \<in> {''_'', ''__''}" "pgactive_slot_name ?r 5 = slot_stem ?r 5 @ u" using slot_name_cut by blast
  have f: "su_slot_name example_startup = pgactive_slot_name ?r 5" "su_namespace_oid example_startup = 100"
    "oe_build (su_options example_startup) = example_build" "su_maintain_schema example_startup = Inr ()"
    "oe_qsort (su_options example_startup) = strcmp_isort"
    by (simp_all add: example_startup_def)
  have p: "pgactive_parse_slot_name (su_slot_name example_startup) = Inr (?r, 5)"
    using u by (simp add: f pgactive_parse_slot_name_def sscanf_slot_stem)
  obtain d1 where d1: "check_client example_build (interactive_defaults example_build (initial_data\<lparr>remote_node := ?r\<rparr>)) = Inr d1" "remote_node d1 = ?r"
    using example_check [of "initial_data\<lparr>remote_node := ?r\<rparr>"] by auto
  obtain d2 where d2: "lookup_relations example_startup d1 = Inr d2" "remote_node d2 = ?r" using example_lookup [of d1] d1(2) by auto
  obtain nc where nc: "pgactive_ensure_node_ready example_startup d2 fresh_nodecache = (Inr (), nc)" using example_ready [OF d2(2)] by auto
  obtain w where w: "walsender_attach (su_walsnd example_startup) (Some (pgactive_slot_name ?r 5)) ?r (ps_workers example_plugin) = (Inr 0, w)"
    by (metis example_attach example_plugin_def plugin_state.select_convs(1))
  have "\<exists>s'. pg_decode_startup example_startup ?opts False example_plugin = (Inr d2, s')"
    using d1 d2 nc w by (simp add: pg_decode_startup_def p [unfolded f(1)] example_options f InvalidOid_def on_nodecache_def
        on_plugin_workers_def example_plugin_def sbind_def sseq_def slift_def sret_def del: parse_options.simps)
  then obtain s' where s: "pg_decode_startup example_startup ?opts False example_plugin = (Inr d2, s')" by blast
  from startup_contract [OF _ s] s show ?thesis by (auto simp: f isort.strcmp_sort_axioms)
qed

end
