(* ===== verification/Apply.thy ===== *)
theory Apply
  imports Executor Conflict_Logging Count_Stats Output_Plugin
begin

text \<open>
  The apply process, \<^verbatim>\<open>src/pgactive_apply.c\<close>: the messages of a peer's change stream are turned into
  local transactions, conflicts are decided, and the positions that were made durable are reported
  back.  The storage of the server (tables, indexes, transactions, commit timestamps, replication
  origins) is an abstract state of type \<open>'db\<close>, and the server's operations on it are the parameter
  \<open>apply_env\<close>.
\<close>

section \<open>The process and its server\<close>

text \<open>
  \<open>as_lsn_association\<close> is the list of \<open>pgactiveFlushPosition\<close>: for every local commit its own end
  position and the one of the peer's commit.
\<close>

record pgactiveFlushPosition =
  local_end :: u64
  remote_end :: u64

text \<open>The static variables of \<open>pgactive_send_feedback\<close>.\<close>

record feedback_state =
  last_recvpos :: u64
  last_writepos :: u64
  last_flushpos :: u64

record 'db apply_state =
  as_started_transaction :: bool
  as_origin_xid :: u32
  as_remote_origin :: pgactiveNodeId
  as_remote_origin_lsn :: u64
  as_remote_origin_id :: u16
  as_action_counter :: u32
  as_session_lsn :: u64
  as_session_ts :: int
  as_lsn_association :: "pgactiveFlushPosition list"
  as_worker :: pgactiveApplyWorker
  as_relcache :: relcache
  as_nodecache :: nodecache
  as_counts :: count_state
  as_locks :: lock_sys
  as_hook :: xact_hook
  as_serverlog :: "string list"
  as_config :: "pgactiveConnectionConfig option"
  as_feedback :: feedback_state
  as_sent :: "bytes list"
  as_db :: 'db

type_synonym ('db, 'a) apply_op = "('db apply_state, 'a) op"

text \<open>
  \<open>ae_scan\<close>: the passes of a search for a key.  \<open>ae_commit_ts\<close>: commit time and origin of a
  transaction.  \<open>ae_update\<close> yields whether indexes have to be updated and whether the new version is
  heap-only.  \<open>ae_commit\<close> commits under an origin, with the origin's position and time, and yields the
  end of the commit record.  \<open>ae_parse\<close> and \<open>ae_run\<close> parse a DDL string and run one command of it with a
  search path, a role and as a top-level command or not.
\<close>

text \<open>
  An element of the array of dropped objects: its type, its name and its arguments, each of which may
  be null; the elements of the two text arrays may be null as well.
\<close>

record dropped_object =
  do_type :: "string option"
  do_name :: "string option list option"
  do_args :: "string option list option"

datatype ObjectType = OBJECT_TYPE | OBJECT_DOMAIN | OBJECT_FUNCTION | OBJECT_AGGREGATE | OBJECT_OPERATOR | OBJECT_OTHER nat

record ObjectAddress =
  classId :: u32
  objectId :: u32

text \<open>
  \<open>ae_drop_objects\<close> takes the array of dropped objects apart, \<open>ae_objtype\<close> is
  \<open>read_objtype_from_string\<close>, \<open>ae_type_names\<close> the names in the result of \<open>typeStringToTypeName\<close>,
  \<open>ae_object_address\<close> is \<open>get_object_address\<close> and \<open>ae_delete_objects\<close> is \<open>performMultipleDeletions\<close>.
\<close>

record 'db apply_env =
  ae_pq :: pq_api
  ae_api :: datum_api
  ae_lock :: lock_env
  ae_session_origin :: u16
  ae_relid :: "string \<Rightarrow> string \<Rightarrow> u32 result"
  ae_relcache :: relcache_env
  ae_relation :: "u32 \<Rightarrow> relation"
  ae_relkind :: "u32 \<Rightarrow> char"
  ae_indexes :: "u32 \<Rightarrow> index_desc list"
  ae_replica_index :: "u32 \<Rightarrow> u32"
  ae_pkey_index :: "u32 \<Rightarrow> u32"
  ae_index :: "u32 \<Rightarrow> index_desc"
  ae_eq_proc :: "u32 \<Rightarrow> u32 option"
  ae_scan :: "'db \<Rightarrow> u32 \<Rightarrow> ScanKeyData list \<Rightarrow> scan_attempt list"
  ae_commit_ts :: "'db \<Rightarrow> u32 \<Rightarrow> int \<times> u16"
  ae_insert :: "u32 \<Rightarrow> row \<Rightarrow> ('db, unit) op"
  ae_update :: "u32 \<Rightarrow> nat \<Rightarrow> row \<Rightarrow> ('db, bool \<times> bool) op"
  ae_insert_indexes :: "u32 \<Rightarrow> row \<Rightarrow> ('db, u32 list) op"
  ae_delete :: "u32 \<Rightarrow> nat \<Rightarrow> ('db, unit) op"
  ae_start :: "('db, unit) op"
  ae_commit :: "u16 \<Rightarrow> u64 \<Rightarrow> int \<Rightarrow> ('db, u64) op"
  ae_last_commit_end :: "'db \<Rightarrow> u64"
  ae_advance :: "u16 \<Rightarrow> u64 \<Rightarrow> u64 \<Rightarrow> ('db, unit) op"
  ae_top_xid :: "'db \<Rightarrow> u32"
  ae_handlers :: "'db handler_env"
  ae_log :: log_env
  ae_print :: print_env
  ae_history_insert :: "history_value list \<Rightarrow> ('db, unit) op"
  ae_spi :: spi_env
  ae_nodes_relid :: "u32 result"
  ae_nodes :: "node_row list"
  ae_now :: int
  ae_debug_apply_delay :: int
  ae_clock :: "int list"
  ae_schema_oid :: u32
  ae_nodes_oid :: u32
  ae_connections_oid :: u32
  ae_queued_ddl_oid :: u32
  ae_queued_drops_oid :: u32
  ae_skip_ddl_replication :: bool
  ae_discard_mismatched :: bool
  ae_text :: "datum \<Rightarrow> string"
  ae_parse :: "string \<Rightarrow> string list result"
  ae_run :: "string \<Rightarrow> string \<Rightarrow> string \<Rightarrow> bool \<Rightarrow> ('db, unit) op"
  ae_drop_objects :: "datum \<Rightarrow> dropped_object list"
  ae_objtype :: "string \<Rightarrow> ObjectType option"
  ae_type_names :: "string \<Rightarrow> string list result"
  ae_pg_strcasecmp :: "string \<Rightarrow> string \<Rightarrow> int"
  ae_object_address :: "ObjectType \<Rightarrow> string list \<Rightarrow> ('db, ObjectAddress) op"
  ae_delete_objects :: "ObjectAddress list \<Rightarrow> ('db, unit) op"
  ae_session_advance :: "u64 \<Rightarrow> ('db, unit) op"
  ae_in_xact :: "'db \<Rightarrow> bool"
  ae_flush_lsn :: "'db \<Rightarrow> u64"
  ae_quote :: "string \<Rightarrow> string"
  ae_order_by :: "(conn_row \<times> node_row) list \<Rightarrow> (conn_row \<times> node_row) list"
  ae_conns :: "conn_row list"

definition on_db :: "('db, 'a) op \<Rightarrow> ('db, 'a) apply_op" where
  "on_db f s = (case f (as_db s) of (r, d) \<Rightarrow> (r, s\<lparr>as_db := d\<rparr>))"

definition on_relcache :: "(relcache, 'a) op \<Rightarrow> ('db, 'a) apply_op" where
  "on_relcache f s = (case f (as_relcache s) of (r, c) \<Rightarrow> (r, s\<lparr>as_relcache := c\<rparr>))"

definition on_as_nodecache :: "(nodecache, 'a) op \<Rightarrow> ('db, 'a) apply_op" where
  "on_as_nodecache f s = (case f (as_nodecache s) of (r, c) \<Rightarrow> (r, s\<lparr>as_nodecache := c\<rparr>))"

definition on_counts :: "'a count_op \<Rightarrow> ('db, 'a) apply_op" where
  "on_counts f s = (case f (as_counts s) of (r, c) \<Rightarrow> (r, s\<lparr>as_counts := c\<rparr>))"

definition on_as_locks :: "(lock_sys, 'a) op \<Rightarrow> ('db, 'a) apply_op" where
  "on_as_locks f s = (case f (as_locks s) of (r, c) \<Rightarrow> (r, s\<lparr>as_locks := c\<rparr>))"

section \<open>Begin and commit\<close>

definition TimestampDifference :: "int \<Rightarrow> int \<Rightarrow> int \<times> int" where
  "TimestampDifference start_time stop_time =
     (let diff = stop_time - start_time in if diff \<le> 0 then (0, 0) else (diff div 1000000, diff mod 1000000))"

text \<open>
  The wait for the apply delay; the list holds the readings of the clock.  The test of the clock
  skew passes the later time first, so it never measures anything but zero.
\<close>

fun apply_delay_loop :: "int \<Rightarrow> int \<Rightarrow> int list \<Rightarrow> unit result" where
  "apply_delay_loop delay committs [] = Inl (Fatal ''terminating background worker due to administrator command'')"
| "apply_delay_loop delay committs (current # obs) =
     (if current < committs then apply_delay_loop delay committs obs
      else
        let (sec, usec) = TimestampDifference (current - delay * 1000) committs;
            delay_ms = (if sec \<ge> 2147483647 div 1000 - 1000 then 0 else sec * 1000 + usec div 1000)
        in if delay_ms = 0 then Inr () else apply_delay_loop delay committs obs)"

record begin_message =
  bm_flags :: u32
  bm_end_lsn :: u64
  bm_committime :: int
  bm_xid :: u32
  bm_origin :: "(pgactiveNodeId \<times> u64) option"

definition has_origin :: "u32 \<Rightarrow> bool" where
  "has_origin flags \<longleftrightarrow> flags AND pgactive_OUTPUT_TRANSACTION_HAS_ORIGIN \<noteq> 0"

definition read_begin :: "pq_api \<Rightarrow> bytes \<Rightarrow> (begin_message \<times> bytes) result" where
  "read_begin pq s =
     bind_result (pq_getmsgint pq s 4) (\<lambda>(flags, s).
     bind_result (pq_getmsgint64 pq s) (\<lambda>(lsn, s).
     bind_result (pq_getmsgint64 pq s) (\<lambda>(committime, s).
     bind_result (pq_getmsgint pq s 4) (\<lambda>(xid, s).
     if has_origin flags
     then bind_result (pgactive_getmsg_nodeid pq s False) (\<lambda>(node, s).
          bind_result (pq_getmsgint64 pq s) (\<lambda>(olsn, s).
          Inr (\<lparr>bm_flags = flags, bm_end_lsn = lsn, bm_committime = sint committime, bm_xid = xid, bm_origin = Some (node, olsn)\<rparr>, s)))
     else Inr (\<lparr>bm_flags = flags, bm_end_lsn = lsn, bm_committime = sint committime, bm_xid = xid, bm_origin = None\<rparr>, s)))))"

text \<open>A pointer that is followed.\<close>

definition required :: "'a option \<Rightarrow> 'a result" where
  "required x = (case x of None \<Rightarrow> Inl (Panic ''null pointer'') | Some y \<Rightarrow> Inr y)"

definition apply_delay_of :: "'db apply_env \<Rightarrow> pgactiveConnectionConfig \<Rightarrow> int" where
  "apply_delay_of env cfg = (if cfg_apply_delay cfg = - 1 then ae_debug_apply_delay env else cfg_apply_delay cfg)"

text \<open>What is done with the message: \<open>process_remote_begin\<close> after reading it.\<close>

definition begin_remote :: "'db apply_env \<Rightarrow> begin_message \<Rightarrow> ('db, unit) apply_op" where
  "begin_remote env b =
     sseq (smodify (\<lambda>s. s\<lparr>as_remote_origin := (case bm_origin b of None \<Rightarrow> zero_nodeid | Some (n, _) \<Rightarrow> n),
         as_remote_origin_lsn := (case bm_origin b of None \<Rightarrow> 0 | Some (_, l) \<Rightarrow> l),
         as_session_lsn := bm_end_lsn b, as_session_ts := bm_committime b, as_origin_xid := bm_xid b\<rparr>))
     (sseq (case bm_origin b of
              None \<Rightarrow> sret ()
            | Some (node, _) \<Rightarrow>
                if pgactive_nodeid_eq (Some node) (Some (pgactive_make_my_nodeid (e_nid (ae_lock env)) (e_mydb (ae_lock env))))
                then sfail (Error ''replication loop in catchup mode'')
                else sbind (slift (pgactive_fetch_node_id_via_sysid (e_by_name (ae_lock env)) (e_mydb (ae_lock env)) node)) (\<lambda>oid.
                     smodify (\<lambda>s. s\<lparr>as_remote_origin_id := oid\<rparr>)))
     (sbind (sget as_config) (\<lambda>cfg.
      sbind (slift (required cfg)) (\<lambda>cfg.
      if apply_delay_of env cfg > 0
      then sbind (sget as_session_ts) (\<lambda>ts. slift (apply_delay_loop (apply_delay_of env cfg) ts (ae_clock env)))
      else sret ()))))"

definition process_remote_begin :: "'db apply_env \<Rightarrow> bytes \<Rightarrow> ('db, unit) apply_op" where
  "process_remote_begin env s0 =
     sseq (smodify (\<lambda>s. s\<lparr>as_action_counter := 1, as_started_transaction := False, as_remote_origin_id := InvalidRepOriginId\<rparr>))
     (sbind (slift (read_begin (ae_pq env) s0)) (\<lambda>(b, _). begin_remote env b))"

record commit_message =
  cm_flags :: u32
  cm_lsn :: u64
  cm_end_lsn :: u64
  cm_committime :: int

definition read_commit :: "pq_api \<Rightarrow> bytes \<Rightarrow> commit_message result" where
  "read_commit pq s =
     bind_result (pq_getmsgint pq s 4) (\<lambda>(flags, s).
     if flags \<noteq> 0 then Inl (Error ''commit flags are currently unused'')
     else
     bind_result (pq_getmsgint64 pq s) (\<lambda>(lsn, s).
     bind_result (pq_getmsgint64 pq s) (\<lambda>(end_lsn, s).
     bind_result (pq_getmsgint64 pq s) (\<lambda>(committime, s).
     Inr \<lparr>cm_flags = flags, cm_lsn = lsn, cm_end_lsn = end_lsn, cm_committime = sint committime\<rparr>))))"

definition commit_local :: "'db apply_env \<Rightarrow> ('db, unit) apply_op" where
  "commit_local env s =
     sbind (on_db (ae_commit env (ae_session_origin env) (as_session_lsn s) (as_session_ts s))) (\<lambda>lend.
     smodify (\<lambda>s. s\<lparr>as_lsn_association := as_lsn_association s @ [\<lparr>local_end = lend, remote_end = as_session_lsn s\<rparr>]\<rparr>)) s"

text \<open>
  What is done with the message: \<open>process_remote_commit\<close> after reading it.  \<open>ProcExit 0\<close>: the position
  up to which the worker was asked to replay is reached.
\<close>

definition commit_remote :: "'db apply_env \<Rightarrow> commit_message \<Rightarrow> ('db, unit running) apply_op" where
  "commit_remote env c =
     sseq (smodify (\<lambda>s. if as_session_lsn s = cm_lsn c then s\<lparr>as_session_lsn := as_session_lsn s + 1\<rparr> else s))
     (sbind (sget as_started_transaction) (\<lambda>started.
     sseq (if started then commit_local env else sret ())
     (sbind (sget id) (\<lambda>s.
     sseq (if as_remote_origin_id s \<noteq> InvalidRepOriginId \<and> as_remote_origin_id s \<noteq> ae_session_origin env
           then on_db (ae_advance env (as_remote_origin_id s) (as_remote_origin_lsn s) (ae_last_commit_end env (as_db s)))
           else sret ())
     (sseq (on_counts pgactive_count_commit)
     (sseq (smodify (\<lambda>s. s\<lparr>as_worker := (as_worker s)\<lparr>last_applied_xact_id := as_origin_xid s,
         last_applied_xact_committs := as_session_ts s, last_applied_xact_at := ae_now env\<rparr>,
         as_origin_xid := 0, as_session_lsn := 0, as_session_ts := 0, as_action_counter := 0\<rparr>))
     (sbind (sget (\<lambda>s. replay_stop_lsn (as_worker s))) (\<lambda>stop.
      if stop \<noteq> 0 \<and> stop \<le> cm_end_lsn c
      then sseq (smodify (\<lambda>s. s\<lparr>as_worker := (as_worker s)\<lparr>replay_stop_lsn := 0\<rparr>\<rparr>)) (sret (ProcExit 0))
      else sret (Continue ())))))))))"

definition process_remote_commit :: "'db apply_env \<Rightarrow> bytes \<Rightarrow> ('db, unit running) apply_op" where
  "process_remote_commit env s0 =
     sseq (smodify (\<lambda>s. s\<lparr>as_action_counter := as_action_counter s + 1\<rparr>))
     (sbind (slift (read_commit (ae_pq env) s0)) (\<lambda>c. commit_remote env c))"

section \<open>Deciding conflicts\<close>

definition abs_timestamp_difference :: "(int \<Rightarrow> bool) \<Rightarrow> int \<Rightarrow> int \<Rightarrow> int \<times> int" where
  "abs_timestamp_difference not_finite start_time stop_time =
     (if not_finite start_time \<or> not_finite stop_time then (0, 0)
      else let diff = \<bar>stop_time - start_time\<bar> in (diff div 1000000, diff mod 1000000))"

text \<open>\<open>DT_NOBEGIN\<close> and \<open>DT_NOEND\<close>.\<close>

definition TIMESTAMP_NOT_FINITE :: "int \<Rightarrow> bool" where
  "TIMESTAMP_NOT_FINITE t \<longleftrightarrow> t = - (2 ^ 63) \<or> t = 2 ^ 63 - 1"

record update_decision =
  ud_new_tuple :: "row option"
  ud_perform :: bool
  ud_log :: bool
  ud_resolution :: "pgactiveConflictResolution option"

text \<open>The comparison when the commit times are equal: the sequence numbers of this node and of the peer.\<close>

definition seq_id_decision :: "int \<Rightarrow> int \<Rightarrow> bool result" where
  "seq_id_decision local_node_seq_id remote_node_seq_id =
     (if local_node_seq_id \<le> 0 then Inl (Error ''invalid node_seq_id on local node'')
      else if remote_node_seq_id \<le> 0 then Inl (Error ''invalid node_seq_id on remote node'')
      else if local_node_seq_id < remote_node_seq_id then Inr False
      else if local_node_seq_id > remote_node_seq_id then Inr True
      else Inl (Error ''unsuccessful node_seq_id comparison''))"

definition pgactive_conflict_last_update_wins :: "'db apply_env \<Rightarrow> int \<Rightarrow> int \<Rightarrow> ('db, update_decision) apply_op" where
  "pgactive_conflict_last_update_wins env local_ts remote_ts =
     (if remote_ts > local_ts
      then sret \<lparr>ud_new_tuple = None, ud_perform = True, ud_log = False,
             ud_resolution = Some pgactiveConflictResolution_LastUpdateWins_KeepRemote\<rparr>
      else if remote_ts < local_ts
      then sret \<lparr>ud_new_tuple = None, ud_perform = False, ud_log = True,
             ud_resolution = Some pgactiveConflictResolution_LastUpdateWins_KeepLocal\<rparr>
      else
      sbind (on_as_nodecache (pgactive_local_node_seq_id (ae_nodes_relid env) (ae_nodes env) (e_nid (ae_lock env)) (e_mydb (ae_lock env)))) (\<lambda>lseq.
      sbind (sget (\<lambda>s. apply_remote_node (as_worker s))) (\<lambda>remote.
      sbind (slift (pgactive_remote_node_seq_id (ae_spi env) (ae_nodes env) remote)) (\<lambda>rseq.
      sbind (slift (seq_id_decision lseq rseq)) (\<lambda>perform.
      sret (if perform
            then \<lparr>ud_new_tuple = None, ud_perform = True, ud_log = False,
                   ud_resolution = Some pgactiveConflictResolution_LastUpdateWins_KeepRemote\<rparr>
            else \<lparr>ud_new_tuple = None, ud_perform = False, ud_log = True,
                   ud_resolution = Some pgactiveConflictResolution_LastUpdateWins_KeepLocal\<rparr>))))))"

text \<open>The handlers work on the entry of the relation in the cache and may change the database.\<close>

definition resolve_conflict ::
  "'db apply_env \<Rightarrow> u32 \<Rightarrow> row option \<Rightarrow> row option \<Rightarrow> string \<Rightarrow> pgactiveConflictType \<Rightarrow> u64 \<Rightarrow> ('db, row option \<times> bool) apply_op" where
  "resolve_conflict env relid local remote tag event timeframe s =
     (case as_relcache s of
        None \<Rightarrow> (Inl (Panic ''null pointer''), s)
      | Some h \<Rightarrow>
          (case h relid of
             None \<Rightarrow> (Inl (Panic ''null pointer''), s)
           | Some r \<Rightarrow>
               (case pgactive_conflict_handlers_resolve (ae_handlers env) (ae_relation env relid) local remote tag event timeframe (r, as_db s) of
                  (res, (r', d)) \<Rightarrow> (res, s\<lparr>as_relcache := Some (h(relid \<mapsto> r')), as_db := d\<rparr>))))"

definition check_apply_update ::
  "'db apply_env \<Rightarrow> pgactiveConflictType \<Rightarrow> u16 \<Rightarrow> int \<Rightarrow> u32 \<Rightarrow> row \<Rightarrow> row \<Rightarrow> ('db, update_decision) apply_op" where
  "check_apply_update env conflict_type local_node_id local_ts relid local remote =
     (if local_node_id = ae_session_origin env
      then sret \<lparr>ud_new_tuple = None, ud_perform = True, ud_log = False, ud_resolution = None\<rparr>
      else
      sbind (sget as_session_ts) (\<lambda>ts.
      let (secs, microsecs) = abs_timestamp_difference TIMESTAMP_NOT_FINITE ts local_ts in
      sbind (resolve_conflict env relid (Some local) (Some remote)
               (if conflict_type = pgactiveConflictType_InsertInsert then ''INSERT'' else ''UPDATE'') conflict_type
               (of_int (\<bar>secs\<bar> * 1000000 + \<bar>microsecs\<bar>))) (\<lambda>(new_tuple, skip).
      if skip
      then sret \<lparr>ud_new_tuple = new_tuple, ud_perform = False, ud_log = True,
             ud_resolution = Some pgactiveConflictResolution_ConflictTriggerSkipChange\<rparr>
      else if new_tuple \<noteq> None
      then sret \<lparr>ud_new_tuple = new_tuple, ud_perform = True, ud_log = True,
             ud_resolution = Some pgactiveConflictResolution_ConflictTriggerReturnedTuple\<rparr>
      else pgactive_conflict_last_update_wins env local_ts ts)))"

section \<open>Logging a conflict\<close>

definition current_log_env :: "'db apply_env \<Rightarrow> 'db apply_state \<Rightarrow> log_env" where
  "current_log_env env s = (ae_log env)\<lparr>lg_session_origin := ae_session_origin env, lg_session_ts := as_session_ts s,
     lg_session_lsn := as_session_lsn s, lg_nid := e_nid (ae_lock env), lg_mydb := e_mydb (ae_lock env),
     lg_origins := e_by_oid (ae_lock env)\<rparr>"

text \<open>\<open>pgactive_make_apply_conflict\<close> and \<open>pgactive_conflict_log_serverlog\<close>.\<close>

definition report_conflict ::
  "'db apply_env \<Rightarrow> pgactiveConflictType \<Rightarrow> pgactiveConflictResolution \<Rightarrow> u32 \<Rightarrow> heap_tuple option \<Rightarrow> u16 \<Rightarrow> row \<Rightarrow> int \<Rightarrow>
   ('db, pgactiveApplyConflict) apply_op" where
  "report_conflict env ctype resolution relid local local_origin remote local_ts =
     sbind (sget id) (\<lambda>s.
     sbind (slift (pgactive_make_apply_conflict (current_log_env env s) ctype resolution (as_origin_xid s) (Some (ae_relation env relid))
              local local_origin (Some remote) local_ts None)) (\<lambda>c.
     sbind (slift (pgactive_conflict_log_serverlog (ae_api env) (ae_print env) (current_log_env env s) (rd_att (ae_relation env relid)) c)) (\<lambda>line.
     sseq (smodify (\<lambda>s. s\<lparr>as_serverlog := as_serverlog s @ (case line of None \<Rightarrow> [] | Some l \<Rightarrow> [l])\<rparr>)) (sret c))))"

definition log_conflict :: "'db apply_env \<Rightarrow> pgactiveApplyConflict \<Rightarrow> ('db, unit) apply_op" where
  "log_conflict env c =
     sbind (sget (current_log_env env)) (\<lambda>le. on_db (pgactive_conflict_log_table le (ae_history_insert env) c))"

section \<open>Rows\<close>

definition heap_form_tuple :: "pgactiveTupleData \<Rightarrow> row" where
  "heap_form_tuple tup = map2 (\<lambda>v isnull. if isnull then None else Some v) (td_values tup) (td_isnull tup)"

definition nth_col :: "row \<Rightarrow> nat \<Rightarrow> datum option" where
  "nth_col r i = (if i < length r then r ! i else None)"

definition heap_modify_tuple :: "row \<Rightarrow> pgactiveTupleData \<Rightarrow> row" where
  "heap_modify_tuple old tup =
     map (\<lambda>i. if td_changed tup ! i then (if td_isnull tup ! i then None else Some (td_values tup ! i)) else nth_col old i)
       [0 ..< length (td_values tup)]"

definition pgactive_performing_work :: "'db apply_env \<Rightarrow> ('db, bool) apply_op" where
  "pgactive_performing_work env =
     sbind (sget as_started_transaction) (\<lambda>started.
     if started then sret False
     else sseq (smodify (\<lambda>s. s\<lparr>as_started_transaction := True\<rparr>)) (sseq (on_db (ae_start env)) (sret True)))"

definition check_pgactive_wakeups :: "'db apply_env \<Rightarrow> u32 \<Rightarrow> ('db, unit) apply_op" where
  "check_pgactive_wakeups env relid =
     (if relnamespace (ae_relation env relid) \<noteq> ae_schema_oid env then sret ()
      else if relid = ae_nodes_oid env \<or> relid = ae_connections_oid env
      then smodify (\<lambda>s. s\<lparr>as_hook := pgactive_connections_changed (as_hook s)\<rparr>) else sret ())"

text \<open>A row written to the table, and the indexes of the table.\<close>

definition insert_row :: "'db apply_env \<Rightarrow> u32 \<Rightarrow> row \<Rightarrow> ('db, unit) apply_op" where
  "insert_row env relid new =
     sseq (on_db (ae_insert env relid new))
     (on_db (UserTableUpdateOpenIndexes False (length (ae_indexes env relid)) (ae_insert_indexes env relid new)))"

definition update_row :: "'db apply_env \<Rightarrow> u32 \<Rightarrow> nat \<Rightarrow> row \<Rightarrow> ('db, unit) apply_op" where
  "update_row env relid tid new =
     sbind (on_db (ae_update env relid tid new)) (\<lambda>(update_indexes, heap_only).
     if update_indexes
     then on_db (UserTableUpdateIndexes heap_only (length (ae_indexes env relid)) (ae_insert_indexes env relid new))
     else sret ())"

text \<open>
  A change that met a local row: decide, report, write, log.  \<open>count\<close> and \<open>count_conflict\<close> are the
  counters of the kind of change.
\<close>

definition apply_over_local ::
  "'db apply_env \<Rightarrow> pgactiveConflictType \<Rightarrow> u32 \<Rightarrow> heap_tuple \<Rightarrow> row \<Rightarrow> unit count_op \<Rightarrow> unit count_op \<Rightarrow> ('db, unit) apply_op" where
  "apply_over_local env ctype relid t remote count count_conflict =
     sbind (sget (\<lambda>s. ae_commit_ts env (as_db s) (t_xmin t))) (\<lambda>(local_ts, local_node_id).
     sbind (check_apply_update env ctype local_node_id local_ts relid (t_values t) remote) (\<lambda>ud.
     sbind (if ud_log ud
            then sbind (report_conflict env ctype (the (ud_resolution ud)) relid (Some t) local_node_id remote local_ts) (\<lambda>c.
                 sseq (on_counts count_conflict) (sret (Some c)))
            else sret None) (\<lambda>conflict.
     sseq (if ud_perform ud
           then sseq (update_row env relid (t_self t) (case ud_new_tuple ud of None \<Rightarrow> remote | Some u \<Rightarrow> u)) (on_counts count)
           else sret ())
     (case conflict of None \<Rightarrow> sret () | Some c \<Rightarrow> log_conflict env c))))"


section \<open>Replicated DDL\<close>

fun run_commands :: "'db apply_env \<Rightarrow> string \<Rightarrow> string \<Rightarrow> bool \<Rightarrow> string list \<Rightarrow> ('db, unit) op" where
  "run_commands env search_path role isTopLevel [] = sret ()"
| "run_commands env search_path role isTopLevel (c # cs) =
     sseq (ae_run env search_path role c isTopLevel) (run_commands env search_path role isTopLevel cs)"

definition pgactive_execute_ddl_command :: "'db apply_env \<Rightarrow> string \<Rightarrow> string \<Rightarrow> string \<Rightarrow> bool \<Rightarrow> ('db, unit) op" where
  "pgactive_execute_ddl_command env cmdstr perpetrator search_path tx_just_started =
     sbind (slift (ae_parse env cmdstr)) (\<lambda>commands.
     run_commands env search_path perpetrator (length commands = 1 \<and> tx_just_started) commands)"

definition process_queued_ddl_command :: "'db apply_env \<Rightarrow> row \<Rightarrow> bool \<Rightarrow> ('db, unit) op" where
  "process_queued_ddl_command env cmdtup tx_just_started =
     (case nth_col cmdtup 2 of
        None \<Rightarrow> sfail (Error ''null command perpetrator in command tuple'')
      | Some perpetrator \<Rightarrow>
          case nth_col cmdtup 3 of
            None \<Rightarrow> sfail (Error ''null command tag in command tuple'')
          | Some _ \<Rightarrow>
              case nth_col cmdtup 4 of
                None \<Rightarrow> sfail (Error ''null command for command tuple'')
              | Some cmd \<Rightarrow>
                  pgactive_execute_ddl_command env (ae_text env cmd) (ae_text env perpetrator)
                    (case nth_col cmdtup 5 of None \<Rightarrow> [] | Some p \<Rightarrow> ae_text env p) tx_just_started)"

definition text_elem :: "string option list \<Rightarrow> nat \<Rightarrow> string result" where
  "text_elem vs i =
     (if i < length vs then (case vs ! i of None \<Rightarrow> Inl (Panic ''null pointer'') | Some s \<Rightarrow> Inr s)
      else Inl (Panic ''read beyond the end of an array''))"

fun for_each :: "('a \<Rightarrow> 'b result) \<Rightarrow> 'a list \<Rightarrow> 'b list result" where
  "for_each f [] = Inr []"
| "for_each f (x # xs) = bind_result (f x) (\<lambda>y. bind_result (for_each f xs) (\<lambda>ys. Inr (y # ys)))"

definition oper_typeStringToTypeName :: "'db apply_env \<Rightarrow> string \<Rightarrow> string list result" where
  "oper_typeStringToTypeName env s = (if ae_pg_strcasecmp env s ''none'' = 0 then Inr [] else ae_type_names env s)"

text \<open>
  The names by which the object is looked up, or nothing when it is passed over.  The arguments are
  decoded but not used afterwards.  For other kinds of objects the loop over the arguments runs to
  the number of names.
\<close>

definition dropped_names :: "'db apply_env \<Rightarrow> ObjectType \<Rightarrow> dropped_object \<Rightarrow> string list option result" where
  "dropped_names env objtype d =
     (case do_name d of
        None \<Rightarrow> Inr None
      | Some vs \<Rightarrow>
          if objtype = OBJECT_TYPE \<or> objtype = OBJECT_DOMAIN
          then bind_result (text_elem vs 0) (\<lambda>s. bind_result (ae_type_names env s) (\<lambda>names. Inr (Some names)))
          else
          bind_result (for_each (text_elem vs) [0 ..< length vs]) (\<lambda>names.
          if objtype = OBJECT_FUNCTION \<or> objtype = OBJECT_AGGREGATE \<or> objtype = OBJECT_OPERATOR
          then (case do_args d of
                  None \<Rightarrow> Inr (if objtype = OBJECT_OPERATOR then None else Some names)
                | Some as \<Rightarrow>
                    bind_result (for_each (\<lambda>i. bind_result (text_elem as i)
                      (if objtype = OBJECT_OPERATOR then oper_typeStringToTypeName env else ae_type_names env)) [0 ..< length as]) (\<lambda>_.
                    Inr (Some names)))
          else (case do_args d of
                  None \<Rightarrow> Inr (Some names)
                | Some pvalues \<Rightarrow> bind_result (for_each (text_elem pvalues) [0 ..< length vs]) (\<lambda>_. Inr (Some names)))))"

fun drop_addresses :: "'db apply_env \<Rightarrow> dropped_object list \<Rightarrow> ('db, ObjectAddress list) op" where
  "drop_addresses env [] = sret []"
| "drop_addresses env (d # ds) =
     (case do_type d of
        None \<Rightarrow> drop_addresses env ds
      | Some typ \<Rightarrow>
          case ae_objtype env typ of
            None \<Rightarrow> drop_addresses env ds
          | Some objtype \<Rightarrow>
              sbind (slift (dropped_names env objtype d)) (\<lambda>names.
              case names of
                None \<Rightarrow> drop_addresses env ds
              | Some objnames \<Rightarrow>
                  sbind (ae_object_address env objtype objnames) (\<lambda>addr.
                  if classId addr = InvalidOid then drop_addresses env ds
                  else sbind (drop_addresses env ds) (\<lambda>addrs. sret (addr # addrs)))))"

text \<open>A null array only gives a warning.\<close>

definition process_queued_drop :: "'db apply_env \<Rightarrow> row \<Rightarrow> ('db, unit) op" where
  "process_queued_drop env cmdtup =
     (case nth_col cmdtup 2 of
        None \<Rightarrow> sret ()
      | Some objects \<Rightarrow> sbind (drop_addresses env (ae_drop_objects env objects)) (ae_delete_objects env))"

text \<open>Overloaded functions cannot be told apart: the object that is dropped depends on the name alone.\<close>

lemma drop_ignores_arguments:
  assumes "do_name d = do_name d'" "dropped_names env objtype d = Inr (Some ns)" "dropped_names env objtype d' = Inr (Some ns')"
  shows "ns = ns'"
  using assms(2,3) unfolding dropped_names_def assms(1)
  by (cases "do_name d'"; cases objtype; cases "do_args d"; cases "do_args d'") (auto simp: bind_result_eq_Inr)

text \<open>Running the queued command may end the transaction it started in; then the new one is committed.\<close>

definition replay_queued :: "'db apply_env \<Rightarrow> u32 \<Rightarrow> row \<Rightarrow> bool \<Rightarrow> ('db, unit) apply_op" where
  "replay_queued env relid new started_tx =
     sbind (sget (\<lambda>s. ae_top_xid env (as_db s))) (\<lambda>oldxid.
     sseq (if relid = ae_queued_ddl_oid env then on_db (process_queued_ddl_command env new started_tx) else sret ())
     (sseq (if relid = ae_queued_drops_oid env then on_db (process_queued_drop env new) else sret ())
     (sbind (sget (\<lambda>s. ae_top_xid env (as_db s))) (\<lambda>xid.
      if oldxid \<noteq> xid
      then sbind (sget id) (\<lambda>s.
           sseq (on_db (ae_commit env (ae_session_origin env) (as_session_lsn s) (as_session_ts s)))
           (smodify (\<lambda>s. s\<lparr>as_started_transaction := False\<rparr>)))
      else sret ()))))"

section \<open>Insert\<close>

text \<open>
  The search for a conflicting row over the unique indexes.  \<open>ctid\<close> is \<open>conflicting_tid\<close>; the loop ends
  at the first row found.
\<close>

fun insert_conflict ::
  "(u32 \<Rightarrow> ScanKeyData list \<Rightarrow> scan_attempt list) \<Rightarrow> nat option \<Rightarrow> (index_desc \<times> ScanKeyData list option) list \<Rightarrow> heap_tuple option result" where
  "insert_conflict scan ctid [] = Inr None"
| "insert_conflict scan ctid ((ix, key) # rest) =
     (if \<not> usable_index ix then insert_conflict scan ctid rest
      else case key of
        None \<Rightarrow> insert_conflict scan ctid rest
      | Some ks \<Rightarrow>
          bind_result (find_pkey_tuple True (scan (ix_oid ix) ks)) (\<lambda>found.
          case found of
            None \<Rightarrow> insert_conflict scan ctid rest
          | Some t \<Rightarrow>
              if ctid \<noteq> None \<and> ctid \<noteq> Some (t_self t)
              then Inl (Error ''multiple unique constraints violated by remotely INSERTed tuple'')
              else Inr (Some t)))"

definition open_remote_rel :: "'db apply_env \<Rightarrow> bytes \<Rightarrow> ('db, u32 \<times> bytes) apply_op" where
  "open_remote_rel env s0 =
     sbind (on_relcache (read_rel (ae_pq env) (ae_relid env) (ae_relcache env) s0)) (\<lambda>(r, s). sret (rel_reloid r, s))"

definition read_tuple :: "'db apply_env \<Rightarrow> u32 \<Rightarrow> bytes \<Rightarrow> ('db, pgactiveTupleData \<times> bytes) apply_op" where
  "read_tuple env relid m =
     slift (read_tuple_parts (ae_pq env) (ae_api env) (ae_discard_mismatched env) (rd_att (ae_relation env relid)) m)"

text \<open>What is done with a row that was read: \<open>process_remote_insert\<close> after the message.\<close>

definition apply_insert :: "'db apply_env \<Rightarrow> u32 \<Rightarrow> bool \<Rightarrow> pgactiveTupleData \<Rightarrow> ('db, unit) apply_op" where
  "apply_insert env relid started_tx tup =
     (let new = heap_form_tuple tup in
      if ae_relkind env relid \<noteq> CHR ''r'' then sfail (Error ''unexpected relkind'')
      else
      sbind (slift (build_index_scan_keys (ae_eq_proc env) (ae_indexes env relid) tup)) (\<lambda>keys.
      sbind (sget as_db) (\<lambda>d.
      sbind (slift (insert_conflict (ae_scan env d) None (zip (ae_indexes env relid) keys))) (\<lambda>conflict.
      sseq (case conflict of
              Some t \<Rightarrow> apply_over_local env pgactiveConflictType_InsertInsert relid t new pgactive_count_insert pgactive_count_insert_conflict
            | None \<Rightarrow> sseq (insert_row env relid new) (on_counts pgactive_count_insert))
      (sseq (check_pgactive_wakeups env relid)
      (if \<not> ae_skip_ddl_replication env \<and> (relid = ae_queued_ddl_oid env \<or> relid = ae_queued_drops_oid env)
       then replay_queued env relid new started_tx
       else sret ()))))))"

definition process_remote_insert :: "'db apply_env \<Rightarrow> bytes \<Rightarrow> ('db, unit) apply_op" where
  "process_remote_insert env s0 =
     sseq (smodify (\<lambda>s. s\<lparr>as_action_counter := as_action_counter s + 1\<rparr>))
     (sbind (pgactive_performing_work env) (\<lambda>started_tx.
      sbind (open_remote_rel env s0) (\<lambda>(relid, m).
      sbind (slift (pq_getmsgbyte (ae_pq env) m)) (\<lambda>(action, m).
      if action \<noteq> of_char CHR ''N'' then sfail (Error ''expected new tuple'')
      else sbind (read_tuple env relid m) (\<lambda>(tup, _). apply_insert env relid started_tx tup)))))"

section \<open>Update and delete\<close>

definition key_index :: "'db apply_env \<Rightarrow> u32 \<Rightarrow> u32" where
  "key_index env relid = (if ae_replica_index env relid \<noteq> InvalidOid then ae_replica_index env relid else ae_pkey_index env relid)"

text \<open>The row the key of \<open>tup\<close> identifies.\<close>

definition find_by_key :: "'db apply_env \<Rightarrow> u32 \<Rightarrow> pgactiveTupleData \<Rightarrow> ('db, heap_tuple option) apply_op" where
  "find_by_key env relid tup =
     sbind (slift (build_index_scan_key (ae_eq_proc env) (ae_index env (key_index env relid)) tup)) (\<lambda>(ks, _).
     sbind (sget as_db) (\<lambda>d.
     slift (find_pkey_tuple True (ae_scan env d (key_index env relid) ks))))"

definition update_missing :: "'db apply_env \<Rightarrow> u32 \<Rightarrow> row \<Rightarrow> ('db, unit) apply_op" where
  "update_missing env relid remote =
     sbind (resolve_conflict env relid None (Some remote) ''UPDATE'' pgactiveConflictType_UpdateDelete 0) (\<lambda>(user, skip).
     let resolution = (if skip then pgactiveConflictResolution_ConflictTriggerSkipChange
           else if user \<noteq> None then pgactiveConflictResolution_ConflictTriggerReturnedTuple
           else pgactiveConflictResolution_DefaultSkipChange) in
     sseq (on_counts pgactive_count_update_conflict)
     (sbind (report_conflict env pgactiveConflictType_UpdateDelete resolution relid None InvalidRepOriginId remote 0) (\<lambda>c.
     sseq (if resolution = pgactiveConflictResolution_ConflictTriggerReturnedTuple then insert_row env relid (the user) else sret ())
     (log_conflict env c))))"

text \<open>The row is found by the old key when it was sent, otherwise by the key in the new row.\<close>

definition apply_update :: "'db apply_env \<Rightarrow> u32 \<Rightarrow> pgactiveTupleData option \<Rightarrow> pgactiveTupleData \<Rightarrow> ('db, unit) apply_op" where
  "apply_update env relid old new =
     (if key_index env relid = InvalidOid then sfail (Error ''could not find primary key for table'')
      else
      sbind (find_by_key env relid (case old of Some k \<Rightarrow> k | None \<Rightarrow> new)) (\<lambda>found.
      sseq (case found of
              Some t \<Rightarrow> apply_over_local env pgactiveConflictType_UpdateUpdate relid t (heap_modify_tuple (t_values t) new)
                          pgactive_count_update pgactive_count_update_conflict
            | None \<Rightarrow> update_missing env relid (heap_form_tuple new))
      (check_pgactive_wakeups env relid)))"

definition process_remote_update :: "'db apply_env \<Rightarrow> bytes \<Rightarrow> ('db, unit) apply_op" where
  "process_remote_update env s0 =
     sseq (smodify (\<lambda>s. s\<lparr>as_action_counter := as_action_counter s + 1\<rparr>))
     (sseq (pgactive_performing_work env)
     (sbind (open_remote_rel env s0) (\<lambda>(relid, m).
      sbind (slift (pq_getmsgbyte (ae_pq env) m)) (\<lambda>(action, m).
      if action \<noteq> of_char CHR ''K'' \<and> action \<noteq> of_char CHR ''N'' then sfail (Error ''expected action N or K'')
      else
      sbind (if action = of_char CHR ''K''
             then sbind (read_tuple env relid m) (\<lambda>(old, m).
                  sbind (slift (pq_getmsgbyte (ae_pq env) m)) (\<lambda>(action, m). sret (Some old, action, m)))
             else sret (None, action, m)) (\<lambda>(old, action, m).
      if action \<noteq> of_char CHR ''N'' then sfail (Error ''expected action N'')
      else if ae_relkind env relid \<noteq> CHR ''r'' then sfail (Error ''unexpected relkind'')
      else sbind (read_tuple env relid m) (\<lambda>(new, _). apply_update env relid old new))))))"

definition delete_missing :: "'db apply_env \<Rightarrow> u32 \<Rightarrow> row \<Rightarrow> ('db, unit) apply_op" where
  "delete_missing env relid remote =
     sseq (on_counts pgactive_count_delete_conflict)
     (sbind (resolve_conflict env relid None (Some remote) ''DELETE'' pgactiveConflictType_DeleteDelete 0) (\<lambda>(user, skip).
      if user \<noteq> None then sfail (Error ''DELETE vs DELETE handler returned a row which isn't allowed'')
      else
      sbind (report_conflict env pgactiveConflictType_DeleteDelete
               (if skip then pgactiveConflictResolution_ConflictTriggerSkipChange else pgactiveConflictResolution_DefaultSkipChange)
               relid None InvalidRepOriginId remote 0) (\<lambda>c.
      log_conflict env c)))"

definition apply_delete :: "'db apply_env \<Rightarrow> u32 \<Rightarrow> pgactiveTupleData \<Rightarrow> ('db, unit) apply_op" where
  "apply_delete env relid oldtup =
     (if key_index env relid = InvalidOid then sfail (Error ''could not find primary key for table'')
      else if ae_relkind env relid \<noteq> CHR ''r'' then sfail (Error ''unexpected relkind'')
      else
      sbind (find_by_key env relid oldtup) (\<lambda>found.
      sseq (case found of
              Some t \<Rightarrow> sseq (on_db (ae_delete env relid (t_self t))) (on_counts pgactive_count_delete)
            | None \<Rightarrow> delete_missing env relid (heap_form_tuple oldtup))
      (check_pgactive_wakeups env relid)))"

definition process_remote_delete :: "'db apply_env \<Rightarrow> bytes \<Rightarrow> ('db, unit) apply_op" where
  "process_remote_delete env s0 =
     sseq (smodify (\<lambda>s. s\<lparr>as_action_counter := as_action_counter s + 1\<rparr>))
     (sseq (pgactive_performing_work env)
     (sbind (open_remote_rel env s0) (\<lambda>(relid, m).
      sbind (slift (pq_getmsgbyte (ae_pq env) m)) (\<lambda>(action, m).
      if action \<noteq> of_char CHR ''K'' \<and> action \<noteq> of_char CHR ''E'' then sfail (Error ''expected action K or E'')
      else if action = of_char CHR ''E'' then sret ()
      else sbind (read_tuple env relid m) (\<lambda>(oldtup, _). apply_delete env relid oldtup)))))"

section \<open>Dispatch\<close>

definition pgactive_process_remote_action :: "'db apply_env \<Rightarrow> bytes \<Rightarrow> ('db, unit running) apply_op" where
  "pgactive_process_remote_action env s0 =
     sbind (slift (pq_getmsgbyte (ae_pq env) s0)) (\<lambda>(action, s).
     if action = of_char CHR ''B'' then sseq (process_remote_begin env s) (sret (Continue ()))
     else if action = of_char CHR ''C'' then process_remote_commit env s
     else if action = of_char CHR ''I'' then sseq (process_remote_insert env s) (sret (Continue ()))
     else if action = of_char CHR ''U'' then sseq (process_remote_update env s) (sret (Continue ()))
     else if action = of_char CHR ''D'' then sseq (process_remote_delete env s) (sret (Continue ()))
     else if action = of_char CHR ''M''
     then sbind (on_as_locks (pgactive_process_remote_message (ae_lock env) s)) (\<lambda>adv.
          sseq (case adv of None \<Rightarrow> sret () | Some lsn \<Rightarrow> on_db (ae_session_advance env lsn)) (sret (Continue ())))
     else sfail (Error ''unknown action of type''))"

section \<open>Feedback\<close>

text \<open>The positions written and flushed, and the entries that are left.\<close>

fun flush_loop :: "u64 \<Rightarrow> u64 \<Rightarrow> u64 \<Rightarrow> pgactiveFlushPosition list \<Rightarrow> u64 \<times> u64 \<times> pgactiveFlushPosition list" where
  "flush_loop local_flush wr fl [] = (wr, fl, [])"
| "flush_loop local_flush wr fl (pos # rest) =
     (if local_end pos \<le> local_flush then flush_loop local_flush (remote_end pos) (remote_end pos) rest
      else (remote_end (last (pos # rest)), fl, pos # rest))"

definition pgactive_get_flush_position :: "u64 \<Rightarrow> ('db, bool \<times> u64 \<times> u64) apply_op" where
  "pgactive_get_flush_position local_flush s =
     (case flush_loop local_flush 0 0 (as_lsn_association s) of
        (wr, fl, rest) \<Rightarrow> (Inr (rest = [], wr, fl), s\<lparr>as_lsn_association := rest\<rparr>))"

definition feedback_message :: "u64 \<Rightarrow> u64 \<Rightarrow> u64 \<Rightarrow> int \<Rightarrow> bytes" where
  "feedback_message recvpos flushpos writepos now =
     [of_char CHR ''r''] @ pgactive_sendint64 recvpos @ pgactive_sendint64 flushpos @ pgactive_sendint64 writepos @
     pgactive_sendint64 (of_int now) @ [0]"

text \<open>\<open>conn_ok\<close>: the message could be put on the connection.\<close>

definition pgactive_send_feedback :: "'db apply_env \<Rightarrow> bool \<Rightarrow> u64 \<Rightarrow> int \<Rightarrow> bool \<Rightarrow> ('db, unit) apply_op" where
  "pgactive_send_feedback env conn_ok recvpos now force =
     sbind (sget as_feedback) (\<lambda>fb.
     let recvpos = max recvpos (last_recvpos fb) in
     sbind (sget (\<lambda>s. ae_flush_lsn env (as_db s))) (\<lambda>local_flush.
     sbind (pgactive_get_flush_position local_flush) (\<lambda>(done, wr, fl).
     let (writepos, flushpos) = (if done then (recvpos, recvpos) else (wr, fl));
         writepos = max writepos (last_writepos fb);
         flushpos = max flushpos (last_flushpos fb)
     in if \<not> force \<and> writepos = last_writepos fb \<and> flushpos = last_flushpos fb then sret ()
        else if \<not> conn_ok then sfail (Error ''could not send feedback packet'')
        else smodify (\<lambda>s. s\<lparr>as_sent := as_sent s @ [feedback_message recvpos flushpos writepos now],
               as_feedback := \<lparr>last_recvpos = max recvpos (last_recvpos fb), last_writepos = max writepos (last_writepos fb),
                 last_flushpos = max flushpos (last_flushpos fb)\<rparr>\<rparr>))))"

section \<open>The main loop\<close>

definition load_config :: "'db apply_env \<Rightarrow> pgactiveNodeId \<Rightarrow> pgactiveConnectionConfig result" where
  "load_config env remote =
     bind_result (pgactive_get_connection_config (ae_quote env) (ae_order_by env) (ae_spi env) (ae_conns env) (ae_nodes env) remote False) (\<lambda>cfg.
     bind_result (required cfg) (\<lambda>cfg.
     if cfg_origin_is_my_id cfg then Inr cfg
     else
     bind_result (pgactive_get_my_connection_config (ae_quote env) (ae_order_by env) (ae_spi env) (ae_conns env) (ae_nodes env)
       (e_nid (ae_lock env)) (e_mydb (ae_lock env)) False) (\<lambda>mine.
     bind_result (required mine) (\<lambda>mine.
     bind_result (required (cfg_replication_sets mine)) (\<lambda>sets.
     Inr (cfg\<lparr>cfg_apply_delay := cfg_apply_delay mine, cfg_replication_sets := Some sets\<rparr>))))))"

definition pgactive_apply_reload_config :: "'db apply_env \<Rightarrow> ('db, unit running) apply_op" where
  "pgactive_apply_reload_config env =
     sbind (sget (\<lambda>s. apply_remote_node (as_worker s))) (\<lambda>remote.
     sbind (slift (load_config env remote)) (\<lambda>new.
     sbind (sget as_config) (\<lambda>old.
     case old of
       None \<Rightarrow> sseq (smodify (\<lambda>s. s\<lparr>as_config := Some new\<rparr>)) (sret (Continue ()))
     | Some cfg \<Rightarrow>
         if strcmp (cfg_dsn cfg) (cfg_dsn new) \<noteq> 0 then sret (ProcExit 1)
         else
         sbind (slift (required (cfg_replication_sets cfg))) (\<lambda>a.
         sbind (slift (required (cfg_replication_sets new))) (\<lambda>b.
         if strcmp a b \<noteq> 0 then sret (ProcExit 1) else sret (Continue ()))))))"

text \<open>One message of the copy stream; \<open>recvd\<close> is \<open>last_received\<close>.\<close>

definition handle_copy_data :: "'db apply_env \<Rightarrow> bool \<Rightarrow> u64 \<Rightarrow> bytes \<Rightarrow> ('db, u64 running) apply_op" where
  "handle_copy_data env conn_ok recvd s0 =
     sbind (slift (pq_getmsgbyte (ae_pq env) s0)) (\<lambda>(c, s).
     if c = of_char CHR ''w''
     then sbind (slift (pq_getmsgint64 (ae_pq env) s)) (\<lambda>(start_lsn, s).
          sbind (slift (pq_getmsgint64 (ae_pq env) s)) (\<lambda>(end_lsn, s).
          sbind (slift (pq_getmsgint64 (ae_pq env) s)) (\<lambda>(_, s).
          sbind (pgactive_process_remote_action env s) (\<lambda>r.
          sret (case r of ProcExit code \<Rightarrow> ProcExit code | Continue _ \<Rightarrow> Continue (max (max recvd start_lsn) end_lsn))))))
     else if c = of_char CHR ''k''
     then sbind (slift (pq_getmsgint64 (ae_pq env) s)) (\<lambda>(endpos, s).
          sbind (slift (pq_getmsgint64 (ae_pq env) s)) (\<lambda>(_, s).
          sbind (slift (pq_getmsgbyte (ae_pq env) s)) (\<lambda>(reply_requested, s).
          sseq (pgactive_send_feedback env conn_ok endpos (ae_now env) (reply_requested \<noteq> 0)) (sret (Continue recvd)))))
     else sret (Continue recvd))"

text \<open>What \<open>PQgetCopyData\<close> yields; the end of the list is the return value 0.\<close>

datatype copy_result = CopyData bytes | CopyEnd | CopyError | CopyInvalid

fun consume_copy :: "'db apply_env \<Rightarrow> bool \<Rightarrow> u64 \<Rightarrow> copy_result list \<Rightarrow> ('db, u64 running) apply_op" where
  "consume_copy env conn_ok recvd [] = sret (Continue recvd)"
| "consume_copy env conn_ok recvd (CopyEnd # rs) = sfail (Error ''data stream ended'')"
| "consume_copy env conn_ok recvd (CopyError # rs) = sfail (Error ''could not read COPY data'')"
| "consume_copy env conn_ok recvd (CopyInvalid # rs) = sfail (Error ''invalid COPY status'')"
| "consume_copy env conn_ok recvd (CopyData m # rs) =
     sbind (handle_copy_data env conn_ok recvd m) (\<lambda>r.
     case r of ProcExit code \<Rightarrow> sret (ProcExit code) | Continue l \<Rightarrow> consume_copy env conn_ok l rs)"

text \<open>
  One pass of the loop: whether the latch was set, the state of the connection, what arrived, and
  for every pass of the pause loop whether the latch was set.
\<close>

record wake =
  wk_latch :: bool
  wk_conn_ok :: bool
  wk_copy :: "copy_result list"
  wk_pause :: "bool list"

fun pause_loop :: "'db apply_env \<Rightarrow> bool list \<Rightarrow> ('db, unit running) apply_op" where
  "pause_loop env [] = sret (Continue ())"
| "pause_loop env (latch # ls) =
     sbind (sget (\<lambda>s. ae_in_xact env (as_db s))) (\<lambda>busy.
     if busy then sret (Continue ())
     else sbind (if latch then pgactive_apply_reload_config env else sret (Continue ())) (\<lambda>r.
          case r of ProcExit code \<Rightarrow> sret (ProcExit code) | Continue _ \<Rightarrow> pause_loop env ls))"

definition apply_iteration :: "'db apply_env \<Rightarrow> u64 \<Rightarrow> wake \<Rightarrow> ('db, u64 running) apply_op" where
  "apply_iteration env recvd w =
     (if \<not> wk_conn_ok w then sseq (on_counts pgactive_count_disconnect) (sfail (Error ''connection to other side has died''))
      else
      sbind (if wk_latch w then pgactive_apply_reload_config env else sret (Continue ())) (\<lambda>r.
      case r of ProcExit code \<Rightarrow> sret (ProcExit code)
      | Continue _ \<Rightarrow>
      sbind (consume_copy env (wk_conn_ok w) recvd (wk_copy w)) (\<lambda>r.
      case r of ProcExit code \<Rightarrow> sret (ProcExit code)
      | Continue recvd \<Rightarrow>
      sseq (pgactive_send_feedback env (wk_conn_ok w) recvd (ae_now env) False)
      (sbind (pause_loop env (wk_pause w)) (\<lambda>r.
       sret (case r of ProcExit code \<Rightarrow> ProcExit code | Continue _ \<Rightarrow> Continue recvd))))))"

fun pgactive_apply_work :: "'db apply_env \<Rightarrow> u64 \<Rightarrow> wake list \<Rightarrow> ('db, u64 running) apply_op" where
  "pgactive_apply_work env recvd [] = sret (Continue recvd)"
| "pgactive_apply_work env recvd (w # ws) =
     sbind (apply_iteration env recvd w) (\<lambda>r.
     case r of ProcExit code \<Rightarrow> sret (ProcExit code) | Continue l \<Rightarrow> pgactive_apply_work env l ws)"


section \<open>The start of the process\<close>

definition apply_worker_attach :: "unit worker_op" where
  "apply_worker_attach =
     sbind (sget (\<lambda>s. worker_management_paused (ctl s))) (\<lambda>paused.
     if paused then sfail (Error ''pgactive worker management is currently paused, apply worker exiting, retry later'')
     else smodify (\<lambda>s. case pgactive_worker_slot (self s) of None \<Rightarrow> s
       | Some i \<Rightarrow> s\<lparr>ctl := upd_slot i (upd_apply (\<lambda>a. a\<lparr>apply_proclatch := Some (MyProcNumber (self s))\<rparr>)) (ctl s)\<rparr>))"

text \<open>\<open>%d\<close> of a truth value.\<close>

definition bool_string :: "bool \<Rightarrow> string" where
  "bool_string b = (if b then ''1'' else ''0'')"

definition opt_u :: "string \<Rightarrow> nat \<Rightarrow> DefElem" where
  "opt_u name n = \<lparr>defname = name, defarg = Some (dec_string n)\<rparr>"

definition opt_s :: "string \<Rightarrow> string \<Rightarrow> DefElem" where
  "opt_s name v = \<lparr>defname = name, defarg = Some v\<rparr>"

text \<open>The options of the command \<open>START_REPLICATION\<close> that \<open>pgactive_apply_main\<close> sends.\<close>

definition start_options :: "build \<Rightarrow> string option \<Rightarrow> bool \<Rightarrow> DefElem list" where
  "start_options b replication_sets forward =
     [opt_u ''pg_version'' (unat (PG_VERSION_NUM b)), opt_u ''pg_catversion'' (unat (CATALOG_VERSION_NO b)),
      opt_u ''pgactive_version'' (unat (pgactive_VERSION_NUM b)), opt_s ''pgactive_variant'' (pgactive_VARIANT b),
      opt_u ''min_pgactive_version'' (unat (pgactive_MIN_REMOTE_VERSION_NUM b)), opt_u ''sizeof_int'' (unat (sizeof_int b)),
      opt_u ''sizeof_long'' (unat (sizeof_long b)), opt_u ''sizeof_datum'' (unat (sizeof_Datum b)),
      opt_u ''maxalign'' (unat (MAXIMUM_ALIGNOF b)), opt_s ''float4_byval'' (bool_string (pgactive_get_float4byval b)),
      opt_s ''float8_byval'' (bool_string (pgactive_get_float8byval b)),
      opt_s ''integer_datetimes'' (bool_string (pgactive_get_integer_timestamps b)),
      opt_s ''bigendian'' (bool_string (pgactive_get_bigendian b)), opt_s ''db_encoding'' (database_encoding b)]
     @ (case replication_sets of None \<Rightarrow> [] | Some s \<Rightarrow> if s \<noteq> [] then [opt_s ''replication_sets'' s] else [])
     @ (if forward then [opt_s ''forward_changesets'' ''t''] else [])"

text \<open>What the worker does when its loop fails, before it reports the error again.\<close>

definition apply_failed :: "'db apply_env \<Rightarrow> ('db, unit) apply_op" where
  "apply_failed env = sbind (sget (\<lambda>s. ae_in_xact env (as_db s))) (\<lambda>busy. if busy then on_counts pgactive_count_rollback else sret ())"

end
