(* ===== verification/Apply_Stream.thy ===== *)
theory Apply_Stream
  imports Apply
begin

text \<open>
  The change stream between two nodes: what the output plugin of one node writes is what the apply
  process of the other one performs, from the options of the connection over the frame of a
  transaction to every kind of change.
\<close>

section \<open>Changes\<close>

text \<open>A change as the apply process sees it, without its encoding.\<close>

datatype decoded_change =
    DInsert pgactiveTupleData
  | DUpdate "pgactiveTupleData option" pgactiveTupleData
  | DDelete pgactiveTupleData
  | DDeleteNoKey

definition perform_change :: "'db apply_env \<Rightarrow> u32 \<Rightarrow> bool \<Rightarrow> decoded_change \<Rightarrow> ('db, unit) apply_op" where
  "perform_change env relid started_tx change =
     (case change of
        DInsert t \<Rightarrow> apply_insert env relid started_tx t
      | DUpdate old new \<Rightarrow> if ae_relkind env relid \<noteq> CHR ''r'' then sfail (Error ''unexpected relkind'') else apply_update env relid old new
      | DDelete t \<Rightarrow> apply_delete env relid t
      | DDeleteNoKey \<Rightarrow> sret ())"

definition replay_change :: "'db apply_env \<Rightarrow> u32 \<Rightarrow> decoded_change \<Rightarrow> ('db, unit) apply_op" where
  "replay_change env relid change =
     sseq (smodify (\<lambda>s. s\<lparr>as_action_counter := as_action_counter s + 1\<rparr>))
     (sbind (pgactive_performing_work env) (\<lambda>started_tx.
      sseq (on_relcache (pgactive_table_open (ae_relcache env) relid)) (perform_change env relid started_tx change)))"

text \<open>The change that a decoded WAL record stands for on a node whose table has the columns \<open>las\<close>.\<close>

fun change_of :: "pg_attribute list \<Rightarrow> pg_attribute list \<Rightarrow> ReorderBufferChange \<Rightarrow> decoded_change option" where
  "change_of ras las \<lparr>chg_action = REORDER_BUFFER_CHANGE_INSERT, chg_oldtuple = old, chg_newtuple = Some new\<rparr> =
     Some (DInsert (received ras las new))"
| "change_of ras las \<lparr>chg_action = REORDER_BUFFER_CHANGE_UPDATE, chg_oldtuple = old, chg_newtuple = Some new\<rparr> =
     Some (DUpdate (map_option (received ras las) old) (received ras las new))"
| "change_of ras las \<lparr>chg_action = REORDER_BUFFER_CHANGE_DELETE, chg_oldtuple = Some old, chg_newtuple = new\<rparr> =
     Some (DDelete (received ras las old))"
| "change_of ras las \<lparr>chg_action = REORDER_BUFFER_CHANGE_DELETE, chg_oldtuple = None, chg_newtuple = new\<rparr> = Some DDeleteNoKey"
| "change_of ras las change = None"

text \<open>Every row of the change fits the columns on the other side.\<close>

definition rows_fit :: "datum_api \<Rightarrow> pgactiveOutputData \<Rightarrow> pg_attribute list \<Rightarrow> pg_attribute list \<Rightarrow> ReorderBufferChange \<Rightarrow> bool" where
  "rows_fit api data ras las change \<longleftrightarrow>
     (\<forall>t. chg_oldtuple change = Some t \<or> chg_newtuple change = Some t \<longrightarrow> fits api data ras las t)"

definition name_ok :: "string \<Rightarrow> bool" where
  "name_ok n \<longleftrightarrow> CHR 0x00 \<notin> set n \<and> length n < 65535"

lemma action_codes [simp]:
  "(of_char CHR ''B'' :: u8) = 66" "(of_char CHR ''C'' :: u8) = 67" "(of_char CHR ''I'' :: u8) = 73" "(of_char CHR ''U'' :: u8) = 85"
  "(of_char CHR ''D'' :: u8) = 68" "(of_char CHR ''M'' :: u8) = 77" "(of_char CHR ''N'' :: u8) = 78" "(of_char CHR ''K'' :: u8) = 75"
  "(of_char CHR ''E'' :: u8) = 69"
  by simp_all

context pq_format
begin

definition rel_bytes :: "string \<Rightarrow> string \<Rightarrow> bytes" where
  "rel_bytes nsp name = int_bytes (of_nat (length nsp + 1)) 2 @ cstr nsp @ int_bytes (of_nat (length name + 1)) 2 @ cstr name"

lemma write_rel_bytes: "ns (relnamespace rel) = Some nsp \<Longrightarrow> write_rel pq ns out rel = Inr (out @ rel_bytes nsp (relname rel))"
  by (simp add: write_rel_def rel_bytes_def send_simps Let_def)

lemma read_rel_bytes:
  assumes "name_ok nsp" "name_ok name"
  shows "read_rel_names pq (rel_bytes nsp name @ rest) = Inr ((nsp, name), rest)"
proof -
  have k: "unat (of_nat k :: u32) < 65536" if "k < 65536" for k using that by (simp add: unat_of_nat)
  have u: "unat (of_nat (length n + 1) :: u32) < 65536" "length (cstr n) < 2 ^ 31" if "name_ok n" for n
    using that k [of "length n + 1"] by (simp_all add: name_ok_def)
  have g: "pq_getmsgbytes pq (cstr n @ r) (sint (of_nat (length n + 1) :: u32)) = Inr (cstr n, r)" if "name_ok n" for n r
    using getmsgbytes_len [OF u(2) [OF that], of r] by simp
  have c: "cstring_at (cstr nsp @ r) = nsp" "cstring_at (cstr name @ r) = name" for r
    using assms by (simp_all add: name_ok_def cstring_at_cstr)
  show ?thesis
    using u(1) [OF assms(1)] u(1) [OF assms(2)] g [OF assms(1)] g [OF assms(2)]
    by (simp add: read_rel_names_def rel_bytes_def get_simps c Let_def)
qed

end

lemma performing_work_relcache:
  "pgactive_performing_work env s = (r, s') \<Longrightarrow> as_relcache s' = as_relcache s"
  by (auto simp: pgactive_performing_work_def sbind_def sseq_def on_db_def smodify_def sget_def sret_def split: if_splits prod.splits sum.splits)

lemma open_remote_rel_read:
  assumes "read_rel_names (ae_pq env) m = Inr ((nsp, name), rest)" "ae_relid env nsp name = Inr relid"
    "\<And>r c. pgactive_table_open (ae_relcache env) relid (as_relcache s) = (Inr r, c) \<Longrightarrow> rel_reloid r = relid"
  shows "open_remote_rel env m s = sseq (on_relcache (pgactive_table_open (ae_relcache env) relid)) (sret (relid, rest)) s"
  using assms by (auto simp: open_remote_rel_def on_relcache_def read_rel_def sbind_def sseq_def slift_def sret_def split: prod.splits sum.splits)

lemma perform_after_open:
  assumes "read_rel_names (ae_pq env) m = Inr ((nsp, name), rest)" "ae_relid env nsp name = Inr relid"
    "\<And>r c. pgactive_table_open (ae_relcache env) relid (as_relcache s) = (Inr r, c) \<Longrightarrow> rel_reloid r = relid"
    "\<And>started s'. f started (relid, rest) s' = perform_change env relid started change s'"
  shows "sseq (smodify (\<lambda>s. s\<lparr>as_action_counter := as_action_counter s + 1\<rparr>))
      (sbind (pgactive_performing_work env) (\<lambda>started. sbind (open_remote_rel env m) (f started))) s = replay_change env relid change s"
proof -
  let ?s = "s\<lparr>as_action_counter := as_action_counter s + 1\<rparr>"
  obtain r s1 where p: "pgactive_performing_work env ?s = (r, s1)" by force
  have c: "as_relcache s1 = as_relcache s" using performing_work_relcache [OF p] by simp
  have o1: "open_remote_rel env m s1 = sseq (on_relcache (pgactive_table_open (ae_relcache env) relid)) (sret (relid, rest)) s1"
    by (rule open_remote_rel_read [OF assms(1,2)]) (use assms(3) c in simp)
  obtain q s2 where q: "on_relcache (pgactive_table_open (ae_relcache env) relid) s1 = (q, s2)" by force
  show ?thesis
    using p o1 q assms(4)
    by (cases r; cases q) (simp_all add: replay_change_def sseq_def sbind_def smodify_def sret_def)
qed


text \<open>The receiver finds the table of the given name, and its cache has an entry for it.\<close>

definition relation_known :: "'db apply_env \<Rightarrow> relcache \<Rightarrow> string \<Rightarrow> string \<Rightarrow> u32 \<Rightarrow> bool" where
  "relation_known env cache nsp name relid \<longleftrightarrow> name_ok nsp \<and> name_ok name \<and> ae_relid env nsp name = Inr relid \<and>
     (\<forall>r c. pgactive_table_open (ae_relcache env) relid cache = (Inr r, c) \<longrightarrow> rel_reloid r = relid)"

context pq_format
begin

lemma tuple_bytes:
  assumes "fits api data (rd_att rel) las t"
  obtains bs where "\<And>out. write_tuple pq api data out rel t = Inr (out @ bs)"
    "\<And>discard rest. read_tuple_parts pq api discard las (bs @ rest) = Inr (received (rd_att rel) las t, rest)"
  using tuple_carried [OF assms] by blast

lemma insert_replayed:
  fixes env :: "'db apply_env"
  assumes pq: "ae_pq env = pq" and rel: "relation_known env (as_relcache s) nsp (relname rel) relid" "ns (relnamespace rel) = Some nsp"
    and fits: "fits (ae_api env) data (rd_att rel) (rd_att (ae_relation env relid)) t"
  shows "\<exists>out. encode_change pq (ae_api env) ns data rel \<lparr>chg_action = REORDER_BUFFER_CHANGE_INSERT, chg_oldtuple = old, chg_newtuple = Some t\<rparr> = Inr out \<and>
    pgactive_process_remote_action env out s =
      sseq (replay_change env relid (DInsert (received (rd_att rel) (rd_att (ae_relation env relid)) t))) (sret (Continue ())) s"
proof -
  from tuple_bytes [OF fits] obtain bs where w: "\<And>out. write_tuple pq (ae_api env) data out rel t = Inr (out @ bs)"
    and r: "\<And>discard rest. read_tuple_parts pq (ae_api env) discard (rd_att (ae_relation env relid)) (bs @ rest) =
      Inr (received (rd_att rel) (rd_att (ae_relation env relid)) t, rest)" by metis
  let ?m = "rel_bytes nsp (relname rel) @ byte_bytes 78 @ bs" and ?t = "received (rd_att rel) (rd_att (ae_relation env relid)) t"
  have names: "read_rel_names (ae_pq env) ?m = Inr ((nsp, relname rel), byte_bytes 78 @ bs)"
    using rel by (simp add: pq relation_known_def read_rel_bytes)
  have "process_remote_insert env ?m s = replay_change env relid (DInsert ?t) s"
    unfolding process_remote_insert_def
    by (rule perform_after_open [OF names])
       (use rel r [where rest = "[]"] in \<open>auto simp: relation_known_def pq get_simps read_tuple_def perform_change_def\<close>)
  then show ?thesis
    using rel(2) w
    by (intro exI [of _ "byte_bytes 73 @ ?m"])
       (simp add: encode_change_def write_new_def send_simps write_rel_bytes pgactive_process_remote_action_def pq get_simps sseq_def sbind_def)
qed

lemma optional_tuple_bytes:
  assumes "\<forall>k. old = Some k \<longrightarrow> fits api data (rd_att rel) las k"
  shows "\<exists>ks. (\<forall>k out. old = Some k \<longrightarrow> write_tuple pq api data out rel k = Inr (out @ ks)) \<and>
    (\<forall>k discard rest. old = Some k \<longrightarrow> read_tuple_parts pq api discard las (ks @ rest) = Inr (received (rd_att rel) las k, rest))"
proof (cases old)
  case (Some k)
  with assms have "fits api data (rd_att rel) las k" by simp
  from tuple_bytes [OF this] Some show ?thesis by (metis option.inject)
qed simp

lemma update_replayed:
  fixes env :: "'db apply_env"
  assumes pq: "ae_pq env = pq" and rel: "relation_known env (as_relcache s) nsp (relname rel) relid" "ns (relnamespace rel) = Some nsp"
    and fits: "fits (ae_api env) data (rd_att rel) (rd_att (ae_relation env relid)) t"
      "\<forall>k. old = Some k \<longrightarrow> fits (ae_api env) data (rd_att rel) (rd_att (ae_relation env relid)) k"
  shows "\<exists>out. encode_change pq (ae_api env) ns data rel \<lparr>chg_action = REORDER_BUFFER_CHANGE_UPDATE, chg_oldtuple = old, chg_newtuple = Some t\<rparr> = Inr out \<and>
    pgactive_process_remote_action env out s =
      sseq (replay_change env relid (DUpdate (map_option (received (rd_att rel) (rd_att (ae_relation env relid))) old)
        (received (rd_att rel) (rd_att (ae_relation env relid)) t))) (sret (Continue ())) s"
proof -
  let ?rcv = "received (rd_att rel) (rd_att (ae_relation env relid))" and ?kind = "byte_bytes 78"
  from tuple_bytes [OF fits(1)] obtain bs where w: "\<And>out. write_tuple pq (ae_api env) data out rel t = Inr (out @ bs)"
    and r: "\<And>discard rest. read_tuple_parts pq (ae_api env) discard (rd_att (ae_relation env relid)) (bs @ rest) = Inr (?rcv t, rest)" by metis
  from optional_tuple_bytes [OF fits(2)]
  obtain ks where k: "\<And>k out. old = Some k \<Longrightarrow> write_tuple pq (ae_api env) data out rel k = Inr (out @ ks)"
    and kr: "\<And>k discard rest. old = Some k \<Longrightarrow> read_tuple_parts pq (ae_api env) discard (rd_att (ae_relation env relid)) (ks @ rest) = Inr (?rcv k, rest)"
    by metis
  let ?body = "(case old of None \<Rightarrow> [] | Some k \<Rightarrow> byte_bytes 75 @ ks) @ byte_bytes 78 @ bs"
  let ?m = "rel_bytes nsp (relname rel) @ ?body"
  have names: "read_rel_names (ae_pq env) ?m = Inr ((nsp, relname rel), ?body)"
    using rel by (simp add: pq relation_known_def read_rel_bytes)
  have "process_remote_update env ?m s = replay_change env relid (DUpdate (map_option ?rcv old) (?rcv t)) s"
    unfolding process_remote_update_def sseq_def [of "pgactive_performing_work env"]
    by (rule perform_after_open [OF names])
       (use rel r [where rest = "[]"] kr in \<open>auto simp: relation_known_def pq get_simps read_tuple_def perform_change_def split: option.splits\<close>)
  then show ?thesis
    using rel(2) w k
    by (intro exI [of _ "byte_bytes 85 @ ?m"])
       (simp add: encode_change_def write_new_def send_simps write_rel_bytes pgactive_process_remote_action_def pq get_simps sseq_def sbind_def
        split: option.splits)
qed

lemma delete_replayed:
  fixes env :: "'db apply_env"
  assumes pq: "ae_pq env = pq" and rel: "relation_known env (as_relcache s) nsp (relname rel) relid" "ns (relnamespace rel) = Some nsp"
    and fits: "\<forall>k. old = Some k \<longrightarrow> fits (ae_api env) data (rd_att rel) (rd_att (ae_relation env relid)) k"
  shows "\<exists>out. encode_change pq (ae_api env) ns data rel \<lparr>chg_action = REORDER_BUFFER_CHANGE_DELETE, chg_oldtuple = old, chg_newtuple = new\<rparr> = Inr out \<and>
    pgactive_process_remote_action env out s =
      sseq (replay_change env relid (case old of None \<Rightarrow> DDeleteNoKey
        | Some k \<Rightarrow> DDelete (received (rd_att rel) (rd_att (ae_relation env relid)) k))) (sret (Continue ())) s"
proof -
  let ?rcv = "received (rd_att rel) (rd_att (ae_relation env relid))"
  from optional_tuple_bytes [OF fits]
  obtain ks where k: "\<And>k out. old = Some k \<Longrightarrow> write_tuple pq (ae_api env) data out rel k = Inr (out @ ks)"
    and kr: "\<And>k discard rest. old = Some k \<Longrightarrow> read_tuple_parts pq (ae_api env) discard (rd_att (ae_relation env relid)) (ks @ rest) = Inr (?rcv k, rest)"
    by metis
  let ?body = "case old of None \<Rightarrow> byte_bytes 69 | Some k \<Rightarrow> byte_bytes 75 @ ks"
  let ?m = "rel_bytes nsp (relname rel) @ ?body"
  have e: "pq_getmsgbyte pq (byte_bytes b) = Inr (b, [])" for b using get_simps(1) [of b "[]"] by simp
  have names: "read_rel_names (ae_pq env) ?m = Inr ((nsp, relname rel), ?body)"
    using rel by (simp add: pq relation_known_def read_rel_bytes)
  have "process_remote_delete env ?m s = replay_change env relid (case old of None \<Rightarrow> DDeleteNoKey | Some k \<Rightarrow> DDelete (?rcv k)) s"
    unfolding process_remote_delete_def sseq_def [of "pgactive_performing_work env"]
    by (rule perform_after_open [OF names])
       (use rel kr [where rest = "[]"] in \<open>auto simp: relation_known_def pq get_simps e read_tuple_def perform_change_def split: option.splits\<close>)
  then show ?thesis
    using rel(2) k
    by (intro exI [of _ "byte_bytes 68 @ ?m"])
       (simp add: encode_change_def send_simps write_rel_bytes pgactive_process_remote_action_def pq get_simps sseq_def sbind_def
        split: option.splits)
qed

end

text \<open>
  What the output plugin of one node writes for a change is what the apply process of the other
  one performs: the message of an insert, update or delete makes it replay exactly that change on
  the table of the same name, with the received rows, whatever the two tables' differences in
  trailing columns that the format tolerates.
\<close>

lemma change_replayed:
  fixes env :: "'db apply_env"
  assumes "pq_format (ae_pq env)" "relation_known env (as_relcache s) nsp (relname rel) relid" "ns (relnamespace rel) = Some nsp"
    "rows_fit (ae_api env) data (rd_att rel) (rd_att (ae_relation env relid)) change"
    "change_of (rd_att rel) (rd_att (ae_relation env relid)) change = Some dec"
  shows "\<exists>out. encode_change (ae_pq env) (ae_api env) ns data rel change = Inr out \<and>
    pgactive_process_remote_action env out s = sseq (replay_change env relid dec) (sret (Continue ())) s"
proof -
  obtain act old new where c: "change = \<lparr>chg_action = act, chg_oldtuple = old, chg_newtuple = new\<rparr>" by (cases change) simp
  note i = pq_format.insert_replayed [where env = env and ns = ns, OF assms(1) refl assms(2,3)]
    and u = pq_format.update_replayed [where env = env and ns = ns, OF assms(1) refl assms(2,3)]
    and d = pq_format.delete_replayed [where env = env and ns = ns, OF assms(1) refl assms(2,3)]
  show ?thesis
    using assms(4,5) i [where old = old] u [where old = old] d [where old = old and new = new]
    unfolding c rows_fit_def
    by (cases act; cases old; cases new) fastforce+
qed

text \<open>A node (1, 0, 5) with the table \<open>public.t\<close>, which has one column more than on its peer; the storage is trivial.\<close>

definition example_apply :: "unit apply_env" where
  "example_apply = \<lparr>ae_pq = pq_network, ae_api = example_api, ae_lock = example_lock_env, ae_session_origin = 3,
     ae_relid = (\<lambda>nsp name. if nsp = ''public'' \<and> name = ''t'' then Inr 20001 else Inl (Error ''relation does not exist'')),
     ae_relcache = ce_relcache example_change_env, ae_relation = (\<lambda>_. example_relation\<lparr>rd_att := example_local\<rparr>),
     ae_relkind = (\<lambda>_. CHR ''r''), ae_indexes = (\<lambda>_. []), ae_replica_index = (\<lambda>_. 0), ae_pkey_index = (\<lambda>_. 20002),
     ae_index = (\<lambda>i. \<lparr>ix_oid = i, ix_unique = True, ix_expressions = False, ix_key = [1], ix_opclass = [1978], ix_collation = [0]\<rparr>),
     ae_eq_proc = (\<lambda>_. Some 65), ae_scan = (\<lambda>_ _ _. [\<lparr>sa_tuple = None, sa_xmin = 0, sa_xmax = 0, sa_lock = TM_Ok\<rparr>]), ae_commit_ts = (\<lambda>_ _. (0, 0)),
     ae_insert = (\<lambda>_ _. sret ()), ae_update = (\<lambda>_ _ _. sret (True, False)), ae_insert_indexes = (\<lambda>_ _. sret []),
     ae_delete = (\<lambda>_ _. sret ()), ae_start = sret (), ae_commit = (\<lambda>_ _ _. sret 500), ae_last_commit_end = (\<lambda>_. 500),
     ae_advance = (\<lambda>_ _ _. sret ()), ae_top_xid = (\<lambda>_. 700), ae_handlers = example_handler_env, ae_log = example_log_env True,
     ae_print = \<lparr>pe_attname = (\<lambda>_. ''c''), pe_typname = (\<lambda>_. Some ''int4''), pe_output = (\<lambda>_. (7, False)), pe_detoast = Inr, pe_node = (\<lambda>_. ''peer'')\<rparr>,
     ae_history_insert = (\<lambda>_. sret ()), ae_spi = \<lparr>schema_present = True, spi_ok = True\<rparr>, ae_nodes_relid = Inr 99,
     ae_nodes = [example_row 1 5 CHR ''r'', example_row 2 6 CHR ''r''], ae_now = 2000, ae_debug_apply_delay = 0, ae_clock = [],
     ae_schema_oid = 100, ae_nodes_oid = 99, ae_connections_oid = 98, ae_queued_ddl_oid = 97, ae_queued_drops_oid = 96,
     ae_skip_ddl_replication = False, ae_discard_mismatched = False, ae_text = (\<lambda>_. []), ae_parse = (\<lambda>s. Inr [s]),
     ae_run = (\<lambda>_ _ _ _. sret ()), ae_drop_objects = (\<lambda>_. []), ae_objtype = (\<lambda>_. None), ae_type_names = (\<lambda>s. Inr [s]),
     ae_pg_strcasecmp = strcmp, ae_object_address = (\<lambda>_ _. sret \<lparr>classId = 0, objectId = 0\<rparr>), ae_delete_objects = (\<lambda>_. sret ()),
     ae_session_advance = (\<lambda>_. sret ()), ae_in_xact = (\<lambda>_. False),
     ae_flush_lsn = (\<lambda>_. 400), ae_quote = id, ae_order_by = id, ae_conns = []\<rparr>"

definition example_apply_state :: "unit apply_state" where
  "example_apply_state = \<lparr>as_started_transaction = False, as_origin_xid = 0, as_remote_origin = zero_nodeid, as_remote_origin_lsn = 0,
     as_remote_origin_id = 0, as_action_counter = 0, as_session_lsn = 0, as_session_ts = 0, as_lsn_association = [],
     as_worker = \<lparr>apply_dboid = 5, apply_perdb = None, apply_remote_node = \<lparr>sysid = 2, timeline = 0, dboid = 6\<rparr>, replay_stop_lsn = 0,
       forward_changesets = False, apply_proclatch = None, last_applied_xact_id = 0, last_applied_xact_committs = 0, last_applied_xact_at = 0\<rparr>,
     as_relcache = None, as_nodecache = fresh_nodecache, as_counts = \<lparr>cc_slots = [], cc_offset = None\<rparr>,
     as_locks = pl example_perdb_state, as_hook = \<lparr>xacthook_registered = False, xacthook_connections_changed = False\<rparr>,
     as_serverlog = [],
     as_config = Some \<lparr>cfg_remote_node = \<lparr>sysid = 2, timeline = 0, dboid = 6\<rparr>, cfg_origin_is_my_id = False, cfg_dsn = ''d'', cfg_node_name = Some ''n'',
       cfg_apply_delay = - 1, cfg_replication_sets = Some ''default''\<rparr>,
     as_feedback = \<lparr>last_recvpos = 0, last_writepos = 0, last_flushpos = 0\<rparr>, as_sent = [], as_db = ()\<rparr>"

lemma example_apply_fields [simp]:
  "ae_pq example_apply = pq_network" "ae_api example_apply = example_api" "rd_att (ae_relation example_apply r) = example_local"
  "ae_relid example_apply ''public'' ''t'' = Inr 20001" "ae_relcache example_apply = ce_relcache example_change_env"
  by (simp_all add: example_apply_def)

lemma example_known: "relation_known example_apply (as_relcache example_apply_state) ''public'' (relname example_relation) 20001"
  by (auto simp: relation_known_def name_ok_def example_apply_state_def example_relation_def example_change_env_def pgactive_table_open_def
      pgactive_parse_relation_options_def pgactive_relcache_initialize_def reset_entry_def Let_def split: sum.splits prod.splits)

end
