(* ===== verification/Apply_Transaction.thy ===== *)
theory Apply_Transaction
  imports Apply_Stream
begin

text \<open>
  Whole transactions: the frame of begin and commit messages, the cache of relations between the
  changes, and the replay of a transaction of a peer from the messages of its change stream.
\<close>

section \<open>Operations that keep a property of the state\<close>

named_theorems keeps_intros

definition keeps :: "('s \<Rightarrow> bool) \<Rightarrow> ('s, 'a) op \<Rightarrow> bool" where
  "keeps P f \<longleftrightarrow> (\<forall>s. P s \<longrightarrow> P (snd (f s)))"

lemma keepsD: "keeps P f \<Longrightarrow> P s \<Longrightarrow> f s = (r, s') \<Longrightarrow> P s'"
  by (metis keeps_def snd_conv)

lemma keeps_basic [keeps_intros]: "keeps P (sret x)" "keeps P (sfail e)" "keeps P (slift r)" "keeps P (sget f)"
  by (simp_all add: keeps_def)

lemma keeps_smodify [keeps_intros]: "(\<And>s. P s \<Longrightarrow> P (f s)) \<Longrightarrow> keeps P (smodify f)"
  by (simp add: keeps_def)

lemma keeps_sbind [keeps_intros]: "keeps P f \<Longrightarrow> (\<And>x. keeps P (g x)) \<Longrightarrow> keeps P (sbind f g)"
  unfolding keeps_def sbind_def by (metis (mono_tags, lifting) case_prod_conv obj_sumE old.sum.simps(5,6) prod.collapse snd_conv)

lemma keeps_sseq [keeps_intros]: "keeps P f \<Longrightarrow> keeps P g \<Longrightarrow> keeps P (sseq f g)"
  unfolding sseq_def by (rule keeps_sbind)

lemma keeps_branch [keeps_intros]:
  "(b \<Longrightarrow> keeps P f) \<Longrightarrow> (\<not> b \<Longrightarrow> keeps P g) \<Longrightarrow> keeps P (if b then f else g)"
  "(x = None \<Longrightarrow> keeps P f1) \<Longrightarrow> (\<And>y. x = Some y \<Longrightarrow> keeps P (f2 y)) \<Longrightarrow> keeps P (case x of None \<Rightarrow> f1 | Some y \<Rightarrow> f2 y)"
  "(\<And>x y. keeps P (h x y)) \<Longrightarrow> keeps P (case p of (x, y) \<Rightarrow> h x y)"
  "keeps P (k v) \<Longrightarrow> keeps P (let z = v in k z)"
  by (simp_all split: option.split prod.split)

section \<open>The cache of relations\<close>

text \<open>Every entry is stored under its own identifier.\<close>

definition own_keys :: "relcache \<Rightarrow> bool" where
  "own_keys cache \<longleftrightarrow> (\<forall>h oid e. cache = Some h \<longrightarrow> h oid = Some e \<longrightarrow> rel_reloid e = oid)"

abbreviation entry_for :: "u32 \<Rightarrow> pgactiveRelation option \<Rightarrow> bool" where
  "entry_for oid r \<equiv> \<exists>e. r = Some e \<and> rel_reloid e = oid"

lemma keeps_set_element: "keeps (\<lambda>p. entry_for oid (lp_rel p)) (parse_set_element v)"
  by (auto simp: keeps_def parse_set_element_def store_set_def split: jb_scalar.splits sum.splits)

lemma keeps_label_token: "keeps (\<lambda>p. entry_for oid (lp_rel p)) (parse_label_token tok)"
  using keeps_set_element
  by (auto simp: keeps_def parse_label_token_def alloc_sets_def split: jb_token.split)

lemma keeps_label_tokens: "keeps (\<lambda>p. entry_for oid (lp_rel p)) (parse_label_tokens ts)"
proof (induction ts)
  case (Cons t ts)
  have "parse_label_tokens (t # ts) = sseq (parse_label_token t) (parse_label_tokens ts)"
    by (rule ext) (simp add: sseq_def sbind_def)
  with Cons show ?case by (simp only: keeps_sseq keeps_label_token)
qed (simp add: keeps_def)

lemma parse_relation_options_entry:
  assumes "pgactive_parse_relation_options jsonb qsort label (Some e) = (r, e')"
  shows "entry_for (rel_reloid e) e'"
proof -
  have "entry_for (rel_reloid e) (lp_rel p)"
    if "parse_label_tokens toks \<lparr>parsing_sets = False, lp_level = 0, lp_rel = Some e\<rparr> = (x, p)" for toks x p
    using keepsD [OF keeps_label_tokens _ that, of "rel_reloid e"] by simp
  moreover have "rel_reloid r' = rel_reloid r" if "sort_sets qsort r = Inr r'" for r r'
    using that by (auto simp: sort_sets_def Let_def split: if_splits)
  ultimately show ?thesis
    using assms
    by (auto simp: pgactive_parse_relation_options_def split: option.splits sum.splits prod.splits if_splits) (metis option.inject option.distinct(1))+
qed

lemma table_open_own:
  assumes "own_keys cache" "pgactive_table_open env oid cache = (r, cache')"
  shows "own_keys cache'" "r = Inr e \<Longrightarrow> rel_reloid e = oid"
proof -
  let ?h = "case cache of None \<Rightarrow> the pgactive_relcache_initialize | Some h \<Rightarrow> h"
  have h: "rel_reloid e = o1" if "?h o1 = Some e" for o1 e
    using that assms(1) by (auto simp: own_keys_def pgactive_relcache_initialize_def split: option.splits)
  have p: "entry_for oid e'" if "pgactive_parse_relation_options (rc_jsonb_in env) (rc_qsort env) (rc_seclabel env oid) (Some (reset_entry oid flag)) = (x, e')"
    for flag x e'
    using parse_relation_options_entry [OF that] by (simp add: reset_entry_def)
  show "own_keys cache'" "r = Inr e \<Longrightarrow> rel_reloid e = oid"
    using assms(2) h p assms(1)
    by (auto simp: pgactive_table_open_def own_keys_def Let_def split: if_splits sum.splits prod.splits dest!: p)
qed

section \<open>Replaying keeps the cache\<close>

abbreviation keeps_cache :: "('db, 'a) apply_op \<Rightarrow> bool" where
  "keeps_cache \<equiv> keeps (\<lambda>s. own_keys (as_relcache s))"

lemma keeps_components [keeps_intros]:
  "keeps_cache (on_db f1)" "keeps_cache (on_counts f2)" "keeps_cache (on_as_nodecache f3)" "keeps_cache (on_as_locks f4)"
  by (simp_all add: keeps_def on_db_def on_counts_def on_as_nodecache_def on_as_locks_def split: prod.split)

lemma keeps_table_open [keeps_intros]: "keeps_cache (on_relcache (pgactive_table_open env relid))"
  by (auto simp: keeps_def on_relcache_def table_open_own(1) split: prod.split)

lemma handlers_resolve_reloid:
  assumes "pgactive_conflict_handlers_resolve env rel local remote tag event timeframe (r, d) = (res, (r', d'))"
  shows "rel_reloid r' = rel_reloid r"
  using assms
  by (auto simp: pgactive_conflict_handlers_resolve_def pgactive_get_conflict_handlers_def Let_def split: sum.splits prod.splits if_splits)

lemma keeps_resolve_conflict [keeps_intros]: "keeps_cache (resolve_conflict env relid local remote tag event timeframe)"
  by (auto simp: keeps_def resolve_conflict_def own_keys_def handlers_resolve_reloid split: option.split prod.split)

lemma keeps_last_update_wins [keeps_intros]: "keeps_cache (pgactive_conflict_last_update_wins env local_ts remote_ts)"
  unfolding pgactive_conflict_last_update_wins_def by (intro keeps_intros)

lemma keeps_apply_over_local [keeps_intros]: "keeps_cache (apply_over_local env ctype relid t remote count count_conflict)"
  unfolding apply_over_local_def check_apply_update_def report_conflict_def log_conflict_def update_row_def
  by (intro keeps_intros) simp_all

lemma keeps_perform_change [keeps_intros]: "keeps_cache (perform_change env relid started_tx change)"
  unfolding perform_change_def apply_insert_def apply_update_def apply_delete_def insert_row_def find_by_key_def
    update_missing_def delete_missing_def report_conflict_def log_conflict_def replay_queued_def check_pgactive_wakeups_def
  by (cases change; simp only: decoded_change.case; intro keeps_intros) simp_all

lemma keeps_replay_change: "keeps_cache (replay_change env relid change)"
  unfolding replay_change_def pgactive_performing_work_def by (intro keeps_intros) simp_all

lemma keeps_begin_remote: "keeps_cache (begin_remote env b)"
  unfolding begin_remote_def by (intro keeps_intros) simp_all

section \<open>Transactions\<close>

text \<open>
  The header that the server puts before the output of the plugin: the position of the change, the
  end of what was sent, and the time.
\<close>

type_synonym wal_header = "u64 \<times> u64 \<times> u64"

definition wal_message :: "pq_api \<Rightarrow> wal_header \<Rightarrow> bytes \<Rightarrow> copy_result" where
  "wal_message pq h body = (case h of (start, endpos, sent) \<Rightarrow>
     CopyData (pq_sendint64 pq (pq_sendint64 pq (pq_sendint64 pq (pq_sendbyte pq [] (of_char CHR ''w'')) start) endpos) sent @ body))"

definition received_pos :: "u64 \<Rightarrow> wal_header \<Rightarrow> u64" where
  "received_pos recvd h = (case h of (start, endpos, sent) \<Rightarrow> max (max recvd start) endpos)"

text \<open>The changes that the plugin sends for a transaction, each with the table that it has on the receiver.\<close>

type_synonym sent_change = "relation \<times> u32 \<times> ReorderBufferChange"

fun encode_changes :: "pq_api \<Rightarrow> datum_api \<Rightarrow> (u32 \<Rightarrow> string option) \<Rightarrow> pgactiveOutputData \<Rightarrow> sent_change list \<Rightarrow> bytes list result" where
  "encode_changes pq api ns data [] = Inr []"
| "encode_changes pq api ns data ((rel, _, c) # cs) =
     bind_result (encode_change pq api ns data rel c) (\<lambda>out.
     bind_result (encode_changes pq api ns data cs) (\<lambda>outs. Inr (out # outs)))"

definition carried :: "'db apply_env \<Rightarrow> (u32 \<Rightarrow> string option) \<Rightarrow> pgactiveOutputData \<Rightarrow> sent_change \<Rightarrow> bool" where
  "carried env ns data sc = (case sc of (rel, relid, c) \<Rightarrow>
     (\<exists>nsp. ns (relnamespace rel) = Some nsp \<and> name_ok nsp \<and> name_ok (relname rel) \<and> ae_relid env nsp (relname rel) = Inr relid) \<and>
     rows_fit (ae_api env) data (rd_att rel) (rd_att (ae_relation env relid)) c \<and>
     change_of (rd_att rel) (rd_att (ae_relation env relid)) c \<noteq> None)"

fun replay_changes :: "'db apply_env \<Rightarrow> sent_change list \<Rightarrow> ('db, unit) apply_op" where
  "replay_changes env [] = sret ()"
| "replay_changes env ((rel, relid, c) # cs) =
     sseq (replay_change env relid (the (change_of (rd_att rel) (rd_att (ae_relation env relid)) c))) (replay_changes env cs)"

definition begin_of :: "pgactiveOutputData \<Rightarrow> ReorderBufferTXN \<Rightarrow> pgactiveNodeId \<Rightarrow> begin_message" where
  "begin_of data txn node = \<lparr>bm_flags = (if od_forward_changesets data then pgactive_OUTPUT_TRANSACTION_HAS_ORIGIN else 0),
     bm_end_lsn = txn_end_lsn txn, bm_committime = sint (txn_commit_time txn), bm_xid = txn_xid txn,
     bm_origin = (if od_forward_changesets data then Some (node, txn_origin_lsn txn) else None)\<rparr>"

definition commit_of :: "ReorderBufferTXN \<Rightarrow> u64 \<Rightarrow> commit_message" where
  "commit_of txn lsn = \<lparr>cm_flags = 0, cm_lsn = lsn, cm_end_lsn = txn_end_lsn txn, cm_committime = sint (txn_commit_time txn)\<rparr>"

definition replay_transaction ::
  "'db apply_env \<Rightarrow> begin_message \<Rightarrow> sent_change list \<Rightarrow> commit_message \<Rightarrow> ('db, unit running) apply_op" where
  "replay_transaction env b changes c =
     sseq (smodify (\<lambda>s. s\<lparr>as_action_counter := 1, as_started_transaction := False, as_remote_origin_id := InvalidRepOriginId\<rparr>))
     (sseq (begin_remote env b)
     (sseq (replay_changes env changes)
     (sseq (smodify (\<lambda>s. s\<lparr>as_action_counter := as_action_counter s + 1\<rparr>)) (commit_remote env c))))"

lemma sseq_assoc: "sseq (sseq f g) h = sseq f (sseq g h)"
  by (rule ext) (simp add: sseq_def sbind_def split: prod.split sum.split)

lemma sbind_sseq: "sbind (sseq f g) h = sseq f (sbind g h)"
  by (rule ext) (simp add: sseq_def sbind_def split: prod.split sum.split)

lemma sseq_sret [simp]: "sseq f (sret ()) = f"
  by (rule ext) (auto simp: sseq_def sbind_def sret_def split: prod.split sum.split)

lemma sseq_cong_state:
  assumes "P s" "keeps P f" "\<And>s'. P s' \<Longrightarrow> g s' = g' s'"
  shows "sseq f g s = sseq f g' s"
  using assms by (cases "f s") (auto simp: sseq_def sbind_def dest: keepsD split: sum.split)

context pq_format
begin

lemma wal_message_eq:
  "wal_message pq (start, endpos, sent) body = CopyData (byte_bytes 119 @ int64_bytes start @ int64_bytes endpos @ int64_bytes sent @ body)"
  by (simp add: wal_message_def send_simps)

lemma consume_message:
  fixes env :: "'db apply_env"
  assumes "ae_pq env = pq" "pgactive_process_remote_action env m s = sseq f (sret (Continue ())) s"
  shows "consume_copy env ok recvd (wal_message pq h m # rs) s = sseq f (consume_copy env ok (received_pos recvd h) rs) s"
  using assms(2)
  by (cases h; cases "f s") (auto simp: wal_message_eq handle_copy_data_def assms(1) get_simps received_pos_def sseq_def sbind_def split: sum.splits)

lemma consume_last:
  fixes env :: "'db apply_env"
  assumes "ae_pq env = pq"
  shows "consume_copy env ok recvd [wal_message pq h m] s =
    sbind (pgactive_process_remote_action env m) (\<lambda>r. sret (case r of ProcExit c \<Rightarrow> ProcExit c | Continue _ \<Rightarrow> Continue (received_pos recvd h))) s"
  by (cases h; cases "pgactive_process_remote_action env m s")
     (auto simp: wal_message_eq handle_copy_data_def assms get_simps received_pos_def sbind_def split: sum.splits running.splits)

lemma begin_bytes:
  assumes "pg_decode_begin_txn pq origins nid mydb data txn = Inr (Some bm)"
    "od_forward_changesets data \<Longrightarrow> pgactive_fetch_sysid_via_node_id origins nid mydb (txn_origin_id txn) zero_nodeid = Inr node"
  shows "\<exists>m. bm = byte_bytes 66 @ m \<and> read_begin pq m = Inr (begin_of data txn node, [])"
proof -
  have e: "pq_getmsgint pq (int_bytes x 4) 4 = Inr (x, [])" "pq_getmsgint64 pq (int64_bytes y) = Inr (y, [])" for x y
    using get_simps(2) [of x "[]"] get_simps(4) [of y "[]"] by simp_all
  show ?thesis
    using assms
    by (auto simp: pg_decode_begin_txn_def send_simps send_nodeid_eq read_begin_def begin_of_def has_origin_def get_simps e getmsg_nodeid
        pgactive_OUTPUT_TRANSACTION_HAS_ORIGIN_def Let_def split: if_splits)
qed

lemma commit_bytes:
  assumes "pg_decode_commit_txn pq now data txn lsn w = (Inr (Some cm), w')"
  shows "\<exists>m. cm = byte_bytes 67 @ m \<and> read_commit pq m = Inr (commit_of txn lsn)"
proof -
  have e: "pq_getmsgint64 pq (int64_bytes y) = Inr (y, [])" for y using get_simps(4) [of y "[]"] by simp
  show ?thesis
    using assms by (auto simp: pg_decode_commit_txn_def send_simps read_commit_def commit_of_def get_simps e Let_def split: if_splits option.splits)
qed

end

lemma change_replayed_own:
  fixes env :: "'db apply_env"
  assumes "pq_format (ae_pq env)" "carried env ns data (rel, relid, c)"
  shows "\<exists>out. encode_change (ae_pq env) (ae_api env) ns data rel c = Inr out \<and>
    (\<forall>s. own_keys (as_relcache s) \<longrightarrow> pgactive_process_remote_action env out s =
       sseq (replay_change env relid (the (change_of (rd_att rel) (rd_att (ae_relation env relid)) c))) (sret (Continue ())) s)"
proof -
  let ?las = "rd_att (ae_relation env relid)"
  from assms(2) obtain nsp dec where n: "ns (relnamespace rel) = Some nsp" "name_ok nsp" "name_ok (relname rel)" "ae_relid env nsp (relname rel) = Inr relid"
    and f: "rows_fit (ae_api env) data (rd_att rel) ?las c" and d: "change_of (rd_att rel) ?las c = Some dec"
    by (auto simp: carried_def)
  have k: "relation_known env (as_relcache s) nsp (relname rel) relid" if "own_keys (as_relcache s)" for s :: "'db apply_state"
    using n table_open_own(2) [OF that] by (auto simp: relation_known_def)
  obtain s0 :: "'db apply_state" where "own_keys (as_relcache s0)"
    using that [of "undefined\<lparr>as_relcache := None\<rparr>"] by (simp add: own_keys_def)
  from change_replayed [where ns = ns, OF assms(1) k [OF this] n(1) f d] obtain out where o: "encode_change (ae_pq env) (ae_api env) ns data rel c = Inr out"
    by (elim exE conjE)
  have "pgactive_process_remote_action env out s = sseq (replay_change env relid dec) (sret (Continue ())) s"
    if "own_keys (as_relcache s)" for s :: "'db apply_state"
    using change_replayed [where ns = ns, OF assms(1) k [OF that] n(1) f d] by (elim exE conjE) (simp only: o sum.inject)
  then show ?thesis by (intro exI [of _ out] conjI o) (simp only: d option.sel, intro allI impI)
qed

lemma changes_replayed:
  fixes env :: "'db apply_env"
  assumes "pq_format (ae_pq env)" "list_all (carried env ns data) changes"
  shows "\<exists>outs. encode_changes (ae_pq env) (ae_api env) ns data changes = Inr outs \<and> length outs = length changes \<and>
    (\<forall>recvd hs rest s. length hs = length changes \<longrightarrow> own_keys (as_relcache s) \<longrightarrow>
       consume_copy env ok recvd (map2 (wal_message (ae_pq env)) hs outs @ rest) s =
       sseq (replay_changes env changes) (consume_copy env ok (foldl received_pos recvd hs) rest) s)"
  using assms(2)
proof (induction changes)
  case (Cons sc changes)
  obtain rel relid c where sc: "sc = (rel, relid, c)" by (cases sc)
  from Cons.prems have "carried env ns data (rel, relid, c)" by (simp only: sc list.pred_inject)
  from change_replayed_own [OF assms(1) this] obtain out where out: "encode_change (ae_pq env) (ae_api env) ns data rel c = Inr out"
    "\<And>s. own_keys (as_relcache s) \<Longrightarrow> pgactive_process_remote_action env out s =
       sseq (replay_change env relid (the (change_of (rd_att rel) (rd_att (ae_relation env relid)) c))) (sret (Continue ())) s"
    by (elim exE conjE) simp
  from Cons obtain outs where outs: "encode_changes (ae_pq env) (ae_api env) ns data changes = Inr outs" "length outs = length changes"
    "\<And>recvd hs rest s. length hs = length changes \<Longrightarrow> own_keys (as_relcache s) \<Longrightarrow>
       consume_copy env ok recvd (map2 (wal_message (ae_pq env)) hs outs @ rest) s =
       sseq (replay_changes env changes) (consume_copy env ok (foldl received_pos recvd hs) rest) s" by auto
  have "consume_copy env ok recvd (map2 (wal_message (ae_pq env)) hs (out # outs) @ rest) s =
       sseq (replay_changes env (sc # changes)) (consume_copy env ok (foldl received_pos recvd hs) rest) s"
    if len: "length hs = length (sc # changes)" and own: "own_keys (as_relcache s)" for recvd hs rest s
  proof -
    from len obtain h hs' where hs: "hs = h # hs'" "length hs' = length changes" by (cases hs) auto
    show ?thesis
      unfolding hs(1) sc
      by (simp add: pq_format.consume_message [OF assms(1) refl out(2) [OF own]] sseq_assoc
          sseq_cong_state [OF own keeps_replay_change outs(3) [OF hs(2)]])
  qed
  with out(1) outs(1,2) show ?case by (intro exI [of _ "out # outs"]) (simp add: sc)
qed simp

text \<open>
  C1: a transaction of a peer is replayed as it was made.  From the messages that the output plugin
  writes for it (begin, its changes in order, commit), the apply process starts one remote
  transaction with the peer's transaction identifier, commit time, end position and, when change
  sets are forwarded, the original node; it performs exactly those changes, in that order, on the
  tables of the same names; and it commits with that position, up to which it has then received.
\<close>

theorem transaction_replayed:
  fixes env :: "'db apply_env"
  assumes "pq_format (ae_pq env)" "own_keys (as_relcache s)" "list_all (carried env ns data) changes"
    "pg_decode_begin_txn (ae_pq env) origins nid mydb data txn = Inr (Some bm)"
    "od_forward_changesets data \<Longrightarrow> pgactive_fetch_sysid_via_node_id origins nid mydb (txn_origin_id txn) zero_nodeid = Inr node"
    "pg_decode_commit_txn (ae_pq env) now data txn commit_lsn w = (Inr (Some cm), w')"
    "length hs = length changes"
  shows "\<exists>outs. encode_changes (ae_pq env) (ae_api env) ns data changes = Inr outs \<and>
    consume_copy env ok recvd (map2 (wal_message (ae_pq env)) (h # hs @ [h']) (bm # outs @ [cm])) s =
    sbind (replay_transaction env (begin_of data txn node) changes (commit_of txn commit_lsn))
      (\<lambda>r. sret (case r of ProcExit c \<Rightarrow> ProcExit c | Continue _ \<Rightarrow> Continue (foldl received_pos recvd (h # hs @ [h'])))) s"
proof -
  from changes_replayed [OF assms(1,3), of ok] obtain outs where outs: "encode_changes (ae_pq env) (ae_api env) ns data changes = Inr outs"
    "length outs = length changes"
    "\<And>recvd rest s. own_keys (as_relcache s) \<Longrightarrow> consume_copy env ok recvd (map2 (wal_message (ae_pq env)) hs outs @ rest) s =
       sseq (replay_changes env changes) (consume_copy env ok (foldl received_pos recvd hs) rest) s" using assms(7) by blast
  from pq_format.begin_bytes [OF assms(1,4,5)] obtain b where b: "bm = pq_format.byte_bytes (ae_pq env) 66 @ b"
    "read_begin (ae_pq env) b = Inr (begin_of data txn node, [])" by blast
  from pq_format.commit_bytes [OF assms(1,6)] obtain c where c: "cm = pq_format.byte_bytes (ae_pq env) 67 @ c"
    "read_commit (ae_pq env) c = Inr (commit_of txn commit_lsn)" by blast
  note g = pq_format.get_simps [OF assms(1)]
  let ?reset = "smodify (\<lambda>s. s\<lparr>as_action_counter := 1, as_started_transaction := False, as_remote_origin_id := InvalidRepOriginId\<rparr>)
      :: ('db, unit) apply_op"
  have pb: "pgactive_process_remote_action env bm s = sseq (sseq ?reset (begin_remote env (begin_of data txn node))) (sret (Continue ())) s" for s
    by (simp add: b pgactive_process_remote_action_def process_remote_begin_def g sseq_def sbind_def)
  have pc: "pgactive_process_remote_action env cm =
      sseq (smodify (\<lambda>s. s\<lparr>as_action_counter := as_action_counter s + 1\<rparr>)) (commit_remote env (commit_of txn commit_lsn))"
    by (rule ext) (simp add: c pgactive_process_remote_action_def process_remote_commit_def g sseq_def sbind_def)
  have kb: "keeps_cache (sseq ?reset (begin_remote env (begin_of data txn node)))"
    by (intro keeps_sseq keeps_begin_remote keeps_smodify) simp
  let ?fin = "\<lambda>l r. sret (case r of ProcExit c \<Rightarrow> ProcExit c | Continue _ \<Rightarrow> Continue (received_pos l h'))"
  let ?rest = "\<lambda>l. consume_copy env ok l [wal_message (ae_pq env) h' cm]"
  have m: "map2 (wal_message (ae_pq env)) (h # hs @ [h']) (bm # outs @ [cm]) =
      wal_message (ae_pq env) h bm # map2 (wal_message (ae_pq env)) hs outs @ [wal_message (ae_pq env) h' cm]"
    using assms(7) outs(2) by simp
  have r: "?rest l = sbind (pgactive_process_remote_action env cm) (?fin l)" for l
    by (rule ext) (rule pq_format.consume_last [OF assms(1) refl])
  have "consume_copy env ok recvd (map2 (wal_message (ae_pq env)) (h # hs @ [h']) (bm # outs @ [cm])) s =
      sseq (sseq ?reset (begin_remote env (begin_of data txn node)))
        (consume_copy env ok (received_pos recvd h) (map2 (wal_message (ae_pq env)) hs outs @ [wal_message (ae_pq env) h' cm])) s"
    unfolding m by (rule pq_format.consume_message [OF assms(1) refl pb])
  also have "\<dots> = sseq (sseq ?reset (begin_remote env (begin_of data txn node)))
      (sseq (replay_changes env changes) (?rest (foldl received_pos (received_pos recvd h) hs))) s"
    by (rule sseq_cong_state [OF assms(2) kb outs(3)])
  also have "\<dots> = sbind (replay_transaction env (begin_of data txn node) changes (commit_of txn commit_lsn)) (?fin (foldl received_pos recvd (h # hs))) s"
    unfolding r pc replay_transaction_def sbind_sseq sseq_assoc foldl.simps ..
  finally show ?thesis using outs(1) by (intro exI [of _ outs] conjI) (simp_all only: foldl.simps foldl_append)
qed

definition example_insert :: sent_change where
  "example_insert = (example_relation, 20001,
     \<lparr>chg_action = REORDER_BUFFER_CHANGE_INSERT, chg_oldtuple = None, chg_newtuple = Some sample_row\<rparr>)"

text \<open>The process of the wal sender has the first slot.\<close>

abbreviation example_sender :: worker_sys where
  "example_sender \<equiv> \<lparr>ctl = fresh_segment 2 [zero_worker], self = idle_process\<lparr>pgactive_worker_slot := Some 0\<rparr>\<rparr>"

lemma example_carried: "carried example_apply (\<lambda>_. Some ''public'') example_data example_insert"
  using example_fits by (simp add: carried_def example_insert_def rows_fit_def name_ok_def example_relation_def)

theorem transaction_replayed_witness:
  "\<exists>bm cm w' outs. pg_decode_begin_txn pq_network (\<lambda>_. None) 2 6 example_data (example_txn 0) = Inr (Some bm) \<and>
    pg_decode_commit_txn pq_network 0 example_data (example_txn 0) 80 example_sender = (Inr (Some cm), w') \<and>
    encode_changes pq_network example_api (\<lambda>_. Some ''public'') example_data [example_insert] = Inr outs \<and>
    consume_copy example_apply True 70 (map2 (wal_message pq_network) ((71, 71, 0) # [(75, 75, 0)] @ [(90, 90, 0)]) (bm # outs @ [cm])) example_apply_state =
    sbind (replay_transaction example_apply (begin_of example_data (example_txn 0) zero_nodeid) [example_insert] (commit_of (example_txn 0) 80))
      (\<lambda>r. sret (case r of ProcExit c \<Rightarrow> ProcExit c | Continue _ \<Rightarrow> Continue 90)) example_apply_state"
proof -
  obtain bm where b: "pg_decode_begin_txn pq_network (\<lambda>_. None) 2 6 example_data (example_txn 0) = Inr (Some bm)"
    by (simp add: pg_decode_begin_txn_def should_forward_changeset_def example_data_def example_txn_def InvalidRepOriginId_def Let_def)
  obtain cm w' where c: "pg_decode_commit_txn pq_network 0 example_data (example_txn 0) 80 example_sender = (Inr (Some cm), w')"
    by (simp add: pg_decode_commit_txn_def should_forward_changeset_def example_data_def example_txn_def InvalidRepOriginId_def Let_def)
  have k: "own_keys (as_relcache example_apply_state)" by (simp add: own_keys_def example_apply_state_def)
  have p: "foldl received_pos 70 ((71, 71, 0) # [(75, 75, 0)] @ [(90, 90, 0)]) = 90"
    by (simp add: received_pos_def max_def word_le_nat_alt)
  note t = transaction_replayed [where env = example_apply and ns = "\<lambda>_. Some ''public''" and changes = "[example_insert]" and data = example_data
      and txn = "example_txn 0" and node = zero_nodeid and hs = "[(75, 75, 0)]" and h = "(71, 71, 0)" and h' = "(90, 90, 0)" and ok = True and recvd = 70,
      OF _ k, unfolded example_apply_fields(1,2), OF net.pq_format_axioms _ b _ c, unfolded p]
  show ?thesis
    using t b c example_carried by (simp add: example_data_def)
qed

end
