(* ===== verification/Apply_Convergence.thy ===== *)
theory Apply_Convergence
  imports Apply_Stream
begin

text \<open>
  What the decisions of the apply processes add up to: copies of a row that were written on several
  nodes, and the positions that a node confirms to its peer.
\<close>

section \<open>Versions of a row\<close>

text \<open>A version: the node that wrote it, its commit time there, and the row.\<close>

record version =
  v_node :: pgactiveNodeId
  v_ts :: int
  v_row :: row

text \<open>
  The version \<open>v\<close> of a peer arrives where the version \<open>loc\<close> is stored.  \<open>origin\<close> maps a node to its
  replication origin here; the worker for the peer replays with that origin and the commit time of
  the version.
\<close>

definition deliver ::
  "'db apply_env \<Rightarrow> (pgactiveNodeId \<Rightarrow> u16) \<Rightarrow> pgactiveConflictType \<Rightarrow> u32 \<Rightarrow> 'db apply_state \<Rightarrow> version \<Rightarrow> version \<Rightarrow> version result" where
  "deliver env origin ctype relid s loc v =
     bind_result
       (fst (check_apply_update (env\<lparr>ae_session_origin := origin (v_node v)\<rparr>) ctype (origin (v_node loc)) (v_ts loc) relid (v_row loc) (v_row v)
         (s\<lparr>as_session_ts := v_ts v, as_worker := (as_worker s)\<lparr>apply_remote_node := v_node v\<rparr>\<rparr>)))
       (\<lambda>ud. Inr (if ud_perform ud then (case ud_new_tuple ud of None \<Rightarrow> v | Some r \<Rightarrow> v\<lparr>v_row := r\<rparr>) else loc))"

fun deliver_all ::
  "'db apply_env \<Rightarrow> (pgactiveNodeId \<Rightarrow> u16) \<Rightarrow> pgactiveConflictType \<Rightarrow> u32 \<Rightarrow> 'db apply_state \<Rightarrow> version \<Rightarrow> version list \<Rightarrow> version result" where
  "deliver_all env origin ctype relid s loc [] = Inr loc"
| "deliver_all env origin ctype relid s loc (v # vs) =
     bind_result (deliver env origin ctype relid s loc v) (\<lambda>loc. deliver_all env origin ctype relid s loc vs)"

text \<open>The table has no conflict handlers; they have been looked up.\<close>

definition no_handlers :: "'db apply_env \<Rightarrow> pgactiveConflictType \<Rightarrow> u32 \<Rightarrow> 'db apply_state \<Rightarrow> bool" where
  "no_handlers env ctype relid s \<longleftrightarrow> event_known (ae_handlers env) ctype \<and>
     (\<exists>h r. as_relcache s = Some h \<and> h relid = Some r \<and> rel_handlers r = Some [])"

lemma resolve_no_handlers:
  assumes "no_handlers env ctype relid s"
  shows "resolve_conflict env relid local remote tag ctype timeframe s = (Inr (None, False), s)"
  using assms by (auto simp: no_handlers_def resolve_conflict_def resolve_falls_through fun_upd_idem)

lemma deliver_same_origin:
  "origin (v_node loc) = origin (v_node v) \<Longrightarrow> deliver env origin ctype relid s loc v = Inr v"
  by (simp add: deliver_def check_apply_update_def)

lemma deliver_other_origin:
  assumes "no_handlers env ctype relid s" "origin (v_node loc) \<noteq> origin (v_node v)"
  shows "deliver env origin ctype relid s loc v =
    bind_result (fst (pgactive_conflict_last_update_wins (env\<lparr>ae_session_origin := origin (v_node v)\<rparr>) (v_ts loc) (v_ts v)
        (s\<lparr>as_session_ts := v_ts v, as_worker := (as_worker s)\<lparr>apply_remote_node := v_node v\<rparr>\<rparr>)))
      (\<lambda>ud. Inr (if ud_perform ud then (case ud_new_tuple ud of None \<Rightarrow> v | Some r \<Rightarrow> v\<lparr>v_row := r\<rparr>) else loc))"
proof -
  have n: "no_handlers (env\<lparr>ae_session_origin := origin (v_node v)\<rparr>) ctype relid
      (s\<lparr>as_session_ts := v_ts v, as_worker := (as_worker s)\<lparr>apply_remote_node := v_node v\<rparr>\<rparr>)"
    using assms(1) by (simp add: no_handlers_def)
  show ?thesis
    using assms(2) by (simp add: deliver_def check_apply_update_def resolve_no_handlers [OF n] sbind_def Let_def split: prod.split split del: if_split)
qed

lemma deliver_newest:
  assumes "no_handlers env ctype relid s" "inj_on origin {v_node loc, v_node v}" "v_node loc = v_node v \<longrightarrow> v_ts loc < v_ts v" "v_ts loc \<noteq> v_ts v"
  shows "deliver env origin ctype relid s loc v = Inr (if v_ts loc < v_ts v then v else loc)"
proof (cases "v_node loc = v_node v")
  case True
  then show ?thesis using assms(3) by (simp add: deliver_same_origin)
next
  case False
  with assms(2) have "origin (v_node loc) \<noteq> origin (v_node v)" by (auto dest: inj_onD)
  from deliver_other_origin [OF assms(1) this] assms(4) show ?thesis
    by (simp add: pgactive_conflict_last_update_wins_def)
qed

text \<open>The versions of each node arrive in the order of their commits.\<close>

definition in_order :: "version list \<Rightarrow> bool" where
  "in_order vs \<longleftrightarrow> sorted_wrt (\<lambda>v w. v_node v = v_node w \<longrightarrow> v_ts v < v_ts w) vs"

lemma deliver_all_newest:
  assumes "no_handlers env ctype relid s" "inj_on origin (v_node ` set (loc # vs))" "in_order (loc # vs)" "distinct (map v_ts (loc # vs))"
  shows "\<exists>v \<in> set (loc # vs). deliver_all env origin ctype relid s loc vs = Inr v \<and> (\<forall>w \<in> set (loc # vs). v_ts w \<le> v_ts v)"
  using assms(2-)
proof (induction vs arbitrary: loc)
  case (Cons v vs)
  let ?new = "if v_ts loc < v_ts v then v else loc"
  have "inj_on origin {v_node loc, v_node v}" by (rule inj_on_subset [OF Cons.prems(1)]) auto
  then have d: "deliver env origin ctype relid s loc v = Inr ?new"
    using Cons.prems by (intro deliver_newest [OF assms(1)]) (auto simp: in_order_def)
  have "\<exists>u \<in> set (?new # vs). deliver_all env origin ctype relid s ?new vs = Inr u \<and> (\<forall>w \<in> set (?new # vs). v_ts w \<le> v_ts u)"
    using Cons.prems by (intro Cons.IH) (auto simp: in_order_def intro: inj_on_subset)
  with d show ?case by (auto split: if_splits)
qed simp


text \<open>The version of node \<open>n\<close>, committed at \<open>ts\<close>, and the origin that node \<open>me\<close> has for a node.\<close>

definition example_version :: "u32 \<Rightarrow> int \<Rightarrow> version" where
  "example_version n ts = \<lparr>v_node = \<lparr>sysid = ucast n, timeline = 0, dboid = n + 4\<rparr>, v_ts = ts, v_row = [Some (DatumByVal (ucast n))]\<rparr>"

definition example_origin :: "u32 \<Rightarrow> pgactiveNodeId \<Rightarrow> u16" where
  "example_origin me node = (if dboid node = me + 4 then 0 else ucast (dboid node))"

definition example_loaded :: "unit apply_state" where
  "example_loaded = example_apply_state\<lparr>as_relcache := Some [20001 \<mapsto> (reset_entry 20001 True)\<lparr>rel_handlers := Some []\<rparr>]\<rparr>"

lemma example_no_handlers: "no_handlers example_apply pgactiveConflictType_UpdateUpdate 20001 example_loaded"
  by (simp add: no_handlers_def event_known_def example_loaded_def example_apply_def example_handler_env_def example_oids_def example_catalog_def InvalidOid_def)


section \<open>Equal commit times\<close>

text \<open>
  The sequence number of this node, as its cache of nodes gives it, and of a peer, as the catalogue
  gives it.
\<close>

definition local_seq :: "'db apply_env \<Rightarrow> 'db apply_state \<Rightarrow> int result" where
  "local_seq env s = fst (pgactive_local_node_seq_id (ae_nodes_relid env) (ae_nodes env) (e_nid (ae_lock env)) (e_mydb (ae_lock env)) (as_nodecache s))"

definition peer_seq :: "'db apply_env \<Rightarrow> pgactiveNodeId \<Rightarrow> int result" where
  "peer_seq env node = pgactive_remote_node_seq_id (ae_spi env) (ae_nodes env) node"

lemma deliver_tie:
  assumes "no_handlers env ctype relid s" "origin (v_node loc) \<noteq> origin (v_node v)" "v_ts loc = v_ts v"
    "local_seq env s = Inr l" "peer_seq env (v_node v) = Inr r" "0 < l" "0 < r" "l \<noteq> r"
  shows "deliver env origin ctype relid s loc v = Inr (if r < l then v else loc)"
proof -
  obtain nc where "pgactive_local_node_seq_id (ae_nodes_relid env) (ae_nodes env) (e_nid (ae_lock env)) (e_mydb (ae_lock env)) (as_nodecache s) = (Inr l, nc)"
    using assms(4) by (metis local_seq_def prod.collapse)
  with assms(3,5-8) show ?thesis
    by (simp add: deliver_other_origin [OF assms(1,2)] pgactive_conflict_last_update_wins_def seq_id_decision_def on_as_nodecache_def
        peer_seq_def sbind_def)
qed


text \<open>
  At equal commit times a third node does not follow the two writers.  It compares its own
  sequence number with the sender's, not those of the writers: a node whose number is smaller than
  both keeps whichever version arrived first, and one whose number is larger than both keeps
  whichever arrived last.  Its copy of the row then depends on the order of arrival.
\<close>

theorem tie_decided_by_arrival:
  assumes "no_handlers env ctype relid s" "origin (v_node v1) \<noteq> origin (v_node v2)" "v_ts v1 = v_ts v2"
    "local_seq env s = Inr n" "peer_seq env (v_node v1) = Inr n1" "peer_seq env (v_node v2) = Inr n2" "0 < n" "0 < n1" "0 < n2"
  shows "(n < n1 \<and> n < n2 \<longrightarrow> deliver env origin ctype relid s v1 v2 = Inr v1 \<and> deliver env origin ctype relid s v2 v1 = Inr v2) \<and>
    (n1 < n \<and> n2 < n \<longrightarrow> deliver env origin ctype relid s v1 v2 = Inr v2 \<and> deliver env origin ctype relid s v2 v1 = Inr v1)"
  using deliver_tie [OF assms(1,2,3,4,6,7,9)] deliver_tie [OF assms(1) assms(2) [symmetric] assms(3) [symmetric] assms(4,5,7,8)] by auto

text \<open>Node \<open>me\<close> of three nodes whose sequence numbers are their system identifiers.\<close>

definition example_member :: "u32 \<Rightarrow> unit apply_env" where
  "example_member me = example_apply\<lparr>ae_lock := example_lock_env\<lparr>e_nid := ucast me, e_mydb := me + 4\<rparr>,
     ae_nodes := [(example_row 1 5 CHR ''r'')\<lparr>node_seq_id := Some 1\<rparr>, (example_row 2 6 CHR ''r'')\<lparr>node_seq_id := Some 2\<rparr>,
       (example_row 3 7 CHR ''r'')\<lparr>node_seq_id := Some 3\<rparr>]\<rparr>"

lemma member_no_handlers: "no_handlers (example_member me) pgactiveConflictType_UpdateUpdate 20001 example_loaded"
  using example_no_handlers by (simp add: no_handlers_def example_member_def)

lemma member_local_seq: "local_seq (example_member 1) example_loaded = Inr 1" "local_seq (example_member 2) example_loaded = Inr 2"
  "local_seq (example_member 3) example_loaded = Inr 3"
  by (simp_all add: local_seq_def pgactive_local_node_seq_id_def example_member_def example_loaded_def example_apply_state_def example_apply_def
      example_lock_env_def fresh_nodecache_def pgactive_nodecache_lookup_def pgactive_nodecache_initialize_def nodecache_load_def
      zero_entry_def pgactive_nodes_get_local_info_def row_of_def example_row_def pgactive_make_my_nodeid_def pgactiveThisTimeLineID_def Let_def)

lemma member_peer_seq: "peer_seq (example_member me) (v_node (example_version 1 t)) = Inr 1"
  "peer_seq (example_member me) (v_node (example_version 2 t)) = Inr 2" "peer_seq (example_member me) (v_node (example_version 3 t)) = Inr 3"
  by (simp_all add: peer_seq_def pgactive_remote_node_seq_id_def example_member_def example_version_def example_row_def row_of_def example_apply_def)


theorem tie_decided_by_arrival_witness:
  "deliver (example_member 1) (example_origin 1) pgactiveConflictType_UpdateUpdate 20001 example_loaded (example_version 2 10) (example_version 3 10)
     = Inr (example_version 2 10) \<and>
   deliver (example_member 1) (example_origin 1) pgactiveConflictType_UpdateUpdate 20001 example_loaded (example_version 3 10) (example_version 2 10)
     = Inr (example_version 3 10)"
  using tie_decided_by_arrival [OF member_no_handlers _ _ member_local_seq(1) member_peer_seq(2,3), of "example_origin 1" "10" "10"]
  by (simp add: example_origin_def example_version_def)

section \<open>Confirmed positions\<close>

text \<open>
  The commits whose local commit record may not be on disk yet are in the order of both positions,
  and none of them has been confirmed.
\<close>

definition unconfirmed :: "'db apply_state \<Rightarrow> bool" where
  "unconfirmed s \<longleftrightarrow> sorted_wrt (\<lambda>a b. local_end a \<le> local_end b \<and> remote_end a < remote_end b) (as_lsn_association s) \<and>
     (\<forall>e \<in> set (as_lsn_association s). last_flushpos (as_feedback s) < remote_end e)"

lemma flush_loop_split:
  assumes "flush_loop local_flush wr0 fl0 xs = (wr, fl, rest)"
  shows "\<exists>pre. xs = pre @ rest \<and> (\<forall>e \<in> set pre. local_end e \<le> local_flush) \<and> fl = (if pre = [] then fl0 else remote_end (last pre))"
  using assms
proof (induction xs arbitrary: wr0 fl0)
  case (Cons x xs)
  show ?case
  proof (cases "local_end x \<le> local_flush")
    case True
    with Cons.prems Cons.IH obtain pre where "xs = pre @ rest" "\<forall>e \<in> set pre. local_end e \<le> local_flush"
      "fl = (if pre = [] then remote_end x else remote_end (last pre))" by fastforce
    with True show ?thesis by (intro exI [of _ "x # pre"]) auto
  next
    case False
    with Cons.prems show ?thesis by (intro exI [of _ "[]"]) auto
  qed
qed simp

lemma flushed_below_rest:
  assumes "sorted_wrt (\<lambda>a b. local_end a \<le> local_end b \<and> remote_end a < remote_end b) (pre @ rest)" "pre \<noteq> []" "e \<in> set rest"
  shows "remote_end (last pre) < remote_end e"
  using assms by (auto simp: sorted_wrt_append)



end
