(* ===== verification/Apply_Handshake.thy ===== *)
theory Apply_Handshake
  imports Apply
begin

text \<open>
  The start of a change stream: the options that the apply process of one node puts into its
  replication command are read by the output plugin of the other one.
\<close>

section \<open>Numbers\<close>

lemma dec_string_head: "0 < n \<Longrightarrow> \<exists>d ds. dec_string n = d # ds \<and> d \<noteq> CHR ''0''"
proof (induction n rule: dec_string.induct)
  case (1 n)
  show ?case
  proof (cases "n < 10")
    case True
    have "digit_char n \<noteq> CHR ''0''" using of_char_digit_char [OF True] 1(2) by auto
    with True show ?thesis by (subst dec_string.simps) simp
  next
    case False
    then have "0 < n div 10" by simp
    from "1.IH" [OF False this] False show ?thesis by (subst dec_string.simps) auto
  qed
qed

lemma digit_in_10: "is_digit c \<Longrightarrow> digit_in 10 c = Some (digit_value c)"
  by (auto simp: is_digit_def digit_in_def digit_value_def Let_def)

lemma digits_value_10:
  assumes "\<forall>c \<in> set s. is_digit c"
  shows "digits_value 10 s = dec_value s"
proof -
  have "takeWhile (\<lambda>c. digit_in 10 c \<noteq> None) s = s" using assms by (simp add: digit_in_10)
  moreover have "foldl (\<lambda>a c. a * 10 + the (digit_in 10 c)) k s = foldl (\<lambda>a c. a * 10 + digit_value c) k s" for k
    using assms by (induction s arbitrary: k) (simp_all add: digit_in_10)
  ultimately show ?thesis unfolding digits_value_def dec_value_def by presburger
qed

text \<open>A decimal numeral is not taken for an octal or hexadecimal one.\<close>

lemma strtoul_dec_string:
  assumes "n < 2 ^ 64"
  shows "strtoul_base0 (dec_string n) = (n, False)"
proof (cases "n = 0")
  case True
  have "(char_of (48::nat) :: char) = char_of (of_char CHR ''0'' :: nat)" by simp
  then have "dec_string 0 = ''0''" by (subst dec_string.simps) (simp only: digit_char_def char_of_char, simp)
  then show ?thesis by (simp add: True strtoul_base0_def scan_sign_def is_space_def digits_value_def digit_in_def strtoul_value_def)
next
  case False
  then obtain d ds where ds: "dec_string n = d # ds" "d \<noteq> CHR ''0''" using dec_string_head by blast
  have dig: "\<forall>c \<in> set (dec_string n). is_digit c" by (rule dec_string_digits)
  then have d: "\<not> is_space d" "d \<noteq> CHR ''-''" "d \<noteq> CHR ''+''" using ds digit_not_sign by auto
  have v: "digits_value 10 (d # ds) = n" using digits_value_10 [OF dig] by (simp add: ds(1) [symmetric])
  have s: "scan_sign (dropWhile is_space (d # ds)) = (False, d # ds)" using d by (simp add: scan_sign_def)
  have "(case d # ds of
           a # b # c # cs \<Rightarrow>
             if a = CHR ''0'' \<and> (b = CHR ''x'' \<or> b = CHR ''X'') \<and> digit_in 16 c \<noteq> None then digits_value 16 (c # cs)
             else if a = CHR ''0'' then digits_value 8 (d # ds) else digits_value 10 (d # ds)
         | a # cs \<Rightarrow> if a = CHR ''0'' then digits_value 8 (d # ds) else digits_value 10 (d # ds)
         | [] \<Rightarrow> 0) = n"
    using ds(2) v by (auto split: list.split)
  with assms show ?thesis unfolding ds(1) strtoul_base0_def s by (simp add: strtoul_value_def)
qed

lemma parse_u32: "pgactive_parse_uint32 (opt_u name (unat (x :: u32))) = Inr x"
proof -
  have "unat x < 2 ^ 64" by (rule order.strict_trans [OF unat_lt32]) simp
  then show ?thesis by (simp add: pgactive_parse_uint32_def pgactive_parse_notnull_def opt_u_def strtoul_dec_string)
qed

lemma parse_u64: "pgactive_parse_size_t (opt_u name (unat (x :: u64))) = Inr x"
  using unat_lt64 [of x] by (simp add: pgactive_parse_size_t_def pgactive_parse_notnull_def opt_u_def strtoul_dec_string)

section \<open>The options\<close>

text \<open>What the server's \<open>parse_bool\<close> makes of the values that are sent.\<close>

definition bool_words :: "(string \<Rightarrow> bool option) \<Rightarrow> bool" where
  "bool_words parse_bool \<longleftrightarrow> parse_bool ''1'' = Some True \<and> parse_bool ''0'' = Some False \<and> parse_bool ''t'' = Some True"

text \<open>The replication sets of the connection, when it has any, are a list of valid names.\<close>

definition sets_accepted :: "option_env \<Rightarrow> string option \<Rightarrow> bool" where
  "sets_accepted env sets \<longleftrightarrow> (\<forall>s. sets = Some s \<longrightarrow> s \<noteq> [] \<longrightarrow> (\<exists>xs. oe_split env s = Some xs \<and> validate_names xs = Inr ()))"

text \<open>What the plugin then knows about the client, whose build is \<open>c\<close>.\<close>

definition client_params :: "build \<Rightarrow> pgactiveOutputData \<Rightarrow> pgactiveOutputData" where
  "client_params c data = data\<lparr>client_pg_version := PG_VERSION_NUM c, client_pg_catversion := CATALOG_VERSION_NO c,
     client_pgactive_version := pgactive_VERSION_NUM c, client_pgactive_variant := Some (pgactive_VARIANT c),
     client_min_pgactive_version := pgactive_MIN_REMOTE_VERSION_NUM c, client_sizeof_int := sizeof_int c,
     client_sizeof_long := sizeof_long c, client_sizeof_datum := sizeof_Datum c, client_maxalign := MAXIMUM_ALIGNOF c,
     client_float4_byval := USE_FLOAT4_BYVAL c, client_float8_byval := USE_FLOAT8_BYVAL c,
     client_int_datetime := (integer_datetimes c = ''on''), client_bigendian := WORDS_BIGENDIAN c,
     client_db_encoding := Some (database_encoding c)\<rparr>"

definition with_sets :: "option_env \<Rightarrow> string option \<Rightarrow> pgactiveOutputData \<Rightarrow> pgactiveOutputData" where
  "with_sets env sets data = (case sets of None \<Rightarrow> data
     | Some s \<Rightarrow> if s = [] then data else data\<lparr>od_replication_sets := Some (oe_qsort env (the (oe_split env s)))\<rparr>)"

lemma parse_options_append:
  "parse_options env (xs @ ys) d = bind_result (parse_options env xs d) (parse_options env ys)"
  by (induction xs arbitrary: d) (auto simp: bind_result_def split: sum.split)

lemma parse_bool_string:
  assumes "bool_words parse_bool"
  shows "pgactive_parse_bool parse_bool (opt_s name (bool_string b)) = Inr b"
  using assms by (simp add: pgactive_parse_bool_def pgactive_parse_notnull_def opt_s_def bool_words_def bool_string_def)

lemma option_names [simp]: "defname (opt_u name n) = name" "defname (opt_s name v) = name" "defarg (opt_s name v) = Some v"
  by (simp_all add: opt_u_def opt_s_def)

definition fixed_options :: "build \<Rightarrow> DefElem list" where
  "fixed_options b = start_options b None False"

lemma start_options_fixed:
  "start_options b sets fwd = fixed_options b @
     (case sets of None \<Rightarrow> [] | Some s \<Rightarrow> if s \<noteq> [] then [opt_s ''replication_sets'' s] else []) @
     (if fwd then [opt_s ''forward_changesets'' ''t''] else [])"
  by (simp add: fixed_options_def start_options_def)

lemma start_options_read:
  assumes "bool_words (oe_parse_bool env)" "sets_accepted env sets"
  shows "parse_options env (start_options c sets fwd) data =
    Inr ((if fwd then od_forward_changesets_update (\<lambda>_. True) else id) (with_sets env sets (client_params c data)))"
proof -
  note b = parse_bool_string [OF assms(1)]
  have t: "pgactive_parse_bool (oe_parse_bool env) (opt_s name ''t'') = Inr True" for name
    using assms(1) by (simp add: pgactive_parse_bool_def pgactive_parse_notnull_def bool_words_def)
  have s: "parse_option env (opt_s ''replication_sets'' s) d = Inr (with_sets env sets d)" if "sets = Some s" "s \<noteq> []" for s d
    using assms(2) that
    by (auto simp: parse_option_def sets_accepted_def with_sets_def pgactive_parse_identifier_list_arr_def pgactive_parse_notnull_def)
  have n: "pgactive_parse_notnull (opt_s name v) = Inr v" for name v by (simp add: pgactive_parse_notnull_def)
  have "parse_options env (fixed_options c) data = Inr (client_params c data)"
    by (simp add: fixed_options_def start_options_def parse_option_def parse_u32 parse_u64 b n pgactive_parse_str_def client_params_def
        pgactive_get_float4byval_def pgactive_get_float8byval_def pgactive_get_integer_timestamps_def pgactive_get_bigendian_def)
  moreover have "parse_option env (opt_s ''forward_changesets'' ''t'') d = Inr (d\<lparr>od_forward_changesets := True\<rparr>)" for d
    by (simp add: parse_option_def t)
  ultimately show ?thesis
    unfolding start_options_fixed parse_options_append
    by (cases sets) (auto simp: s with_sets_def)
qed

text \<open>The numbers of a build that the plugin takes for missing when they are zero.\<close>

definition params_set :: "build \<Rightarrow> bool" where
  "params_set c \<longleftrightarrow> PG_VERSION_NUM c \<noteq> 0 \<and> CATALOG_VERSION_NO c \<noteq> 0 \<and> pgactive_VERSION_NUM c \<noteq> 0 \<and>
     pgactive_MIN_REMOTE_VERSION_NUM c \<noteq> 0 \<and> sizeof_int c \<noteq> 0 \<and> sizeof_long c \<noteq> 0 \<and> sizeof_Datum c \<noteq> 0 \<and> MAXIMUM_ALIGNOF c \<noteq> 0"

lemma check_client_params:
  assumes "params_set c"
  shows "check_client b (client_params c data) =
    (if database_encoding c \<noteq> database_encoding b then Inl (Error ''mismatching encodings are not yet supported'')
     else if pgactive_VERSION_NUM b < pgactive_MIN_REMOTE_VERSION_NUM c
     then Inl (Error ''incompatible pgactive client and server versions, server too old'')
     else if pgactive_VERSION_NUM c < pgactive_MIN_REMOTE_VERSION_NUM b
     then Inl (Error ''incompatible pgactive client and server versions, client too old'')
     else Inr ((client_params c data)\<lparr>allow_binary_protocol := (sizeof_int c = sizeof_int b \<and> sizeof_long c = sizeof_long b \<and> sizeof_Datum c = sizeof_Datum b \<and>
            WORDS_BIGENDIAN c = WORDS_BIGENDIAN b \<and> USE_FLOAT4_BYVAL c = USE_FLOAT4_BYVAL b \<and> USE_FLOAT8_BYVAL c = USE_FLOAT8_BYVAL b),
          int_datetime_mismatch := (integer_datetimes c = ''on'') \<noteq> (integer_datetimes b = ''on''),
          allow_sendrecv_protocol := (PG_VERSION_NUM c div 100 = PG_VERSION_NUM b div 100)\<rparr>))"
  using assms
  by (simp add: check_client_def client_params_def params_set_def pgactive_get_float4byval_def pgactive_get_float8byval_def
      pgactive_get_integer_timestamps_def pgactive_get_bigendian_def Let_def conj_ac cong: if_cong split del: if_split)

text \<open>
  C10: the two ends of a connection understand each other.  The plugin reads from the options of the
  replication command exactly the build of the client, its replication sets and whether it asks for
  forwarded changes.  It accepts the client exactly when the encodings agree and each side is new
  enough for the other, and it then uses the binary format exactly when sizes, byte order and
  passing of floats agree and the send format exactly within a major version.
\<close>

theorem handshake:
  assumes "bool_words (oe_parse_bool env)" "sets_accepted env sets" "params_set c"
  shows "\<exists>data. parse_options env (start_options c sets fwd) initial_data = Inr data \<and> client_params c data = data \<and>
    od_forward_changesets data = fwd \<and>
    od_replication_sets data = (case sets of None \<Rightarrow> None | Some s \<Rightarrow> if s = [] then None else map_option (oe_qsort env) (oe_split env s)) \<and>
    (\<forall>b d. check_client b data = Inr d \<longleftrightarrow>
       database_encoding c = database_encoding b \<and> pgactive_MIN_REMOTE_VERSION_NUM c \<le> pgactive_VERSION_NUM b \<and>
       pgactive_MIN_REMOTE_VERSION_NUM b \<le> pgactive_VERSION_NUM c \<and>
       d = data\<lparr>allow_binary_protocol := (sizeof_int c = sizeof_int b \<and> sizeof_long c = sizeof_long b \<and> sizeof_Datum c = sizeof_Datum b \<and>
              WORDS_BIGENDIAN c = WORDS_BIGENDIAN b \<and> USE_FLOAT4_BYVAL c = USE_FLOAT4_BYVAL b \<and> USE_FLOAT8_BYVAL c = USE_FLOAT8_BYVAL b),
            int_datetime_mismatch := (integer_datetimes c = ''on'') \<noteq> (integer_datetimes b = ''on''),
            allow_sendrecv_protocol := (PG_VERSION_NUM c div 100 = PG_VERSION_NUM b div 100)\<rparr>)"
proof -
  let ?data = "(if fwd then od_forward_changesets_update (\<lambda>_. True) else id) (with_sets env sets (client_params c initial_data))"
  have c: "client_params c ?data = ?data" by (auto simp: client_params_def with_sets_def split: option.split)
  have "od_forward_changesets ?data = fwd"
    by (auto simp: client_params_def with_sets_def initial_data_def split: option.split)
  moreover have "od_replication_sets ?data = (case sets of None \<Rightarrow> None | Some s \<Rightarrow> if s = [] then None else map_option (oe_qsort env) (oe_split env s))"
    using assms(2) by (auto simp: client_params_def with_sets_def initial_data_def sets_accepted_def split: option.split)
  ultimately show ?thesis
    using start_options_read [OF assms(1,2), of c fwd initial_data] c check_client_params [OF assms(3), where data = ?data, unfolded c]
    by (intro exI [of _ ?data]) (auto simp: not_less)
qed

definition example_options_env :: option_env where
  "example_options_env = \<lparr>oe_build = example_build,
     oe_parse_bool = (\<lambda>s. if s = ''1'' \<or> s = ''t'' then Some True else if s = ''0'' then Some False else None),
     oe_split = (\<lambda>s. Some [s]), oe_qsort = strcmp_isort\<rparr>"

theorem handshake_witness:
  "\<exists>data. parse_options example_options_env (start_options example_build (Some ''default'') True) initial_data = Inr data \<and>
    od_forward_changesets data \<and> (\<exists>d. check_client example_build data = Inr d \<and> allow_binary_protocol d \<and> allow_sendrecv_protocol d)"
proof -
  have "bool_words (oe_parse_bool example_options_env)" by (simp add: bool_words_def example_options_env_def)
  moreover have "sets_accepted example_options_env (Some ''default'')"
    by (simp add: sets_accepted_def example_options_env_def pgactive_validate_replication_set_name_def NAMEDATALEN_def)
  moreover have "params_set example_build" by (simp add: params_set_def example_build_def)
  ultimately show ?thesis
    using handshake [of example_options_env "Some ''default''" example_build True] by (auto simp: example_build_def)
qed

end
