(* ===== verification/User_Mapping.thy ===== *)
theory User_Mapping
  imports Node_Naming
begin

text \<open>
  Connections by user mapping, \<^verbatim>\<open>src/pgactive_user_mapping.c\<close>: the parser of
  \<open>user_mapping=... pgactive_foreign_server=...\<close>, the options a foreign server and a user mapping
  may have, and the connection string built from them.  The catalogues, the parser of
  connection strings of libpq and its list of options belong to the server and are fields of
  \<open>fdw_env\<close>.  Characters are classified as in the C locale.
\<close>

section \<open>Parsing key=value pairs\<close>

abbreviation backslash :: char where
  "backslash \<equiv> CHR 0x5C"

abbreviation quote :: char where
  "quote \<equiv> CHR 0x27"

text \<open>
  Each function returns what it read and where \<open>cp\<close> stands afterwards.  The name ends at the
  equals sign or at a blank, and blanks after the name are skipped.
\<close>

fun parse_name :: "string \<Rightarrow> string \<times> string" where
  "parse_name [] = ([], [])"
| "parse_name (c # cs) =
     (if c = CHR ''='' then ([], c # cs)
      else if is_space c then ([], dropWhile is_space cs)
      else case parse_name cs of (n, r) \<Rightarrow> (c # n, r))"

fun parse_plain :: "string \<Rightarrow> string \<times> string" where
  "parse_plain [] = ([], [])"
| "parse_plain (c # cs) =
     (if is_space c then ([], cs)
      else if c = backslash
      then (case cs of [] \<Rightarrow> ([], []) | d # ds \<Rightarrow> case parse_plain ds of (v, r) \<Rightarrow> (d # v, r))
      else case parse_plain cs of (v, r) \<Rightarrow> (c # v, r))"

text \<open>Behind the opening quote; \<open>None\<close> when the closing one is missing.\<close>

fun parse_quoted :: "string \<Rightarrow> (string \<times> string) option" where
  "parse_quoted [] = None"
| "parse_quoted (c # cs) =
     (if c = backslash
      then (case cs of [] \<Rightarrow> None | d # ds \<Rightarrow> map_option (\<lambda>(v, r). (d # v, r)) (parse_quoted ds))
      else if c = quote then Some ([], cs)
      else map_option (\<lambda>(v, r). (c # v, r)) (parse_quoted cs))"

definition parse_value :: "string \<Rightarrow> (string \<times> string) result" where
  "parse_value s =
     (let s = dropWhile is_space s in
      case s of [] \<Rightarrow> Inr ([], [])
      | c # cs \<Rightarrow>
          if c \<noteq> quote then Inr (parse_plain s)
          else (case parse_quoted cs of
                  None \<Rightarrow> Inl (Error ''unterminated quoted string in user mapping info string'')
                | Some p \<Rightarrow> Inr p))"

lemma parse_name_length: "length (snd (parse_name s)) \<le> length s"
proof (induction s rule: parse_name.induct)
  case (2 c cs)
  then show ?case
    using length_dropWhile_le [of is_space cs] by (auto split: prod.splits)
qed simp

lemma parse_plain_length: "length (snd (parse_plain s)) \<le> length s"
proof (induction s rule: parse_plain.induct)
  case (2 c cs)
  consider "is_space c" | "\<not> is_space c" "c = backslash" "cs = []"
    | d ds where "\<not> is_space c" "c = backslash" "cs = d # ds" | "\<not> is_space c" "c \<noteq> backslash"
    by (cases cs) auto
  then show ?case
  proof cases
    case 3
    with "2.IH"(1) show ?thesis by (auto split: prod.split)
  next
    case 4
    with "2.IH"(2) show ?thesis by (auto split: prod.split)
  qed simp_all
qed simp

lemma parse_quoted_length: "parse_quoted s = Some (v, r) \<Longrightarrow> length r \<le> length s"
proof (induction s arbitrary: v r rule: parse_quoted.induct)
  case (2 c cs)
  consider "c = backslash" "cs = []" | d ds where "c = backslash" "cs = d # ds" | "c = quote" | "c \<noteq> backslash" "c \<noteq> quote"
    by (cases cs) auto
  then show ?case
  proof cases
    case 2
    with "2.prems" "2.IH"(1) [OF 2] show ?thesis by fastforce
  next
    case 4
    with "2.prems" "2.IH"(2) [OF 4] show ?thesis by fastforce
  qed (use "2.prems" in simp_all)
qed simp

lemma parse_value_length:
  assumes "parse_value s = Inr (v, r)"
  shows "length r \<le> length s"
proof -
  have le: "length (dropWhile is_space s) \<le> length s" by (rule length_dropWhile_le)
  show ?thesis
  proof (cases "dropWhile is_space s")
    case Nil
    with assms show ?thesis by (simp add: parse_value_def)
  next
    case (Cons c cs)
    show ?thesis
    proof (cases "c = quote")
      case True
      with Cons assms have "parse_quoted cs = Some (v, r)"
        by (simp add: parse_value_def Let_def split: option.splits)
      then show ?thesis using parse_quoted_length le Cons by fastforce
    next
      case False
      with Cons assms have "parse_plain (c # cs) = (v, r)"
        by (simp add: parse_value_def Let_def del: parse_plain.simps)
      then show ?thesis using parse_plain_length [of "c # cs"] le Cons by (simp del: parse_plain.simps)
    qed
  qed
qed

text \<open>
  The loop over the string.  \<open>store\<close> is what is done with a name and its value, at once and before
  the rest is read.
\<close>

function parse_pairs :: "(string \<Rightarrow> string \<Rightarrow> 'a \<Rightarrow> 'a result) \<Rightarrow> string \<Rightarrow> 'a \<Rightarrow> 'a result" where
  "parse_pairs store s acc =
     (let s = dropWhile is_space s in
      if s = [] then Inr acc
      else let (pname, r) = parse_name s in
        if r = [] \<or> hd r \<noteq> CHR ''='' then Inl (Error ''missing = in user mapping info string'')
        else case parse_value (tl r) of
               Inl e \<Rightarrow> Inl e
             | Inr (pval, rest) \<Rightarrow>
                 (case store pname pval acc of Inl e \<Rightarrow> Inl e | Inr acc \<Rightarrow> parse_pairs store rest acc))"
  by pat_completeness auto

termination
proof (relation "measure (\<lambda>(store, s, acc). length s)", goal_cases)
  case (2 store s acc s' p pname r rp pval rest acc')
  then have "length rest \<le> length (tl r)" using parse_value_length by fastforce
  moreover have "length r \<le> length s'" using 2 parse_name_length [of s'] by (metis snd_conv)
  moreover have "length s' \<le> length s" using 2 length_dropWhile_le [of is_space s] by simp
  moreover have "length (tl r) < length r" using 2 by (cases r) auto
  ultimately show ?case by simp
qed simp

declare parse_pairs.simps [simp del]

section \<open>The user mapping\<close>

text \<open>
  The facts of the server: whether a string is a connection string, libpq's options with their
  \<open>dispchar\<close>, the truncation of identifiers, and what the catalogues hold.  \<open>fe_servers\<close> is the number
  of servers of that name that belong to \<open>pgactive_fdw\<close>; an error is that of the failed query.
\<close>

record PQconninfoOption =
  keyword :: string
  dispchar :: string

record ForeignServer =
  serverid :: u32
  fdwid :: u32
  server_options :: "(string \<times> string) list"

record fdw_env =
  fe_conninfo_parse :: "string \<Rightarrow> bool"
  fe_conndefaults :: "PQconninfoOption list option"
  fe_truncate_identifier :: "string \<Rightarrow> string"
  fe_servers :: "string \<Rightarrow> nat result"
  fe_umuser :: "string \<Rightarrow> string \<Rightarrow> u32 list result"
  fe_server :: "string \<Rightarrow> ForeignServer result"
  fe_fdw_options :: "u32 \<Rightarrow> (string \<times> string) list result"
  fe_mapping_options :: "u32 \<Rightarrow> u32 \<Rightarrow> (string \<times> string) list result"
  fe_aclcheck :: "u32 \<Rightarrow> u32 \<Rightarrow> unit result"

definition pg_strncasecmp_eq :: "nat \<Rightarrow> string \<Rightarrow> string \<Rightarrow> bool" where
  "pg_strncasecmp_eq n s t \<longleftrightarrow> map tolower (take n s) = map tolower (take n t)"

definition store_mapping ::
  "(string \<Rightarrow> string) \<Rightarrow> string \<Rightarrow> string \<Rightarrow> string option \<times> string option \<Rightarrow>
   (string option \<times> string option) result" where
  "store_mapping truncate_identifier pname pval = (\<lambda>(um, fs).
     if pg_strncasecmp_eq 12 pname ''user_mapping'' then Inr (Some (truncate_identifier pval), fs)
     else if pg_strncasecmp_eq 23 pname ''pgactive_foreign_server'' then Inr (um, Some (truncate_identifier pval))
     else Inl (Error ''invalid parameter name specified in user mapping info string''))"

definition user_mapping_parse ::
  "(string \<Rightarrow> string) \<Rightarrow> string \<Rightarrow> (string option \<times> string option) result" where
  "user_mapping_parse truncate_identifier s =
     parse_pairs (store_mapping truncate_identifier) s (None, None)"

definition escape_param_str :: "string \<Rightarrow> string" where
  "escape_param_str s = concat (map (\<lambda>c. if c = backslash \<or> c = quote then [backslash, c] else [c]) s)"

datatype option_context = ForeignDataWrapperRelationId | ForeignServerRelationId | UserMappingRelationId | OtherRelationId

definition is_valid_dsn_option :: "PQconninfoOption list \<Rightarrow> string \<Rightarrow> option_context \<Rightarrow> bool" where
  "is_valid_dsn_option options name ctx =
     (case List.find (\<lambda>opt. strcmp (keyword opt) name = 0) options of
        None \<Rightarrow> False
      | Some opt \<Rightarrow>
          if CHR ''D'' \<in> set (dispchar opt) then False
          else if strcmp (keyword opt) ''client_encoding'' = 0 then False
          else if strcmp (keyword opt) ''user'' = 0 \<or> CHR ''*'' \<in> set (dispchar opt)
          then ctx = UserMappingRelationId
          else ctx = ForeignServerRelationId)"

definition append_options :: "PQconninfoOption list \<Rightarrow> option_context \<Rightarrow> (string \<times> string) list \<Rightarrow> string" where
  "append_options options ctx opts =
     concat (map (\<lambda>(name, arg). if is_valid_dsn_option options name ctx
                                then name @ ''='' @ [quote] @ escape_param_str arg @ [quote] @ '' '' else []) opts)"

text \<open>A missing name is a null pointer, which \<open>cstring_to_text\<close> follows.\<close>

definition get_connect_string :: "fdw_env \<Rightarrow> string \<Rightarrow> string option result" where
  "get_connect_string env info =
     (if fe_conninfo_parse env info then Inr None
      else case fe_conndefaults env of
        None \<Rightarrow> Inl (Error ''out of memory'')
      | Some options \<Rightarrow>
          bind_result (user_mapping_parse (fe_truncate_identifier env) info) (\<lambda>(umname, fsname).
          case fsname of None \<Rightarrow> Inl (Panic ''null pointer dereference'') | Some fs \<Rightarrow>
          bind_result (fe_servers env fs) (\<lambda>n.
          if n \<noteq> 1 then Inl (Error ''foreign data wrapper is not based on pgactive_fdw'')
          else case umname of None \<Rightarrow> Inl (Panic ''null pointer dereference'') | Some um \<Rightarrow>
          bind_result (fe_umuser env um fs) (\<lambda>users.
          if length users \<noteq> 1 then Inl (Error ''could not fetch umuser from pg_catalog.pg_user_mappings'')
          else let umuser = hd users in
          bind_result (fe_server env fs) (\<lambda>srv.
          bind_result (fe_mapping_options env umuser (serverid srv)) (\<lambda>mapping.
          bind_result (fe_fdw_options env (fdwid srv)) (\<lambda>fdw.
          bind_result (fe_aclcheck env (serverid srv) umuser) (\<lambda>_.
          Inr (Some (append_options options ForeignDataWrapperRelationId fdw @
                     append_options options ForeignServerRelationId (server_options srv) @
                     append_options options UserMappingRelationId mapping))))))))))"

definition pgactive_fdw_validator :: "PQconninfoOption list option \<Rightarrow> (string \<times> string) list \<Rightarrow> option_context \<Rightarrow> unit result" where
  "pgactive_fdw_validator conndefaults opts ctx =
     (case conndefaults of
        None \<Rightarrow> Inl (Error ''out of memory'')
      | Some options \<Rightarrow>
          if list_all (\<lambda>(name, arg). is_valid_dsn_option options name ctx) opts then Inr ()
          else Inl (Error ''invalid option''))"


section \<open>Reading back what was written\<close>

definition option_word :: "string \<Rightarrow> bool" where
  "option_word k \<longleftrightarrow> k \<noteq> [] \<and> (\<forall>c \<in> set k. c \<noteq> CHR ''='' \<and> \<not> is_space c)"

definition collect_pair :: "string \<Rightarrow> string \<Rightarrow> (string \<times> string) list \<Rightarrow> (string \<times> string) list result" where
  "collect_pair n v acc = Inr (acc @ [(n, v)])"

text \<open>The options of a string by the grammar of connection strings.\<close>

definition conninfo_pairs :: "string \<Rightarrow> (string \<times> string) list result" where
  "conninfo_pairs s = parse_pairs collect_pair s []"

lemma escape_simps [simp]:
  "escape_param_str [] = []"
  "escape_param_str (c # v) = (if c = backslash \<or> c = quote then [backslash, c] else [c]) @ escape_param_str v"
  by (simp_all add: escape_param_str_def)

lemma parse_quoted_escape [codec_simps]: "parse_quoted (escape_param_str v @ quote # r) = Some (v, r)"
  by (induction v) auto

lemma parse_name_word:
  "\<forall>c \<in> set k. c \<noteq> CHR ''='' \<and> \<not> is_space c \<Longrightarrow> parse_name (k @ CHR ''='' # r) = (k, CHR ''='' # r)"
  by (induction k) auto

lemma is_space_simps [simp]: "is_space CHR '' ''" "\<not> is_space quote" "\<not> is_space CHR ''=''"
  by (simp_all add: is_space_def)

lemma parse_value_quoted [codec_simps]: "parse_value (quote # escape_param_str v @ quote # r) = Inr (v, r)"
  by (simp add: parse_value_def parse_quoted_escape)

lemma parse_pairs_blank [simp]:
  "parse_pairs store [] acc = Inr acc"
  "parse_pairs store (CHR '' '' # s) acc = parse_pairs store s acc"
  by (simp_all add: parse_pairs.simps [of store "[]"] parse_pairs.simps [of store "CHR '' '' # s"] parse_pairs.simps [of store s])

lemma parse_pairs_option [codec_simps]:
  assumes "option_word k"
  shows "parse_pairs store (k @ CHR ''='' # quote # escape_param_str v @ quote # r) acc =
         (case store k v acc of Inl e \<Rightarrow> Inl e | Inr acc \<Rightarrow> parse_pairs store r acc)"
proof -
  have k: "\<forall>c \<in> set k. c \<noteq> CHR ''='' \<and> \<not> is_space c" "k \<noteq> []"
    using assms by (auto simp: option_word_def)
  let ?s = "k @ CHR ''='' # quote # escape_param_str v @ quote # r"
  have "dropWhile is_space ?s = ?s" using k by (cases k) auto
  then show ?thesis
    using k(2) by (subst parse_pairs.simps) (simp add: parse_name_word [OF k(1)] parse_value_quoted)
qed

lemma valid_option_word:
  "is_valid_dsn_option options n ctx \<Longrightarrow> \<forall>opt \<in> set options. option_word (keyword opt) \<Longrightarrow> option_word n"
  by (auto simp: is_valid_dsn_option_def find_Some_iff split: option.splits)

lemma append_options_simps [simp]:
  "append_options options ctx [] = []"
  "append_options options ctx ((n, v) # opts) =
     (if is_valid_dsn_option options n ctx then n @ CHR ''='' # quote # escape_param_str v @ quote # CHR '' '' # append_options options ctx opts
      else append_options options ctx opts)"
  by (simp_all add: append_options_def)

lemma parse_pairs_append_options:
  assumes "\<forall>opt \<in> set options. option_word (keyword opt)"
  shows "parse_pairs collect_pair (append_options options ctx opts @ r) acc =
         parse_pairs collect_pair r (acc @ filter (\<lambda>(n, _). is_valid_dsn_option options n ctx) opts)"
proof (induction opts arbitrary: acc)
  case (Cons p opts)
  obtain n v where "p = (n, v)" by fastforce
  with Cons show ?case
    using valid_option_word [OF _ assms]
    by (cases "is_valid_dsn_option options n ctx") (simp_all add: parse_pairs_option collect_pair_def)
qed simp

lemma no_wrapper_options [simp]: "append_options options ForeignDataWrapperRelationId opts = []"
  by (auto simp: append_options_def is_valid_dsn_option_def split: option.splits)

lemma mapping_words: "option_word ''user_mapping''" "option_word ''pgactive_foreign_server''"
  by (simp_all add: option_word_def is_space_def)

lemma store_mapping_names:
  "store_mapping tr ''user_mapping'' v (um, fs) = Inr (Some (tr v), fs)"
  "store_mapping tr ''pgactive_foreign_server'' v (um, fs) = Inr (um, Some (tr v))"
  by (simp_all add: store_mapping_def pg_strncasecmp_eq_def tolower_def)

text \<open>
  User mapping information whose two names are written with the escapes of
  \<open>escape_param_str\<close> is read back as exactly these names, whatever characters they contain,
  blanks, quotes, backslashes and equals signs among them, as long as they have the length of an identifier.
\<close>

theorem user_mapping_roundtrip:
  assumes "\<And>s. length s < NAMEDATALEN \<Longrightarrow> tr s = s" and "length um < NAMEDATALEN" and "length fs < NAMEDATALEN"
  shows "user_mapping_parse tr (''user_mapping='' @ [quote] @ escape_param_str um @ [quote] @
           '' pgactive_foreign_server='' @ [quote] @ escape_param_str fs @ [quote]) = Inr (Some um, Some fs)"
proof -
  have eq: "''user_mapping='' @ [quote] @ escape_param_str um @ [quote] @ '' pgactive_foreign_server='' @ [quote] @ escape_param_str fs @ [quote] =
    ''user_mapping'' @ CHR ''='' # quote # escape_param_str um @ quote # CHR '' '' #
      (''pgactive_foreign_server'' @ CHR ''='' # quote # escape_param_str fs @ quote # [])"
    by simp
  show ?thesis
    unfolding eq user_mapping_parse_def
    by (simp only: parse_pairs_option mapping_words store_mapping_names parse_pairs_blank sum.case assms)
qed

theorem user_mapping_roundtrip_witness:
  "user_mapping_parse (take 63) (''user_mapping='' @ [quote] @ escape_param_str [quote, CHR ''a'', backslash] @ [quote] @
     '' pgactive_foreign_server='' @ [quote] @ escape_param_str ''b = c'' @ [quote]) =
   Inr (Some [quote, CHR ''a'', backslash], Some ''b = c'')"
  by (rule user_mapping_roundtrip) (simp_all add: NAMEDATALEN_def)


definition example_fdw_env :: fdw_env where
  "example_fdw_env = \<lparr>fe_conninfo_parse = (\<lambda>_. False),
     fe_conndefaults = Some [\<lparr>keyword = ''host'', dispchar = []\<rparr>, \<lparr>keyword = ''password'', dispchar = ''*''\<rparr>],
     fe_truncate_identifier = take 63, fe_servers = (\<lambda>_. Inr 1), fe_umuser = (\<lambda>_ _. Inr [10]),
     fe_server = (\<lambda>_. Inr \<lparr>serverid = 7, fdwid = 8, server_options = [(''host'', ''h p=1''), (''password'', ''x'')]\<rparr>),
     fe_fdw_options = (\<lambda>_. Inr []), fe_mapping_options = (\<lambda>_ _. Inr [(''password'', [quote])]), fe_aclcheck = (\<lambda>_ _. Inr ())\<rparr>"


lemma example_fdw_fields:
  "fe_server example_fdw_env fs = Inr \<lparr>serverid = 7, fdwid = 8, server_options = [(''host'', ''h p=1''), (''password'', ''x'')]\<rparr>"
  "fe_mapping_options example_fdw_env u sid = Inr [(''password'', [quote])]"
  "fe_conndefaults example_fdw_env = Some [\<lparr>keyword = ''host'', dispchar = []\<rparr>, \<lparr>keyword = ''password'', dispchar = ''*''\<rparr>]"
  by (simp_all add: example_fdw_env_def)

definition example_connect_string :: string where
  "example_connect_string = ''host='' @ [quote] @ ''h p=1'' @ [quote] @ '' password='' @ [quote, backslash, quote, quote] @ '' ''"

lemma example_connect:
  "get_connect_string example_fdw_env ''user_mapping=u pgactive_foreign_server=s'' = Inr (Some example_connect_string)"
  by code_simp


end
