(* ===== verification/Remote_Calls.thy ===== *)
theory Remote_Calls
  imports User_Mapping Node_Catalog
begin

text \<open>
  Calls to another node over libpq: the connections and replication slots of
  \<^verbatim>\<open>src/pgactive.c\<close>, the queries of \<^verbatim>\<open>src/pgactive_remotecalls.c\<close> and the check of the extension in
  \<^verbatim>\<open>src/pgactive_init_replica.c\<close>.  What a process asks of the world outside is recorded as a
  trace of events, and every answer is a function of the trace so far, so that no assumption is made
  about the other side.  A process may be killed before any event.  A connection is named by the
  string that opened it.
\<close>

section \<open>The interface to other nodes\<close>

datatype ExecStatusType = PGRES_COMMAND_OK | PGRES_TUPLES_OK | PGRES_COPY_OUT | PGRES_COPY_IN | PGRES_OTHER

record PGresult =
  PQresultStatus :: ExecStatusType
  PQnfields :: nat
  res_rows :: "string option list list"

definition PQntuples :: "PGresult \<Rightarrow> nat" where
  "PQntuples res = length (res_rows res)"

definition res_cell :: "PGresult \<Rightarrow> nat \<Rightarrow> nat \<Rightarrow> string option option" where
  "res_cell res i j =
     (if i < PQntuples res \<and> j < length (res_rows res ! i) then Some (res_rows res ! i ! j) else None)"

text \<open>Outside of the result \<open>PQgetvalue\<close> returns a null pointer; a null value reads as the empty string.\<close>

definition PQgetisnull :: "PGresult \<Rightarrow> nat \<Rightarrow> nat \<Rightarrow> bool" where
  "PQgetisnull res i j = (case res_cell res i j of Some (Some _) \<Rightarrow> False | _ \<Rightarrow> True)"

definition PQgetvalue :: "PGresult \<Rightarrow> nat \<Rightarrow> nat \<Rightarrow> string result" where
  "PQgetvalue res i j =
     (case res_cell res i j of None \<Rightarrow> Inl (Panic ''null pointer dereference'')
      | Some None \<Rightarrow> Inr [] | Some (Some v) \<Rightarrow> Inr v)"

text \<open>The statements and replication commands that are sent.\<close>

datatype command =
    IDENTIFY_SYSTEM
  | CREATE_REPLICATION_SLOT string
  | SELECT_node_identifier
  | SELECT_database_oid
  | SELECT_extension_version
  | SELECT_node_info
  | SELECT_collation
  | SELECT_local_nodeid
  | SELECT_node_status
  | SELECT_indexes_size
  | SELECT_node_info_private string
  | SELECT_node_name_count string
  | SELECT_current_wal_insert_lsn
  | SELECT_replication_set_tables string
  | SYNC_SETUP
  | COPY_nodes_out
  | COPY_node_out string string string
  | COPY_connections_out
  | COPY_nodes_in
  | COPY_connections_in
  | COPY_END
  | COMMIT
  | BEGIN_READ_COMMITTED
  | LOCK_nodes
  | DO_acquire_ddl_lock
  | SELECT_join_node_private "string list"
  | UPDATE_node_ready "string list"
  | CREATE_TEMP_TABLE

datatype program = pgactive_DUMP_CMD | pgactive_RESTORE_CMD

text \<open>
  Everything that reaches beyond the memory of the process: libpq, local replication origins,
  committed changes of the local catalogue, programs, directories and background workers.
\<close>

datatype event =
    PQconnectdb string
  | PQexec string command
  | PQputCopyData string string
  | CreateOrigin string
  | SetupOrigin u16
  | SetNodeStatus pgactiveNodeStatus
  | SetReadOnly bool
  | MakeDirectory string
  | RemoveDirectory string
  | Execv program "string list"
  | LaunchCatchup pgactiveNodeId u64
  | MaintainWorkers

record remote_env =
  re_killed :: "event list \<Rightarrow> event \<Rightarrow> bool"
  re_connect :: "event list \<Rightarrow> string \<Rightarrow> bool"
  re_exec :: "event list \<Rightarrow> string \<Rightarrow> command \<Rightarrow> PGresult"
  re_copy_rows :: "event list \<Rightarrow> string \<Rightarrow> string list \<times> bool"
  re_put_ok :: "event list \<Rightarrow> string \<Rightarrow> bool"
  re_fdw :: fdw_env
  re_default_options :: string
  re_extra_options :: string
  re_nid :: u64
  re_mydb :: u32
  re_origin_create :: "(string \<times> u16) list \<Rightarrow> string \<Rightarrow> u16 result"
  re_int4in :: "string \<Rightarrow> int result"
  re_int8in :: "string \<Rightarrow> int result"
  re_boolin :: "string \<Rightarrow> bool result"
  re_oidin :: "string \<Rightarrow> u32 result"
  re_pg_lsn_in :: "string \<Rightarrow> u64 result"

abbreviation re_myid :: "remote_env \<Rightarrow> pgactiveNodeId" where
  "re_myid env \<equiv> pgactive_make_my_nodeid (re_nid env) (re_mydb env)"

record remote_state =
  rs_trace :: "event list"
  rs_origins :: "(string \<times> u16) list"

definition emit :: "remote_env \<Rightarrow> event \<Rightarrow> ('z remote_state_scheme, unit) op" where
  "emit env e s =
     (if re_killed env (rs_trace s) e then (Inl (Fatal ''terminating process''), s)
      else (Inr (), s\<lparr>rs_trace := rs_trace s @ [e]\<rparr>))"

definition pq_connect :: "remote_env \<Rightarrow> string \<Rightarrow> ('z remote_state_scheme, bool) op" where
  "pq_connect env dsn = sseq (emit env (PQconnectdb dsn)) (sget (\<lambda>s. re_connect env (rs_trace s) dsn))"

definition pq_exec :: "remote_env \<Rightarrow> string \<Rightarrow> command \<Rightarrow> ('z remote_state_scheme, PGresult) op" where
  "pq_exec env conn cmd = sseq (emit env (PQexec conn cmd)) (sget (\<lambda>s. re_exec env (rs_trace s) conn cmd))"

text \<open>\<open>check\<close> fails with the given error unless the condition holds.\<close>

definition check :: "bool \<Rightarrow> pg_error \<Rightarrow> ('s, unit) op" where
  "check b e = (if b then sret () else sfail e)"

lemma check_simps [simp]: "check True e = sret ()" "check False e = sfail e"
  by (simp_all add: check_def)

section \<open>Connections\<close>

definition resolve_dsn :: "remote_env \<Rightarrow> string \<Rightarrow> string result" where
  "resolve_dsn env dsn =
     bind_result (get_connect_string (re_fdw env) dsn) (\<lambda>servername.
       Inr (case servername of None \<Rightarrow> dsn | Some s \<Rightarrow> s))"

definition application_name :: "remote_env \<Rightarrow> string \<Rightarrow> string" where
  "application_name env suffix =
     ''application_name='' @ [quote] @ ''pgactive:'' @ dec_string (unat (sysid (re_myid env))) @ '':'' @ suffix @ [quote]"

text \<open>\<open>sscanf\<close> with a single \<open>%u\<close> or \<open>UINT64_FORMAT\<close>.\<close>

definition scan_num :: "nat \<Rightarrow> string \<Rightarrow> string \<Rightarrow> nat result" where
  "scan_num w s msg = (case sscanf [ConvU w] s of [VU n] \<Rightarrow> Inr n | _ \<Rightarrow> Inl (Error msg))"

definition pgactive_get_remote_dboid :: "remote_env \<Rightarrow> string \<Rightarrow> ('z remote_state_scheme, u32) op" where
  "pgactive_get_remote_dboid env conninfo_db =
     sbind (pq_connect env conninfo_db) (\<lambda>ok.
     sseq (check ok (Fatal ''get remote OID''))
     (sbind (pq_exec env conninfo_db SELECT_database_oid) (\<lambda>res.
      sseq (check (PQresultStatus res = PGRES_TUPLES_OK) (Fatal ''could not fetch database oid''))
      (sseq (check (PQntuples res = 1 \<and> PQnfields res = 1) (Fatal ''could not identify system''))
      (sbind (slift (PQgetvalue res 0 0)) (\<lambda>v.
       sbind (slift (scan_num 32 v ''could not parse remote database OID'')) (\<lambda>n. sret (of_nat n))))))))"

definition pgactive_connect :: "remote_env \<Rightarrow> string \<Rightarrow> string \<Rightarrow> ('z remote_state_scheme, string \<times> pgactiveNodeId) op" where
  "pgactive_connect env conninfo appnamesuffix =
     sbind (slift (resolve_dsn env conninfo)) (\<lambda>server.
     let nrepl = application_name env appnamesuffix @ '' '' @ re_default_options env @ '' '' @ re_extra_options env @ '' '' @ server;
         repl = nrepl @ '' replication=database'' in
     sbind (pq_connect env repl) (\<lambda>ok.
     sseq (check ok (Error ''could not connect to the server in replication mode''))
     (sbind (pq_exec env repl IDENTIFY_SYSTEM) (\<lambda>res.
      sseq (check (PQresultStatus res = PGRES_TUPLES_OK) (Error ''could not send replication command''))
      (sseq (check (PQntuples res = 1 \<and> 4 \<le> PQnfields res \<and> PQnfields res \<le> 5) (Error ''could not identify system''))
      (sbind (if PQnfields res = 5
              then sbind (slift (PQgetvalue res 0 4)) (\<lambda>v.
                   sbind (slift (scan_num 32 v ''could not parse remote database OID'')) (\<lambda>n. sret (of_nat n)))
              else pgactive_get_remote_dboid env server) (\<lambda>remote_dboid.
       sbind (slift (PQgetvalue res 0 1)) (\<lambda>remote_tlid.
       sseq (slift (scan_num 32 remote_tlid ''could not parse remote tlid''))
       (sbind (pq_connect env nrepl) (\<lambda>ok.
        sseq (check ok (Error ''could not connect to the server in non-replication mode''))
        (sbind (pq_exec env nrepl SELECT_node_identifier) (\<lambda>res.
         sseq (check (PQresultStatus res = PGRES_TUPLES_OK) (Error ''could not send command''))
         (sseq (check (PQntuples res = 1 \<and> PQnfields res = 1) (Error ''could not fetch pgactive node identifier''))
         (sbind (slift (PQgetvalue res 0 0)) (\<lambda>v.
          sbind (slift (scan_num 64 v ''could not parse remote pgactive node identifier'')) (\<lambda>n.
          sret (repl, \<lparr>sysid = of_nat n, timeline = pgactiveThisTimeLineID, dboid = remote_dboid\<rparr>)))))))))))))))))"

text \<open>The second component tells whether the connection was made.\<close>

definition pgactive_connect_nonrepl ::
  "remote_env \<Rightarrow> string \<Rightarrow> string \<Rightarrow> bool \<Rightarrow> bool \<Rightarrow> ('z remote_state_scheme, string \<times> bool) op" where
  "pgactive_connect_nonrepl env connstring appname is_appnamesuffix report_fatal =
     sbind (slift (resolve_dsn env connstring)) (\<lambda>server.
     let dsn = re_default_options env @ '' '' @ re_extra_options env @ '' '' @ server @ '' '' @
           (if is_appnamesuffix then application_name env appname
            else ''application_name='' @ [quote] @ appname @ [quote]) in
     sbind (pq_connect env dsn) (\<lambda>ok.
     sseq (check (ok \<or> \<not> report_fatal) (Fatal ''could not connect to the server in non-replication mode''))
     (sret (dsn, ok))))"

section \<open>Replication slots\<close>

definition pgactive_create_slot ::
  "remote_env \<Rightarrow> string \<Rightarrow> string \<Rightarrow> string \<Rightarrow> ('z remote_state_scheme, u16 \<times> string option) op" where
  "pgactive_create_slot env streamConn slot_name remote_ident =
     sbind (pq_exec env streamConn (CREATE_REPLICATION_SLOT slot_name)) (\<lambda>res.
     sseq (check (PQresultStatus res = PGRES_TUPLES_OK) (Fatal ''could not send replication command''))
     (sbind (sget rs_origins) (\<lambda>origins.
      sbind (slift (re_origin_create env origins remote_ident)) (\<lambda>origin.
      sseq (emit env (CreateOrigin remote_ident))
      (sseq (smodify (\<lambda>s. s\<lparr>rs_origins := rs_origins s @ [(remote_ident, origin)]\<rparr>))
      (if PQgetisnull res 0 2 then sret (origin, None)
       else sbind (slift (PQgetvalue res 0 2)) (\<lambda>v. sret (origin, Some (take (NAMEDATALEN - 1) v)))))))))"

record slot_connection =
  sc_conn :: string
  sc_slot :: string
  sc_node :: pgactiveNodeId
  sc_origin :: u16
  sc_snapshot :: "string option"

text \<open>\<open>session\<close>: the caller wants the origin, which then becomes the one of the session.\<close>

definition pgactive_establish_connection_and_slot ::
  "remote_env \<Rightarrow> string \<Rightarrow> string \<Rightarrow> bool \<Rightarrow> ('z remote_state_scheme, slot_connection) op" where
  "pgactive_establish_connection_and_slot env dsn suffix session =
     sbind (pgactive_connect env dsn suffix) (\<lambda>(conn, node).
     let slot_name = pgactive_slot_name (re_myid env) (dboid node);
         ident = pgactive_replident_name node (dboid (re_myid env)) in
     sbind (sget (\<lambda>s. map_of (rs_origins s) ident)) (\<lambda>known.
     sbind (case known of Some origin \<Rightarrow> sret (origin, None)
            | None \<Rightarrow> pgactive_create_slot env conn slot_name ident) (\<lambda>(origin, snapshot).
     sseq (swhen session (emit env (SetupOrigin origin)))
     (sret \<lparr>sc_conn = conn, sc_slot = slot_name, sc_node = node, sc_origin = origin, sc_snapshot = snapshot\<rparr>))))"

section \<open>The extension on the other node\<close>

text \<open>Both versions are copied from the first column.\<close>

definition pgactive_get_remote_ext_version ::
  "remote_env \<Rightarrow> string \<Rightarrow> ('z remote_state_scheme, string option \<times> string option) op" where
  "pgactive_get_remote_ext_version env conn =
     sbind (pq_exec env conn SELECT_extension_version) (\<lambda>res.
     sseq (check (PQresultStatus res = PGRES_TUPLES_OK) (Error ''unable to get remote pgactive extension version''))
     (if PQntuples res = 1
      then sbind (slift (PQgetvalue res 0 0)) (\<lambda>d. sbind (slift (PQgetvalue res 0 0)) (\<lambda>i. sret (Some d, Some i)))
      else sret (None, None)))"

definition pgactive_ensure_ext_installed :: "remote_env \<Rightarrow> string \<Rightarrow> ('z remote_state_scheme, unit) op" where
  "pgactive_ensure_ext_installed env conn =
     sbind (pgactive_get_remote_ext_version env conn) (\<lambda>(default_version, installed_version).
     sseq (check (default_version \<noteq> None \<and> default_version \<noteq> Some [])
             (Error ''remote PostgreSQL install for pgactive connection does not have pgactive extension installed''))
     (check (installed_version \<noteq> None \<and> installed_version \<noteq> Some [])
        (Error ''remote database for pgactive connection does not have the pgactive extension active'')))"

section \<open>Copying a table between two nodes\<close>

fun copy_rows :: "remote_env \<Rightarrow> string \<Rightarrow> string list \<Rightarrow> ('z remote_state_scheme, unit) op" where
  "copy_rows env conn [] = sret ()"
| "copy_rows env conn (r # rs) =
     sseq (emit env (PQputCopyData conn r))
     (sbind (sget (\<lambda>s. re_put_ok env (rs_trace s) conn)) (\<lambda>ok.
      sseq (check ok (Error ''writing to destination table failed'')) (copy_rows env conn rs)))"

definition pgactive_copytable :: "remote_env \<Rightarrow> string \<Rightarrow> string \<Rightarrow> command \<Rightarrow> command \<Rightarrow> ('z remote_state_scheme, unit) op" where
  "pgactive_copytable env copyfrom_conn copyto_conn copyfrom_query copyto_query =
     sbind (pq_exec env copyfrom_conn copyfrom_query) (\<lambda>res.
     sseq (check (PQresultStatus res = PGRES_COPY_OUT) (Error ''execution of COPY ... TO stdout failed''))
     (sbind (pq_exec env copyto_conn copyto_query) (\<lambda>res.
      sseq (check (PQresultStatus res = PGRES_COPY_IN) (Error ''execution of COPY ... FROM stdout failed''))
      (sbind (sget (\<lambda>s. re_copy_rows env (rs_trace s) copyfrom_conn)) (\<lambda>(rows, complete).
       sseq (copy_rows env copyto_conn rows)
       (sseq (check complete (Error ''reading from origin table/query failed''))
       (sseq (emit env (PQexec copyto_conn COPY_END))
       (sbind (sget (\<lambda>s. re_put_ok env (rs_trace s) copyto_conn)) (\<lambda>ok.
        check ok (Error ''sending copy-completion to destination connection failed''))))))))))"

section \<open>Information about another node\<close>

text \<open>
  \<open>%d\<close> and \<open>atoi\<close>: an optional sign and digits, converted as by \<open>strtol\<close> and stored in an \<open>int\<close>.
\<close>

definition scan_d :: "string \<Rightarrow> (int \<times> string) option" where
  "scan_d s =
     (let (neg, r) = scan_sign (dropWhile is_space s); ds = takeWhile is_digit r; v = int (dec_value ds) in
      if ds = [] then None
      else Some (sint (word_of_int (if neg then max (- (2 ^ 63)) (- v) else min (2 ^ 63 - 1) v) :: u32), dropWhile is_digit r))"

definition atoi :: "string \<Rightarrow> int" where
  "atoi s = (case scan_d s of None \<Rightarrow> 0 | Some (v, _) \<Rightarrow> v)"

fun scan_version :: "nat \<Rightarrow> string \<Rightarrow> int list" where
  "scan_version 0 s = []"
| "scan_version (Suc n) s =
     (case scan_d s of None \<Rightarrow> []
      | Some (v, r) \<Rightarrow> v # (case r of [] \<Rightarrow> [] | c # r' \<Rightarrow> if c = CHR ''.'' then scan_version n r' else []))"

text \<open>The result is the version number with its parts; the arithmetic is that of \<open>int\<close>.\<close>

definition pgactive_parse_version :: "string \<Rightarrow> (int \<times> int \<times> int \<times> int \<times> int) result" where
  "pgactive_parse_version s =
     (case scan_version 4 s of
        major # minor # revision # rest \<Rightarrow>
          Inr (sint (word_of_int (major * 10000 + minor * 100 + revision) :: u32), major, minor, revision,
               case rest of [] \<Rightarrow> - 1 | subrev # _ \<Rightarrow> subrev)
      | _ \<Rightarrow> Inl (Error ''unable to parse as a pgactive version number''))"

record remote_node_info =
  ri_nodeid :: pgactiveNodeId
  ri_sysid_str :: string
  ri_variant :: string
  ri_version :: string
  ri_version_num :: int
  ri_min_remote_version_num :: int
  ri_has_required_privs :: bool
  ri_node_status :: char
  ri_node_name :: string
  ri_dbname :: string
  ri_dbsize :: int
  ri_indexessize :: int
  ri_max_nodes :: int
  ri_skip_ddl_replication :: bool
  ri_nb_include_rs :: int
  ri_cur_nodes :: int
  ri_datcollate :: "string option"
  ri_datctype :: "string option"

definition get_text :: "PGresult \<Rightarrow> nat \<Rightarrow> ('s, string) op" where
  "get_text res j = slift (PQgetvalue res 0 j)"

definition get_conv :: "(string \<Rightarrow> 'a result) \<Rightarrow> PGresult \<Rightarrow> nat \<Rightarrow> ('s, 'a) op" where
  "get_conv conv res j = slift (bind_result (PQgetvalue res 0 j) conv)"

definition get_null :: "PGresult \<Rightarrow> nat \<Rightarrow> ('s, string option) op" where
  "get_null res j = (if PQgetisnull res 0 j then sret None else sbind (get_text res j) (\<lambda>v. sret (Some v)))"

text \<open>The first character of a string is its terminator when it is empty.\<close>

definition first_char :: "string \<Rightarrow> char" where
  "first_char s = (case s of [] \<Rightarrow> CHR 0x00 | c # _ \<Rightarrow> c)"

definition exec_tuples :: "remote_env \<Rightarrow> string \<Rightarrow> command \<Rightarrow> string \<Rightarrow> ('z remote_state_scheme, PGresult) op" where
  "exec_tuples env conn cmd msg =
     sbind (pq_exec env conn cmd) (\<lambda>res. sseq (check (PQresultStatus res = PGRES_TUPLES_OK) (Error msg)) (sret res))"

definition node_identity :: "remote_env \<Rightarrow> PGresult \<Rightarrow> ('s, string \<times> pgactiveNodeId) op" where
  "node_identity env res =
     sbind (get_text res 0) (\<lambda>sys.
     sbind (slift (scan_num 64 sys ''could not parse remote sysid'')) (\<lambda>n.
     sbind (get_conv (re_oidin env) res 1) (\<lambda>tl.
     sbind (get_conv (re_oidin env) res 2) (\<lambda>d.
     sret (sys, \<lparr>sysid = of_nat n, timeline = tl, dboid = d\<rparr>)))))"

definition pgactive_get_remote_nodeinfo_internal :: "remote_env \<Rightarrow> string \<Rightarrow> ('z remote_state_scheme, remote_node_info) op" where
  "pgactive_get_remote_nodeinfo_internal env conn =
     sseq (pgactive_ensure_ext_installed env conn)
     (sbind (exec_tuples env conn SELECT_node_info ''unable to get pgactive information from remote node'') (\<lambda>res.
      sbind (get_text res 0) (\<lambda>version. sbind (get_text res 1) (\<lambda>vnum. sbind (get_text res 2) (\<lambda>variant.
      sbind (get_text res 3) (\<lambda>minver. sbind (get_conv (re_boolin env) res 4) (\<lambda>privs. sbind (get_text res 5) (\<lambda>name.
      sbind (get_text res 6) (\<lambda>dbname. sbind (get_conv (re_int8in env) res 7) (\<lambda>dbsize.
      sbind (get_conv (re_int4in env) res 8) (\<lambda>max_nodes. sbind (get_conv (re_boolin env) res 9) (\<lambda>skip.
      sbind (get_conv (re_int4in env) res 10) (\<lambda>nb. sbind (get_conv (re_int4in env) res 11) (\<lambda>cur.
      sseq (slift (pgactive_parse_version version))
      (sbind (exec_tuples env conn SELECT_collation ''unable to get database collation information from remote node'') (\<lambda>res.
       sbind (get_null res 0) (\<lambda>collate. sbind (get_null res 1) (\<lambda>ctype.
       sbind (exec_tuples env conn SELECT_local_nodeid ''unable to get remote node identity'') (\<lambda>res.
       sseq (check (\<not> PQgetisnull res 0 0 \<and> \<not> PQgetisnull res 0 1 \<and> \<not> PQgetisnull res 0 2) (Error ''unexpectedly null field''))
       (sbind (node_identity env res) (\<lambda>(sys, node).
        sbind (exec_tuples env conn SELECT_node_status ''unable to get remote node status'') (\<lambda>res.
        sbind (if PQntuples res = 0 then sret CHR 0x00
               else if PQntuples res = 1
               then sseq (check (\<not> PQgetisnull res 0 0) (Error ''unexpectedly null field node_status in pgactive.pgactive_nodes''))
                      (sbind (get_text res 0) (\<lambda>v. sret (first_char v)))
               else sfail (Error ''got more than one pgactive.pgactive_nodes row matching local nodeid'')) (\<lambda>status.
        sbind (exec_tuples env conn SELECT_indexes_size ''unable to get total indexes size from remote node'') (\<lambda>res.
        sbind (if PQgetisnull res 0 0 then sret 0 else get_conv (re_int8in env) res 0) (\<lambda>isize.
        sret \<lparr>ri_nodeid = node, ri_sysid_str = sys, ri_variant = variant, ri_version = version, ri_version_num = atoi vnum,
              ri_min_remote_version_num = atoi minver, ri_has_required_privs = privs, ri_node_status = status,
              ri_node_name = name, ri_dbname = dbname, ri_dbsize = dbsize, ri_indexessize = isize, ri_max_nodes = max_nodes,
              ri_skip_ddl_replication = skip, ri_nb_include_rs = nb, ri_cur_nodes = cur, ri_datcollate = collate,
              ri_datctype = ctype\<rparr>)))))))))))))))))))))))))"


text \<open>Ask the other node to connect back; it reports what it found about this one in nineteen columns.\<close>

definition pgactive_test_remote_connectback_internal ::
  "remote_env \<Rightarrow> string \<Rightarrow> string \<Rightarrow> ('z remote_state_scheme, remote_node_info) op" where
  "pgactive_test_remote_connectback_internal env conn my_dsn =
     sbind (exec_tuples env conn (SELECT_node_info_private my_dsn) ''connection from remote back to local failed'') (\<lambda>res.
     sseq (check (PQntuples res = 1) (Error ''got wrong number of tuples instead of expected 1''))
     (sbind (node_identity env res) (\<lambda>(sys, node).
      sbind (get_text res 3) (\<lambda>variant. sbind (get_text res 4) (\<lambda>version. sbind (get_text res 5) (\<lambda>vnum.
      sbind (get_text res 6) (\<lambda>minver. sbind (get_conv (re_boolin env) res 7) (\<lambda>privs.
      sbind (if PQgetisnull res 0 8 then sret CHR 0x00 else sbind (get_text res 8) (\<lambda>v. sret (first_char v))) (\<lambda>status.
      sbind (get_text res 9) (\<lambda>name. sbind (get_text res 10) (\<lambda>dbname. sbind (get_conv (re_int8in env) res 11) (\<lambda>dbsize.
      sbind (get_conv (re_int8in env) res 12) (\<lambda>isize. sbind (get_conv (re_int4in env) res 13) (\<lambda>max_nodes.
      sbind (get_conv (re_boolin env) res 14) (\<lambda>skip. sbind (get_conv (re_int4in env) res 15) (\<lambda>nb.
      sbind (get_conv (re_int4in env) res 16) (\<lambda>cur. sbind (get_null res 17) (\<lambda>collate. sbind (get_null res 18) (\<lambda>ctype.
      sret \<lparr>ri_nodeid = node, ri_sysid_str = sys, ri_variant = variant, ri_version = version, ri_version_num = atoi vnum,
            ri_min_remote_version_num = atoi minver, ri_has_required_privs = privs, ri_node_status = status,
            ri_node_name = name, ri_dbname = dbname, ri_dbsize = dbsize, ri_indexessize = isize, ri_max_nodes = max_nodes,
            ri_skip_ddl_replication = skip, ri_nb_include_rs = nb, ri_cur_nodes = cur, ri_datcollate = collate,
            ri_datctype = ctype\<rparr>)))))))))))))))))))"

text \<open>The columns of the result of \<open>pgactive_get_node_info\<close>.\<close>

datatype info_datum = DText string | DOid u32 | DInt4 int | DInt8 int | DBool bool | DChar char

definition node_info_columns :: "remote_node_info \<Rightarrow> info_datum option list" where
  "node_info_columns ri =
     [Some (DText (ri_sysid_str ri)), Some (DOid (timeline (ri_nodeid ri))), Some (DOid (dboid (ri_nodeid ri))),
      Some (DText (ri_variant ri)), Some (DText (ri_version ri)), Some (DInt4 (ri_version_num ri)),
      Some (DInt4 (ri_min_remote_version_num ri)), Some (DBool (ri_has_required_privs ri)),
      if ri_node_status ri = CHR 0x00 then None else Some (DChar (ri_node_status ri)),
      Some (DText (ri_node_name ri)), Some (DText (ri_dbname ri)), Some (DInt8 (ri_dbsize ri)),
      Some (DInt8 (ri_indexessize ri)), Some (DInt4 (ri_max_nodes ri)), Some (DBool (ri_skip_ddl_replication ri)),
      Some (DInt4 (ri_nb_include_rs ri)), Some (DInt4 (ri_cur_nodes ri)),
      map_option DText (ri_datcollate ri), map_option DText (ri_datctype ri)]"

text \<open>\<open>None\<close> is a null argument or a null result.\<close>

definition pgactive_get_node_info ::
  "remote_env \<Rightarrow> string option \<Rightarrow> string option \<Rightarrow> ('z remote_state_scheme, info_datum option list option) op" where
  "pgactive_get_node_info env dsn_arg remote_arg =
     (case dsn_arg of None \<Rightarrow> sret None
      | Some dsn \<Rightarrow>
          sbind (case remote_arg of
                   None \<Rightarrow> sseq (pgactive_connect env dsn ''node info'')
                             (pgactive_connect_nonrepl env dsn ''node info'' True True)
                 | Some remote_dsn \<Rightarrow> pgactive_connect_nonrepl env remote_dsn ''node info'' True True) (\<lambda>(conn, _).
          sbind (case remote_arg of
                   None \<Rightarrow> pgactive_get_remote_nodeinfo_internal env conn
                 | Some _ \<Rightarrow> pgactive_test_remote_connectback_internal env conn dsn) (\<lambda>ri.
          sret (Some (node_info_columns ri)))))"

definition pgactive_node_name_present ::
  "remote_env \<Rightarrow> string option \<Rightarrow> string option \<Rightarrow> ('z remote_state_scheme, int option) op" where
  "pgactive_node_name_present env name_arg dsn_arg =
     (case (name_arg, dsn_arg) of
        (Some name, Some dsn) \<Rightarrow>
          sbind (pgactive_connect_nonrepl env dsn ''pgactive'' False False) (\<lambda>(conn, ok).
          sseq (check ok (Error ''unable to connect to remote node node''))
          (sbind (exec_tuples env conn (SELECT_node_name_count name) ''unable to fetch node info'') (\<lambda>res.
           sseq (check (PQntuples res = 1 \<and> PQnfields res = 1) (Error ''could not fetch info''))
           (sbind (get_text res 0) (\<lambda>v. sret (Some (atoi v)))))))
      | _ \<Rightarrow> sret None)"

section \<open>Slots and origins\<close>

lemma emit_Inr:
  "emit env e s = (Inr x, s') \<longleftrightarrow> \<not> re_killed env (rs_trace s) e \<and> s' = s\<lparr>rs_trace := rs_trace s @ [e]\<rparr>"
  by (auto simp: emit_def)

lemma check_Inr [simp]: "check b e s = (Inr x, s') \<longleftrightarrow> b \<and> s' = s"
  by (auto simp: check_def)

lemma sbind_Inr: "sbind m f s = (Inr y, s') \<longleftrightarrow> (\<exists>x t. m s = (Inr x, t) \<and> f x t = (Inr y, s'))"
  by (auto simp: sbind_def split: prod.splits sum.splits)

lemma sseq_Inr: "sseq m n s = (Inr y, s') \<longleftrightarrow> (\<exists>x t. m s = (Inr x, t) \<and> n t = (Inr y, s'))"
  by (simp add: sseq_def sbind_Inr)

lemma pq_exec_Inr:
  "pq_exec env conn cmd s = (Inr res, s') \<longleftrightarrow>
     \<not> re_killed env (rs_trace s) (PQexec conn cmd) \<and> s' = s\<lparr>rs_trace := rs_trace s @ [PQexec conn cmd]\<rparr> \<and>
     res = re_exec env (rs_trace s @ [PQexec conn cmd]) conn cmd"
  by (auto simp: pq_exec_def sseq_Inr emit_Inr)

lemma pq_connect_Inr:
  "pq_connect env dsn s = (Inr ok, s') \<longleftrightarrow>
     \<not> re_killed env (rs_trace s) (PQconnectdb dsn) \<and> s' = s\<lparr>rs_trace := rs_trace s @ [PQconnectdb dsn]\<rparr> \<and>
     ok = re_connect env (rs_trace s @ [PQconnectdb dsn]) dsn"
  by (auto simp: pq_connect_def sseq_Inr emit_Inr)

lemmas remote_Inr = sbind_Inr sseq_Inr emit_Inr pq_exec_Inr pq_connect_Inr


section \<open>What an operation can do to the state\<close>

text \<open>\<open>runs R f\<close>: however \<open>f\<close> ends, the states before and after it are related by \<open>R\<close>.\<close>

definition runs :: "('s \<Rightarrow> 's \<Rightarrow> bool) \<Rightarrow> ('s, 'a) op \<Rightarrow> bool" where
  "runs R f \<longleftrightarrow> (\<forall>s. R s (snd (f s)))"

locale step_order =
  fixes R :: "'s \<Rightarrow> 's \<Rightarrow> bool"
  assumes reflexive: "R s s" and transitive: "R s t \<Longrightarrow> R t u \<Longrightarrow> R s u"
begin

lemma runs_pure: "runs R (sret x)" "runs R (sfail e)" "runs R (slift r)" "runs R (sget g)" "runs R (check b e)" "runs R (Pair r)"
  by (simp_all add: runs_def reflexive check_def)

lemma runs_sbind:
  assumes "runs R m" and "\<And>x. runs R (f x)"
  shows "runs R (sbind m f)"
  unfolding runs_def
proof
  fix s
  obtain r t where "m s = (r, t)" by fastforce
  then show "R s (snd (sbind m f s))"
    using assms unfolding runs_def by (cases r) (auto simp: sbind_def intro: transitive dest: spec [of _ s])
qed

lemma runs_sseq: "runs R m \<Longrightarrow> runs R n \<Longrightarrow> runs R (sseq m n)"
  by (simp add: sseq_def runs_sbind)

lemma runs_swhen: "runs R m \<Longrightarrow> runs R (swhen b m)"
  by (cases b) (simp_all add: runs_pure)

lemmas runs_intros = runs_pure runs_sbind runs_sseq runs_swhen

end

text \<open>The trace and the origins only grow, the trace by events of \<open>E\<close>; what else a wider state has is not touched.\<close>

definition extends :: "event set \<Rightarrow> 'z remote_state_scheme \<Rightarrow> 'z remote_state_scheme \<Rightarrow> bool" where
  "extends E s s' \<longleftrightarrow>
     remote_state.more s' = remote_state.more s \<and> (\<exists>t. set t \<subseteq> E \<and> rs_trace s' = rs_trace s @ t) \<and>
     (\<exists>x. rs_origins s' = rs_origins s @ x)"

interpretation ext: step_order "extends E" for E :: "event set"
proof
  show "extends E s s" for s :: "'z remote_state_scheme" by (auto simp: extends_def)
  show "extends E s u" if "extends E s t" "extends E t u" for s t u :: "'z remote_state_scheme"
  proof -
    from that obtain t1 t2 where "set t1 \<subseteq> E" "rs_trace t = rs_trace s @ t1" "set t2 \<subseteq> E" "rs_trace u = rs_trace t @ t2"
      "remote_state.more u = remote_state.more s" by (auto simp: extends_def)
    moreover have "\<exists>x. rs_origins u = rs_origins s @ x" using that by (auto simp: extends_def)
    ultimately show ?thesis unfolding extends_def by (intro conjI exI [of _ "t1 @ t2"]) auto
  qed
qed

lemma emit_runs: "e \<in> E \<Longrightarrow> runs (extends E) (emit env e)"
  by (auto simp: runs_def emit_def extends_def)

text \<open>Events of a conversation with other nodes, other than the statements that order the steps of a join.\<close>

fun join_command :: "command \<Rightarrow> bool" where
  "join_command DO_acquire_ddl_lock = True"
| "join_command SELECT_current_wal_insert_lsn = True"
| "join_command (SELECT_join_node_private vs) = True"
| "join_command (UPDATE_node_ready vs) = True"
| "join_command _ = False"

definition pq_events :: "event set" where
  "pq_events = range PQconnectdb \<union> {PQexec c q |c q. \<not> join_command q} \<union> range (\<lambda>(c, d). PQputCopyData c d) \<union> range CreateOrigin \<union> range SetupOrigin"

lemma pq_events_simps [simp]:
  "PQconnectdb d \<in> pq_events" "PQexec c q \<in> pq_events \<longleftrightarrow> \<not> join_command q" "PQputCopyData c x \<in> pq_events" "CreateOrigin n \<in> pq_events" "SetupOrigin i \<in> pq_events"
  "SetNodeStatus st \<notin> pq_events" "SetReadOnly b \<notin> pq_events" "Execv prog a \<notin> pq_events" "LaunchCatchup node l \<notin> pq_events"
  "MaintainWorkers \<notin> pq_events" "MakeDirectory p \<notin> pq_events" "RemoveDirectory p \<notin> pq_events"
  by (auto simp: pq_events_def)

lemma pq_calls_run:
  "runs (extends pq_events) (pq_connect env d)" "\<not> join_command q \<Longrightarrow> runs (extends pq_events) (pq_exec env c q)"
  by (auto simp: pq_connect_def pq_exec_def intro!: ext.runs_intros emit_runs)

lemma add_origin_runs: "runs (extends E) (smodify (\<lambda>s. s\<lparr>rs_origins := rs_origins s @ x\<rparr>))"
  by (auto simp: runs_def extends_def)

lemma connect_runs:
  "runs (extends pq_events) (pgactive_get_remote_dboid env i)"
  "runs (extends pq_events) (pgactive_connect_nonrepl env d a f r)"
  by (auto simp: pgactive_get_remote_dboid_def pgactive_connect_nonrepl_def Let_def intro!: ext.runs_intros pq_calls_run)

lemma pgactive_connect_runs: "runs (extends pq_events) (pgactive_connect env d a)"
  unfolding pgactive_connect_def Let_def
  by (auto intro!: ext.runs_intros connect_runs pq_calls_run)


lemma create_slot_runs: "runs (extends pq_events) (pgactive_create_slot env c n i)"
  unfolding pgactive_create_slot_def
  by (auto intro!: ext.runs_intros pq_calls_run emit_runs add_origin_runs)

lemma establish_runs: "runs (extends pq_events) (pgactive_establish_connection_and_slot env d a b)"
  unfolding pgactive_establish_connection_and_slot_def Let_def
  by (auto intro!: ext.runs_intros pgactive_connect_runs create_slot_runs emit_runs split: option.splits)

lemma ext_installed_runs: "runs (extends pq_events) (pgactive_ensure_ext_installed env c)"
  unfolding pgactive_ensure_ext_installed_def pgactive_get_remote_ext_version_def
  by (auto intro!: ext.runs_intros pq_calls_run)

lemma copy_rows_runs: "runs (extends pq_events) (copy_rows env c rows)"
  by (induction rows) (auto intro!: ext.runs_intros emit_runs)

lemma copytable_runs:
  "\<not> join_command q \<Longrightarrow> \<not> join_command r \<Longrightarrow> runs (extends pq_events) (pgactive_copytable env a b q r)"
  unfolding pgactive_copytable_def
  by (auto intro!: ext.runs_intros pq_calls_run emit_runs copy_rows_runs)

lemma get_runs: "runs (extends E) (get_text res j)" "runs (extends E) (get_conv f res j)" "runs (extends E) (get_null res j)"
  "runs (extends E) (node_identity env res)"
  by (auto simp: get_text_def get_conv_def get_null_def node_identity_def intro!: ext.runs_intros)

lemma exec_tuples_runs: "\<not> join_command q \<Longrightarrow> runs (extends pq_events) (exec_tuples env c q m)"
  by (auto simp: exec_tuples_def intro!: ext.runs_intros pq_calls_run)

lemma nodeinfo_runs: "runs (extends pq_events) (pgactive_get_remote_nodeinfo_internal env c)"
  unfolding pgactive_get_remote_nodeinfo_internal_def
  by (auto intro!: ext.runs_intros ext_installed_runs exec_tuples_runs get_runs)

definition slot_ready :: "remote_env \<Rightarrow> pgactiveNodeId \<Rightarrow> 'z remote_state_scheme \<Rightarrow> bool" where
  "slot_ready env node s \<longleftrightarrow> map_of (rs_origins s) (pgactive_replident_name node (re_mydb env)) \<noteq> None"

lemma my_dboid [simp]: "dboid (re_myid env) = re_mydb env"
  by (simp add: pgactive_make_my_nodeid_def)

lemma create_slot_pairs:
  assumes "pgactive_create_slot env c n i s = (Inr (origin, snap), s')"
  shows "rs_origins s' = rs_origins s @ [(i, origin)] \<and>
    PQresultStatus (re_exec env (rs_trace s @ [PQexec c (CREATE_REPLICATION_SLOT n)]) c (CREATE_REPLICATION_SLOT n)) = PGRES_TUPLES_OK \<and>
    rs_trace s' = rs_trace s @ [PQexec c (CREATE_REPLICATION_SLOT n), CreateOrigin i]"
  using assms by (auto simp: pgactive_create_slot_def remote_Inr split: if_splits)

lemma establish_pairs:
  assumes "pgactive_establish_connection_and_slot env d a b s = (Inr c, s')"
  shows "slot_ready env (sc_node c) s'"
proof -
  let ?ident = "\<lambda>node. pgactive_replident_name node (re_mydb env)"
  from assms obtain conn node t where c: "pgactive_connect env d a s = (Inr (conn, node), t)"
    and rest: "sbind (case map_of (rs_origins t) (?ident node) of Some origin \<Rightarrow> sret (origin, None)
            | None \<Rightarrow> pgactive_create_slot env conn (pgactive_slot_name (re_myid env) (dboid node)) (?ident node)) (\<lambda>(origin, snapshot).
     sseq (swhen b (emit env (SetupOrigin origin)))
     (sret \<lparr>sc_conn = conn, sc_slot = pgactive_slot_name (re_myid env) (dboid node), sc_node = node, sc_origin = origin, sc_snapshot = snapshot\<rparr>)) t = (Inr c, s')"
    by (auto simp: pgactive_establish_connection_and_slot_def Let_def sbind_Inr)
  show ?thesis
  proof (cases "map_of (rs_origins t) (?ident node)")
    case None
    with rest obtain origin snap t' where "pgactive_create_slot env conn (pgactive_slot_name (re_myid env) (dboid node)) (?ident node) t = (Inr (origin, snap), t')"
      "rs_origins s' = rs_origins t'" "sc_node c = node"
      by (cases b) (auto simp: remote_Inr)
    with create_slot_pairs [OF this(1)] None show ?thesis by (simp add: slot_ready_def map_add_def)
  next
    case (Some origin)
    with rest have "rs_origins s' = rs_origins t" "sc_node c = node" by (cases b; auto simp: remote_Inr)+
    with Some show ?thesis by (simp add: slot_ready_def)
  qed
qed


section \<open>A node seen through another one\<close>

definition int_string :: "int \<Rightarrow> string" where
  "int_string v = (if v < 0 then CHR ''-'' # dec_string (nat (- v)) else dec_string (nat v))"

definition int4 :: "int \<Rightarrow> bool" where
  "int4 v \<longleftrightarrow> - (2 ^ 31) \<le> v \<and> v < 2 ^ 31"

definition int8 :: "int \<Rightarrow> bool" where
  "int8 v \<longleftrightarrow> - (2 ^ 63) \<le> v \<and> v < 2 ^ 63"

lemma sint_u32_int4: "int4 v \<Longrightarrow> sint (word_of_int v :: u32) = v"
  by (simp add: int4_def signed_of_int signed_take_bit_int_eq_self)

lemma scan_dec_string:
  "takeWhile is_digit (dec_string n) = dec_string n" "dropWhile is_space (dec_string n) = dec_string n"
  "scan_sign (dec_string n) = (False, dec_string n)"
proof -
  obtain d ds where ds: "dec_string n = d # ds" by (cases "dec_string n") auto
  have "\<forall>c \<in> set (dec_string n). is_digit c" by (rule dec_string_digits)
  then show "takeWhile is_digit (dec_string n) = dec_string n" by simp
  have "is_digit d" using ds dec_string_digits [of n] by auto
  then show "dropWhile is_space (dec_string n) = dec_string n" "scan_sign (dec_string n) = (False, dec_string n)"
    using ds digit_not_sign [of d] by (simp_all add: scan_sign_def)
qed

lemma atoi_int_string [codec_simps]: "int4 v \<Longrightarrow> atoi (int_string v) = v"
  using sint_u32_int4 [of v]
  by (auto simp: atoi_def scan_d_def int_string_def scan_dec_string Let_def int4_def is_space_def
      scan_sign_def [of "CHR ''-'' # _"] split: option.splits)

lemma atoi_int4: "int4 (atoi s)"
  using sint_range_size [where 'a = 32]
  by (auto simp: atoi_def scan_d_def int4_def Let_def word_size split: option.splits prod.splits if_splits)

text \<open>What holds of the information that a node gathered itself.\<close>

definition info_wf :: "remote_node_info \<Rightarrow> bool" where
  "info_wf ri \<longleftrightarrow>
     (\<exists>n. sscanf [ConvU 64] (ri_sysid_str ri) = [VU n] \<and> sysid (ri_nodeid ri) = of_nat n) \<and>
     int4 (ri_version_num ri) \<and> int4 (ri_min_remote_version_num ri) \<and> int4 (ri_max_nodes ri) \<and>
     int4 (ri_nb_include_rs ri) \<and> int4 (ri_cur_nodes ri) \<and> int8 (ri_dbsize ri) \<and> int8 (ri_indexessize ri)"

lemma scan_num_Inr: "scan_num w s m = Inr n \<Longrightarrow> sscanf [ConvU w] s = [VU n]"
  by (auto simp: scan_num_def simp del: sscanf.simps split: list.splits conv_val.splits)

lemma node_identity_Inr:
  "node_identity env res s = (Inr (sys, node), s') \<Longrightarrow> \<exists>n. sscanf [ConvU 64] sys = [VU n] \<and> sysid node = of_nat n"
  by (auto simp: node_identity_def sbind_Inr simp del: sscanf.simps dest!: scan_num_Inr)

lemma get_conv_Inr: "get_conv f res j s = (Inr v, s') \<Longrightarrow> \<exists>x. f x = Inr v"
  by (auto simp: get_conv_def bind_result_eq_Inr)

text \<open>\<open>ensures Q f\<close>: every result that \<open>f\<close> returns satisfies \<open>Q\<close>.\<close>

definition ensures :: "('a \<Rightarrow> bool) \<Rightarrow> ('s, 'a) op \<Rightarrow> bool" where
  "ensures Q f \<longleftrightarrow> (\<forall>s x s'. f s = (Inr x, s') \<longrightarrow> Q x)"

lemma ensures_sbind: "ensures P m \<Longrightarrow> (\<And>x. P x \<Longrightarrow> ensures Q (f x)) \<Longrightarrow> ensures Q (sbind m f)"
  unfolding ensures_def sbind_Inr by blast

lemma ensures_pair: "(\<And>a b. x = (a, b) \<Longrightarrow> ensures Q (f a b)) \<Longrightarrow> ensures Q (case x of (a, b) \<Rightarrow> f a b)"
  by (cases x) simp

lemma ensures_sseq: "ensures Q n \<Longrightarrow> ensures Q (sseq m n)"
  by (auto simp: ensures_def sseq_Inr)

lemma ensures_sret: "Q x \<Longrightarrow> ensures Q (sret x)"
  by (simp add: ensures_def)

lemma ensures_get:
  "ensures (\<lambda>_. True) (get_text res j)" "ensures (\<lambda>_. True) (get_null res j)" "ensures (\<lambda>_. True) (exec_tuples env c q m)"
  "ensures (\<lambda>v. \<exists>x. f x = Inr v) (get_conv f res j)"
  "ensures (\<lambda>(sys, node). \<exists>n. sscanf [ConvU 64] sys = [VU n] \<and> sysid node = of_nat n) (node_identity env res)"
  by (auto simp: ensures_def dest: get_conv_Inr node_identity_Inr simp del: sscanf.simps)

lemma ensures_size:
  "ensures (\<lambda>v. v = 0 \<or> (\<exists>x. re_int8in env x = Inr v)) (if PQgetisnull res 0 0 then sret 0 else get_conv (re_int8in env) res 0)"
  by (auto simp: ensures_def dest: get_conv_Inr)

lemma ensures_True: "ensures (\<lambda>_. True) f"
  by (simp add: ensures_def)

lemma gathered_info_wf:
  assumes "pgactive_get_remote_nodeinfo_internal env conn s = (Inr ri, s')"
    and "\<And>x v. re_int4in env x = Inr v \<Longrightarrow> int4 v" and "\<And>x v. re_int8in env x = Inr v \<Longrightarrow> int8 v"
  shows "info_wf ri"
proof -
  have z: "int8 0" by (simp add: int8_def)
  have "ensures info_wf (pgactive_get_remote_nodeinfo_internal env conn)"
    unfolding pgactive_get_remote_nodeinfo_internal_def
    by (rule ensures_sseq ensures_pair ensures_sbind [OF ensures_get(4)] ensures_sbind [OF ensures_get(5)] ensures_sbind [OF ensures_size]
        ensures_sbind [OF ensures_True] ensures_sret)+
       (auto simp: info_wf_def atoi_int4 z simp del: sscanf.simps intro: assms(2,3))
  with assms(1) show ?thesis by (auto simp: ensures_def)
qed


text \<open>The texts a server sends for the columns, and what the input functions here make of them.\<close>

definition texts_ok :: "remote_env \<Rightarrow> (info_datum \<Rightarrow> string) \<Rightarrow> bool" where
  "texts_ok env out \<longleftrightarrow>
     (\<forall>s. out (DText s) = s) \<and> (\<forall>v. out (DInt4 v) = int_string v) \<and> (\<forall>c. out (DChar c) = [c]) \<and>
     (\<forall>v. int4 v \<longrightarrow> re_int4in env (int_string v) = Inr v) \<and> (\<forall>v. int8 v \<longrightarrow> re_int8in env (out (DInt8 v)) = Inr v) \<and>
     (\<forall>b. re_boolin env (out (DBool b)) = Inr b) \<and> (\<forall>x. re_oidin env (out (DOid x)) = Inr x)"

lemma node_info_column:
  "node_info_columns ri ! 0 = Some (DText (ri_sysid_str ri))" "node_info_columns ri ! 1 = Some (DOid (timeline (ri_nodeid ri)))"
    "node_info_columns ri ! 2 = Some (DOid (dboid (ri_nodeid ri)))" "node_info_columns ri ! 3 = Some (DText (ri_variant ri))"
    "node_info_columns ri ! 4 = Some (DText (ri_version ri))" "node_info_columns ri ! 5 = Some (DInt4 (ri_version_num ri))"
    "node_info_columns ri ! 6 = Some (DInt4 (ri_min_remote_version_num ri))" "node_info_columns ri ! 7 = Some (DBool (ri_has_required_privs ri))"
    "node_info_columns ri ! 8 = (if ri_node_status ri = CHR 0x00 then None else Some (DChar (ri_node_status ri)))"
    "node_info_columns ri ! 9 = Some (DText (ri_node_name ri))" "node_info_columns ri ! 10 = Some (DText (ri_dbname ri))"
    "node_info_columns ri ! 11 = Some (DInt8 (ri_dbsize ri))" "node_info_columns ri ! 12 = Some (DInt8 (ri_indexessize ri))"
    "node_info_columns ri ! 13 = Some (DInt4 (ri_max_nodes ri))" "node_info_columns ri ! 14 = Some (DBool (ri_skip_ddl_replication ri))"
    "node_info_columns ri ! 15 = Some (DInt4 (ri_nb_include_rs ri))" "node_info_columns ri ! 16 = Some (DInt4 (ri_cur_nodes ri))"
    "node_info_columns ri ! 17 = map_option DText (ri_datcollate ri)" "node_info_columns ri ! 18 = map_option DText (ri_datctype ri)"
  by (simp_all add: node_info_columns_def)

lemma connectback_reads_columns:
  assumes out: "texts_ok env out" and wf: "info_wf ri"
    and res: "\<And>tr. re_exec env tr conn (SELECT_node_info_private dsn) =
      \<lparr>PQresultStatus = PGRES_TUPLES_OK, PQnfields = 19, res_rows = [map (map_option out) (node_info_columns ri)]\<rparr>"
    and alive: "\<And>tr e. \<not> re_killed env tr e"
  shows "fst (pgactive_test_remote_connectback_internal env conn dsn s) = Inr ri"
proof -
  obtain n where n: "sscanf [ConvU 64] (ri_sysid_str ri) = [VU n]" "sysid (ri_nodeid ri) = of_nat n"
    using wf by (auto simp: info_wf_def)
  have scan: "scan_num 64 (ri_sysid_str ri) m = Inr n" for m
    by (simp add: scan_num_def n(1) del: sscanf.simps)
  have node: "\<lparr>sysid = of_nat n, timeline = timeline (ri_nodeid ri), dboid = dboid (ri_nodeid ri)\<rparr> = ri_nodeid ri"
    using n(2) by (cases "ri_nodeid ri") simp
  have exec: "exec_tuples env conn (SELECT_node_info_private dsn) m s =
      (Inr \<lparr>PQresultStatus = PGRES_TUPLES_OK, PQnfields = 19, res_rows = [map (map_option out) (node_info_columns ri)]\<rparr>,
       s\<lparr>rs_trace := rs_trace s @ [PQexec conn (SELECT_node_info_private dsn)]\<rparr>)" for m
    by (simp add: exec_tuples_def pq_exec_def emit_def alive res)
  have texts: "\<And>s. out (DText s) = s" "\<And>v. out (DInt4 v) = int_string v" "\<And>c. out (DChar c) = [c]"
    "\<And>v. int4 v \<Longrightarrow> re_int4in env (int_string v) = Inr v" "\<And>v. int8 v \<Longrightarrow> re_int8in env (out (DInt8 v)) = Inr v"
    "\<And>b. re_boolin env (out (DBool b)) = Inr b" "\<And>x. re_oidin env (out (DOid x)) = Inr x"
    using out by (auto simp: texts_ok_def)
  have ranges: "int4 (ri_version_num ri)" "int4 (ri_min_remote_version_num ri)" "int4 (ri_max_nodes ri)"
    "int4 (ri_nb_include_rs ri)" "int4 (ri_cur_nodes ri)" "int8 (ri_dbsize ri)" "int8 (ri_indexessize ri)"
    using wf by (auto simp: info_wf_def)
  let ?res = "\<lparr>PQresultStatus = PGRES_TUPLES_OK, PQnfields = 19, res_rows = [map (map_option out) (node_info_columns ri)]\<rparr>"
  have len: "length (node_info_columns ri) = 19" by (simp add: node_info_columns_def)
  have cells: "res_cell ?res 0 j = (if j < 19 then Some (map_option out (node_info_columns ri ! j)) else None)" for j
    using len by (simp add: res_cell_def PQntuples_def)
  note col = node_info_column [of ri]
  have nulls: "get_null ?res 17 = sret (ri_datcollate ri)" "get_null ?res 18 = sret (ri_datctype ri)"
    by (cases "ri_datcollate ri"; cases "ri_datctype ri";
        simp add: get_null_def get_text_def PQgetisnull_def PQgetvalue_def cells col texts fun_eq_iff)+
  have status: "(if PQgetisnull ?res 0 8 then sret CHR 0x00 else sbind (get_text ?res 8) (\<lambda>v. sret (first_char v))) = sret (ri_node_status ri)"
    by (simp add: get_text_def PQgetisnull_def PQgetvalue_def cells col texts first_char_def fun_eq_iff)
  have ident: "node_identity env ?res = sret (ri_sysid_str ri, ri_nodeid ri)"
    by (simp add: node_identity_def get_text_def get_conv_def PQgetvalue_def cells col col(2) [unfolded One_nat_def] texts scan node fun_eq_iff)
  have gets: "get_text ?res j = sret v" if "node_info_columns ri ! j = Some d" "out d = v" "j < 19" for j d v
    using that by (simp add: get_text_def PQgetvalue_def cells fun_eq_iff)
  have convs: "get_conv f ?res j = sret v" if "node_info_columns ri ! j = Some d" "f (out d) = Inr v" "j < 19" for f j d v
    using that by (simp add: get_conv_def PQgetvalue_def cells fun_eq_iff)
  show ?thesis
    unfolding pgactive_test_remote_connectback_internal_def
    by (subst sbind_def, simp only: exec prod.case sum.case)
       (simp add: PQntuples_def ident status nulls gets [OF col(4)] gets [OF col(5)] gets [OF col(6)] gets [OF col(7)] gets [OF col(10)] gets [OF col(11)]
         convs [OF col(8)] convs [OF col(12)] convs [OF col(13)] convs [OF col(14)] convs [OF col(15)] convs [OF col(16)] convs [OF col(17)]
         texts ranges atoi_int_string)
qed


text \<open>
  C29: What a node learns about itself by asking a peer to connect back to it is, column by column, what
  the peer's own query reports, as long as the texts of the server's output functions are read by its
  input functions.
\<close>

theorem seen_through_peer:
  fixes p :: "'p remote_state_scheme"
  assumes "pgactive_get_node_info peer (Some dsn) None p = (Inr (Some cols), p')"
    and "\<And>x v. re_int4in peer x = Inr v \<Longrightarrow> int4 v" and "\<And>x v. re_int8in peer x = Inr v \<Longrightarrow> int8 v"
    and "texts_ok env out"
    and "\<And>tr conn. re_exec env tr conn (SELECT_node_info_private dsn) =
      \<lparr>PQresultStatus = PGRES_TUPLES_OK, PQnfields = 19, res_rows = [map (map_option out) cols]\<rparr>"
    and "\<And>tr e. \<not> re_killed env tr e" and "\<And>tr c. re_connect env tr c" and "resolve_dsn env remote_dsn = Inr server"
  shows "fst (pgactive_get_node_info env (Some dsn) (Some remote_dsn) s) = Inr (Some cols)"
proof -
  from assms(1) have "\<exists>ri q q' conn. pgactive_get_remote_nodeinfo_internal peer conn (q :: 'p remote_state_scheme) = (Inr ri, q') \<and> cols = node_info_columns ri"
    by (auto simp: pgactive_get_node_info_def sbind_Inr)
  then obtain ri q q' conn where ri: "pgactive_get_remote_nodeinfo_internal peer conn (q :: 'p remote_state_scheme) = (Inr ri, q')" "cols = node_info_columns ri"
    by blast
  have wf: "info_wf ri" using gathered_info_wf [OF ri(1)] assms(2,3) by blast
  have "\<exists>c t. pgactive_connect_nonrepl env remote_dsn ''node info'' True True s = (Inr (c, True), t)"
    using assms(6,7,8) by (simp add: pgactive_connect_nonrepl_def Let_def remote_Inr)
  then obtain c t where c: "pgactive_connect_nonrepl env remote_dsn ''node info'' True True s = (Inr (c, True), t)"
    by blast
  have "fst (pgactive_test_remote_connectback_internal env c dsn t) = Inr ri"
    by (rule connectback_reads_columns [OF assms(4) wf _ assms(6)]) (simp only: assms(5) ri(2))
  then obtain t' where "pgactive_test_remote_connectback_internal env c dsn t = (Inr ri, t')"
    by (cases "pgactive_test_remote_connectback_internal env c dsn t") simp
  with c show ?thesis by (simp add: pgactive_get_node_info_def ri(2))
qed


definition example_ri :: remote_node_info where
  "example_ri = \<lparr>ri_nodeid = \<lparr>sysid = 7, timeline = 0, dboid = 5\<rparr>, ri_sysid_str = ''7'', ri_variant = ''pgactive'',
     ri_version = ''2.1.3'', ri_version_num = 20103, ri_min_remote_version_num = 20100, ri_has_required_privs = True,
     ri_node_status = CHR ''r'', ri_node_name = ''n'', ri_dbname = ''d'', ri_dbsize = 100, ri_indexessize = 0, ri_max_nodes = 4,
     ri_skip_ddl_replication = True, ri_nb_include_rs = 0, ri_cur_nodes = 2, ri_datcollate = Some ''C'', ri_datctype = None\<rparr>"

fun example_out :: "info_datum \<Rightarrow> string" where
  "example_out (DText s) = s"
| "example_out (DOid x) = dec_string (unat x)"
| "example_out (DInt4 v) = int_string v"
| "example_out (DInt8 v) = int_string v"
| "example_out (DBool b) = (if b then ''t'' else ''f'')"
| "example_out (DChar c) = [c]"

definition example_int8in :: "string \<Rightarrow> int result" where
  "example_int8in s =
     (let (neg, r) = scan_sign s; v = (if neg then - int (dec_value r) else int (dec_value r))
      in if int8 v then Inr v else Inl (Error ''out of range''))"

definition example_row_result :: "string option list \<Rightarrow> PGresult" where
  "example_row_result r = \<lparr>PQresultStatus = PGRES_TUPLES_OK, PQnfields = length r, res_rows = [r]\<rparr>"

fun example_exec :: "command \<Rightarrow> PGresult" where
  "example_exec IDENTIFY_SYSTEM = example_row_result [Some ''9'', Some ''1'', Some ''0/0'', Some ''d'', Some ''5'']"
| "example_exec SELECT_node_identifier = example_row_result [Some ''7'']"
| "example_exec SELECT_extension_version = example_row_result [Some ''2.1.3'', Some ''2.1.3'']"
| "example_exec SELECT_node_info = example_row_result [Some ''2.1.3'', Some ''20103'', Some ''pgactive'', Some ''20100'', Some ''t'', Some ''n'',
     Some ''d'', Some ''100'', Some ''4'', Some ''t'', Some ''0'', Some ''2'']"
| "example_exec SELECT_collation = example_row_result [Some ''C'', None]"
| "example_exec SELECT_local_nodeid = example_row_result [Some ''7'', Some ''0'', Some ''5'']"
| "example_exec SELECT_node_status = example_row_result [Some ''r'']"
| "example_exec SELECT_indexes_size = example_row_result [None]"
| "example_exec (SELECT_node_info_private d) =
     \<lparr>PQresultStatus = PGRES_TUPLES_OK, PQnfields = 19, res_rows = [map (map_option example_out) (node_info_columns example_ri)]\<rparr>"
| "example_exec _ = \<lparr>PQresultStatus = PGRES_COMMAND_OK, PQnfields = 0, res_rows = []\<rparr>"

definition example_remote_env :: remote_env where
  "example_remote_env = \<lparr>re_killed = (\<lambda>_ _. False), re_connect = (\<lambda>_ _. True), re_exec = (\<lambda>_ _. example_exec),
     re_copy_rows = (\<lambda>_ _. ([], True)), re_put_ok = (\<lambda>_ _. True), re_fdw = example_fdw_env\<lparr>fe_conninfo_parse := (\<lambda>_. True)\<rparr>,
     re_default_options = [], re_extra_options = [], re_nid = 7, re_mydb = 5, re_origin_create = (\<lambda>_ _. Inr 1),
     re_int4in = (\<lambda>s. Inr (atoi s)), re_int8in = example_int8in,
     re_boolin = (\<lambda>s. Inr (s = ''t'')), re_oidin = (\<lambda>s. Inr (of_nat (dec_value s))), re_pg_lsn_in = (\<lambda>_. Inr 16)\<rparr>"

definition example_remote_state :: remote_state where
  "example_remote_state = \<lparr>rs_trace = [], rs_origins = []\<rparr>"

lemma example_texts: "texts_ok example_remote_env example_out"
proof -
  have "example_int8in (int_string v) = Inr v" if "int8 v" for v
    using that by (auto simp: example_int8in_def int_string_def scan_sign_def [of "CHR ''-'' # _"] scan_dec_string)
  then show ?thesis
    by (auto simp: texts_ok_def example_remote_env_def atoi_int_string)
qed

lemma example_scans:
  "scan_num 64 ''7'' m = Inr 7" "scan_num 32 ''5'' m = Inr 5" "scan_num 32 ''1'' m = Inr 1"
  "atoi ''20103'' = 20103" "atoi ''20100'' = 20100" "atoi ''4'' = 4" "atoi ''0'' = 0" "atoi ''2'' = 2"
  "dec_value ''0'' = 0" "dec_value ''5'' = 5" "example_int8in ''100'' = Inr 100"
  by (simp_all add: scan_num_def scan_u_def scan_sign_def is_space_def is_digit_def dec_value_def digit_value_def strtoul_value_def
      atoi_def scan_d_def example_int8in_def int8_def)

lemma example_version: "pgactive_parse_version ''2.1.3'' = Inr (20103, 2, 1, 3, - 1)"
proof -
  have "(4 :: nat) = Suc (Suc (Suc (Suc 0)))" by simp
  then show ?thesis
    by (simp only: pgactive_parse_version_def)
       (simp add: scan_d_def scan_sign_def is_space_def is_digit_def dec_value_def digit_value_def)
qed

lemma example_calls:
  "pq_exec example_remote_env c q s = (Inr (example_exec q), s\<lparr>rs_trace := rs_trace s @ [PQexec c q]\<rparr>)"
  "pq_connect example_remote_env d s = (Inr True, s\<lparr>rs_trace := rs_trace s @ [PQconnectdb d]\<rparr>)"
  "resolve_dsn example_remote_env d = Inr d"
  "re_int4in example_remote_env x = Inr (atoi x)" "re_int8in example_remote_env = example_int8in"
  "re_boolin example_remote_env x = Inr (x = ''t'')" "re_oidin example_remote_env x = Inr (of_nat (dec_value x))"
  by (simp_all add: pq_exec_def pq_connect_def emit_def example_remote_env_def resolve_dsn_def get_connect_string_def)

lemma example_own_report:
  "fst (pgactive_get_node_info example_remote_env (Some ''d'') None example_remote_state) = Inr (Some (node_info_columns example_ri))"
  by (simp add: pgactive_get_node_info_def pgactive_connect_def pgactive_connect_nonrepl_def pgactive_get_remote_nodeinfo_internal_def
      pgactive_ensure_ext_installed_def pgactive_get_remote_ext_version_def exec_tuples_def
      example_calls example_scans example_version example_row_result_def Let_def PQntuples_def PQgetvalue_def PQgetisnull_def res_cell_def
      get_text_def get_conv_def get_null_def node_identity_def first_char_def example_ri_def)

theorem seen_through_peer_witness:
  "fst (pgactive_get_node_info example_remote_env (Some ''d'') (Some ''p'') example_remote_state) = Inr (Some (node_info_columns example_ri))"
proof -
  obtain p' where "pgactive_get_node_info example_remote_env (Some ''d'') None example_remote_state = (Inr (Some (node_info_columns example_ri)), p')"
    using example_own_report by (metis prod.collapse)
  then show ?thesis
    by (rule seen_through_peer [where out = example_out and server = "''p''", OF _ _ _ example_texts])
       (auto simp: example_remote_env_def atoi_int4 example_int8in_def resolve_dsn_def get_connect_string_def Let_def
         split: prod.splits if_splits)
qed

end
