(* ===== verification/Node_Identifier.thy ===== *)
theory Node_Identifier
  imports Node_Naming
begin

text \<open>
  The identifier of a node, \<^verbatim>\<open>src/pgactive_node_identifier.c\<close>: it is the constant result of an SQL
  function in the database and is cached in shared memory, together with the flag that asks for a
  data-only initialisation.  Whether an SQL statement succeeds is up to the server (\<open>nid_env\<close>).
\<close>

section \<open>The cache in shared memory\<close>

record pgactiveNodeIdentifier =
  nid_dboid :: u32
  nid_nid :: u64
  nid_data_only :: bool

definition zero_nid :: pgactiveNodeIdentifier where
  "zero_nid = \<lparr>nid_dboid = 0, nid_nid = 0, nid_data_only = False\<rparr>"

definition pgactive_nid_shmem_reset_all_guts :: "pgactiveNodeIdentifier list \<Rightarrow> pgactiveNodeIdentifier list" where
  "pgactive_nid_shmem_reset_all_guts nids = map (\<lambda>_. zero_nid) nids"

text \<open>\<open>found\<close> is the segment when it exists already.\<close>

definition pgactive_nid_shmem_startup ::
  "nat \<Rightarrow> pgactiveNodeIdentifier list option \<Rightarrow> pgactiveNodeIdentifier list" where
  "pgactive_nid_shmem_startup max_databases found =
     (case found of Some nids \<Rightarrow> nids
      | None \<Rightarrow> pgactive_nid_shmem_reset_all_guts (replicate max_databases zero_nid))"

definition pgactive_nid_shmem_reset_all :: "pgactiveNodeIdentifier list option \<Rightarrow> pgactiveNodeIdentifier list option" where
  "pgactive_nid_shmem_reset_all ctl = map_option pgactive_nid_shmem_reset_all_guts ctl"

text \<open>The loops stop at the first entry that satisfies their condition.\<close>

fun update_first :: "('a \<Rightarrow> bool) \<Rightarrow> ('a \<Rightarrow> 'a) \<Rightarrow> 'a list \<Rightarrow> 'a list" where
  "update_first P f [] = []"
| "update_first P f (x # xs) = (if P x then f x # xs else x # update_first P f xs)"

definition pgactive_nid_shmem_reset :: "u32 \<Rightarrow> pgactiveNodeIdentifier list \<Rightarrow> pgactiveNodeIdentifier list" where
  "pgactive_nid_shmem_reset db = update_first (\<lambda>w. nid_dboid w = db \<and> nid_nid w \<noteq> 0) (\<lambda>_. zero_nid)"

definition pgactive_nid_shmem_set :: "u32 \<Rightarrow> u64 \<Rightarrow> pgactiveNodeIdentifier list \<Rightarrow> pgactiveNodeIdentifier list" where
  "pgactive_nid_shmem_set db nid =
     update_first (\<lambda>w. nid_dboid w = 0 \<and> nid_nid w = 0) (\<lambda>w. w\<lparr>nid_dboid := db, nid_nid := nid\<rparr>)"

definition pgactive_nid_shmem_get :: "u32 \<Rightarrow> pgactiveNodeIdentifier list \<Rightarrow> u64" where
  "pgactive_nid_shmem_get db nids =
     (case List.find (\<lambda>w. nid_dboid w = db \<and> nid_nid w \<noteq> 0) nids of None \<Rightarrow> 0 | Some w \<Rightarrow> nid_nid w)"

text \<open>The position of the entry of a database; an entry of the database without an identifier is fatal.\<close>

fun pgactive_get_nid_shmem_pointer :: "u32 \<Rightarrow> nat \<Rightarrow> pgactiveNodeIdentifier list \<Rightarrow> nat option result" where
  "pgactive_get_nid_shmem_pointer db i [] = Inr None"
| "pgactive_get_nid_shmem_pointer db i (ni # nids) =
     (if nid_dboid ni = db
      then if nid_nid ni \<noteq> 0 then Inr (Some i)
           else Inl (Fatal ''could not find node idenitifer for database'')
      else pgactive_get_nid_shmem_pointer db (Suc i) nids)"

definition pgactive_set_data_only_node_init :: "u32 \<Rightarrow> bool \<Rightarrow> (pgactiveNodeIdentifier list, unit) op" where
  "pgactive_set_data_only_node_init db val nids =
     (case pgactive_get_nid_shmem_pointer db 0 nids of
        Inl e \<Rightarrow> (Inl e, nids)
      | Inr None \<Rightarrow> (Inl (Error ''could not set data_only_node_init parameter for database''), nids)
      | Inr (Some i) \<Rightarrow> (Inr (), nids[i := (nids ! i)\<lparr>nid_data_only := val\<rparr>]))"

definition pgactive_get_data_only_node_init :: "u32 \<Rightarrow> pgactiveNodeIdentifier list \<Rightarrow> bool result" where
  "pgactive_get_data_only_node_init db nids =
     bind_result (pgactive_get_nid_shmem_pointer db 0 nids) (\<lambda>p.
       case p of None \<Rightarrow> Inl (Error ''could not get data_only_node_init parameter for database'')
       | Some i \<Rightarrow> Inr (nid_data_only (nids ! i)))"

section \<open>Creating and reading the identifier\<close>

text \<open>
  The state of one database and the flag of one session: the text the getter function returns
  (\<open>None\<close> before it is created) and whether it belongs to the extension.
\<close>

record nid_state =
  nids :: "pgactiveNodeIdentifier list"
  getter_text :: "string option"
  getter_in_extension :: bool
  pgactiveart :: bool
  cb_registered :: bool

text \<open>Whether \<open>SPI_execute\<close> reports success for each statement.\<close>

record nid_env =
  ne_mydb :: u32
  ne_create_ok :: bool
  ne_depend_ok :: bool
  ne_alter_ok :: bool
  ne_revoke_ok :: bool
  ne_query_ok :: bool

definition is_pgactive_creating_nid_getter_function :: "nid_state \<Rightarrow> bool" where
  "is_pgactive_creating_nid_getter_function s = pgactiveart s"

definition pgactive_xact_callback :: "nid_state \<Rightarrow> nid_state" where
  "pgactive_xact_callback s = (if cb_registered s then s\<lparr>pgactiveart := False\<rparr> else s)"

definition pgactive_spi_exec :: "bool \<Rightarrow> (nid_state, unit) op" where
  "pgactive_spi_exec ok = (if ok then sret () else sfail (Error ''SPI_execute failed''))"

definition get_pgactive_nid_getter_function_dependency :: "nid_env \<Rightarrow> (nid_state, bool) op" where
  "get_pgactive_nid_getter_function_dependency env =
     sseq (pgactive_spi_exec (ne_depend_ok env)) (sget getter_in_extension)"

definition pgactive_generate_node_identifier :: "nid_env \<Rightarrow> u64 \<Rightarrow> u64 \<Rightarrow> u64 \<Rightarrow> (nid_state, unit) op" where
  "pgactive_generate_node_identifier env sec usec pid =
     sseq (smodify (\<lambda>s. s\<lparr>nids := pgactive_nid_shmem_reset (ne_mydb env) (nids s)\<rparr>))
     (let nid = GenerateNodeIdentifier sec usec pid;
          buf = snprintf 256 [ConvU 64] [VU (unat nid)] in
      sseq (smodify (\<lambda>s. s\<lparr>cb_registered := True, pgactiveart := True\<rparr>))
      (sseq (pgactive_spi_exec (ne_create_ok env))
      (sseq (smodify (\<lambda>s. s\<lparr>getter_text := Some buf\<rparr>))
      (sbind (get_pgactive_nid_getter_function_dependency env) (\<lambda>in_ext.
       sseq (swhen (\<not> in_ext)
              (sseq (pgactive_spi_exec (ne_alter_ok env))
              (sseq (smodify (\<lambda>s. s\<lparr>getter_in_extension := True\<rparr>))
               (pgactive_spi_exec (ne_revoke_ok env)))))
       (sseq (smodify (\<lambda>s. s\<lparr>pgactiveart := False\<rparr>))
        (smodify (\<lambda>s. s\<lparr>nids := pgactive_nid_shmem_set (ne_mydb env) nid (nids s)\<rparr>))))))))"

text \<open>The second half of \<open>pgactive_get_nid_internal\<close>: nothing was found in the cache.\<close>

definition read_nid :: "nid_env \<Rightarrow> (nid_state, u64) op" where
  "read_nid env =
     sseq (pgactive_spi_exec (ne_query_ok env))
     (sbind (sget getter_text) (\<lambda>res.
      case res of None \<Rightarrow> sfail (Error ''pgactive is not active in this database'')
      | Some text \<Rightarrow>
          (case sscanf [ConvU 64] text of
             [VU n] \<Rightarrow> sret (of_nat n)
           | _ \<Rightarrow> sfail (Error ''parsing pgactive node identifier to uint64 failed''))))"

definition store_nid :: "nid_env \<Rightarrow> u64 \<Rightarrow> (nid_state, unit) op" where
  "store_nid env nid = smodify (\<lambda>s. s\<lparr>nids := pgactive_nid_shmem_set (ne_mydb env) nid (nids s)\<rparr>)"

definition pgactive_get_nid_internal :: "nid_env \<Rightarrow> (nid_state, u64) op" where
  "pgactive_get_nid_internal env =
     sbind (sget (\<lambda>s. pgactive_nid_shmem_get (ne_mydb env) (nids s))) (\<lambda>nid.
     if nid \<noteq> 0 then sret nid
     else sbind (read_nid env) (\<lambda>nid. sseq (store_nid env nid) (sret nid)))"

text \<open>The user's function returns the number as \<open>numeric\<close>.\<close>

definition pgactive_get_node_identifier :: "nid_env \<Rightarrow> (nid_state, string) op" where
  "pgactive_get_node_identifier env =
     sbind (pgactive_get_nid_internal env) (\<lambda>nid. sret (snprintf 256 [ConvU 64] [VU (unat nid)]))"

text \<open>
  A transaction of the server around an operation: the effects on the database of a failed one are undone, and the
  callback runs at its end.
\<close>

definition in_transaction :: "(nid_state, 'a) op \<Rightarrow> (nid_state, 'a) op" where
  "in_transaction m s =
     (case m s of
        (Inr x, s') \<Rightarrow> (Inr x, pgactive_xact_callback s')
      | (Inl e, s') \<Rightarrow>
          (Inl e, pgactive_xact_callback (s'\<lparr>getter_text := getter_text s, getter_in_extension := getter_in_extension s\<rparr>)))"

section \<open>Statements about the function\<close>

definition pgactive_NID_GETTER_FUNC_NAME :: string where
  "pgactive_NID_GETTER_FUNC_NAME = ''_pgactive_node_identifier_getter_private''"

definition is_getter_name :: "string option \<Rightarrow> bool" where
  "is_getter_name n = (case n of None \<Rightarrow> False | Some f \<Rightarrow> strcasecmp f pgactive_NID_GETTER_FUNC_NAME = 0)"

text \<open>
  \<open>func_name\<close> is what \<open>get_func_name\<close> gives for the function that the server resolves the reference
  to, \<open>None\<close> when there is none.
\<close>

definition is_pgactive_nid_getter_function_create :: "string \<Rightarrow> bool" where
  "is_pgactive_nid_getter_function_create funcname = is_getter_name (Some funcname)"

definition is_pgactive_nid_getter_function_in_stmt :: "bool \<Rightarrow> string option \<Rightarrow> bool" where
  "is_pgactive_nid_getter_function_in_stmt is_function func_name = (is_function \<and> is_getter_name func_name)"

definition is_pgactive_nid_getter_function_drop :: "bool \<Rightarrow> string option list \<Rightarrow> bool" where
  "is_pgactive_nid_getter_function_drop is_function objects =
     list_ex (is_pgactive_nid_getter_function_in_stmt is_function) objects"

definition is_pgactive_nid_getter_function_alter :: "string option \<Rightarrow> bool" where
  "is_pgactive_nid_getter_function_alter func_name = is_getter_name func_name"

definition is_pgactive_nid_getter_function_alter_owner :: "bool \<Rightarrow> string option \<Rightarrow> bool" where
  "is_pgactive_nid_getter_function_alter_owner is_function func_name =
     is_pgactive_nid_getter_function_in_stmt is_function func_name"

definition is_pgactive_nid_getter_function_alter_rename :: "bool \<Rightarrow> string option \<Rightarrow> bool" where
  "is_pgactive_nid_getter_function_alter_rename is_function func_name =
     is_pgactive_nid_getter_function_in_stmt is_function func_name"

section \<open>The cache agrees with the function\<close>

definition own_nids :: "u32 \<Rightarrow> pgactiveNodeIdentifier list \<Rightarrow> u64 list" where
  "own_nids db ns = map nid_nid (filter (\<lambda>w. nid_dboid w = db \<and> nid_nid w \<noteq> 0) ns)"

lemma own_nids_simps [simp]:
  "own_nids db [] = []"
  "own_nids db (w # ws) = (if nid_dboid w = db \<and> nid_nid w \<noteq> 0 then nid_nid w # own_nids db ws else own_nids db ws)"
  by (simp_all add: own_nids_def)

lemma shmem_get_own: "pgactive_nid_shmem_get db ns = (case own_nids db ns of [] \<Rightarrow> 0 | n # _ \<Rightarrow> n)"
  by (induction ns) (auto simp: pgactive_nid_shmem_get_def)

lemma own_nids_reset: "own_nids db (pgactive_nid_shmem_reset db ns) = tl (own_nids db ns)"
  by (induction ns) (auto simp: pgactive_nid_shmem_reset_def zero_nid_def)

lemma own_nids_reset_other: "db \<noteq> d \<Longrightarrow> own_nids db (pgactive_nid_shmem_reset d ns) = own_nids db ns"
  by (induction ns) (auto simp: pgactive_nid_shmem_reset_def zero_nid_def)

lemma own_nids_reset_all: "own_nids db (pgactive_nid_shmem_reset_all_guts ns) = []"
  by (induction ns) (auto simp: pgactive_nid_shmem_reset_all_guts_def zero_nid_def)

lemma own_nids_set:
  "own_nids db ns = [] \<Longrightarrow> own_nids db (pgactive_nid_shmem_set db n ns) \<in> {[], [n]}"
  by (induction ns) (auto simp: pgactive_nid_shmem_set_def split: if_splits)

lemma own_nids_set_other:
  "db \<noteq> d \<Longrightarrow> db \<noteq> 0 \<Longrightarrow> own_nids db (pgactive_nid_shmem_set d n ns) = own_nids db ns"
  by (induction ns) (auto simp: pgactive_nid_shmem_set_def)

lemma own_nids_data_only: "own_nids db (ns[i := (ns ! i)\<lparr>nid_data_only := v\<rparr>]) = own_nids db ns"
  by (induction ns arbitrary: i) (auto split: nat.splits)

text \<open>What the sessions of all databases do to the cache, seen from the database \<open>db\<close>.\<close>

inductive nid_step :: "u32 \<Rightarrow> nid_state \<Rightarrow> nid_state \<Rightarrow> bool" for db where
  get: "ne_mydb env = db \<Longrightarrow> pgactive_get_nid_internal env s = (r, s') \<Longrightarrow> nid_step db s s'"
| generate: "ne_mydb env = db \<Longrightarrow>
    in_transaction (pgactive_generate_node_identifier env sec usec pid) s = (r, s') \<Longrightarrow> nid_step db s s'"
| other_set: "d \<noteq> db \<Longrightarrow> nid_step db s (s\<lparr>nids := pgactive_nid_shmem_set d n (nids s)\<rparr>)"
| other_reset: "d \<noteq> db \<Longrightarrow> nid_step db s (s\<lparr>nids := pgactive_nid_shmem_reset d (nids s)\<rparr>)"
| reset_all: "nid_step db s (s\<lparr>nids := pgactive_nid_shmem_reset_all_guts (nids s)\<rparr>)"
| data_only: "pgactive_set_data_only_node_init d v (nids s) = (r, ns) \<Longrightarrow> nid_step db s (s\<lparr>nids := ns\<rparr>)"

definition nid_inv :: "u32 \<Rightarrow> nid_state \<Rightarrow> bool" where
  "nid_inv db s \<longleftrightarrow> own_nids db (nids s) = [] \<or>
     (\<exists>n t. own_nids db (nids s) = [n] \<and> getter_text s = Some t \<and> sscanf [ConvU 64] t = [VU (unat n)])"

lemma scan_nid: "sscanf [ConvU 64] (dec_string (unat (n :: u64))) = [VU (unat n)]"
  using scan_u_dec_string [of "unat n" 64 "[]"] by simp

lemma scan_u64_of_nat: "sscanf [ConvU 64] t = [VU m] \<Longrightarrow> unat (of_nat m :: u64) = m"
  by (auto simp: scan_u_def Let_def unsigned_of_nat take_bit_eq_mod split: option.splits prod.splits if_splits)

lemma nid_buf: "snprintf 256 [ConvU 64] [VU (unat (n :: u64))] = dec_string (unat n)"
  using length_dec_u64 [of n] by (simp add: snprintf_def)

lemma read_nid_cases:
  obtains (fail) e where "read_nid env s = (Inl e, s)"
  | (ok) t m where "getter_text s = Some t" "sscanf [ConvU 64] t = [VU m]" "read_nid env s = (Inr (of_nat m), s)"
proof (cases "getter_text s")
  case None
  then show ?thesis by (cases "ne_query_ok env") (auto simp: read_nid_def pgactive_spi_exec_def intro: fail)
next
  case (Some t)
  show ?thesis
  proof (cases "\<exists>m. sscanf [ConvU 64] t = [VU m]")
    case True
    then obtain m where "sscanf [ConvU 64] t = [VU m]" by blast
    with Some show ?thesis
      by (cases "ne_query_ok env") (auto simp: read_nid_def pgactive_spi_exec_def simp del: sscanf.simps intro: fail ok)
  next
    case False
    with Some show ?thesis
      by (cases "ne_query_ok env")
         (auto simp: read_nid_def pgactive_spi_exec_def simp del: sscanf.simps split: list.splits conv_val.splits intro: fail)
  qed
qed

lemma get_keeps_inv:
  assumes "nid_inv db s" and "ne_mydb env = db"
  shows "nid_inv db (snd (pgactive_get_nid_internal env s))"
proof (cases "own_nids db (nids s)")
  case Nil
  show ?thesis
  proof (cases rule: read_nid_cases [of env s])
    case (fail e)
    with assms Nil show ?thesis by (simp add: pgactive_get_nid_internal_def shmem_get_own)
  next
    case (ok t m)
    then show ?thesis
      using assms Nil own_nids_set [OF Nil, of "of_nat m"] scan_u64_of_nat [OF ok(2)]
      by (auto simp: pgactive_get_nid_internal_def shmem_get_own store_nid_def nid_inv_def simp del: sscanf.simps)
  qed
next
  case (Cons n ns)
  then have "n \<noteq> 0" by (auto simp: own_nids_def filter_eq_Cons_iff dest!: map_eq_Cons_conv [THEN iffD1])
  with assms Cons show ?thesis by (simp add: pgactive_get_nid_internal_def shmem_get_own)
qed

lemma nid_inv_fresh: "own_nids db (nids s) = [] \<Longrightarrow> nid_inv db s"
  by (simp add: nid_inv_def)

lemma nid_inv_set:
  "own_nids db ns = [] \<Longrightarrow> nids s = pgactive_nid_shmem_set db n ns \<Longrightarrow> getter_text s = Some (dec_string (unat n)) \<Longrightarrow>
   nid_inv db s"
  using own_nids_set [of db ns n] scan_nid [of n] by (auto simp: nid_inv_def simp del: sscanf.simps)

lemma generate_keeps_inv:
  assumes "nid_inv db s" and "ne_mydb env = db"
  shows "nid_inv db (snd (in_transaction (pgactive_generate_node_identifier env sec usec pid) s))"
proof -
  let ?ns = "pgactive_nid_shmem_reset db (nids s)" and ?n = "GenerateNodeIdentifier sec usec pid"
  have none: "own_nids db ?ns = []" using assms(1) by (auto simp: own_nids_reset nid_inv_def)
  note defs = in_transaction_def pgactive_generate_node_identifier_def pgactive_spi_exec_def Let_def nid_buf
    get_pgactive_nid_getter_function_dependency_def pgactive_xact_callback_def assms(2)
  show ?thesis
  proof (cases "ne_create_ok env \<and> ne_depend_ok env \<and> (getter_in_extension s \<or> ne_alter_ok env \<and> ne_revoke_ok env)")
    case True
    then show ?thesis
      by (intro nid_inv_set [OF none, of _ ?n]; cases "getter_in_extension s") (simp_all add: defs sbind_def sseq_def)
  next
    case False
    then show ?thesis
      by (intro nid_inv_fresh; cases "ne_create_ok env"; cases "ne_depend_ok env"; cases "ne_alter_ok env")
         (simp_all add: defs none sbind_def sseq_def)
  qed
qed

lemma data_only_keeps:
  "pgactive_set_data_only_node_init d v ns = (r, ns') \<Longrightarrow> own_nids db ns' = own_nids db ns"
  by (auto simp: pgactive_set_data_only_node_init_def own_nids_data_only split: sum.splits option.splits)

lemma nid_step_inv: "nid_step db s s' \<Longrightarrow> db \<noteq> 0 \<Longrightarrow> nid_inv db s \<Longrightarrow> nid_inv db s'"
proof (induction rule: nid_step.induct)
  case (get env s r s')
  then show ?case using get_keeps_inv [of db s env] by simp
next
  case (generate env sec usec pid s r s')
  then show ?case using generate_keeps_inv [of db s env sec usec pid] by simp
qed (auto simp: nid_inv_def own_nids_set_other own_nids_reset_other own_nids_reset_all data_only_keeps)

lemma cached_nid:
  assumes "nid_inv db s" and "ne_mydb env = db" and "ne_query_ok env"
  shows "fst (pgactive_get_nid_internal env s) = fst (read_nid env s)"
proof -
  from assms(1) consider (none) "own_nids db (nids s) = []"
    | (one) k t where "own_nids db (nids s) = [k]" "getter_text s = Some t" "sscanf [ConvU 64] t = [VU (unat k)]"
    by (auto simp: nid_inv_def)
  then show ?thesis
  proof cases
    case none
    then show ?thesis using assms(2)
      by (cases rule: read_nid_cases [of env s]) (auto simp: pgactive_get_nid_internal_def shmem_get_own store_nid_def)
  next
    case one
    then have "k \<noteq> 0" by (auto simp: own_nids_def filter_eq_Cons_iff dest!: map_eq_Cons_conv [THEN iffD1])
    with one assms(2,3) show ?thesis
      by (simp add: pgactive_get_nid_internal_def shmem_get_own read_nid_def pgactive_spi_exec_def del: sscanf.simps)
  qed
qed

interpretation nid_cache: caching_system "nid_step db" "\<lambda>s. db \<noteq> 0 \<and> nid_inv db s" "\<lambda>env. ne_mydb env = db \<and> ne_query_ok env"
  "\<lambda>s env. fst (pgactive_get_nid_internal env s)" "\<lambda>s env. fst (read_nid env s)" for db
  by unfold_locales (auto intro: nid_step_inv cached_nid)

text \<open>
  C27: As long as each call runs without another one between its parts, the cached identifier is the one that the
  function in the database returns: after any sequence of look-ups, of new identifiers that were
  committed or failed and were rolled back, of operations of other databases and of resets, looking it up
  has the same result, an error or a number, as asking the function.
\<close>

theorem nid_cache_transparent:
  assumes "(nid_step db)\<^sup>*\<^sup>* s0 s" and "nids s0 = pgactive_nid_shmem_startup n None" and "db \<noteq> 0"
    and "ne_mydb env = db" and "ne_query_ok env"
  shows "fst (pgactive_get_nid_internal env s) = fst (read_nid env s)"
proof (rule nid_cache.transparent [OF assms(1)])
  show "db \<noteq> 0 \<and> nid_inv db s0"
    using assms(3) by (simp add: nid_inv_def assms(2) pgactive_nid_shmem_startup_def own_nids_reset_all)
qed (simp add: assms(4,5))


definition example_nid_env :: nid_env where
  "example_nid_env = \<lparr>ne_mydb = 5, ne_create_ok = True, ne_depend_ok = True, ne_alter_ok = True, ne_revoke_ok = True, ne_query_ok = True\<rparr>"

definition example_nids :: nid_state where
  "example_nids = \<lparr>nids = pgactive_nid_shmem_startup 2 None, getter_text = None, getter_in_extension = False,
     pgactiveart = False, cb_registered = False\<rparr>"

lemma generate_example:
  "pgactive_generate_node_identifier example_nid_env 1 2 3 example_nids =
   (Inr (), \<lparr>nids = [\<lparr>nid_dboid = 5, nid_nid = GenerateNodeIdentifier 1 2 3, nid_data_only = False\<rparr>, zero_nid],
     getter_text = Some (dec_string (unat (GenerateNodeIdentifier 1 2 3))), getter_in_extension = True,
     pgactiveart = False, cb_registered = True\<rparr>)"
  by (simp add: pgactive_generate_node_identifier_def example_nid_env_def example_nids_def pgactive_nid_shmem_startup_def
      pgactive_nid_shmem_reset_all_guts_def pgactive_nid_shmem_reset_def pgactive_nid_shmem_set_def zero_nid_def Let_def nid_buf
      pgactive_spi_exec_def get_pgactive_nid_getter_function_dependency_def numeral_2_eq_2 sbind_def sseq_def)

theorem nid_cache_transparent_witness:
  "fst (pgactive_get_nid_internal example_nid_env
      (snd (in_transaction (pgactive_generate_node_identifier example_nid_env 1 2 3) example_nids))) =
   Inr (GenerateNodeIdentifier 1 2 3)"
proof -
  let ?s = "snd (in_transaction (pgactive_generate_node_identifier example_nid_env 1 2 3) example_nids)"
  have db: "ne_mydb example_nid_env = 5" "ne_query_ok example_nid_env" by (simp_all add: example_nid_env_def)
  have start: "nids example_nids = pgactive_nid_shmem_startup 2 None" by (simp add: example_nids_def)
  have "nid_step 5 example_nids ?s"
    by (rule nid_step.generate [OF db(1), of 1 2 3 _ "fst (in_transaction (pgactive_generate_node_identifier example_nid_env 1 2 3) example_nids)"]) simp
  then have "(nid_step 5)\<^sup>*\<^sup>* example_nids ?s" by blast
  from nid_cache_transparent [OF this start _ db] have "fst (pgactive_get_nid_internal example_nid_env ?s) = fst (read_nid example_nid_env ?s)"
    by simp
  also have "\<dots> = Inr (GenerateNodeIdentifier 1 2 3)"
    by (simp add: in_transaction_def generate_example pgactive_xact_callback_def read_nid_def pgactive_spi_exec_def db scan_nid del: sscanf.simps)
  finally show ?thesis .
qed

text \<open>The cache is filled before the transaction that creates the function commits; a rollback leaves it filled.\<close>

lemma rolled_back_identifier_cached:
  assumes "pgactive_generate_node_identifier example_nid_env 1 2 3 example_nids = (Inr (), s)"
  shows "fst (pgactive_get_nid_internal example_nid_env (s\<lparr>getter_text := None\<rparr>)) = Inr (GenerateNodeIdentifier 1 2 3) \<and>
    fst (read_nid example_nid_env (s\<lparr>getter_text := None\<rparr>)) = Inl (Error ''pgactive is not active in this database'')"
proof -
  have "GenerateNodeIdentifier 1 2 3 \<noteq> 0" by (simp add: GenerateNodeIdentifier_def)
  moreover have "ne_mydb example_nid_env = 5" "ne_query_ok example_nid_env" by (simp_all add: example_nid_env_def)
  ultimately show ?thesis
    using assms unfolding generate_example
    by (auto simp: pgactive_get_nid_internal_def pgactive_nid_shmem_get_def read_nid_def pgactive_spi_exec_def)
qed

end
