(* ===== verification/Init_Replica.thy ===== *)
theory Init_Replica
  imports Executor Remote_Calls Node_Identifier
begin

text \<open>
  Joining a group, \<^verbatim>\<open>src/pgactive_init_replica.c\<close>: the new node goes from status b over i, c and o to
  r, copying the data of its join target, creating slots on every peer, catching up and being
  connected to by the others; an attempt that fails is repeated by a new per-database worker from the status
  that the catalogue holds.  Waiting loops read lists of observations; when a list ends, the process is
  told to terminate.  \<open>proc_exit\<close> is the failure \<open>Fatal\<close>.
\<close>

section \<open>State and surroundings\<close>

record join_state = remote_state +
  js_nodes :: "node_row list"
  js_conns :: "conn_row list"
  js_perdb :: perdb_state
  js_hook :: xact_hook
  js_nids :: "pgactiveNodeIdentifier list"

text \<open>What \<open>waitpid\<close> reports, and what is seen of a background worker, with the segment at that time.\<close>

datatype child = Running | WaitFailed | Exited int | Signaled int | EndedOtherwise int

datatype BgwHandleStatus = BGWH_STARTED | BGWH_NOT_YET_STARTED | BGWH_STOPPED | BGWH_POSTMASTER_DIED

record bgw_obs =
  bo_status :: BgwHandleStatus
  bo_pid :: int
  bo_segment :: pgactiveWorkerControl

text \<open>
  The server's part, as functions of the trace.  \<open>je_synced\<close> is what a transaction over a second connection leaves in the local
  tables, \<open>je_caught_up\<close> what the catch-up worker leaves in the node table.
\<close>

record join_env =
  je_r :: remote_env
  je_spi :: "event list \<Rightarrow> spi_env"
  je_quote :: "string \<Rightarrow> string"
  je_order_by :: "(conn_row \<times> node_row) list \<Rightarrow> (conn_row \<times> node_row) list"
  je_nodes_relid :: "u32 result"
  je_find_exec :: "program \<Rightarrow> (string \<times> u32) option"
  je_pg_version_num :: u32
  je_system_identifier :: u64
  je_pid :: nat
  je_temp_dir :: string
  je_jobs :: int
  je_mkdir :: "event list \<Rightarrow> string \<Rightarrow> bool"
  je_fork :: "event list \<Rightarrow> bool"
  je_child :: "event list \<Rightarrow> child list"
  je_synced :: "event list \<Rightarrow> node_row list \<Rightarrow> conn_row list \<Rightarrow> node_row list \<times> conn_row list"
  je_maintain :: "event list \<Rightarrow> maintain_env"
  je_walsenders :: "event list \<Rightarrow> pgactiveWorkerControl list"
  je_node_tables :: "event list \<Rightarrow> node_row list list"
  je_register :: "event list \<Rightarrow> bool"
  je_catchup :: "event list \<Rightarrow> bgw_obs list"
  je_caught_up :: "event list \<Rightarrow> node_row list \<Rightarrow> node_row list"

type_synonym 'a join_op = "(join_state, 'a) op"

abbreviation je_myid :: "join_env \<Rightarrow> pgactiveNodeId" where
  "je_myid env \<equiv> re_myid (je_r env)"

text \<open>\<open>PG_ENSURE_ERROR_CLEANUP\<close>: the clean-up runs when the body fails, and the failure goes on.\<close>

definition ensure_cleanup :: "('s, unit) op \<Rightarrow> ('s, 'a) op \<Rightarrow> ('s, 'a) op" where
  "ensure_cleanup cleanup m s =
     (case m s of (Inl e, s') \<Rightarrow> (Inl e, snd (cleanup s')) | (Inr x, s') \<Rightarrow> (Inr x, s'))"

definition set_status :: "join_env \<Rightarrow> pgactiveNodeStatus \<Rightarrow> pgactiveNodeStatus \<Rightarrow> unit join_op" where
  "set_status env st fromstatus =
     sbind (sget (\<lambda>s. pgactive_nodes_set_local_status (je_spi env (rs_trace s)) (je_myid env) st fromstatus (js_nodes s))) (\<lambda>r.
     sbind (slift r) (\<lambda>rows.
     sseq (emit (je_r env) (SetNodeStatus st)) (smodify (\<lambda>s. s\<lparr>js_nodes := rows\<rparr>))))"

text \<open>The name of the node is a pointer that the function follows.\<close>

definition set_read_only :: "join_env \<Rightarrow> string option \<Rightarrow> bool \<Rightarrow> unit join_op" where
  "set_read_only env name b =
     (case name of None \<Rightarrow> sfail (Panic ''null pointer dereference'')
      | Some n \<Rightarrow>
          sbind (sget (\<lambda>s. pgactive_set_node_read_only_guts (je_nodes_relid env) (re_nid (je_r env)) (re_mydb (je_r env)) n b True
                             (ps_nodecache (js_perdb s), js_nodes s, js_hook s))) (\<lambda>(r, nc, rows, hook).
          sseq (smodify (\<lambda>s. s\<lparr>js_perdb := (js_perdb s)\<lparr>ps_nodecache := nc\<rparr>\<rparr>))
          (sseq (slift r)
          (sseq (emit (je_r env) (SetReadOnly b))
           (smodify (\<lambda>s. s\<lparr>js_nodes := rows, js_hook := hook\<rparr>))))))"

section \<open>Copying the data\<close>

definition pgactive_get_remote_lsn :: "join_env \<Rightarrow> string \<Rightarrow> u64 join_op" where
  "pgactive_get_remote_lsn env conn =
     sbind (exec_tuples (je_r env) conn SELECT_current_wal_insert_lsn ''unable to get remote LSN'') (\<lambda>res.
     get_conv (re_pg_lsn_in (je_r env)) res 0)"

fun wait_child :: "child list \<Rightarrow> unit result" where
  "wait_child [] = Inl (Fatal ''terminating process'')"
| "wait_child (Running # obs) = wait_child obs"
| "wait_child (WaitFailed # obs) = Inl (Fatal ''error in waitpid()'')"
| "wait_child (Exited status # obs) =
     (if status = 0 then Inr () else Inl (Fatal ''process to execute command for init_replica exited with exit code''))"
| "wait_child (Signaled sig # obs) = Inl (Fatal ''process to execute command for init_replica exited due to signal'')"
| "wait_child (EndedOtherwise status # obs) = Inl (Fatal ''process to execute command for init_replica exited for an unknown reason'')"

definition pgactive_execute_command :: "join_env \<Rightarrow> program \<Rightarrow> string list \<Rightarrow> unit join_op" where
  "pgactive_execute_command env cmd cmdargv =
     sbind (sget (\<lambda>s. je_fork env (rs_trace s))) (\<lambda>forked.
     sseq (check forked (Error ''could not fork new process to execute command for init_replica''))
     (sseq (emit (je_r env) (Execv cmd cmdargv))
      (sbind (sget (\<lambda>s. je_child env (rs_trace s))) (\<lambda>obs. slift (wait_child obs)))))"

definition set_tables :: "PGresult \<Rightarrow> string list result" where
  "set_tables res = map_result (\<lambda>i. PQgetvalue res i 0) [0..<PQntuples res]"

text \<open>The tables with \<open>is_include_set\<close> and \<open>is_exclude_set\<close>.\<close>

definition pgactive_get_replication_set_tables :: "join_env \<Rightarrow> string \<Rightarrow> (string list \<times> bool \<times> bool) join_op" where
  "pgactive_get_replication_set_tables env conn =
     sbind (exec_tuples (je_r env) conn (SELECT_replication_set_tables ''include_rs'') ''could not get include replication set tables'') (\<lambda>res.
     if PQntuples res \<noteq> 0 then sbind (slift (set_tables res)) (\<lambda>ts. sret (ts, True, False))
     else
     sbind (exec_tuples (je_r env) conn (SELECT_replication_set_tables ''exclude_rs'') ''could not get exclude replication set tables'') (\<lambda>res.
     if PQntuples res \<noteq> 0 then sbind (slift (set_tables res)) (\<lambda>ts. sret (ts, False, True))
     else sret ([], False, False)))"

definition find_program :: "join_env \<Rightarrow> program \<Rightarrow> string result" where
  "find_program env p =
     (case je_find_exec env p of
        None \<Rightarrow> Inl (Error ''pgactive node init failed to find program'')
      | Some (path, bin_version) \<Rightarrow>
          if bin_version div 10000 \<noteq> je_pg_version_num env div 10000
          then Inl (Error ''pgactive node init found program with wrong major version'') else Inr path)"

abbreviation MAXPGPATH :: nat where
  "MAXPGPATH \<equiv> 1024"

definition jobs_arg :: "join_env \<Rightarrow> string" where
  "jobs_arg env = take 11 (''--jobs='' @ int_string (je_jobs env))"

definition table_arg :: "bool \<Rightarrow> string \<Rightarrow> string" where
  "table_arg is_include table =
     take (2 * NAMEDATALEN - 1) ((if is_include then ''--table='' else ''--exclude-table='') @ table)"

definition dump_args :: "join_env \<Rightarrow> string \<Rightarrow> string \<Rightarrow> string \<Rightarrow> string \<Rightarrow> bool \<Rightarrow> bool \<Rightarrow> string list \<Rightarrow> string list" where
  "dump_args env path snapshot tmpdir dsn data_only is_include tables =
     [path, ''--exclude-table=pgactive.pgactive_nodes'', ''--exclude-table=pgactive.pgactive_connections'', ''--pgactive-init-node'',
      jobs_arg env, take (MAXPGPATH - 1) (''--snapshot='' @ snapshot), ''--format=directory'',
      take (MAXPGPATH - 1) (''--file='' @ tmpdir), dsn] @
     (if data_only then [''--data-only''] else []) @ map (table_arg is_include) tables"

definition restore_args :: "join_env \<Rightarrow> string \<Rightarrow> string \<Rightarrow> string \<Rightarrow> string list" where
  "restore_args env path tmpdir dsn =
     [path, ''--exit-on-error'', jobs_arg env, ''--format=directory'', take (MAXPGPATH - 1) (''--dbname='' @ dsn), tmpdir]"

definition on_nids :: "(pgactiveNodeIdentifier list, 'a) op \<Rightarrow> 'a join_op" where
  "on_nids m s = (case m (js_nids s) of (r, n) \<Rightarrow> (r, s\<lparr>js_nids := n\<rparr>))"

definition destroy_temp_dump_dir :: "join_env \<Rightarrow> string \<Rightarrow> unit join_op" where
  "destroy_temp_dump_dir env dir = emit (je_r env) (RemoveDirectory dir)"

definition dump_and_restore :: "join_env \<Rightarrow> string \<Rightarrow> string \<Rightarrow> string \<Rightarrow> string \<Rightarrow> string \<Rightarrow> string \<Rightarrow> string \<Rightarrow> unit join_op" where
  "dump_and_restore env dump_path restore_path snapshot tmpdir origin_dsn local_dsn conn =
     sbind (pgactive_get_replication_set_tables env conn) (\<lambda>(tables, is_include, is_exclude).
     sbind (sget js_nids) (\<lambda>nids.
     sbind (slift (pgactive_get_data_only_node_init (re_mydb (je_r env)) nids)) (\<lambda>data_only.
     sseq (pgactive_execute_command env pgactive_DUMP_CMD
             (dump_args env dump_path snapshot tmpdir origin_dsn data_only is_include tables))
     (sseq (on_nids (pgactive_set_data_only_node_init (re_mydb (je_r env)) False))
      (pgactive_execute_command env pgactive_RESTORE_CMD (restore_args env restore_path tmpdir local_dsn))))))"

definition pgactive_init_exec_dump_restore :: "join_env \<Rightarrow> pgactiveNodeInfo \<Rightarrow> string \<Rightarrow> string \<Rightarrow> string \<Rightarrow> string \<Rightarrow> unit join_op" where
  "pgactive_init_exec_dump_restore env node init_from local snapshot conn =
     sbind (slift (find_program env pgactive_DUMP_CMD)) (\<lambda>dump_path.
     sbind (slift (find_program env pgactive_RESTORE_CMD)) (\<lambda>restore_path.
     sbind (slift (resolve_dsn (je_r env) init_from)) (\<lambda>o_server.
     sbind (slift (resolve_dsn (je_r env) local)) (\<lambda>l_server.
     let origin_dsn = re_default_options (je_r env) @ '' '' @ re_extra_options (je_r env) @ '' '' @ o_server @ '' '' @ application_name (je_r env) ''init dump'';
         local_dsn = l_server @ '' '' @ application_name (je_r env) ''init restore'' @
           '' options='' @ [quote] @ ''-c pgactive.do_not_replicate=on -c pgactive.skip_ddl_replication=on -c session_replication_role=replica'' @ [quote];
         tmpdir = take (MAXPGPATH - 1) (je_temp_dir env @ ''/pgactive-dump-'' @ dec_string (unat (je_system_identifier env)) @ ''-'' @ snapshot @
           ''.'' @ dec_string (je_pid env)) in
     sbind (sget (\<lambda>s. je_mkdir env (rs_trace s) tmpdir)) (\<lambda>made.
     sseq (check made (Error ''failed to create temporary dump directory''))
     (sseq (emit (je_r env) (MakeDirectory tmpdir))
     (sseq (ensure_cleanup (destroy_temp_dump_dir env tmpdir)
             (dump_and_restore env dump_path restore_path snapshot tmpdir origin_dsn local_dsn conn))
      (destroy_temp_dump_dir env tmpdir))))))))"

section \<open>The catalogue and the slots\<close>

definition required_dsn :: "string option \<Rightarrow> string result" where
  "required_dsn d = (case d of None \<Rightarrow> Inl (Panic ''null pointer dereference'') | Some x \<Rightarrow> Inr x)"

definition exec_command :: "join_env \<Rightarrow> string \<Rightarrow> command \<Rightarrow> string \<Rightarrow> unit join_op" where
  "exec_command env conn cmd msg =
     sbind (pq_exec (je_r env) conn cmd) (\<lambda>res. check (PQresultStatus res = PGRES_COMMAND_OK) (Error msg))"

text \<open>The query for the node's own row is given by its three numbers in decimal.\<close>

definition pgactive_sync_nodes :: "join_env \<Rightarrow> string \<Rightarrow> pgactiveNodeInfo \<Rightarrow> unit join_op" where
  "pgactive_sync_nodes env remote_conn local_node =
     sbind (slift (required_dsn (ni_local_dsn local_node))) (\<lambda>local_dsn.
     sbind (pgactive_connect_nonrepl (je_r env) local_dsn ''state sync'' True True) (\<lambda>(local_conn, _).
     let sysid_s = dec_string (unat (sysid (ni_id local_node))); tlid_s = dec_string (unat (timeline (ni_id local_node)));
         dboid_s = dec_string (unat (dboid (ni_id local_node))) in
     sseq (exec_command env remote_conn SYNC_SETUP ''BEGIN or table locking on remote failed'')
     (sseq (exec_command env local_conn SYNC_SETUP ''BEGIN or table locking on local failed'')
     (sseq (pgactive_copytable (je_r env) remote_conn local_conn COPY_nodes_out COPY_nodes_in)
     (sseq (pgactive_copytable (je_r env) local_conn remote_conn (COPY_node_out sysid_s tlid_s dboid_s) COPY_nodes_in)
     (sseq (pgactive_copytable (je_r env) remote_conn local_conn COPY_connections_out COPY_connections_in)
     (sseq (exec_command env remote_conn COMMIT ''COMMIT on remote failed'')
     (sseq (exec_command env local_conn COMMIT ''COMMIT on remote failed'')
      (smodify (\<lambda>s. let (nodes, conns) = je_synced env (rs_trace s) (js_nodes s) (js_conns s)
                    in s\<lparr>js_nodes := nodes, js_conns := conns\<rparr>))))))))))"

definition pgactive_insert_remote_conninfo :: "join_env \<Rightarrow> string \<Rightarrow> pgactiveConnectionConfig \<Rightarrow> unit join_op" where
  "pgactive_insert_remote_conninfo env conn myconfig =
     (let (sys, tl, d) = stringify_node_identity 33 33 33 (je_myid env) in
      sseq (exec_tuples (je_r env) conn
              (SELECT_join_node_private [sys, tl, d, cfg_dsn myconfig, int_string (cfg_apply_delay myconfig),
                 ''{'' @ (case cfg_replication_sets myconfig of None \<Rightarrow> ''(null)'' | Some r \<Rightarrow> r) @ ''}''])
              ''unable to update remote pgactive.pgactive_connections'') (sret ()))"

definition connection_configs :: "join_env \<Rightarrow> pgactiveConnectionConfig list join_op" where
  "connection_configs env =
     sbind (sget (\<lambda>s. pgactive_read_connection_configs (je_quote env) (je_order_by env) (je_spi env (rs_trace s)) (js_conns s) (js_nodes s))) slift"

fun other_slots_loop :: "join_env \<Rightarrow> pgactiveConnectionConfig list \<Rightarrow> unit join_op" where
  "other_slots_loop env [] = sret ()"
| "other_slots_loop env (cfg # cfgs) =
     (if pgactive_nodeid_eq (Some (cfg_remote_node cfg)) (Some (je_myid env)) then other_slots_loop env cfgs
      else sbind (pgactive_establish_connection_and_slot (je_r env) (cfg_dsn cfg) ''make replication slot'' False) (\<lambda>c.
           sseq (check (pgactive_nodeid_eq (Some (cfg_remote_node cfg)) (Some (sc_node c)))
                  (Error ''system identification mismatch between connection and slot''))
           (other_slots_loop env cfgs)))"

definition pgactive_init_make_other_slots :: "join_env \<Rightarrow> unit join_op" where
  "pgactive_init_make_other_slots env = sbind (connection_configs env) (other_slots_loop env)"

text \<open>The first entry of the node itself is taken out of the list.\<close>

fun remove_own :: "pgactiveNodeId \<Rightarrow> pgactiveConnectionConfig list \<Rightarrow> pgactiveConnectionConfig list" where
  "remove_own myid [] = []"
| "remove_own myid (cfg # cfgs) =
     (if pgactive_nodeid_eq (Some (cfg_remote_node cfg)) (Some myid) then cfgs else cfg # remove_own myid cfgs)"

definition inbound_walsender :: "u32 \<Rightarrow> pgactiveNodeId \<Rightarrow> pgactiveWorker \<Rightarrow> bool" where
  "inbound_walsender mydb node w \<longleftrightarrow>
     worker_type w = pgactive_WORKER_WALSENDER \<and> pgactive_nodeid_eq (Some node) (Some (walsnd_remote_node (data_walsnd w))) \<and>
     (case worker_proc w of None \<Rightarrow> False | Some p \<Rightarrow> proc_databaseId p = mydb)"

definition inbound_found :: "u32 \<Rightarrow> pgactiveNodeId \<Rightarrow> pgactiveConnectionConfig list \<Rightarrow> pgactiveWorkerControl \<Rightarrow> nat" where
  "inbound_found mydb myid configs seg =
     sum_list (map (\<lambda>cfg. length (filter (inbound_walsender mydb (cfg_remote_node cfg)) (slots seg)))
       (filter (\<lambda>cfg. \<not> pgactive_nodeid_eq (Some (cfg_remote_node cfg)) (Some myid)) configs))"

fun slot_wait_loop :: "u32 \<Rightarrow> pgactiveNodeId \<Rightarrow> pgactiveConnectionConfig list \<Rightarrow> pgactiveWorkerControl list \<Rightarrow> unit result" where
  "slot_wait_loop mydb myid configs [] = Inl (Fatal ''terminating process'')"
| "slot_wait_loop mydb myid configs (seg # obs) =
     (if inbound_found mydb myid configs seg = length configs then Inr () else slot_wait_loop mydb myid configs obs)"

definition pgactive_init_wait_for_slot_creation :: "join_env \<Rightarrow> unit join_op" where
  "pgactive_init_wait_for_slot_creation env =
     sbind (connection_configs env) (\<lambda>configs.
     sbind (sget (\<lambda>s. je_walsenders env (rs_trace s))) (\<lambda>obs.
     slift (slot_wait_loop (re_mydb (je_r env)) (je_myid env) (remove_own (je_myid env) configs) obs)))"

definition pgactive_ddl_lock_remote :: "join_env \<Rightarrow> string \<Rightarrow> pgactiveLockType \<Rightarrow> unit join_op" where
  "pgactive_ddl_lock_remote env conn mode =
     sseq (check (mode = pgactive_LOCK_DDL) (Error ''remote DDL locking only supports mode = ddl''))
     (exec_command env conn DO_acquire_ddl_lock ''failed to acquire global DDL lock on remote peer'')"

text \<open>
  The conversation of \<open>pgactive_nodes_set_remote_status_ready\<close>; what the update does to the table is
  \<open>Node_Catalog.pgactive_nodes_set_remote_status_ready\<close>.
\<close>

definition set_remote_status_ready :: "join_env \<Rightarrow> string \<Rightarrow> unit join_op" where
  "set_remote_status_ready env conn =
     sseq (exec_command env conn BEGIN_READ_COMMITTED ''failed to start tx on remote peer'')
     (sseq (pgactive_ddl_lock_remote env conn pgactive_LOCK_DDL)
     (sseq (pq_exec (je_r env) conn LOCK_nodes)
     (let (sys, tl, d) = stringify_node_identity 32 32 32 (je_myid env) in
      sbind (exec_tuples (je_r env) conn (UPDATE_node_ready [sys, tl, d]) ''failed to update my pgactive.pgactive_nodes entry on remote server'') (\<lambda>res.
      sseq (check (PQntuples res = 1) (Error ''failed to update my pgactive.pgactive_nodes entry on remote server: affected rows''))
      (sseq (check (\<not> PQgetisnull res 0 0) (Error ''assigned node sequence ID is unexpectedly null''))
       (exec_command env conn COMMIT ''failed to start tx on remote peer''))))))"

fun ready_loop :: "spi_env \<Rightarrow> pgactiveNodeId \<Rightarrow> node_row list list \<Rightarrow> node_row list result" where
  "ready_loop spi myid [] = Inl (Fatal ''terminating process'')"
| "ready_loop spi myid (rows # obs) =
     bind_result (pgactive_nodes_get_local_status spi rows myid False) (\<lambda>status.
     if status = node_status_code pgactive_NODE_STATUS_KILLED
     then Inl (Error ''local node has been detached from the pgactive group'')
     else if status = node_status_code pgactive_NODE_STATUS_READY then Inr rows
     else ready_loop spi myid obs)"

definition pgactive_wait_for_local_node_ready :: "join_env \<Rightarrow> unit join_op" where
  "pgactive_wait_for_local_node_ready env =
     sbind (sget (\<lambda>s. ready_loop (je_spi env (rs_trace s)) (je_myid env) (je_node_tables env (rs_trace s)))) (\<lambda>r.
     sbind (slift r) (\<lambda>rows. smodify (\<lambda>s. s\<lparr>js_nodes := rows\<rparr>)))"

definition perform_pointless_transaction :: "join_env \<Rightarrow> string \<Rightarrow> unit join_op" where
  "perform_pointless_transaction env conn = sseq (pq_exec (je_r env) conn CREATE_TEMP_TABLE) (sret ())"

definition pgactive_init_standalone_node :: "join_env \<Rightarrow> unit join_op" where
  "pgactive_init_standalone_node env =
     sbind (sget (\<lambda>s. pgactive_nodes_set_local_attrs (je_spi env (rs_trace s)) (je_myid env) pgactive_NODE_STATUS_READY
                        pgactive_NODE_STATUS_BEGINNING_INIT (Some 1) (js_nodes s))) (\<lambda>r.
     sbind (slift r) (\<lambda>rows.
     sseq (emit (je_r env) (SetNodeStatus pgactive_NODE_STATUS_READY)) (smodify (\<lambda>s. s\<lparr>js_nodes := rows\<rparr>))))"


section \<open>Catching up\<close>

definition on_perdb :: "'a perdb_op \<Rightarrow> 'a join_op" where
  "on_perdb m s = (case m (js_perdb s) of (r, p) \<Rightarrow> (r, s\<lparr>js_perdb := p\<rparr>))"

definition pgactive_catchup_to_lsn_cleanup :: "nat \<Rightarrow> unit join_op" where
  "pgactive_catchup_to_lsn_cleanup i = on_perdb (on_workers (pgactive_worker_shmem_free i None))"

definition catchup_slot :: "u32 \<Rightarrow> pgactiveNodeId \<Rightarrow> nat worker_op" where
  "catchup_slot mydb node s =
     (case pgactive_worker_shmem_alloc pgactive_WORKER_APPLY (ctl s) of
        (Inl e, c) \<Rightarrow> (Inl e, s\<lparr>ctl := c\<rparr>)
      | (Inr i, c) \<Rightarrow>
          (Inr i, s\<lparr>ctl := upd_slot i (upd_apply (\<lambda>a. a\<lparr>apply_dboid := mydb, apply_remote_node := node,
             apply_perdb := pgactive_worker_slot (self s)\<rparr>)) c\<rparr>))"

text \<open>The worker is watched until it is no longer the process that was started.\<close>

fun bgw_loop :: "int \<Rightarrow> bgw_obs list \<Rightarrow> BgwHandleStatus join_op" where
  "bgw_loop prev_pid [] = sfail (Fatal ''terminating process'')"
| "bgw_loop prev_pid (b # obs) =
     sseq (on_perdb (on_segment (smodify (\<lambda>_. bo_segment b))))
     (if bo_status b = BGWH_STARTED \<and> bo_pid b = prev_pid then bgw_loop prev_pid obs else sret (bo_status b))"

text \<open>The result of the registration is not looked at; without a handle the server is asked about an arbitrary address.\<close>

definition run_catchup :: "join_env \<Rightarrow> pgactiveNodeId \<Rightarrow> u64 \<Rightarrow> nat \<Rightarrow> unit join_op" where
  "run_catchup env node target_lsn i =
     sseq (on_perdb (on_segment (smodify (upd_slot i (upd_apply (\<lambda>a. a\<lparr>replay_stop_lsn := target_lsn, forward_changesets := True\<rparr>))))))
     (sseq (emit (je_r env) (LaunchCatchup node target_lsn))
     (sbind (sget (\<lambda>s. (je_register env (rs_trace s), je_catchup env (rs_trace s)))) (\<lambda>(registered, obs).
      sseq (check registered (Panic ''uninitialised background worker handle''))
      (sbind (bgw_loop (case obs of [] \<Rightarrow> 0 | b # _ \<Rightarrow> bo_pid b) obs) (\<lambda>status.
       sseq (smodify (\<lambda>s. s\<lparr>js_nodes := je_caught_up env (rs_trace s) (js_nodes s)\<rparr>))
       (sseq (case status of
                BGWH_POSTMASTER_DIED \<Rightarrow> sfail (Fatal ''proc_exit'')
              | BGWH_STOPPED \<Rightarrow> sret ()
              | _ \<Rightarrow> sfail (Error ''unreachable case''))
        (sbind (sget (\<lambda>s. replay_stop_lsn (data_apply (slots (ctl (pw (js_perdb s))) ! i)))) (\<lambda>lsn.
         check (lsn = 0) (Error ''catchup worker exited before catching up to target LSN'')))))))))"

definition pgactive_catchup_to_lsn :: "join_env \<Rightarrow> remote_node_info \<Rightarrow> u64 \<Rightarrow> unit join_op" where
  "pgactive_catchup_to_lsn env ri target_lsn =
     sbind (on_perdb (on_workers (catchup_slot (re_mydb (je_r env)) (ri_nodeid ri)))) (\<lambda>i.
     sseq (ensure_cleanup (pgactive_catchup_to_lsn_cleanup i) (run_catchup env (ri_nodeid ri) target_lsn i))
     (pgactive_catchup_to_lsn_cleanup i))"

section \<open>The whole\<close>

definition maintain_workers :: "join_env \<Rightarrow> unit join_op" where
  "maintain_workers env =
     sseq (emit (je_r env) MaintainWorkers)
     (sbind (sget (\<lambda>s. (je_maintain env (rs_trace s))\<lparr>me_nodes := js_nodes s, me_conns := js_conns s\<rparr>)) (\<lambda>me.
      on_perdb (pgactive_maintain_db_workers me)))"

text \<open>The three phases; each ends with a new status in the catalogue, the last one on the join target.\<close>

definition copy_phase :: "join_env \<Rightarrow> pgactiveNodeInfo \<Rightarrow> string \<Rightarrow> string \<Rightarrow> unit join_op" where
  "copy_phase env local_node init_from conn =
     sseq (set_status env pgactive_NODE_STATUS_COPYING_INITIAL_DATA pgactive_NODE_STATUS_BEGINNING_INIT)
     (sseq (set_read_only env (ni_name local_node) True)
     (sbind (pgactive_establish_connection_and_slot (je_r env) init_from ''init node'' False) (\<lambda>c.
      sbind (slift (required_dsn (ni_local_dsn local_node))) (\<lambda>local_dsn.
      sseq (pgactive_init_exec_dump_restore env local_node init_from local_dsn (case sc_snapshot c of None \<Rightarrow> [] | Some sn \<Rightarrow> sn) conn)
      (sseq (pgactive_sync_nodes env conn local_node)
       (set_status env pgactive_NODE_STATUS_CATCHUP pgactive_NODE_STATUS_COPYING_INITIAL_DATA))))))"

definition catchup_phase :: "join_env \<Rightarrow> string \<Rightarrow> unit join_op" where
  "catchup_phase env conn =
     sseq (pgactive_init_make_other_slots env)
     (sseq (pgactive_ddl_lock_remote env conn pgactive_LOCK_DDL)
     (sbind (pgactive_get_remote_lsn env conn) (\<lambda>min_remote_lsn.
      sseq (perform_pointless_transaction env conn)
      (sbind (pgactive_get_remote_nodeinfo_internal (je_r env) conn) (\<lambda>ri.
       sseq (pgactive_catchup_to_lsn env ri min_remote_lsn)
       (set_status env pgactive_NODE_STATUS_CREATING_OUTBOUND_SLOTS pgactive_NODE_STATUS_CATCHUP))))))"

definition ready_phase :: "join_env \<Rightarrow> pgactiveNodeInfo \<Rightarrow> string \<Rightarrow> pgactiveConnectionConfig \<Rightarrow> unit join_op" where
  "ready_phase env local_node conn cfg =
     sseq (maintain_workers env)
     (sseq (pgactive_insert_remote_conninfo env conn cfg)
     (sseq (pgactive_init_wait_for_slot_creation env)
     (sseq (set_remote_status_ready env conn)
     (sseq (pgactive_wait_for_local_node_ready env)
      (set_read_only env (ni_name local_node) False)))))"

definition check_status :: "char \<Rightarrow> unit join_op" where
  "check_status status =
     (if status = node_status_code pgactive_NODE_STATUS_BEGINNING_INIT then sret ()
      else if status = node_status_code pgactive_NODE_STATUS_READY then sfail (Error ''unexpected state'')
      else if status = node_status_code pgactive_NODE_STATUS_CATCHUP then sret ()
      else if status = node_status_code pgactive_NODE_STATUS_CREATING_OUTBOUND_SLOTS then sret ()
      else if status = node_status_code pgactive_NODE_STATUS_COPYING_INITIAL_DATA
      then sfail (Error ''previous init failed, manual cleanup is required'')
      else sfail (Error ''unreachable''))"

definition pgactive_init_replica :: "join_env \<Rightarrow> pgactiveNodeInfo \<Rightarrow> unit join_op" where
  "pgactive_init_replica env local_node =
     (let status = ni_status local_node; b = node_status_code pgactive_NODE_STATUS_BEGINNING_INIT in
      case ni_init_from_dsn local_node of
        None \<Rightarrow>
          if status \<noteq> b then sfail (Error ''pgactive.pgactive_nodes row exists but has init_from_dsn set to NULL'')
          else pgactive_init_standalone_node env
      | Some init_from \<Rightarrow>
          sbind (sget (\<lambda>s. pgactive_get_connection_config (je_quote env) (je_order_by env) (je_spi env (rs_trace s)) (js_conns s) (js_nodes s)
                             (ni_id local_node) True)) (\<lambda>r.
          sbind (slift r) (\<lambda>config.
          case config of None \<Rightarrow> sfail (Error ''cannot find local pgactive connection configurations'')
          | Some cfg \<Rightarrow>
              sbind (pgactive_connect_nonrepl (je_r env) init_from ''init replica'' True True) (\<lambda>(conn, _).
              sseq (pgactive_ensure_ext_installed (je_r env) conn)
              (sseq (check_status status)
              (sseq (swhen (status = b) (copy_phase env local_node init_from conn))
              (sseq (swhen (status = b \<or> status = node_status_code pgactive_NODE_STATUS_CATCHUP) (catchup_phase env conn))
               (ready_phase env local_node conn cfg))))))))"

text \<open>
  The part of a per-database worker's start that decides on a join; the steps around it, with the checks between
  the look-up of the row and the decision, are \<open>Perdb_Worker.perdb_worker_start\<close>.
\<close>

definition join_attempt :: "join_env \<Rightarrow> unit join_op" where
  "join_attempt env =
     sbind (sget (\<lambda>s. pgactive_nodes_get_local_info (js_nodes s) (je_myid env))) (\<lambda>r.
     sbind (slift r) (\<lambda>info.
     case info of None \<Rightarrow> sfail (Error ''local node record not found'')
     | Some local_node \<Rightarrow>
         if ni_status local_node \<noteq> node_status_code pgactive_NODE_STATUS_READY \<and>
            ni_status local_node \<noteq> node_status_code pgactive_NODE_STATUS_KILLED
         then pgactive_init_replica env local_node else sret ()))"

end
