(* ===== verification/Join_Properties.thy ===== *)
theory Join_Properties
  imports Init_Replica
begin

text \<open>
  What joining a group guarantees over all its attempts: the data of the join target is copied at
  most once, and an attempt that succeeds has done exactly the steps that were left, in the order that the
  protocol needs.
\<close>

section \<open>The data is copied at most once\<close>

definition is_restore :: "event \<Rightarrow> bool" where
  "is_restore e \<longleftrightarrow> (\<exists>a. e = Execv pgactive_RESTORE_CMD a)"

definition own_beginning :: "pgactiveNodeId \<Rightarrow> node_row list \<Rightarrow> bool" where
  "own_beginning me rows \<longleftrightarrow>
     (\<exists>r \<in> set rows. row_of me r \<and> node_status r = Some (node_status_code pgactive_NODE_STATUS_BEGINNING_INIT))"

text \<open>Other processes and other nodes never put the node's own row back to status b.\<close>

definition keeps_status :: "pgactiveNodeId \<Rightarrow> join_env \<Rightarrow> bool" where
  "keeps_status me env \<longleftrightarrow>
     (\<forall>tr rows conns. own_beginning me (fst (je_synced env tr rows conns)) \<longrightarrow> own_beginning me rows) \<and>
     (\<forall>tr rows. own_beginning me (je_caught_up env tr rows) \<longrightarrow> own_beginning me rows) \<and>
     (\<forall>tr. \<forall>rows \<in> set (je_node_tables env tr). \<not> own_beginning me rows)"

text \<open>
  The copies that were made and the one that may still be made.  An operation \<open>grows\<close> by \<open>k\<close> if it adds at
  most \<open>k\<close> to that number, however it ends.
\<close>

definition copies :: "pgactiveNodeId \<Rightarrow> join_state \<Rightarrow> nat" where
  "copies me s = length (filter is_restore (rs_trace s)) + (if own_beginning me (js_nodes s) then 1 else 0)"

definition grows :: "pgactiveNodeId \<Rightarrow> nat \<Rightarrow> 'a join_op \<Rightarrow> bool" where
  "grows me k f \<longleftrightarrow> (\<forall>s. copies me (snd (f s)) \<le> copies me s + k)"

named_theorems grows_intros \<open>operations that copy no data\<close>

lemma growsI: "(\<And>s r s'. f s = (r, s') \<Longrightarrow> copies me s' \<le> copies me s + k) \<Longrightarrow> grows me k f"
  unfolding grows_def by (metis prod.collapse)

lemma growsD: "grows me k f \<Longrightarrow> f s = (r, s') \<Longrightarrow> copies me s' \<le> copies me s + k"
  unfolding grows_def by (metis snd_conv)

lemma grows_pure [grows_intros]:
  "grows me k (sret x)" "grows me k (sfail e)" "grows me k (slift r)" "grows me k (sget g)" "grows me k (check b e)" "grows me k (Pair r)"
  by (simp_all add: grows_def check_def)

lemma grows_sbind:
  assumes "grows me j m" and "\<And>x. grows me k (f x)"
  shows "grows me (j + k) (sbind m f)"
proof (rule growsI)
  fix s r s'
  assume a: "sbind m f s = (r, s')"
  obtain q t where m: "m s = (q, t)" by (cases "m s")
  have t: "copies me t \<le> copies me s + j" by (rule growsD [OF assms(1) m])
  show "copies me s' \<le> copies me s + (j + k)"
  proof (cases q)
    case (Inl e)
    with a m have "s' = t" by (simp add: sbind_def)
    with t show ?thesis by simp
  next
    case (Inr x)
    with a m have "f x t = (r, s')" by (simp add: sbind_def)
    from growsD [OF assms(2) this] t show ?thesis by simp
  qed
qed

lemmas grows_sbind0 [grows_intros] = grows_sbind [where j = 0, unfolded add_0]

lemma grows_sseq0 [grows_intros]: "grows me 0 m \<Longrightarrow> grows me k n \<Longrightarrow> grows me k (sseq m n)"
  unfolding sseq_def by (rule grows_sbind0)

lemma grows_swhen [grows_intros]: "grows me k m \<Longrightarrow> grows me k (swhen b m)"
  by (cases b) (simp_all add: grows_pure)

lemma pair_grows [grows_intros]: "(\<And>a b. grows me k (f a b)) \<Longrightarrow> grows me k (case p of (a, b) \<Rightarrow> f a b)"
  by (cases p) simp

lemma if_grows [grows_intros]: "grows me k f \<Longrightarrow> grows me k g \<Longrightarrow> grows me k (if b then f else g)"
  by simp

lemma more_same: "remote_state.more s' = remote_state.more s \<Longrightarrow> js_nodes s' = js_nodes (s :: join_state)"
  by (cases s; cases s') simp

lemma copies_same:
  "rs_trace s' = rs_trace s @ t \<Longrightarrow> filter is_restore t = [] \<Longrightarrow> own_beginning me (js_nodes s') \<longrightarrow> own_beginning me (js_nodes s) \<Longrightarrow>
   copies me s' \<le> copies me s"
  by (simp add: copies_def)

lemma quiet_pq: "set t \<subseteq> pq_events \<Longrightarrow> filter is_restore t = []"
  using pq_events_simps(8) by (fastforce simp: filter_empty_conv is_restore_def)

lemma extends_grows:
  assumes "runs (extends pq_events) f"
  shows "grows me 0 f"
proof (rule growsI)
  fix s r s'
  assume "f s = (r, s')"
  with assms have *: "extends pq_events s s'" by (metis runs_def snd_conv)
  then obtain t where t: "set t \<subseteq> pq_events" "rs_trace s' = rs_trace s @ t" by (auto simp: extends_def)
  from * have "js_nodes s' = js_nodes s" by (intro more_same) (simp add: extends_def)
  with copies_same [OF t(2) quiet_pq [OF t(1)], of me] show "copies me s' \<le> copies me s + 0" by simp
qed

lemma emit_grows [grows_intros]: "\<not> is_restore e \<Longrightarrow> grows me 0 (emit renv e)"
  by (simp add: grows_def emit_def copies_def)

lemma exec_grows [grows_intros]: "grows me 0 (pq_exec renv c q)"
  unfolding pq_exec_def by (intro grows_sseq0 grows_pure emit_grows) (simp add: is_restore_def)

lemma exec_tuples_grows [grows_intros]: "grows me 0 (exec_tuples renv c q m)"
  unfolding exec_tuples_def by (intro grows_sbind0 grows_sseq0 grows_pure exec_grows)

lemmas remote_grows [grows_intros] = pq_calls_run(1) [THEN extends_grows] connect_runs [THEN extends_grows]
  establish_runs [THEN extends_grows] ext_installed_runs [THEN extends_grows]
  get_runs [THEN extends_grows] nodeinfo_runs [THEN extends_grows]

lemma copytable_grows [grows_intros]: "grows me 0 (pgactive_copytable renv a b q r)"
  unfolding pgactive_copytable_def
  by (intro grows_sbind0 grows_sseq0 grows_pure exec_grows copy_rows_runs [THEN extends_grows] emit_grows pair_grows)
     (simp_all add: is_restore_def)

lemma is_restore_simps [simp]:
  "\<not> is_restore (SetNodeStatus st)" "\<not> is_restore (SetReadOnly b)" "\<not> is_restore (MakeDirectory d)" "\<not> is_restore (RemoveDirectory d)"
  "\<not> is_restore MaintainWorkers" "\<not> is_restore (LaunchCatchup n l)" "is_restore (Execv p a) \<longleftrightarrow> p = pgactive_RESTORE_CMD"
  by (simp_all add: is_restore_def)

lemma modify_grows:
  assumes "\<And>s. rs_trace (f s) = rs_trace s" and "\<And>s. own_beginning me (js_nodes (f s)) \<Longrightarrow> own_beginning me (js_nodes s)"
  shows "grows me 0 (smodify f)"
  using assms by (simp add: grows_def copies_def)

lemma cleanup_grows:
  assumes "grows me 0 c" and "grows me k m"
  shows "grows me k (ensure_cleanup c m)"
proof (rule growsI)
  fix s r s'
  assume a: "ensure_cleanup c m s = (r, s')"
  obtain q t where m: "m s = (q, t)" by (cases "m s")
  have t: "copies me t \<le> copies me s + k" by (rule growsD [OF assms(2) m])
  have "copies me (snd (c t)) \<le> copies me t" using assms(1) by (simp add: grows_def)
  with a m t show "copies me s' \<le> copies me s + k"
    by (cases q) (simp_all add: ensure_cleanup_def)
qed

lemma on_part_grows [grows_intros]: "grows me 0 (on_perdb p)" "grows me 0 (on_nids q)"
  by (auto simp: grows_def on_perdb_def on_nids_def copies_def split: prod.splits)


lemma set_attrs_rows:
  assumes "pgactive_nodes_set_local_attrs spi me st fromstatus q rows = Inr rows'" and "st \<noteq> pgactive_NODE_STATUS_BEGINNING_INIT"
  shows "own_beginning me rows' \<Longrightarrow> own_beginning me rows"
    and "fromstatus = pgactive_NODE_STATUS_BEGINNING_INIT \<Longrightarrow> \<not> own_beginning me rows'"
proof -
  have "node_status_code st \<noteq> CHR ''b''" using assms(2) by (cases st) auto
  with assms(1) show "own_beginning me rows' \<Longrightarrow> own_beginning me rows"
    and "fromstatus = pgactive_NODE_STATUS_BEGINNING_INIT \<Longrightarrow> \<not> own_beginning me rows'"
    by (auto simp: own_beginning_def pgactive_nodes_set_local_attrs_def row_of_def split: if_splits)
qed

lemma set_status_outcome:
  assumes "set_status env st fromstatus s = (r, s')"
  obtains "s' = s" "\<exists>e. r = Inl e"
  | rows where "pgactive_nodes_set_local_attrs (je_spi env (rs_trace s)) (je_myid env) st fromstatus None (js_nodes s) = Inr rows"
      "r = Inr ()" "s' = s\<lparr>rs_trace := rs_trace s @ [SetNodeStatus st], js_nodes := rows\<rparr>"
  using assms
  by (cases "pgactive_nodes_set_local_attrs (je_spi env (rs_trace s)) (je_myid env) st fromstatus None (js_nodes s)")
     (auto simp: set_status_def pgactive_nodes_set_local_status_def sseq_def sbind_def emit_def split: if_splits)

lemma set_status_grows [grows_intros]:
  "me = je_myid env \<Longrightarrow> st \<noteq> pgactive_NODE_STATUS_BEGINNING_INIT \<Longrightarrow> grows me 0 (set_status env st fromstatus)"
  by (rule growsI, erule set_status_outcome) (auto simp: copies_def dest: set_attrs_rows)

lemma set_status_counts:
  assumes "set_status env st pgactive_NODE_STATUS_BEGINNING_INIT s = (Inr x, s')" and "st \<noteq> pgactive_NODE_STATUS_BEGINNING_INIT"
    and "own_beginning (je_myid env) (js_nodes s)"
  shows "Suc (copies (je_myid env) s') = copies (je_myid env) s"
  using assms(1)
proof (rule set_status_outcome)
  fix rows
  assume a: "pgactive_nodes_set_local_attrs (je_spi env (rs_trace s)) (je_myid env) st pgactive_NODE_STATUS_BEGINNING_INIT None (js_nodes s) = Inr rows"
    "s' = s\<lparr>rs_trace := rs_trace s @ [SetNodeStatus st], js_nodes := rows\<rparr>"
  with set_attrs_rows(2) [OF a(1) assms(2)] assms(3) show ?thesis by (simp add: copies_def)
qed simp

lemma read_only_row_status:
  "set_read_only_row n b rows = Some rows' \<Longrightarrow> own_beginning me rows' \<longleftrightarrow> own_beginning me rows"
  by (induction rows arbitrary: rows') (auto simp: own_beginning_def row_of_def split: if_splits)

lemma read_only_guts_status:
  "pgactive_set_node_read_only_guts relid nid mydb n b f (nc, rows, hook) = (r, nc', rows', hook') \<Longrightarrow>
   own_beginning me rows' \<longleftrightarrow> own_beginning me rows"
  by (auto simp: pgactive_set_node_read_only_guts_def dest: read_only_row_status [of _ _ _ _ me]
      split: prod.splits sum.splits option.splits if_splits)

lemma set_read_only_outcome:
  assumes "set_read_only env n b s = (r, s')"
  obtains "rs_trace s' = rs_trace s" "js_nodes s' = js_nodes s" "\<exists>e. r = Inl e"
  | name nc hook where "n = Some name" "r = Inr ()" "rs_trace s' = rs_trace s @ [SetReadOnly b]"
      "pgactive_set_node_read_only_guts (je_nodes_relid env) (re_nid (je_r env)) (re_mydb (je_r env)) name b True
        (ps_nodecache (js_perdb s), js_nodes s, js_hook s) = (Inr (), nc, js_nodes s', hook)"
proof (cases n)
  case None
  with assms show ?thesis by (auto simp: set_read_only_def intro: that)
next
  case (Some name)
  obtain q nc rows hook where g: "pgactive_set_node_read_only_guts (je_nodes_relid env) (re_nid (je_r env)) (re_mydb (je_r env)) name b True
      (ps_nodecache (js_perdb s), js_nodes s, js_hook s) = (q, nc, rows, hook)"
    by (metis prod_cases4)
  with assms Some show ?thesis
    by (cases q; cases "re_killed (je_r env) (rs_trace s) (SetReadOnly b)")
       (auto simp: set_read_only_def sseq_def sbind_def emit_def intro: that)
qed

lemma set_read_only_grows [grows_intros]: "grows me 0 (set_read_only env n b)"
  by (rule growsI, erule set_read_only_outcome) (auto simp: copies_def dest: read_only_guts_status [of _ _ _ _ _ _ _ _ _ _ _ _ _ me])

lemma wait_command_grows:
  "grows me 0 (pgactive_execute_command env pgactive_DUMP_CMD a)" "grows me 1 (pgactive_execute_command env pgactive_RESTORE_CMD a)"
  by (auto simp: grows_def pgactive_execute_command_def sseq_def sbind_def check_def emit_def copies_def)

lemma exec_command_grows [grows_intros]: "grows me 0 (exec_command jenv c q m)"
  unfolding exec_command_def by (intro grows_sbind0 grows_pure exec_grows)

lemma cleanup_then_grows: "grows me k m \<Longrightarrow> grows me 0 c \<Longrightarrow> grows me k (sseq (ensure_cleanup c m) c)"
  using grows_sbind [of me k "ensure_cleanup c m" 0 "\<lambda>_. c"] cleanup_grows [of me c k m] by (simp add: sseq_def)

lemma dump_and_restore_grows: "grows me 1 (dump_and_restore env d r sn t od ld c)"
  unfolding dump_and_restore_def pgactive_get_replication_set_tables_def
  by (intro grows_intros wait_command_grows)

lemma dump_restore_grows: "grows me 1 (pgactive_init_exec_dump_restore env node i l sn c)"
  unfolding pgactive_init_exec_dump_restore_def destroy_temp_dump_dir_def Let_def
  by (rule cleanup_then_grows grows_sbind0 grows_sseq0 grows_pure emit_grows dump_and_restore_grows is_restore_simps)+

lemma keeps_statusD:
  assumes "keeps_status me env"
  shows "own_beginning me (fst (je_synced env tr rows conns)) \<Longrightarrow> own_beginning me rows"
    and "own_beginning me (je_caught_up env tr rows) \<Longrightarrow> own_beginning me rows"
    and "rows \<in> set (je_node_tables env tr) \<Longrightarrow> \<not> own_beginning me rows"
  using assms unfolding keeps_status_def by blast+

lemma synced_grows:
  assumes "keeps_status me env"
  shows "grows me 0 (smodify (\<lambda>s. case je_synced env (rs_trace s) (js_nodes s) (js_conns s) of (nodes, conns) \<Rightarrow> s\<lparr>js_nodes := nodes, js_conns := conns\<rparr>))"
  by (rule modify_grows) (auto simp: case_prod_beta dest: keeps_statusD(1) [OF assms])

lemma sync_grows: "keeps_status me env \<Longrightarrow> grows me 0 (pgactive_sync_nodes env c node)"
  unfolding pgactive_sync_nodes_def Let_def
  by (rule synced_grows grows_sbind0 grows_sseq0 grows_pure pair_grows exec_command_grows copytable_grows connect_runs(2) [THEN extends_grows]
      | assumption)+


lemma other_slots_grows: "grows me 0 (other_slots_loop env cfgs)"
  by (induction cfgs) (simp_all add: grows_intros)

lemma configs_grows [grows_intros]: "grows me 0 (connection_configs env)"
  unfolding connection_configs_def by (intro grows_sbind0 grows_pure)

lemma bgw_loop_grows: "grows me 0 (bgw_loop pid obs)"
  by (induction obs) (simp_all add: grows_intros)

lemma caught_up_grows:
  assumes "keeps_status me env"
  shows "grows me 0 (smodify (\<lambda>s. s\<lparr>js_nodes := je_caught_up env (rs_trace s) (js_nodes s)\<rparr>))"
  by (rule modify_grows) (auto dest: keeps_statusD(2) [OF assms])

lemma bgw_status_grows: "grows me 0 (case status of BGWH_POSTMASTER_DIED \<Rightarrow> sfail e | BGWH_STOPPED \<Rightarrow> sret () | _ \<Rightarrow> sfail e')"
  by (cases status) (simp_all add: grows_pure)

lemma run_catchup_grows: "keeps_status me env \<Longrightarrow> grows me 0 (run_catchup env node lsn i)"
  unfolding run_catchup_def
  by (rule caught_up_grows bgw_status_grows bgw_loop_grows grows_sbind0 grows_sseq0 grows_pure pair_grows on_part_grows emit_grows is_restore_simps | assumption)+

lemma catchup_grows: "keeps_status me env \<Longrightarrow> grows me 0 (pgactive_catchup_to_lsn env ri lsn)"
  unfolding pgactive_catchup_to_lsn_def pgactive_catchup_to_lsn_cleanup_def
  by (intro grows_sbind0 cleanup_then_grows run_catchup_grows on_part_grows)

lemma ddl_lock_grows [grows_intros]: "grows me 0 (pgactive_ddl_lock_remote env c mode)"
  unfolding pgactive_ddl_lock_remote_def by (intro grows_intros)

lemma catchup_phase_grows: "keeps_status (je_myid env) env \<Longrightarrow> grows (je_myid env) 0 (catchup_phase env c)"
  unfolding catchup_phase_def pgactive_init_make_other_slots_def pgactive_get_remote_lsn_def perform_pointless_transaction_def
  by (rule grows_sbind0 grows_sseq0 grows_pure configs_grows other_slots_grows ddl_lock_grows exec_grows exec_tuples_grows remote_grows
      catchup_grows set_status_grows refl | assumption | simp)+

lemma ready_loop_rows: "ready_loop spi me obs = Inr rows \<Longrightarrow> rows \<in> set obs"
  by (induction obs) (auto simp: bind_result_eq_Inr split: if_splits)

lemma wait_ready_grows: "keeps_status (je_myid env) env \<Longrightarrow> grows (je_myid env) 0 (pgactive_wait_for_local_node_ready env)"
  unfolding grows_def pgactive_wait_for_local_node_ready_def
  by (auto simp: sbind_def copies_def dest!: ready_loop_rows dest: keeps_statusD(3) split: sum.splits)

lemma ready_phase_grows: "keeps_status (je_myid env) env \<Longrightarrow> grows (je_myid env) 0 (ready_phase env node c cfg)"
  unfolding ready_phase_def maintain_workers_def pgactive_insert_remote_conninfo_def pgactive_init_wait_for_slot_creation_def
    set_remote_status_ready_def Let_def
  by (rule wait_ready_grows set_read_only_grows grows_sbind0 grows_sseq0 grows_pure configs_grows ddl_lock_grows exec_grows exec_tuples_grows
      exec_command_grows emit_grows on_part_grows pair_grows is_restore_simps | assumption)+

lemma copy_rest_grows:
  "keeps_status (je_myid env) env \<Longrightarrow> grows (je_myid env) 1
     (sseq (set_read_only env n True)
     (sbind (pgactive_establish_connection_and_slot (je_r env) init_from ''init node'' False) (\<lambda>c.
      sbind (slift (required_dsn d)) (\<lambda>local_dsn.
      sseq (pgactive_init_exec_dump_restore env node init_from local_dsn (case sc_snapshot c of None \<Rightarrow> [] | Some sn \<Rightarrow> sn) conn)
      (sseq (pgactive_sync_nodes env conn node)
       (set_status env pgactive_NODE_STATUS_CATCHUP pgactive_NODE_STATUS_COPYING_INITIAL_DATA))))))"
proof -
  assume a: "keeps_status (je_myid env) env"
  have "grows (je_myid env) (1 + 0) (sseq (pgactive_init_exec_dump_restore env node init_from l sn conn)
      (sseq (pgactive_sync_nodes env conn node)
       (set_status env pgactive_NODE_STATUS_CATCHUP pgactive_NODE_STATUS_COPYING_INITIAL_DATA)))" for l sn
    unfolding sseq_def [of "pgactive_init_exec_dump_restore env node init_from l sn conn"]
    by (intro grows_sbind dump_restore_grows grows_sseq0 sync_grows [OF a] set_status_grows) simp_all
  then have "grows (je_myid env) 1 (sseq (pgactive_init_exec_dump_restore env node init_from l sn conn)
      (sseq (pgactive_sync_nodes env conn node)
       (set_status env pgactive_NODE_STATUS_CATCHUP pgactive_NODE_STATUS_COPYING_INITIAL_DATA)))" for l sn
    by simp
  then show ?thesis
    by (rule grows_sseq0 [OF set_read_only_grows grows_sbind0 [OF remote_grows(4) grows_sbind0 [OF grows_pure(3)]]])
qed

lemma copy_phase_bound:
  assumes "keeps_status (je_myid env) env" and "own_beginning (je_myid env) (js_nodes s)" and "copy_phase env node i c s = (r, s')"
  shows "copies (je_myid env) s' \<le> copies (je_myid env) s"
proof -
  obtain q t where q: "set_status env pgactive_NODE_STATUS_COPYING_INITIAL_DATA pgactive_NODE_STATUS_BEGINNING_INIT s = (q, t)"
    by (metis prod.collapse)
  show ?thesis
  proof (cases q)
    case (Inl e)
    with q have "t = s" by (auto elim: set_status_outcome)
    with q Inl assms(3) show ?thesis by (simp add: copy_phase_def)
  next
    case (Inr x)
    with q have "Suc (copies (je_myid env) t) = copies (je_myid env) s" by (intro set_status_counts [OF _ _ assms(2)]) auto
    moreover have "copies (je_myid env) s' \<le> copies (je_myid env) t + 1"
      using assms(3) q Inr by (intro growsD [OF copy_rest_grows [OF assms(1)]]) (simp add: copy_phase_def)
    ultimately show ?thesis by simp
  qed
qed


text \<open>\<open>single_copy\<close>: the operation makes no copy beyond the one that a row of status b announces.\<close>

definition single_copy :: "pgactiveNodeId \<Rightarrow> bool \<Rightarrow> 'a join_op \<Rightarrow> bool" where
  "single_copy me b f \<longleftrightarrow> (\<forall>s r s'. (b \<longrightarrow> own_beginning me (js_nodes s)) \<longrightarrow> f s = (r, s') \<longrightarrow> copies me s' \<le> copies me s)"

lemma single_copyD: "single_copy me b f \<Longrightarrow> (b \<Longrightarrow> own_beginning me (js_nodes s)) \<Longrightarrow> f s = (r, s') \<Longrightarrow> copies me s' \<le> copies me s"
  unfolding single_copy_def by blast

lemma single_copy_grows: "grows me 0 f \<Longrightarrow> single_copy me b f"
  unfolding single_copy_def by (auto dest: growsD)

lemma single_copy_sbind:
  assumes "runs (extends pq_events) m" and "\<And>x. single_copy me b (f x)"
  shows "single_copy me b (sbind m f)"
  unfolding single_copy_def
proof (intro allI impI)
  fix s r s'
  assume b: "b \<longrightarrow> own_beginning me (js_nodes s)" and a: "sbind m f s = (r, s')"
  obtain q t where m: "m s = (q, t)" by (cases "m s")
  have t: "copies me t \<le> copies me s" using growsD [OF extends_grows [OF assms(1)] m] by simp
  from assms(1) m have "extends pq_events s t" by (metis runs_def snd_conv)
  then have n: "js_nodes t = js_nodes s" by (intro more_same) (simp add: extends_def)
  show "copies me s' \<le> copies me s"
  proof (cases q)
    case (Inl e)
    with a m t show ?thesis by (simp add: sbind_def)
  next
    case (Inr x)
    with a m have "f x t = (r, s')" by (simp add: sbind_def)
    with single_copyD [OF assms(2), of t] b n t show ?thesis by fastforce
  qed
qed

lemma single_copy_sseq: "runs (extends pq_events) m \<Longrightarrow> single_copy me b n \<Longrightarrow> single_copy me b (sseq m n)"
  unfolding sseq_def by (rule single_copy_sbind)

lemma phases_single:
  assumes keeps: "keeps_status (je_myid env) env"
  shows "single_copy (je_myid env) b (sseq (swhen b (copy_phase env node i c)) (sseq (swhen d (catchup_phase env c)) (ready_phase env node c cfg)))"
  unfolding single_copy_def
proof (intro allI impI)
  fix s r s'
  let ?me = "je_myid env" and ?rest = "sseq (swhen d (catchup_phase env c)) (ready_phase env node c cfg)"
  assume b: "b \<longrightarrow> own_beginning ?me (js_nodes s)" and run: "sseq (swhen b (copy_phase env node i c)) ?rest s = (r, s')"
  have rest: "grows ?me 0 ?rest" by (intro grows_sseq0 grows_swhen catchup_phase_grows ready_phase_grows keeps)
  obtain q t where q: "swhen b (copy_phase env node i c) s = (q, t)" by (metis prod.collapse)
  then have t: "copies ?me t \<le> copies ?me s"
    using copy_phase_bound [OF keeps] b by (cases b) auto
  show "copies ?me s' \<le> copies ?me s"
  proof (cases q)
    case (Inl e)
    with q run t show ?thesis by (simp add: sseq_def sbind_def)
  next
    case (Inr x)
    with q run have "?rest t = (r, s')" by (simp add: sseq_def sbind_def)
    from growsD [OF rest this] t show ?thesis by simp
  qed
qed

lemma standalone_grows: "grows (je_myid env) 0 (pgactive_init_standalone_node env)"
proof (rule growsI)
  fix s r s'
  assume a: "pgactive_init_standalone_node env s = (r, s')"
  show "copies (je_myid env) s' \<le> copies (je_myid env) s + 0"
  proof (cases "pgactive_nodes_set_local_attrs (je_spi env (rs_trace s)) (je_myid env) pgactive_NODE_STATUS_READY
      pgactive_NODE_STATUS_BEGINNING_INIT (Some 1) (js_nodes s)")
    case (Inl e)
    with a show ?thesis by (simp add: pgactive_init_standalone_node_def sbind_def)
  next
    case (Inr rows)
    with a set_attrs_rows(1) [OF Inr] show ?thesis
      by (auto simp: pgactive_init_standalone_node_def sseq_def sbind_def emit_def copies_def split: if_splits)
  qed
qed

lemma init_replica_single:
  assumes "keeps_status (je_myid env) env" and "ni_status node = CHR ''b'' \<longleftrightarrow> b"
  shows "single_copy (je_myid env) b (pgactive_init_replica env node)"
proof (cases "ni_init_from_dsn node")
  case None
  then show ?thesis
    by (auto simp: pgactive_init_replica_def intro!: single_copy_grows standalone_grows grows_pure)
next
  case (Some init_from)
  have c: "runs (extends pq_events) (check_status st)" for st
    by (auto simp: check_status_def intro!: ext.runs_intros)
  have o: "single_copy me d (case x of None \<Rightarrow> f | Some y \<Rightarrow> g y)" if "single_copy me d f" "\<And>y. single_copy me d (g y)"
    for me d x and f and g :: "pgactiveConnectionConfig \<Rightarrow> unit join_op"
    using that by (cases x) simp_all
  have p: "single_copy me d (case x of (y, z) \<Rightarrow> f y z)" if "\<And>y z. single_copy me d (f y z)"
    for me d x and f :: "string \<Rightarrow> 'b \<Rightarrow> unit join_op"
    using that by (cases x) simp
  have b: "(ni_status node = node_status_code pgactive_NODE_STATUS_BEGINNING_INIT) = b" using assms(2) by simp
  show ?thesis
    unfolding pgactive_init_replica_def Let_def Some option.case b
    by (rule phases_single [OF assms(1)] o p single_copy_grows [OF grows_pure(2)] connect_runs ext_installed_runs c single_copy_sbind single_copy_sseq ext.runs_intros)+
qed

lemma join_attempt_single:
  assumes "keeps_status (je_myid env) env" and "join_attempt env s = (r, s')"
  shows "copies (je_myid env) s' \<le> copies (je_myid env) s"
proof (cases "pgactive_nodes_get_local_info (js_nodes s) (je_myid env)")
  case (Inl e)
  with assms(2) show ?thesis by (simp add: join_attempt_def)
next
  case (Inr info)
  show ?thesis
  proof (cases info)
    case None
    with Inr assms(2) show ?thesis by (simp add: join_attempt_def)
  next
    case (Some node)
    have "ni_status node = CHR ''b'' \<Longrightarrow> own_beginning (je_myid env) (js_nodes s)"
      using Inr Some
      by (auto simp: pgactive_nodes_get_local_info_def own_beginning_def filter_eq_Cons_iff split: list.splits option.splits)
    with Inr Some assms(2) single_copyD [OF init_replica_single [OF assms(1) refl]] show ?thesis
      by (auto simp: join_attempt_def split: if_splits)
  qed
qed


text \<open>
  The history of a node that joins: attempts, each by a new per-database worker and with whatever the servers
  answer, and what other processes and nodes do to the catalogue and the shared memory in between.
\<close>

inductive join_step :: "pgactiveNodeId \<Rightarrow> join_state \<Rightarrow> join_state \<Rightarrow> bool" for me where
  attempt: "je_myid env = me \<Longrightarrow> keeps_status me env \<Longrightarrow> join_attempt env s = (r, s') \<Longrightarrow> join_step me s s'"
| others: "own_beginning me rows \<longrightarrow> own_beginning me (js_nodes s) \<Longrightarrow>
    join_step me s (s\<lparr>js_nodes := rows, js_conns := conns, js_perdb := p, js_hook := h, js_nids := n\<rparr>)"

lemma join_step_copies: "join_step me s s' \<Longrightarrow> copies me s' \<le> copies me s"
proof (induction rule: join_step.induct)
  case (attempt env s r s')
  then show ?case using join_attempt_single by blast
next
  case (others rows s conns p h n)
  then show ?case by (simp add: copies_def)
qed

interpretation join_steps: step_system "join_step me" "\<lambda>s. copies me s \<le> k" for me k
  by unfold_locales (auto dest: join_step_copies)

text \<open>
  C11: However often the join of a node fails and is tried again, the data of the join target is restored at
  most once, and not at all while the row of the node is still at the status with which it was entered.
\<close>

theorem data_copied_once:
  assumes "(join_step me)\<^sup>*\<^sup>* s s'" and "rs_trace s = []"
  shows "length (filter is_restore (rs_trace s')) \<le> 1 \<and> (own_beginning me (js_nodes s') \<longrightarrow> filter is_restore (rs_trace s') = [])"
proof -
  have "copies me s \<le> 1" using assms(2) by (simp add: copies_def)
  with assms(1) have "copies me s' \<le> 1" by (rule join_steps.reachable_keeps)
  then show ?thesis by (auto simp: copies_def split: if_splits)
qed


section \<open>The order of the steps\<close>

text \<open>The events that other nodes and later attempts depend on.\<close>

datatype milestone = Status pgactiveNodeStatus | ReadOnly bool | Ran program | RemoteDDLLock | RemoteLSN | Catchup | Workers | Announced | Ready

fun milestone_of :: "event \<Rightarrow> milestone list" where
  "milestone_of (SetNodeStatus st) = [Status st]"
| "milestone_of (SetReadOnly b) = [ReadOnly b]"
| "milestone_of (Execv p a) = [Ran p]"
| "milestone_of (LaunchCatchup n l) = [Catchup]"
| "milestone_of MaintainWorkers = [Workers]"
| "milestone_of (PQexec c DO_acquire_ddl_lock) = [RemoteDDLLock]"
| "milestone_of (PQexec c SELECT_current_wal_insert_lsn) = [RemoteLSN]"
| "milestone_of (PQexec c (SELECT_join_node_private vs)) = [Announced]"
| "milestone_of (PQexec c (UPDATE_node_ready vs)) = [Ready]"
| "milestone_of e = []"

definition milestones :: "event list \<Rightarrow> milestone list" where
  "milestones tr = concat (map milestone_of tr)"

definition performs :: "'a join_op \<Rightarrow> milestone list \<Rightarrow> bool" where
  "performs f ms \<longleftrightarrow> (\<forall>s x s'. f s = (Inr x, s') \<longrightarrow> milestones (rs_trace s') = milestones (rs_trace s) @ ms)"

lemma performsD: "performs f ms \<Longrightarrow> f s = (Inr x, s') \<Longrightarrow> milestones (rs_trace s') = milestones (rs_trace s) @ ms"
  unfolding performs_def by blast

lemma performs_eq: "performs f ms \<Longrightarrow> ms = ms' \<Longrightarrow> performs f ms'"
  by simp

named_theorems performs_intros \<open>the steps of a successful operation\<close>

lemma performs_pure [performs_intros]:
  "performs (sret x) []" "performs (sfail e) []" "performs (slift r) []" "performs (sget g) []" "performs (check b e) []"
  by (auto simp: performs_def check_def split: if_splits)

lemma performs_fail: "performs (sfail e) ms"
  by (simp add: performs_def)

lemma performs_sbind [performs_intros]: "performs m a \<Longrightarrow> (\<And>x. performs (f x) b) \<Longrightarrow> performs (sbind m f) (a @ b)"
  unfolding performs_def by (fastforce simp: sbind_Inr)

lemma performs_sseq [performs_intros]: "performs m a \<Longrightarrow> performs n b \<Longrightarrow> performs (sseq m n) (a @ b)"
  unfolding sseq_def by (rule performs_sbind)

lemma performs_pair [performs_intros]: "(\<And>a b. performs (f a b) ms) \<Longrightarrow> performs (case p of (a, b) \<Rightarrow> f a b) ms"
  by (cases p) simp

lemma performs_if [performs_intros]: "performs f ms \<Longrightarrow> performs g ms \<Longrightarrow> performs (if b then f else g) ms"
  by simp

lemma performs_swhen: "performs m ms \<Longrightarrow> performs (swhen b m) (if b then ms else [])"
  by (cases b) (simp_all add: performs_pure)

lemma performs_emit: "milestone_of e = ms \<Longrightarrow> performs (emit renv e) ms"
  by (auto simp: performs_def emit_Inr milestones_def)

lemma performs_emits [performs_intros]:
  "performs (emit renv (Execv p a)) [Ran p]" "performs (emit renv (LaunchCatchup n l)) [Catchup]" "performs (emit renv MaintainWorkers) [Workers]"
  "performs (emit renv (MakeDirectory d)) []" "performs (emit renv (RemoveDirectory d)) []"
  by (simp_all add: performs_emit)

text \<open>The connection does not matter.\<close>

lemma milestone_of_exec: "milestone_of (PQexec c q) = milestone_of (PQexec [] q)"
  by (cases q) simp_all

lemma performs_exec [performs_intros]: "performs (pq_exec renv c q) (milestone_of (PQexec [] q))"
  by (auto simp: performs_def pq_exec_Inr milestones_def milestone_of_exec [of c])

lemma performs_exec_tuples [performs_intros]: "performs (exec_tuples renv c q m) (milestone_of (PQexec [] q))"
  unfolding exec_tuples_def by (rule performs_eq, (rule performs_intros)+, simp)

lemma performs_exec_command [performs_intros]: "performs (exec_command env c q m) (milestone_of (PQexec [] q))"
  unfolding exec_command_def by (rule performs_eq, (rule performs_intros)+, simp)

lemma quiet_milestones: "set t \<subseteq> pq_events \<Longrightarrow> milestones t = []"
proof -
  have "milestone_of e = []" if "e \<in> pq_events" for e
    using that by (cases e rule: milestone_of.cases) simp_all
  then show "set t \<subseteq> pq_events \<Longrightarrow> milestones t = []" by (auto simp: milestones_def)
qed

lemma performs_extends: "runs (extends pq_events) f \<Longrightarrow> performs f []"
  unfolding performs_def runs_def extends_def
  by (metis milestones_def quiet_milestones append_Nil2 concat_append map_append snd_conv)

lemmas performs_remote [performs_intros] = connect_runs [THEN performs_extends] establish_runs [THEN performs_extends]
  ext_installed_runs [THEN performs_extends] get_runs [THEN performs_extends] nodeinfo_runs [THEN performs_extends]

lemma performs_modify: "(\<And>s. rs_trace (f s) = rs_trace s) \<Longrightarrow> performs (smodify f) []"
  by (auto simp: performs_def)

lemma performs_parts [performs_intros]: "performs (on_perdb p) []" "performs (on_nids q) []"
  by (auto simp: performs_def on_perdb_def on_nids_def split: prod.splits)

lemma performs_cleanup: "performs m ms \<Longrightarrow> performs (ensure_cleanup c m) ms"
  by (auto simp: performs_def ensure_cleanup_def split: prod.splits sum.splits)

lemma performs_set_status [performs_intros]: "performs (set_status env st fromstatus) [Status st]"
  unfolding performs_def by (auto simp: milestones_def elim!: set_status_outcome)

lemma performs_set_read_only [performs_intros]: "performs (set_read_only env n b) [ReadOnly b]"
  unfolding performs_def by (auto simp: milestones_def elim!: set_read_only_outcome)


lemma performs_copytable [performs_intros]:
  "performs (pgactive_copytable renv a b COPY_nodes_out COPY_nodes_in) []" "performs (pgactive_copytable renv a b (COPY_node_out x y z) COPY_nodes_in) []"
  "performs (pgactive_copytable renv a b COPY_connections_out COPY_connections_in) []"
  by (simp_all add: performs_extends copytable_runs)

lemma performs_tables [performs_intros]: "performs (pgactive_get_replication_set_tables env c) []"
  unfolding pgactive_get_replication_set_tables_def
  by (rule performs_extends) (auto intro!: ext.runs_intros exec_tuples_runs)

lemma performs_dump_restore:
  "performs (pgactive_init_exec_dump_restore env node i l sn c) [Ran pgactive_DUMP_CMD, Ran pgactive_RESTORE_CMD]"
  unfolding pgactive_init_exec_dump_restore_def destroy_temp_dump_dir_def dump_and_restore_def pgactive_execute_command_def Let_def
  by (rule performs_eq, (rule performs_intros performs_cleanup)+, simp)

lemma performs_synced:
  "performs (smodify (\<lambda>s. case je_synced env (rs_trace s) (js_nodes s) (js_conns s) of (nodes, conns) \<Rightarrow> s\<lparr>js_nodes := nodes, js_conns := conns\<rparr>)) []"
  by (rule performs_modify) (simp split: prod.split)

lemma performs_sync: "performs (pgactive_sync_nodes env c node) []"
  unfolding pgactive_sync_nodes_def Let_def
  by (rule performs_eq, (rule performs_synced performs_intros)+, simp)

lemma performs_copy_phase:
  "performs (copy_phase env node i c)
     [Status pgactive_NODE_STATUS_COPYING_INITIAL_DATA, ReadOnly True, Ran pgactive_DUMP_CMD, Ran pgactive_RESTORE_CMD, Status pgactive_NODE_STATUS_CATCHUP]"
  unfolding copy_phase_def
  by (rule performs_eq, (rule performs_dump_restore performs_sync performs_intros)+, simp)

lemma performs_other_slots: "performs (other_slots_loop env cfgs) []"
proof (induction cfgs)
  case (Cons cfg cfgs)
  have "performs (sbind (pgactive_establish_connection_and_slot (je_r env) (cfg_dsn cfg) ''make replication slot'' False) (\<lambda>c.
      sseq (check (pgactive_nodeid_eq (Some (cfg_remote_node cfg)) (Some (sc_node c))) e) (other_slots_loop env cfgs))) []" for e
    by (rule performs_eq, (rule Cons.IH performs_intros)+, simp)
  with Cons.IH show ?case by (simp add: performs_if)
qed (simp add: performs_def)

lemma performs_bgw_loop: "performs (bgw_loop pid obs) []"
proof (induction obs)
  case (Cons b obs)
  have "performs (sseq (on_perdb p) (if d then bgw_loop pid obs else sret st)) []" for p :: "unit perdb_op" and d st
    by (rule performs_eq, (rule Cons.IH performs_intros)+, simp)
  then show ?case by simp
qed (simp add: performs_def)

lemma performs_catchup: "performs (pgactive_catchup_to_lsn env ri lsn) [Catchup]"
proof -
  have st: "performs (case status of BGWH_POSTMASTER_DIED \<Rightarrow> sfail e | BGWH_STOPPED \<Rightarrow> sret () | _ \<Rightarrow> sfail e') []" for status e e'
    by (cases status) (simp_all add: performs_def)
  have "performs (run_catchup env node lsn i) [Catchup]" for node i
    unfolding run_catchup_def
    by (rule performs_eq, (rule st performs_bgw_loop performs_modify performs_intros | simp)+)
  then show ?thesis
    unfolding pgactive_catchup_to_lsn_def pgactive_catchup_to_lsn_cleanup_def
    by (intro performs_eq [OF performs_sbind [OF performs_parts(1) performs_sseq [OF performs_cleanup performs_parts(1)]]]) auto
qed

lemma performs_ddl_lock: "performs (pgactive_ddl_lock_remote env c mode) [RemoteDDLLock]"
  unfolding pgactive_ddl_lock_remote_def
  by (rule performs_eq, (rule performs_intros)+, simp)

lemma performs_catchup_phase:
  "performs (catchup_phase env c) [RemoteDDLLock, RemoteLSN, Catchup, Status pgactive_NODE_STATUS_CREATING_OUTBOUND_SLOTS]"
  unfolding catchup_phase_def pgactive_init_make_other_slots_def connection_configs_def pgactive_get_remote_lsn_def perform_pointless_transaction_def
  by (rule performs_eq, (rule performs_ddl_lock performs_catchup performs_other_slots performs_intros)+, simp)

lemma performs_statements:
  "performs (exec_tuples renv c (SELECT_join_node_private vs) m) [Announced]" "performs (exec_tuples renv c (UPDATE_node_ready vs) m) [Ready]"
  by (simp_all add: performs_eq [OF performs_exec_tuples])

lemma performs_ready_phase:
  "performs (ready_phase env node c cfg) [Workers, Announced, RemoteDDLLock, Ready, ReadOnly False]"
  unfolding ready_phase_def maintain_workers_def pgactive_insert_remote_conninfo_def pgactive_init_wait_for_slot_creation_def
    connection_configs_def set_remote_status_ready_def pgactive_wait_for_local_node_ready_def Let_def
  by (rule performs_eq, (rule performs_ddl_lock performs_statements performs_intros performs_modify | simp)+)

text \<open>The whole join, and how much of it is behind a node with the given status.\<close>

definition join_plan :: "milestone list" where
  "join_plan =
     [Status pgactive_NODE_STATUS_COPYING_INITIAL_DATA, ReadOnly True, Ran pgactive_DUMP_CMD, Ran pgactive_RESTORE_CMD,
      Status pgactive_NODE_STATUS_CATCHUP, RemoteDDLLock, RemoteLSN, Catchup, Status pgactive_NODE_STATUS_CREATING_OUTBOUND_SLOTS,
      Workers, Announced, RemoteDDLLock, Ready, ReadOnly False]"

definition steps_done :: "char \<Rightarrow> nat" where
  "steps_done st =
     (if st = node_status_code pgactive_NODE_STATUS_BEGINNING_INIT then 0
      else if st = node_status_code pgactive_NODE_STATUS_CATCHUP then 5 else 9)"

lemma performs_init_replica:
  assumes "ni_init_from_dsn node = Some i"
  shows "performs (pgactive_init_replica env node) (drop (steps_done (ni_status node)) join_plan)"
proof -
  have c: "performs (check_status st) []" for st
    by (auto simp: check_status_def intro: performs_intros)
  have o: "performs (case x of None \<Rightarrow> sfail e | Some y \<Rightarrow> g y) ms" if "\<And>y. performs (g y) ms"
    for x e ms and g :: "pgactiveConnectionConfig \<Rightarrow> unit join_op"
    using that by (cases x) (simp_all add: performs_fail)
  show ?thesis
    unfolding pgactive_init_replica_def Let_def assms option.case
    by (rule performs_eq, (rule o c performs_swhen performs_copy_phase performs_catchup_phase performs_ready_phase performs_intros)+)
       (simp add: join_plan_def steps_done_def)
qed

lemma init_replica_status:
  assumes "pgactive_init_replica env node s = (Inr x, s')" and "ni_init_from_dsn node = Some i"
  shows "ni_status node \<in> {CHR ''b'', CHR ''c'', CHR ''o''}"
proof -
  have "\<exists>t u. check_status (ni_status node) t = (Inr (), u)"
    using assms by (simp add: pgactive_init_replica_def Let_def sbind_Inr sseq_Inr split: option.splits prod.splits) blast
  then show ?thesis by (auto simp: check_status_def split: if_splits)
qed



section \<open>Example\<close>

fun example_join_exec :: "command \<Rightarrow> PGresult" where
  "example_join_exec (CREATE_REPLICATION_SLOT n) = example_row_result [Some n, Some ''0/0'', Some ''snap'']"
| "example_join_exec (SELECT_replication_set_tables x) = \<lparr>PQresultStatus = PGRES_TUPLES_OK, PQnfields = 1, res_rows = []\<rparr>"
| "example_join_exec COPY_nodes_out = \<lparr>PQresultStatus = PGRES_COPY_OUT, PQnfields = 0, res_rows = []\<rparr>"
| "example_join_exec (COPY_node_out x y z) = \<lparr>PQresultStatus = PGRES_COPY_OUT, PQnfields = 0, res_rows = []\<rparr>"
| "example_join_exec COPY_connections_out = \<lparr>PQresultStatus = PGRES_COPY_OUT, PQnfields = 0, res_rows = []\<rparr>"
| "example_join_exec COPY_nodes_in = \<lparr>PQresultStatus = PGRES_COPY_IN, PQnfields = 0, res_rows = []\<rparr>"
| "example_join_exec COPY_connections_in = \<lparr>PQresultStatus = PGRES_COPY_IN, PQnfields = 0, res_rows = []\<rparr>"
| "example_join_exec SELECT_current_wal_insert_lsn = example_row_result [Some ''0/10'']"
| "example_join_exec (SELECT_join_node_private vs) = example_row_result [None]"
| "example_join_exec (UPDATE_node_ready vs) = example_row_result [Some ''2'']"
| "example_join_exec q = example_exec q"

definition example_join_row :: "char \<Rightarrow> bool \<Rightarrow> node_row" where
  "example_join_row st ro = (example_row 1 5 st)\<lparr>node_init_from_dsn := Some ''t'', node_read_only := Some ro\<rparr>"

definition example_bgw :: "BgwHandleStatus \<Rightarrow> bgw_obs" where
  "example_bgw st = \<lparr>bo_status = st, bo_pid = 7,
     bo_segment = fresh_segment 2 [example_perdb 5 100, zero_worker\<lparr>worker_type := pgactive_WORKER_APPLY\<rparr>]\<rparr>"

definition example_join_env :: join_env where
  "example_join_env = \<lparr>je_r = example_remote_env\<lparr>re_nid := 1, re_exec := (\<lambda>_ _. example_join_exec)\<rparr>,
     je_spi = (\<lambda>_. \<lparr>schema_present = True, spi_ok = True\<rparr>), je_quote = (\<lambda>x. x), je_order_by = (\<lambda>x. x), je_nodes_relid = Inr 99,
     je_find_exec = (\<lambda>_. Some (''/bin'', 160004)), je_pg_version_num = 160009, je_system_identifier = 9, je_pid = 100,
     je_temp_dir = ''/tmp'', je_jobs = 2, je_mkdir = (\<lambda>_ _. True), je_fork = (\<lambda>_. True), je_child = (\<lambda>_. [Running, Exited 0]),
     je_synced = (\<lambda>_ n c. (n, c)), je_maintain = (\<lambda>_. example_maintain_env), je_walsenders = (\<lambda>_. [fresh_segment 2 []]),
     je_node_tables = (\<lambda>_. [[example_join_row CHR ''o'' True], [example_join_row CHR ''r'' True]]), je_register = (\<lambda>_. True),
     je_catchup = (\<lambda>_. [example_bgw BGWH_STARTED, example_bgw BGWH_STOPPED]), je_caught_up = (\<lambda>_ n. n)\<rparr>"

definition example_join :: join_state where
  "example_join = \<lparr>rs_trace = [], rs_origins = [], js_nodes = [example_join_row CHR ''b'' False],
     js_conns = [\<lparr>conn_sysid = dec_string 1, conn_timeline = 0, conn_dboid = 5, conn_dsn = ''d'', conn_apply_delay = None,
                  conn_replication_sets = Some [''default'']\<rparr>],
     js_perdb = example_perdb_state, js_hook = \<lparr>xacthook_registered = False, xacthook_connections_changed = False\<rparr>,
     js_nids = [\<lparr>nid_dboid = 5, nid_nid = 1, nid_data_only = False\<rparr>]\<rparr>"

lemma example_join_keeps: "je_myid example_join_env = \<lparr>sysid = 1, timeline = 0, dboid = 5\<rparr>" "keeps_status me example_join_env"
  by (simp_all add: keeps_status_def example_join_env_def own_beginning_def example_join_row_def example_row_def
      example_remote_env_def pgactive_make_my_nodeid_def pgactiveThisTimeLineID_def)

lemma example_join_fields:
  "je_spi example_join_env tr = \<lparr>schema_present = True, spi_ok = True\<rparr>" "je_quote example_join_env = (\<lambda>x. x)" "je_order_by example_join_env = (\<lambda>x. x)"
  "je_nodes_relid example_join_env = Inr 99" "je_mkdir example_join_env tr d" "je_fork example_join_env tr"
  "wait_child (je_child example_join_env tr) = Inr ()" "je_synced example_join_env tr n c = (n, c)"
  "je_maintain example_join_env tr = example_maintain_env" "je_walsenders example_join_env tr = [fresh_segment 2 []]"
  "je_node_tables example_join_env tr = [[example_join_row CHR ''o'' True], [example_join_row CHR ''r'' True]]"
  "je_register example_join_env tr" "je_catchup example_join_env tr = [example_bgw BGWH_STARTED, example_bgw BGWH_STOPPED]"
  "je_caught_up example_join_env tr n = n" "find_program example_join_env p = Inr ''/bin''"
  "re_nid (je_r example_join_env) = 1" "re_mydb (je_r example_join_env) = 5"
  by (simp_all add: example_join_env_def example_remote_env_def find_program_def)

lemma example_join_calls:
  "emit (je_r example_join_env) e s = (Inr (), s\<lparr>rs_trace := rs_trace s @ [e]\<rparr>)"
  "pq_exec (je_r example_join_env) c q s = (Inr (example_join_exec q), s\<lparr>rs_trace := rs_trace s @ [PQexec c q]\<rparr>)"
  "pq_connect (je_r example_join_env) d s = (Inr True, s\<lparr>rs_trace := rs_trace s @ [PQconnectdb d]\<rparr>)"
  "resolve_dsn (je_r example_join_env) d = Inr d" "re_copy_rows (je_r example_join_env) tr c = ([], True)" "re_put_ok (je_r example_join_env) tr c"
  "re_int4in (je_r example_join_env) x = Inr (atoi x)" "re_int8in (je_r example_join_env) = example_int8in"
  "re_boolin (je_r example_join_env) x = Inr (x = ''t'')" "re_oidin (je_r example_join_env) x = Inr (of_nat (dec_value x))"
  "re_origin_create (je_r example_join_env) o' n = Inr 1" "re_pg_lsn_in (je_r example_join_env) x = Inr 16"
  by (simp_all add: pq_exec_def pq_connect_def emit_def example_join_env_def example_remote_env_def resolve_dsn_def get_connect_string_def)


lemma example_join_id: "pgactive_make_my_nodeid 1 5 = \<lparr>sysid = 1, timeline = 0, dboid = 5\<rparr>"
  by (simp add: pgactive_make_my_nodeid_def pgactiveThisTimeLineID_def)

lemma example_join_row_of: "row_of \<lparr>sysid = 1, timeline = 0, dboid = 5\<rparr> (example_join_row st ro)"
  by (simp add: row_of_def example_join_row_def example_row_def)

lemma example_join_row_fields:
  "node_status (example_join_row st ro) = Some st" "node_name (example_join_row st ro) = Some ''n''" "node_dsn (example_join_row st ro) = Some ''d''"
  "node_init_from_dsn (example_join_row st ro) = Some ''t''" "node_read_only (example_join_row st ro) = Some ro" "node_seq_id (example_join_row st ro) = Some 1"
  "(example_join_row st ro)\<lparr>node_status := Some st', node_seq_id := Some 1\<rparr> = example_join_row st' ro"
  "(example_join_row st ro)\<lparr>node_read_only := Some b\<rparr> = example_join_row st b"
  "node_sysid (example_join_row st ro) = dec_string 1" "node_timeline (example_join_row st ro) = 0" "node_dboid (example_join_row st ro) = 5"
  by (simp_all add: example_join_row_def example_row_def)

lemmas example_join_simps = example_join_fields example_join_calls example_join_id example_join_row_of example_join_row_fields

lemma example_set_status:
  assumes "js_nodes s = [example_join_row (node_status_code fromstatus) ro]"
  shows "set_status example_join_env st fromstatus s =
    (Inr (), s\<lparr>rs_trace := rs_trace s @ [SetNodeStatus st], js_nodes := [example_join_row (node_status_code st) ro]\<rparr>)"
  using assms
  by (simp add: set_status_def pgactive_nodes_set_local_status_def pgactive_nodes_set_local_attrs_def example_join_simps)

lemma example_local_status:
  "\<exists>v nc'. pgactive_local_node_status (Inr 99) [example_join_row st ro] 1 5 nc = (Inr v, nc')"
  by (auto simp: pgactive_local_node_status_def pgactive_nodecache_lookup_def pgactive_nodecache_initialize_def nodecache_load_def
      pgactive_nodes_get_local_info_def example_join_simps Let_def split: option.splits)

lemma example_set_read_only:
  assumes "js_nodes s = [example_join_row st ro]"
  shows "\<exists>nc h. set_read_only example_join_env (Some ''n'') b s =
    (Inr (), s\<lparr>rs_trace := rs_trace s @ [SetReadOnly b], js_nodes := [example_join_row st b],
       js_perdb := (js_perdb s)\<lparr>ps_nodecache := nc\<rparr>, js_hook := h\<rparr>)"
proof -
  obtain v nc where "pgactive_local_node_status (Inr 99) [example_join_row st ro] 1 5 (ps_nodecache (js_perdb s)) = (Inr v, nc)"
    using example_local_status by blast
  with assms show ?thesis
    by (intro exI [of _ nc] exI [of _ "pgactive_connections_changed (js_hook s)"], cases s)
       (simp add: set_read_only_def pgactive_set_node_read_only_guts_def example_join_simps)
qed

lemmas example_remote_simps = example_scans example_version example_row_result_def PQntuples_def PQgetvalue_def PQgetisnull_def res_cell_def
  get_text_def get_conv_def get_null_def node_identity_def first_char_def exec_tuples_def exec_command_def

lemma example_slot:
  "\<exists>c tr og. pgactive_establish_connection_and_slot (je_r example_join_env) d a False s = (Inr c, s\<lparr>rs_trace := tr, rs_origins := og\<rparr>)"
  by (cases "map_of (rs_origins s) (pgactive_replident_name \<lparr>sysid = 7, timeline = 0, dboid = 5\<rparr> 5)"; cases s)
     (auto simp: pgactive_establish_connection_and_slot_def pgactive_connect_def pgactive_create_slot_def
       example_join_simps example_remote_simps Let_def pgactiveThisTimeLineID_def)

lemma example_dump:
  assumes "js_nids s = [\<lparr>nid_dboid = 5, nid_nid = 1, nid_data_only = False\<rparr>]"
  shows "\<exists>tr. pgactive_init_exec_dump_restore example_join_env node i l sn c s = (Inr (), s\<lparr>rs_trace := tr\<rparr>)"
  using assms
  by (cases s) (simp add: pgactive_init_exec_dump_restore_def dump_and_restore_def pgactive_get_replication_set_tables_def pgactive_execute_command_def
      pgactive_get_data_only_node_init_def pgactive_set_data_only_node_init_def on_nids_def destroy_temp_dump_dir_def ensure_cleanup_def
      example_join_simps example_remote_simps Let_def)

lemma example_sync:
  "ni_local_dsn node = Some d \<Longrightarrow> \<exists>tr. pgactive_sync_nodes example_join_env c node s = (Inr (), s\<lparr>rs_trace := tr\<rparr>)"
  by (cases s) (simp add: pgactive_sync_nodes_def required_dsn_def pgactive_connect_nonrepl_def pgactive_copytable_def
      example_join_simps example_remote_simps Let_def)


definition example_frame :: "join_state \<Rightarrow> join_state \<Rightarrow> bool" where
  "example_frame s t \<longleftrightarrow> js_conns t = js_conns s \<and> js_nids t = js_nids s \<and> (\<exists>nc. js_perdb t = (js_perdb s)\<lparr>ps_nodecache := nc\<rparr>)"

lemma example_frame_trans: "example_frame s t \<Longrightarrow> example_frame t u \<Longrightarrow> example_frame s u"
  by (auto simp: example_frame_def)

lemma example_status_step:
  assumes "js_nodes s = [example_join_row (node_status_code fromstatus) ro]"
  obtains t where "set_status example_join_env st fromstatus s = (Inr (), t)" "js_nodes t = [example_join_row (node_status_code st) ro]" "example_frame s t"
  using example_set_status [OF assms, of st] by (simp add: example_frame_def exI [of _ "ps_nodecache (js_perdb s)"])

lemma example_read_only_step:
  assumes "js_nodes s = [example_join_row st ro]"
  obtains t where "set_read_only example_join_env (Some ''n'') b s = (Inr (), t)" "js_nodes t = [example_join_row st b]" "example_frame s t"
  using example_set_read_only [OF assms, of b] by (auto simp: example_frame_def) blast

lemma example_trace_frame: "example_frame s (s\<lparr>rs_trace := tr\<rparr>)" "example_frame s (s\<lparr>rs_trace := tr, rs_origins := og\<rparr>)"
  by (auto simp: example_frame_def intro: exI [of _ "ps_nodecache (js_perdb s)"])

lemma example_copy_phase:
  assumes "js_nodes s = [example_join_row CHR ''b'' ro]" "js_nids s = [\<lparr>nid_dboid = 5, nid_nid = 1, nid_data_only = False\<rparr>]"
    and "ni_name node = Some ''n''" "ni_local_dsn node = Some d"
  shows "\<exists>t. copy_phase example_join_env node i c s = (Inr (), t) \<and> js_nodes t = [example_join_row CHR ''c'' True] \<and> example_frame s t"
proof -
  obtain s1 where 1: "set_status example_join_env pgactive_NODE_STATUS_COPYING_INITIAL_DATA pgactive_NODE_STATUS_BEGINNING_INIT s = (Inr (), s1)"
      "js_nodes s1 = [example_join_row CHR ''i'' ro]" "example_frame s s1"
    using example_status_step [of s pgactive_NODE_STATUS_BEGINNING_INIT ro pgactive_NODE_STATUS_COPYING_INITIAL_DATA] assms(1) by auto
  obtain s2 where 2: "set_read_only example_join_env (Some ''n'') True s1 = (Inr (), s2)" "js_nodes s2 = [example_join_row CHR ''i'' True]" "example_frame s1 s2"
    using example_read_only_step [OF 1(2), of True] by blast
  obtain sc s3 where 3: "pgactive_establish_connection_and_slot (je_r example_join_env) i ''init node'' False s2 = (Inr sc, s3)"
      "js_nodes s3 = js_nodes s2" "example_frame s2 s3"
    using example_slot [of i "''init node''" s2] example_trace_frame(2) [of s2] by fastforce
  have n: "js_nids s3 = [\<lparr>nid_dboid = 5, nid_nid = 1, nid_data_only = False\<rparr>]"
    using assms(2) 1(3) 2(3) 3(3) by (simp add: example_frame_def)
  obtain s4 where 4: "pgactive_init_exec_dump_restore example_join_env node i d (case sc_snapshot sc of None \<Rightarrow> [] | Some sn \<Rightarrow> sn) c s3 = (Inr (), s4)"
      "js_nodes s4 = js_nodes s3" "example_frame s3 s4"
    using example_dump [OF n, of node i d "case sc_snapshot sc of None \<Rightarrow> [] | Some sn \<Rightarrow> sn" c] example_trace_frame(1) [of s3] by fastforce
  obtain s5 where 5: "pgactive_sync_nodes example_join_env c node s4 = (Inr (), s5)" "js_nodes s5 = js_nodes s4" "example_frame s4 s5"
    using example_sync [OF assms(4), of c s4] example_trace_frame(1) [of s4] by fastforce
  obtain s6 where 6: "set_status example_join_env pgactive_NODE_STATUS_CATCHUP pgactive_NODE_STATUS_COPYING_INITIAL_DATA s5 = (Inr (), s6)"
      "js_nodes s6 = [example_join_row CHR ''c'' True]" "example_frame s5 s6"
    using example_status_step [of s5 pgactive_NODE_STATUS_COPYING_INITIAL_DATA True pgactive_NODE_STATUS_CATCHUP] 2 3 4 5 by auto
  have "example_frame s s6" using 1 2 3 4 5 6 example_frame_trans by blast
  then show ?thesis
    by (simp add: copy_phase_def assms(3,4) required_dsn_def 1 2 3 4 5 6)
qed

lemma example_configs:
  assumes "js_nodes s = [example_join_row st ro]" "js_conns s = js_conns example_join" "st \<noteq> CHR ''k''"
  shows "\<exists>cfg. connection_configs example_join_env s = (Inr [cfg], s) \<and> cfg_remote_node cfg = \<lparr>sysid = 1, timeline = 0, dboid = 5\<rparr> \<and>
    pgactive_get_connection_config (je_quote example_join_env) (je_order_by example_join_env) (je_spi example_join_env tr) (js_conns s) (js_nodes s)
      \<lparr>sysid = 1, timeline = 0, dboid = 5\<rparr> True = Inr (Some cfg)"
proof -
  have "sscanf [ConvU 64] (dec_string 1) = [VU 1]" using sscanf_sysid [of 1] by (simp del: sscanf.simps)
  with assms show ?thesis
    by (simp add: connection_configs_def pgactive_get_connection_config_def pgactive_read_connection_configs_def connection_rows_def
        example_join_def example_join_simps connection_config_of_def pgactive_nodeid_eq_def del: sscanf.simps)
qed


lemma example_nodeinfo:
  "\<exists>tr. pgactive_get_remote_nodeinfo_internal (je_r example_join_env) c s = (Inr example_ri, s\<lparr>rs_trace := tr\<rparr>)"
  by (cases s)
     (simp add: pgactive_get_remote_nodeinfo_internal_def pgactive_ensure_ext_installed_def pgactive_get_remote_ext_version_def
      example_join_simps example_remote_simps example_ri_def)

definition example_workers :: "join_state \<Rightarrow> bool" where
  "example_workers s \<longleftrightarrow> pw (js_perdb s) = pw example_perdb_state \<and> pl (js_perdb s) = pl example_perdb_state"

lemma example_catchup:
  assumes "example_workers s"
  shows "\<exists>t. pgactive_catchup_to_lsn example_join_env ri lsn s = (Inr (), t) \<and> js_nodes t = js_nodes s \<and> js_conns t = js_conns s \<and> example_workers t"
  using assms
  by (cases s)
     (simp add: example_workers_def pgactive_catchup_to_lsn_def pgactive_catchup_to_lsn_cleanup_def run_catchup_def on_perdb_def on_workers_def
      on_segment_def catchup_slot_def pgactive_worker_shmem_alloc_def pgactive_worker_shmem_free_def upd_slot_def upd_apply_def ensure_cleanup_def
      example_perdb_state_def fresh_segment_def example_bgw_def example_perdb_def zero_worker_def example_join_simps Let_def)

lemma example_catchup_phase:
  assumes "js_nodes s = [example_join_row CHR ''c'' ro]" "js_conns s = js_conns example_join" "example_workers s"
  shows "\<exists>t. catchup_phase example_join_env c s = (Inr (), t) \<and> js_nodes t = [example_join_row CHR ''o'' ro] \<and> js_conns t = js_conns s \<and> example_workers t"
proof -
  obtain cfg where cfg: "connection_configs example_join_env s = (Inr [cfg], s)" "cfg_remote_node cfg = \<lparr>sysid = 1, timeline = 0, dboid = 5\<rparr>"
    using example_configs [OF assms(1,2)] by auto
  let ?s1 = "s\<lparr>rs_trace := rs_trace s @ [PQexec c DO_acquire_ddl_lock, PQexec c SELECT_current_wal_insert_lsn, PQexec c CREATE_TEMP_TABLE]\<rparr>"
  obtain tr where ri: "pgactive_get_remote_nodeinfo_internal (je_r example_join_env) c ?s1 = (Inr example_ri, ?s1\<lparr>rs_trace := tr\<rparr>)"
    using example_nodeinfo by blast
  let ?s2 = "s\<lparr>rs_trace := tr\<rparr>"
  have "example_workers ?s2" using assms(3) by (simp add: example_workers_def)
  then obtain t where t: "pgactive_catchup_to_lsn example_join_env example_ri 16 ?s2 = (Inr (), t)" "js_nodes t = js_nodes ?s2" "js_conns t = js_conns ?s2" "example_workers t"
    using example_catchup by blast
  obtain u where u: "set_status example_join_env pgactive_NODE_STATUS_CREATING_OUTBOUND_SLOTS pgactive_NODE_STATUS_CATCHUP t = (Inr (), u)"
      "js_nodes u = [example_join_row CHR ''o'' ro]" "example_frame t u"
    using example_status_step [of t pgactive_NODE_STATUS_CATCHUP ro pgactive_NODE_STATUS_CREATING_OUTBOUND_SLOTS] t(2) assms(1) by auto
  have "catchup_phase example_join_env c s = (Inr (), u)"
    using ri t(1) u(1)
    by (simp add: catchup_phase_def pgactive_init_make_other_slots_def cfg pgactive_nodeid_eq_def pgactive_ddl_lock_remote_def
        pgactive_get_remote_lsn_def perform_pointless_transaction_def example_join_simps example_remote_simps)
  moreover have "js_conns u = js_conns s" "example_workers u"
    using u(3) t(3,4) by (auto simp: example_frame_def example_workers_def)
  ultimately show ?thesis using u(2) by blast
qed


lemma example_maintain:
  assumes "js_nodes s = [example_join_row CHR ''o'' ro]" "js_conns s = js_conns example_join" "example_workers s"
  shows "\<exists>t. maintain_workers example_join_env s = (Inr (), t) \<and> js_nodes t = js_nodes s \<and> js_conns t = js_conns s"
proof -
  have "maintain_rows \<lparr>sysid = 1, timeline = 0, dboid = 5\<rparr> (js_conns example_join) [example_join_row CHR ''o'' ro] = []"
    by (simp add: maintain_rows_def example_join_def example_join_simps)
  with assms show ?thesis
    by (cases s)
       (simp add: maintain_workers_def on_perdb_def Perdb_Worker.on_locks_def on_workers_def pgactive_maintain_db_workers_def pgactive_nodes_get_local_status_def
        killed_nodes_def is_killed_def invalidate_nodecache_def set_own_nnodes_def pgactive_locks_set_nnodes_def upd_db_def example_workers_def
        example_perdb_state_def fresh_segment_def example_fields example_join_simps Let_def)
qed

lemma example_ready_phase:
  assumes "js_nodes s = [example_join_row CHR ''o'' ro]" "js_conns s = js_conns example_join" "example_workers s" "ni_name node = Some ''n''"
  shows "\<exists>t. ready_phase example_join_env node c cfg s = (Inr (), t) \<and> js_nodes t = [example_join_row CHR ''r'' False]"
proof -
  obtain s1 where 1: "maintain_workers example_join_env s = (Inr (), s1)" "js_nodes s1 = [example_join_row CHR ''o'' ro]" "js_conns s1 = js_conns example_join"
    using example_maintain [OF assms(1-3)] assms(1,2) by auto
  obtain s2 where 2: "pgactive_insert_remote_conninfo example_join_env c cfg s1 = (Inr (), s2)" "js_nodes s2 = js_nodes s1" "js_conns s2 = js_conns s1"
    by (cases "stringify_node_identity 33 33 33 \<lparr>sysid = 1, timeline = 0, dboid = 5\<rparr>")
       (simp add: pgactive_insert_remote_conninfo_def example_join_simps example_remote_simps)
  obtain k where k: "connection_configs example_join_env s2 = (Inr [k], s2)" "cfg_remote_node k = \<lparr>sysid = 1, timeline = 0, dboid = 5\<rparr>"
    using example_configs [of s2 "CHR ''o''" ro] 1 2 by auto
  have 3: "pgactive_init_wait_for_slot_creation example_join_env s2 = (Inr (), s2)"
    by (simp add: pgactive_init_wait_for_slot_creation_def k pgactive_nodeid_eq_def inbound_found_def example_join_simps)
  obtain s4 where 4: "set_remote_status_ready example_join_env c s2 = (Inr (), s4)"
    by (cases "stringify_node_identity 32 32 32 \<lparr>sysid = 1, timeline = 0, dboid = 5\<rparr>")
       (simp add: set_remote_status_ready_def pgactive_ddl_lock_remote_def example_join_simps example_remote_simps)
  obtain s5 where 5: "pgactive_wait_for_local_node_ready example_join_env s4 = (Inr (), s5)" "js_nodes s5 = [example_join_row CHR ''r'' True]"
    by (simp add: pgactive_wait_for_local_node_ready_def pgactive_nodes_get_local_status_def example_join_simps)
  obtain t where t: "set_read_only example_join_env (Some ''n'') False s5 = (Inr (), t)" "js_nodes t = [example_join_row CHR ''r'' False]"
    using example_read_only_step [OF 5(2), of False] by blast
  then show ?thesis
    by (simp add: ready_phase_def assms(4) 1 2 3 4 5)
qed

lemma example_join_runs:
  "\<exists>t. join_attempt example_join_env example_join = (Inr (), t) \<and> js_nodes t = [example_join_row CHR ''r'' False]"
proof -
  let ?me = "\<lparr>sysid = 1, timeline = 0, dboid = 5\<rparr>"
  obtain node where node: "pgactive_nodes_get_local_info (js_nodes example_join) ?me = Inr (Some node)" "ni_id node = ?me" "ni_status node = CHR ''b''"
      "ni_init_from_dsn node = Some ''t''" "ni_name node = Some ''n''" "ni_local_dsn node = Some ''d''"
    by (simp add: pgactive_nodes_get_local_info_def example_join_def example_join_simps)
  obtain cfg where cfg: "pgactive_get_connection_config (je_quote example_join_env) (je_order_by example_join_env) (je_spi example_join_env tr)
      (js_conns example_join) (js_nodes example_join) ?me True = Inr (Some cfg)" for tr
    using example_configs [of example_join "CHR ''b''" False] by (auto simp: example_join_def example_join_simps)
  obtain c s1 where 1: "pgactive_connect_nonrepl (je_r example_join_env) ''t'' ''init replica'' True True example_join = (Inr (c, True), s1)"
      "js_nodes s1 = js_nodes example_join" "example_frame example_join s1"
    using example_trace_frame(1) [of example_join] by (simp add: pgactive_connect_nonrepl_def example_join_simps Let_def)
  obtain s2 where 2: "pgactive_ensure_ext_installed (je_r example_join_env) c s1 = (Inr (), s2)" "js_nodes s2 = js_nodes s1" "example_frame s1 s2"
    using example_trace_frame(1) [of s1]
    by (simp add: pgactive_ensure_ext_installed_def pgactive_get_remote_ext_version_def example_join_simps example_remote_simps)
  have f: "js_nodes s2 = [example_join_row CHR ''b'' False]" "js_nids s2 = [\<lparr>nid_dboid = 5, nid_nid = 1, nid_data_only = False\<rparr>]"
    using 1 2 by (simp_all add: example_frame_def example_join_def)
  obtain s3 where 3: "copy_phase example_join_env node ''t'' c s2 = (Inr (), s3)" "js_nodes s3 = [example_join_row CHR ''c'' True]" "example_frame s2 s3"
    using example_copy_phase [OF f node(5,6)] by blast
  have w: "js_conns s3 = js_conns example_join" "example_workers s3"
    using 1(3) 2(3) 3(3) by (auto simp: example_frame_def example_workers_def example_join_def)
  obtain s4 where 4: "catchup_phase example_join_env c s3 = (Inr (), s4)" "js_nodes s4 = [example_join_row CHR ''o'' True]" "js_conns s4 = js_conns s3" "example_workers s4"
    using example_catchup_phase [OF 3(2) w] by blast
  obtain t where t: "ready_phase example_join_env node c cfg s4 = (Inr (), t)" "js_nodes t = [example_join_row CHR ''r'' False]"
    using example_ready_phase [OF 4(2) _ 4(4) node(5)] 4(3) w(1) by auto
  have "pgactive_init_replica example_join_env node example_join = (Inr (), t)"
    by (simp add: pgactive_init_replica_def node cfg 1 2 3 4 t check_status_def)
  then show ?thesis using node t(2) by (auto simp: join_attempt_def example_join_simps)
qed

lemma example_join_start: "rs_trace example_join = []"
  by (simp add: example_join_def)

lemma ran_restore: "Ran pgactive_RESTORE_CMD \<in> set (milestone_of e) \<Longrightarrow> is_restore e"
  by (cases e rule: milestone_of.cases) simp_all


text \<open>A join that is done and is attempted again.\<close>

theorem data_copied_once_witness:
  "\<exists>t r u. join_attempt example_join_env example_join = (Inr (), t) \<and> filter is_restore (rs_trace t) \<noteq> [] \<and>
    join_attempt example_join_env t = (r, u) \<and> length (filter is_restore (rs_trace u)) \<le> 1"
proof -
  let ?me = "je_myid example_join_env"
  obtain t where t: "join_attempt example_join_env example_join = (Inr (), t)" using example_join_runs by blast
  obtain r u where u: "join_attempt example_join_env t = (r, u)" by (metis prod.collapse)
  obtain node where node: "pgactive_nodes_get_local_info (js_nodes example_join) ?me = Inr (Some node)" "ni_status node = CHR ''b''"
      "ni_init_from_dsn node = Some ''t''"
    by (simp add: pgactive_nodes_get_local_info_def example_join_def example_join_simps)
  from t node have "pgactive_init_replica example_join_env node example_join = (Inr (), t)" by (simp add: join_attempt_def)
  from performsD [OF performs_init_replica [OF node(3)] this] have "Ran pgactive_RESTORE_CMD \<in> set (milestones (rs_trace t))"
    by (simp add: node(2) steps_done_def join_plan_def)
  then have "filter is_restore (rs_trace t) \<noteq> []" by (auto simp: milestones_def filter_empty_conv dest!: ran_restore)
  moreover have "(join_step ?me)\<^sup>*\<^sup>* example_join u"
    using join_step.attempt [OF refl example_join_keeps(2) t] join_step.attempt [OF refl example_join_keeps(2) u] by (blast intro: converse_rtranclp_into_rtranclp)
  from data_copied_once [OF this example_join_start] have "length (filter is_restore (rs_trace u)) \<le> 1" by blast
  ultimately show ?thesis using t u by blast
qed

end
